(* ===== verification/Ky_Prelude.thy ===== *)
theory Ky_Prelude
  imports Main
begin

text \<open>
  The shared prelude: Go's points in time and durations, the outcome of a fallible call,
  and the row-level operations of a table (\<open>upd_where\<close>, \<open>del_where\<close>, \<open>count_where\<close>) with the
  generic lemmas every store component uses. Two collections carry the component proofs:
  \<open>frame_simps\<close> (what an operation leaves alone) and \<open>row_simps\<close> (how the row operations
  act on keys and members).
\<close>

named_theorems frame_simps
named_theorems row_simps

section \<open>Time\<close>

text \<open>
  A Go \<^verbatim>\<open>time.Time\<close> is a number of nanoseconds since the Unix epoch, a
  \<^verbatim>\<open>time.Duration\<close> a number of nanoseconds. \<open>zero_time\<close> is Go's zero value, the
  first instant of year 1.
\<close>

type_synonym time = int
type_synonym duration = int

definition Second :: duration where "Second = 1000000000"
definition Minute :: duration where "Minute = 60 * Second"
definition Hour :: duration where "Hour = 60 * Minute"

definition zero_time :: time where "zero_time = - 62135596800 * Second"

definition IsZero :: "time \<Rightarrow> bool" where "IsZero t \<longleftrightarrow> t = zero_time"

text \<open>\<^verbatim>\<open>Time.Unix\<close>: whole seconds, rounded down.\<close>

definition Unix :: "time \<Rightarrow> int" where "Unix t = t div Second"

lemmas duration_defs = Second_def Minute_def Hour_def

lemma Unix_add_seconds: "Unix (t + n * Second) = Unix t + n"
  by (simp add: Unix_def Second_def)

lemma Unix_mono: "s \<le> t \<Longrightarrow> Unix s \<le> Unix t"
  by (simp add: Unix_def Second_def zdiv_mono1)

section \<open>Rows of a table\<close>

text \<open>
  A table is the list of its rows in the order the database scans it. \<open>upd_where\<close>,
  \<open>del_where\<close> and \<open>count_where\<close> are the effect of \<^verbatim>\<open>UPDATE ... WHERE\<close>,
  \<^verbatim>\<open>DELETE ... WHERE\<close> and the number of rows they report.
\<close>

definition upd_where :: "('a \<Rightarrow> bool) \<Rightarrow> ('a \<Rightarrow> 'a) \<Rightarrow> 'a list \<Rightarrow> 'a list" where
  "upd_where p f xs = map (\<lambda>x. if p x then f x else x) xs"

definition del_where :: "('a \<Rightarrow> bool) \<Rightarrow> 'a list \<Rightarrow> 'a list" where
  "del_where p xs = filter (\<lambda>x. \<not> p x) xs"

definition count_where :: "('a \<Rightarrow> bool) \<Rightarrow> 'a list \<Rightarrow> nat" where
  "count_where p xs = length (filter p xs)"

text \<open>Keys are unique: the primary key and the UNIQUE columns of a table.\<close>

definition unique_on :: "('a \<Rightarrow> 'k) \<Rightarrow> 'a list \<Rightarrow> bool" where
  "unique_on k xs \<longleftrightarrow> distinct (map k xs)"

lemma set_upd_where [row_simps]:
  "set (upd_where p f xs) = {if p x then f x else x | x. x \<in> set xs}"
  by (auto simp: upd_where_def)

lemma set_del_where [row_simps]: "set (del_where p xs) = {x \<in> set xs. \<not> p x}"
  by (auto simp: del_where_def)

lemma map_key_upd_where [row_simps]:
  "(\<And>x. p x \<Longrightarrow> k (f x) = k x) \<Longrightarrow> map k (upd_where p f xs) = map k xs"
  by (simp add: upd_where_def)

lemma upd_where_id [row_simps]: "upd_where p id xs = xs"
  by (simp add: upd_where_def map_idI)

lemma upd_where_none: "(\<And>x. x \<in> set xs \<Longrightarrow> \<not> p x) \<Longrightarrow> upd_where p f xs = xs"
  by (simp add: upd_where_def map_idI)

lemma del_where_none: "(\<And>x. x \<in> set xs \<Longrightarrow> \<not> p x) \<Longrightarrow> del_where p xs = xs"
  by (simp add: del_where_def)

lemma del_where_idem [row_simps]: "del_where p (del_where p xs) = del_where p xs"
  by (simp add: del_where_def)

lemma length_del_where: "length (del_where p xs) + count_where p xs = length xs"
  using sum_length_filter_compl [of p xs] by (simp add: del_where_def count_where_def)

lemma count_where_0 [row_simps]: "count_where p xs = 0 \<longleftrightarrow> (\<forall>x \<in> set xs. \<not> p x)"
  by (auto simp: count_where_def filter_empty_conv)

lemma count_where_pos: "count_where p xs \<noteq> 0 \<longleftrightarrow> (\<exists>x \<in> set xs. p x)"
  by (auto simp: count_where_0)

lemma count_where_gt [row_simps]: "0 < count_where p xs \<longleftrightarrow> (\<exists>x \<in> set xs. p x)"
  using count_where_pos [of p xs] by simp

lemma upd_where_Nil [row_simps]: "upd_where p f [] = []"
  by (simp add: upd_where_def)

lemma upd_where_Cons [row_simps]:
  "upd_where p f (x # xs) = (if p x then f x else x) # upd_where p f xs"
  by (simp add: upd_where_def)

lemma unique_on_Cons [row_simps]:
  "unique_on k (x # xs) \<longleftrightarrow> k x \<notin> k ` set xs \<and> unique_on k xs"
  by (simp add: unique_on_def)

lemma unique_on_Nil [row_simps]: "unique_on k []"
  by (simp add: unique_on_def)

lemma unique_on_upd_where [row_simps]:
  "(\<And>x. p x \<Longrightarrow> k (f x) = k x) \<Longrightarrow> unique_on k (upd_where p f xs) = unique_on k xs"
  by (simp add: unique_on_def map_key_upd_where)

lemma unique_on_del_where: "unique_on k xs \<Longrightarrow> unique_on k (del_where p xs)"
  by (simp add: unique_on_def del_where_def distinct_map_filter)

lemma unique_on_snoc [row_simps]:
  "unique_on k (xs @ [x]) \<longleftrightarrow> unique_on k xs \<and> k x \<notin> k ` set xs"
  by (auto simp: unique_on_def)

lemma unique_onD: "unique_on k xs \<Longrightarrow> x \<in> set xs \<Longrightarrow> y \<in> set xs \<Longrightarrow> k x = k y \<Longrightarrow> x = y"
  by (auto simp: unique_on_def distinct_map inj_on_def)

text \<open>A lookup by a unique key finds the row, and only that row.\<close>

lemma find_unique:
  "unique_on k xs \<Longrightarrow> find (\<lambda>x. k x = v) xs = Some r \<longleftrightarrow> r \<in> set xs \<and> k r = v"
  by (induction xs) (auto simp: unique_on_def)

lemma find_SomeD: "find p xs = Some x \<Longrightarrow> x \<in> set xs \<and> p x"
  by (induction xs) (auto split: if_splits)

lemma find_None: "find p xs = None \<longleftrightarrow> (\<forall>x \<in> set xs. \<not> p x)"
  by (induction xs) auto

lemma find_snoc [row_simps]:
  "find p (xs @ [x]) = (case find p xs of None \<Rightarrow> (if p x then Some x else None) | Some y \<Rightarrow> Some y)"
  by (induction xs) simp_all

lemma find_key_upd_where:
  assumes "\<And>x. p x \<Longrightarrow> k (f x) = k x"
  shows "find (\<lambda>x. k x = v) (upd_where p f xs) =
    map_option (\<lambda>x. if p x then f x else x) (find (\<lambda>x. k x = v) xs)"
  by (induction xs) (auto simp: upd_where_def assms)

lemma find_key_del_where:
  "find (\<lambda>x. k x = v) (del_where (\<lambda>x. k x = v') xs) =
    (if v = v' then None else find (\<lambda>x. k x = v) xs)"
  by (induction xs) (auto simp: del_where_def)

lemma find_del_where_keep:
  "(\<And>x. q x \<Longrightarrow> \<not> p x) \<Longrightarrow> find q (del_where p xs) = find q xs"
  by (induction xs) (auto simp: del_where_def)

lemma filter_unique:
  "unique_on k xs \<Longrightarrow> r \<in> set xs \<Longrightarrow> filter (\<lambda>x. k x = k r) xs = [r]"
  by (induction xs) (auto simp: unique_on_def filter_empty_conv image_iff dest: sym)

lemma count_where_unique:
  assumes "unique_on k xs"
  shows "count_where (\<lambda>x. k x = v \<and> q x) xs = (if \<exists>x \<in> set xs. k x = v \<and> q x then 1 else 0)"
proof (cases "\<exists>x \<in> set xs. k x = v \<and> q x")
  case True
  then obtain r where r: "r \<in> set xs" "k r = v" "q r" by blast
  have "filter (\<lambda>x. k x = v \<and> q x) xs = filter q (filter (\<lambda>x. k x = k r) xs)"
    using r(2) by (simp add: conj_commute)
  also have "\<dots> = [r]" using filter_unique [OF assms r(1)] r(3) by simp
  finally show ?thesis using True by (simp add: count_where_def)
next
  case False
  then have "count_where (\<lambda>x. k x = v \<and> q x) xs = 0" by (simp add: count_where_0)
  with False show ?thesis by simp
qed

text \<open>
  Overwriting the row with one key keeps a second column unique, provided no other row
  holds the value written to it.
\<close>

lemma in_upd_where:
  assumes "x \<in> set (upd_where p f xs)"
  obtains y where "y \<in> set xs" "p y" "x = f y" | "x \<in> set xs" "\<not> p x"
  using assms by (auto simp: upd_where_def split: if_splits)

lemma in_del_where:
  assumes "x \<in> set (del_where p xs)"
  obtains "x \<in> set xs" "\<not> p x"
  using assms by (auto simp: del_where_def)

lemma ball_upd_where:
  "(\<forall>x \<in> set (upd_where p f xs). P x) \<longleftrightarrow> (\<forall>x \<in> set xs. if p x then P (f x) else P x)"
  by (auto simp: upd_where_def)

lemma ball_del_where:
  "(\<forall>x \<in> set (del_where p xs). P x) \<longleftrightarrow> (\<forall>x \<in> set xs. \<not> p x \<longrightarrow> P x)"
  by (auto simp: del_where_def)

lemmas ball_rows = ball_upd_where ball_del_where

lemmas row_elims = in_upd_where in_del_where

lemma unique_on_overwrite:
  assumes "unique_on n xs" "unique_on k xs" "\<And>x. n (f x) = v"
    and "\<And>x y. x \<in> set xs \<Longrightarrow> k x = a \<Longrightarrow> y \<in> set xs \<Longrightarrow> k y \<noteq> a \<Longrightarrow> n y \<noteq> v"
  shows "unique_on n (upd_where (\<lambda>x. k x = a) f xs)"
  using assms(1,2,4)
proof (induction xs)
  case Nil
  then show ?case by (simp add: row_simps)
next
  case (Cons x xs)
  have IH: "unique_on n (upd_where (\<lambda>x. k x = a) f xs)"
    by (rule Cons.IH) (use Cons.prems in \<open>auto simp: unique_on_def\<close>)
  have names: "n ` set (upd_where (\<lambda>x. k x = a) f xs) \<subseteq>
      n ` set xs \<union> {m. m = v \<and> (\<exists>y \<in> set xs. k y = a)}"
    by (auto simp: upd_where_def assms(3))
  show ?case
  proof (cases "k x = a")
    case True
    then have none: "\<And>y. y \<in> set xs \<Longrightarrow> k y \<noteq> a"
      using Cons.prems(2) by (auto simp: unique_on_def image_iff)
    then have same: "upd_where (\<lambda>x. k x = a) f xs = xs" by (simp add: upd_where_none)
    have "v \<notin> n ` set xs"
      using Cons.prems(3) [of x] True none by (auto simp: image_iff)
    with True same IH show ?thesis by (simp add: row_simps assms(3))
  next
    case False
    have "n x \<noteq> v" if "y \<in> set xs" "k y = a" for y
      using Cons.prems(3) [of y x] that False by auto
    then have "n x \<notin> n ` set (upd_where (\<lambda>x. k x = a) f xs)"
      using names Cons.prems(1) by (auto simp: unique_on_def)
    with False IH show ?thesis by (simp add: row_simps)
  qed
qed

end
