(* ===== verification/Store_Schema.thy ===== *)
theory Store_Schema
  imports Ky_Prelude
begin

text \<open>
  The data model of \<^verbatim>\<open>internal/store\<close>: the structs of \<^verbatim>\<open>models.go\<close> as records, the
  database as one list of rows per table of the schema in \<^verbatim>\<open>migrations.go\<close>, the
  sentinel errors, and the calls of \<^verbatim>\<open>database/sql\<close> the store makes. A driver call may
  fail at any time (a lost connection, a cancelled context, a full disk): the world
  carries the outcome of the calls still to be made, and every call that returns an error
  in the source draws one. A theorem about all worlds therefore covers every pattern of
  failures.
\<close>

section \<open>Records\<close>

record user =
  uID :: string
  uUsername :: string
  uEmail :: string
  uDisplayName :: string
  uPasswordHash :: string
  uRole :: string
  uStatus :: string
  uSSOProvider :: string
  uSSOSubject :: string
  uTOTPSecretEnc :: string
  uTOTPEnabled :: bool
  uTOTPLastCounter :: int
  uRecoveryCodesHash :: string
  uPushDeviceID :: string
  uMustChangePassword :: bool
  uCreatedAt :: time
  uUpdatedAt :: time
  uLastLoginAt :: "time option"

text \<open>Go's zero value of \<^verbatim>\<open>User\<close>, which a struct literal starts from.\<close>

definition zero_user :: user where
  "zero_user = \<lparr>uID = [], uUsername = [], uEmail = [], uDisplayName = [], uPasswordHash = [],
     uRole = [], uStatus = [], uSSOProvider = [], uSSOSubject = [], uTOTPSecretEnc = [],
     uTOTPEnabled = False, uTOTPLastCounter = 0, uRecoveryCodesHash = [], uPushDeviceID = [],
     uMustChangePassword = False, uCreatedAt = zero_time, uUpdatedAt = zero_time,
     uLastLoginAt = None\<rparr>"

record session =
  sTokenHash :: string
  sUserID :: string
  sUserAgent :: string
  sIPAddress :: string
  sCreatedAt :: time
  sExpiresAt :: time

record mfa_challenge =
  mTokenHash :: string
  mUserID :: string
  mExpiresAt :: time

text \<open>The row also keeps the password hash the challenge was created under (migration 4).\<close>

record mfa_row = mfa_challenge +
  mPasswordHash :: string

record device_pairing =
  pCode :: string
  pSecret :: string
  pUserID :: string
  pDeviceName :: string
  pPlatform :: string
  pPushToken :: string
  pStatus :: string
  pCreatedAt :: time
  pExpiresAt :: time

record group_row =
  gID :: string
  gDisplayName :: string
  gExternalID :: string
  gCreatedAt :: time
  gUpdatedAt :: time

record group = group_row +
  gMembers :: "string list"

record audit_record =
  aID :: int
  aUserID :: string
  aAction :: string
  aResource :: string
  aDetails :: string
  aIPAddress :: string
  aCreatedAt :: time

record setting =
  kKey :: string
  kValue :: string
  kUpdatedAt :: time

record db =
  users :: "user list"
  sessions :: "session list"
  mfa_challenges :: "mfa_row list"
  device_pairings :: "device_pairing list"
  groups :: "group_row list"
  group_members :: "(string \<times> string) list"
  audit_records :: "audit_record list"
  audit_seq :: int
  server_settings :: "setting list"

definition empty_db :: db where
  "empty_db = \<lparr>users = [], sessions = [], mfa_challenges = [], device_pairings = [],
     groups = [], group_members = [], audit_records = [], audit_seq = 1, server_settings = []\<rparr>"

section \<open>Errors and driver calls\<close>

text \<open>
  The sentinel errors of the store (\<^verbatim>\<open>ErrNotFound\<close> to \<^verbatim>\<open>ErrPairingExpired\<close>) and what the
  driver reports: a violated UNIQUE or PRIMARY KEY constraint (recognised by its message,
  \<^verbatim>\<open>UNIQUE\<close> or \<^verbatim>\<open>duplicate key\<close>), a violated foreign key, and any other failure.
  The packages above the store add the errors of their own that handlers tell apart.
\<close>

datatype err =
    ErrNotFound
  | ErrAlreadyExists
  | ErrSessionExpired
  | ErrPairingExpired
  | ErrUnique
  | ErrForeignKey
  | ErrDriver
  | ErrPasswordChangeRequired
  | ErrPairingNotFound
  | ErrPairingCodeExpired

record world =
  db :: db
  faults :: "bool list"

type_synonym 'a outcome = "(err + 'a) \<times> world"

text \<open>
  One call into the driver: \<open>True\<close> when it fails. When no outcome is left the remaining
  calls succeed.
\<close>

definition driver_call :: "world \<Rightarrow> bool \<times> world" where
  "driver_call w = (case faults w of [] \<Rightarrow> (False, w) | b # bs \<Rightarrow> (b, w\<lparr>faults := bs\<rparr>))"

text \<open>
  \<^verbatim>\<open>ExecContext\<close>: the statement maps the database to the new one and the number of rows
  it affected, or violates a constraint and changes nothing.
\<close>

type_synonym stmt = "db \<Rightarrow> err + (db \<times> nat)"

definition exec :: "stmt \<Rightarrow> world \<Rightarrow> nat outcome" where
  "exec st w = (case driver_call w of (bad, w) \<Rightarrow>
     if bad then (Inl ErrDriver, w)
     else case st (db w) of
            Inl e \<Rightarrow> (Inl e, w)
          | Inr (d, n) \<Rightarrow> (Inr n, w\<lparr>db := d\<rparr>))"

text \<open>\<^verbatim>\<open>QueryRowContext(...).Scan\<close> and \<^verbatim>\<open>QueryContext\<close> with its rows read.\<close>

definition sql_query :: "(db \<Rightarrow> 'a) \<Rightarrow> world \<Rightarrow> 'a outcome" where
  "sql_query q w = (case driver_call w of (bad, w) \<Rightarrow>
     if bad then (Inl ErrDriver, w) else (Inr (q (db w)), w))"

text \<open>\<^verbatim>\<open>Result.RowsAffected\<close>, which has an error result of its own.\<close>

definition RowsAffected :: "nat \<Rightarrow> world \<Rightarrow> nat outcome" where
  "RowsAffected n w = (case driver_call w of (bad, w) \<Rightarrow>
     if bad then (Inl ErrDriver, w) else (Inr n, w))"

text \<open>\<^verbatim>\<open>rows, _ := res.RowsAffected()\<close>: an error leaves \<^verbatim>\<open>rows\<close> at zero.\<close>

definition RowsAffected_ignoring :: "nat \<Rightarrow> world \<Rightarrow> nat \<times> world" where
  "RowsAffected_ignoring n w = (case RowsAffected n w of
     (Inl _, w) \<Rightarrow> (0, w) | (Inr n, w) \<Rightarrow> (n, w))"

text \<open>
  \<^verbatim>\<open>BeginTx\<close>, the body, and \<^verbatim>\<open>Commit\<close> with \<^verbatim>\<open>defer tx.Rollback()\<close>: when the body or the
  commit fails, the database is what it was when the transaction began.
\<close>

definition transaction :: "(world \<Rightarrow> 'a outcome) \<Rightarrow> world \<Rightarrow> 'a outcome" where
  "transaction body w = (case driver_call w of (bad, w0) \<Rightarrow>
     if bad then (Inl ErrDriver, w0)
     else case body w0 of
            (Inl e, w1) \<Rightarrow> (Inl e, w1\<lparr>db := db w0\<rparr>)
          | (Inr x, w1) \<Rightarrow> (case driver_call w1 of (bad, w2) \<Rightarrow>
              if bad then (Inl ErrDriver, w2\<lparr>db := db w0\<rparr>) else (Inr x, w2)))"

section \<open>Laws of the driver calls\<close>

lemma driver_call_db [frame_simps]: "db (snd (driver_call w)) = db w"
  by (simp add: driver_call_def split: list.split)

lemma driver_callD: "driver_call w = (b, w') \<Longrightarrow> db w' = db w"
  using driver_call_db [of w] by simp

lemma driver_call_no_faults [simp]: "faults w = [] \<Longrightarrow> driver_call w = (False, w)"
  by (simp add: driver_call_def)

lemma exec_Inr:
  "exec st w = (Inr n, w') \<Longrightarrow> \<not> isl (st (db w)) \<and>
     db w' = fst (projr (st (db w))) \<and> n = snd (projr (st (db w)))"
  by (auto simp: exec_def dest: driver_callD split: prod.splits if_splits sum.splits)

lemma exec_Inl: "exec st w = (Inl e, w') \<Longrightarrow> db w' = db w"
  by (auto simp: exec_def dest: driver_callD split: prod.splits if_splits sum.splits)

lemma exec_Inl_cases:
  "exec st w = (Inl e, w') \<Longrightarrow> e = ErrDriver \<or> st (db w) = Inl e"
  by (auto simp: exec_def dest: driver_callD split: prod.splits if_splits sum.splits)

lemma exec_ok [simp]:
  "faults w = [] \<Longrightarrow> exec st w =
     (case st (db w) of Inl e \<Rightarrow> (Inl e, w) | Inr (d, n) \<Rightarrow> (Inr n, w\<lparr>db := d\<rparr>))"
  by (simp add: exec_def)

lemma sql_query_db: "sql_query q w = (r, w') \<Longrightarrow> db w' = db w"
  by (auto simp: sql_query_def dest: driver_callD split: prod.splits if_splits)

lemma sql_query_Inr: "sql_query q w = (Inr x, w') \<Longrightarrow> q (db w) = x \<and> db w' = db w"
  by (auto simp: sql_query_def dest: driver_callD split: prod.splits if_splits)

lemma sql_query_Inl: "sql_query q w = (Inl e, w') \<Longrightarrow> e = ErrDriver \<and> db w' = db w"
  by (auto simp: sql_query_def dest: driver_callD split: prod.splits if_splits)

lemma sql_query_ok [simp]: "faults w = [] \<Longrightarrow> sql_query q w = (Inr (q (db w)), w)"
  by (simp add: sql_query_def)

lemma RowsAffected_db: "RowsAffected n w = (r, w') \<Longrightarrow> db w' = db w"
  by (auto simp: RowsAffected_def dest: driver_callD split: prod.splits if_splits)

lemma RowsAffected_Inr: "RowsAffected n w = (Inr m, w') \<Longrightarrow> m = n \<and> db w' = db w"
  by (auto simp: RowsAffected_def dest: driver_callD split: prod.splits if_splits)

lemma RowsAffected_Inl: "RowsAffected n w = (Inl e, w') \<Longrightarrow> e = ErrDriver \<and> db w' = db w"
  by (auto simp: RowsAffected_def dest: driver_callD split: prod.splits if_splits)

lemma RowsAffected_ok [simp]: "faults w = [] \<Longrightarrow> RowsAffected n w = (Inr n, w)"
  by (simp add: RowsAffected_def)

lemma RowsAffected_ignoring_db:
  "RowsAffected_ignoring n w = (m, w') \<Longrightarrow> (m = n \<or> m = 0) \<and> db w' = db w"
  by (auto simp: RowsAffected_ignoring_def dest: RowsAffected_Inl RowsAffected_Inr
      split: prod.splits sum.splits)

lemma RowsAffected_ignoring_ok [simp]: "faults w = [] \<Longrightarrow> RowsAffected_ignoring n w = (n, w)"
  by (simp add: RowsAffected_ignoring_def)

text \<open>A transaction is all or nothing.\<close>

lemma transaction_Inl: "transaction body w = (Inl e, w') \<Longrightarrow> db w' = db w"
  by (auto simp: transaction_def dest: driver_callD split: prod.splits if_splits sum.splits)

lemma transaction_Inr:
  assumes "transaction body w = (Inr x, w')"
  obtains w0 w1 where "db w0 = db w" "body w0 = (Inr x, w1)" "db w' = db w1"
  using assms
  by (auto simp: transaction_def dest: driver_callD split: prod.splits if_splits sum.splits)

lemma transaction_ok [simp]:
  "faults w = [] \<Longrightarrow> faults (snd (body w)) = [] \<Longrightarrow>
   transaction body w =
     (case body w of (Inl e, w1) \<Rightarrow> (Inl e, w1\<lparr>db := db w\<rparr>) | (Inr x, w1) \<Rightarrow> (Inr x, w1))"
  by (auto simp: transaction_def split: prod.splits sum.splits)

lemmas driver_dests = exec_Inr exec_Inl sql_query_Inr sql_query_Inl RowsAffected_Inr
  RowsAffected_Inl RowsAffected_ignoring_db transaction_Inl

section \<open>The schema\<close>

text \<open>
  What the tables of \<^verbatim>\<open>migrations.go\<close> guarantee: primary keys and UNIQUE columns, and the
  foreign keys of sessions, MFA challenges and group members.
\<close>

definition users_unique :: "db \<Rightarrow> bool" where
  "users_unique d \<longleftrightarrow> unique_on uID (users d) \<and> unique_on uUsername (users d)"

definition user_ids :: "db \<Rightarrow> string set" where
  "user_ids d = uID ` set (users d)"

definition group_ids :: "db \<Rightarrow> string set" where
  "group_ids d = gID ` set (groups d)"

definition sessions_ok :: "db \<Rightarrow> bool" where
  "sessions_ok d \<longleftrightarrow> unique_on sTokenHash (sessions d) \<and> sUserID ` set (sessions d) \<subseteq> user_ids d"

definition challenges_ok :: "db \<Rightarrow> bool" where
  "challenges_ok d \<longleftrightarrow> unique_on mTokenHash (mfa_challenges d) \<and>
     mUserID ` set (mfa_challenges d) \<subseteq> user_ids d"

definition pairings_ok :: "db \<Rightarrow> bool" where
  "pairings_ok d \<longleftrightarrow> unique_on pSecret (device_pairings d) \<and> unique_on pCode (device_pairings d)"

definition groups_ok :: "db \<Rightarrow> bool" where
  "groups_ok d \<longleftrightarrow> unique_on gID (groups d) \<and> unique_on gDisplayName (groups d)"

definition members_ok :: "db \<Rightarrow> bool" where
  "members_ok d \<longleftrightarrow> distinct (group_members d) \<and>
     set (group_members d) \<subseteq> group_ids d \<times> user_ids d"

definition audit_ok :: "db \<Rightarrow> bool" where
  "audit_ok d \<longleftrightarrow> sorted_wrt (<) (map aID (audit_records d)) \<and>
     (\<forall>r \<in> set (audit_records d). aID r < audit_seq d)"

definition settings_ok :: "db \<Rightarrow> bool" where
  "settings_ok d \<longleftrightarrow> unique_on kKey (server_settings d)"

definition schema_ok :: "db \<Rightarrow> bool" where
  "schema_ok d \<longleftrightarrow> users_unique d \<and> sessions_ok d \<and> challenges_ok d \<and> pairings_ok d \<and>
     groups_ok d \<and> members_ok d \<and> audit_ok d \<and> settings_ok d"

lemmas schema_defs = users_unique_def sessions_ok_def challenges_ok_def pairings_ok_def
  groups_ok_def members_ok_def audit_ok_def settings_ok_def user_ids_def group_ids_def

text \<open>A statement touches one table: what its new rows must satisfy for the schema to hold.\<close>

lemma schema_ok_users_same_ids:
  assumes "schema_ok d" "map uID us = map uID (users d)" "unique_on uUsername us"
  shows "schema_ok (d\<lparr>users := us\<rparr>)"
proof -
  from assms(2) have "uID ` set us = uID ` set (users d)" by (metis set_map)
  with assms show ?thesis by (simp add: schema_ok_def schema_defs unique_on_def)
qed

lemma schema_ok_users_snoc:
  assumes "schema_ok d" "uID u \<notin> user_ids d" "uUsername u \<notin> uUsername ` set (users d)"
  shows "schema_ok (d\<lparr>users := users d @ [u]\<rparr>)"
  using assms unfolding schema_ok_def
  by (simp add: schema_defs row_simps) blast

lemma schema_ok_sessions:
  "schema_ok d \<Longrightarrow> unique_on sTokenHash ss \<Longrightarrow> sUserID ` set ss \<subseteq> user_ids d \<Longrightarrow>
   schema_ok (d\<lparr>sessions := ss\<rparr>)"
  by (simp add: schema_ok_def schema_defs)

lemma schema_ok_challenges:
  "schema_ok d \<Longrightarrow> unique_on mTokenHash ms \<Longrightarrow> mUserID ` set ms \<subseteq> user_ids d \<Longrightarrow>
   schema_ok (d\<lparr>mfa_challenges := ms\<rparr>)"
  by (simp add: schema_ok_def schema_defs)

lemma schema_ok_pairings:
  "schema_ok d \<Longrightarrow> unique_on pSecret ps \<Longrightarrow> unique_on pCode ps \<Longrightarrow>
   schema_ok (d\<lparr>device_pairings := ps\<rparr>)"
  by (simp add: schema_ok_def schema_defs)

lemma schema_ok_groups_same_ids:
  assumes "schema_ok d" "map gID gs = map gID (groups d)" "unique_on gDisplayName gs"
  shows "schema_ok (d\<lparr>groups := gs\<rparr>)"
proof -
  from assms(2) have "gID ` set gs = gID ` set (groups d)" by (metis set_map)
  with assms show ?thesis by (simp add: schema_ok_def schema_defs unique_on_def)
qed

lemma schema_ok_groups_snoc:
  assumes "schema_ok d" "gID g \<notin> group_ids d" "gDisplayName g \<notin> gDisplayName ` set (groups d)"
  shows "schema_ok (d\<lparr>groups := groups d @ [g]\<rparr>)"
  using assms unfolding schema_ok_def
  by (simp add: schema_defs row_simps) blast

lemma schema_ok_members:
  "schema_ok d \<Longrightarrow> distinct ms \<Longrightarrow> set ms \<subseteq> group_ids d \<times> user_ids d \<Longrightarrow>
   schema_ok (d\<lparr>group_members := ms\<rparr>)"
  by (simp add: schema_ok_def schema_defs)

lemma schema_ok_settings:
  "schema_ok d \<Longrightarrow> unique_on kKey ss \<Longrightarrow> schema_ok (d\<lparr>server_settings := ss\<rparr>)"
  by (simp add: schema_ok_def schema_defs)

lemma schema_ok_audit:
  assumes "schema_ok d"
  shows "schema_ok (d\<lparr>audit_records := audit_records d @ [r\<lparr>aID := audit_seq d\<rparr>],
           audit_seq := audit_seq d + 1\<rparr>)"
proof -
  have "audit_ok (d\<lparr>audit_records := audit_records d @ [r\<lparr>aID := audit_seq d\<rparr>],
           audit_seq := audit_seq d + 1\<rparr>)"
    using assms by (auto simp: schema_ok_def audit_ok_def sorted_wrt_append)
  with assms show ?thesis by (simp add: schema_ok_def schema_defs)
qed

lemma schema_okD:
  assumes "schema_ok d"
  shows "unique_on uID (users d)" "unique_on uUsername (users d)"
    "unique_on sTokenHash (sessions d)" "sUserID ` set (sessions d) \<subseteq> user_ids d"
    "unique_on mTokenHash (mfa_challenges d)" "mUserID ` set (mfa_challenges d) \<subseteq> user_ids d"
    "unique_on pSecret (device_pairings d)" "unique_on pCode (device_pairings d)"
    "unique_on gID (groups d)" "unique_on gDisplayName (groups d)"
    "distinct (group_members d)" "set (group_members d) \<subseteq> group_ids d \<times> user_ids d"
    "unique_on kKey (server_settings d)"
  using assms by (simp_all add: schema_ok_def schema_defs)

lemma schema_ok_empty: "schema_ok empty_db"
  by (simp add: schema_ok_def schema_defs empty_db_def row_simps)

text \<open>
  Two promises an operation of the store may make, as interfaces: it keeps the schema,
  and it changes nothing when it fails.
\<close>

locale schema_op =
  fixes op :: "world \<Rightarrow> 'r \<times> world"
  assumes schema: "op w = (r, w') \<Longrightarrow> schema_ok (db w) \<Longrightarrow> schema_ok (db w')"
begin

lemma schema_snd: "schema_ok (db w) \<Longrightarrow> schema_ok (db (snd (op w)))"
  using schema [of w "fst (op w)" "snd (op w)"] by simp

end

locale atomic_op =
  fixes op :: "world \<Rightarrow> 'a outcome"
  assumes unchanged: "op w = (Inl e, w') \<Longrightarrow> db w' = db w"
begin

lemma changed_succeeds: "db (snd (op w)) \<noteq> db w \<Longrightarrow> \<exists>x. fst (op w) = Inr x"
  using unchanged [of w _ "snd (op w)"] by (cases "fst (op w)") (auto simp: prod_eq_iff)

end

end
