(* ===== verification/Go_Text.thy ===== *)
theory Go_Text
  imports Ky_Prelude
begin

text \<open>
  Go strings and the parts of \<^verbatim>\<open>strings\<close>, \<^verbatim>\<open>strconv\<close> and \<^verbatim>\<open>encoding/hex\<close> the program uses. A
  Go string is a sequence of bytes, and so is a HOL \<open>string\<close>; a \<^verbatim>\<open>[]byte\<close> is one as well.
  \<^verbatim>\<open>strings.ToLower\<close> is modelled on ASCII letters, which is also what SQLite's \<^verbatim>\<open>LOWER\<close>
  folds.
\<close>

section \<open>Case, prefixes, splitting\<close>

definition lower_char :: "char \<Rightarrow> char" where
  "lower_char c = (let n = of_char c :: nat in if 65 \<le> n \<and> n \<le> 90 then char_of (n + 32) else c)"

definition ToLower :: "string \<Rightarrow> string" where
  "ToLower s = map lower_char s"

definition HasPrefix :: "string \<Rightarrow> string \<Rightarrow> bool" where
  "HasPrefix s p \<longleftrightarrow> take (length p) s = p"

definition TrimPrefix :: "string \<Rightarrow> string \<Rightarrow> string" where
  "TrimPrefix s p = (if HasPrefix s p then drop (length p) s else s)"

fun Split :: "char \<Rightarrow> string \<Rightarrow> string list" where
  "Split c [] = [[]]"
| "Split c (x # xs) =
     (if x = c then [] # Split c xs
      else case Split c xs of [] \<Rightarrow> [[x]] | p # ps \<Rightarrow> (x # p) # ps)"

fun Join :: "string list \<Rightarrow> string \<Rightarrow> string" where
  "Join [] sep = []"
| "Join [s] sep = s"
| "Join (s # t # ss) sep = s @ sep @ Join (t # ss) sep"

section \<open>TrimSpace\<close>

text \<open>
  \<^verbatim>\<open>strings.TrimSpace\<close> removes white space as Unicode defines it. On bytes that is the
  UTF-8 encoding of each space character; UTF-8 synchronises itself, so a prefix or a
  suffix of the string that spells such an encoding is that character.
\<close>

definition space_encodings :: "string list" where
  "space_encodings =
     [[CHR 0x09], [CHR 0x0A], [CHR 0x0B], [CHR 0x0C], [CHR 0x0D], [CHR 0x20],
      [CHR 0xC2, CHR 0x85], [CHR 0xC2, CHR 0xA0], [CHR 0xE1, CHR 0x9A, CHR 0x80],
      [CHR 0xE2, CHR 0x80, CHR 0x80], [CHR 0xE2, CHR 0x80, CHR 0x81],
      [CHR 0xE2, CHR 0x80, CHR 0x82], [CHR 0xE2, CHR 0x80, CHR 0x83],
      [CHR 0xE2, CHR 0x80, CHR 0x84], [CHR 0xE2, CHR 0x80, CHR 0x85],
      [CHR 0xE2, CHR 0x80, CHR 0x86], [CHR 0xE2, CHR 0x80, CHR 0x87],
      [CHR 0xE2, CHR 0x80, CHR 0x88], [CHR 0xE2, CHR 0x80, CHR 0x89],
      [CHR 0xE2, CHR 0x80, CHR 0x8A], [CHR 0xE2, CHR 0x80, CHR 0xA8],
      [CHR 0xE2, CHR 0x80, CHR 0xA9], [CHR 0xE2, CHR 0x80, CHR 0xAF],
      [CHR 0xE2, CHR 0x81, CHR 0x9F], [CHR 0xE3, CHR 0x80, CHR 0x80]]"

definition leading :: "string list \<Rightarrow> string \<Rightarrow> string option" where
  "leading seqs s = find (\<lambda>p. p \<noteq> [] \<and> HasPrefix s p) seqs"

function strip_leading :: "string list \<Rightarrow> string \<Rightarrow> string" where
  "strip_leading seqs s =
     (case leading seqs s of None \<Rightarrow> s | Some p \<Rightarrow> strip_leading seqs (drop (length p) s))"
  by pat_completeness auto
termination
proof (relation "measure (\<lambda>(seqs, s). length s)", goal_cases)
  case (2 seqs s p)
  then have "p \<noteq> []" "HasPrefix s p"
    by (auto simp: leading_def dest: find_SomeD)
  then have "s \<noteq> []" "0 < length p" by (auto simp: HasPrefix_def)
  then show ?case by simp
qed simp

declare strip_leading.simps [simp del]

definition TrimSpace :: "string \<Rightarrow> string" where
  "TrimSpace s = rev (strip_leading (map rev space_encodings) (rev (strip_leading space_encodings s)))"

lemma length_strip_leading: "length (strip_leading seqs s) \<le> length s"
proof (induction seqs s rule: strip_leading.induct)
  case (1 seqs s)
  show ?case
  proof (cases "leading seqs s")
    case None
    then show ?thesis by (simp add: strip_leading.simps [of seqs s])
  next
    case (Some p)
    with 1 have "length (strip_leading seqs (drop (length p) s)) \<le> length (drop (length p) s)" by blast
    with Some show ?thesis by (simp add: strip_leading.simps [of seqs s])
  qed
qed

lemma leading_strip_leading: "leading seqs (strip_leading seqs s) = None"
proof (induction seqs s rule: strip_leading.induct)
  case (1 seqs s)
  then show ?case
    by (cases "leading seqs s") (simp_all add: strip_leading.simps [of seqs s])
qed

lemma strip_leading_idem: "strip_leading seqs (strip_leading seqs s) = strip_leading seqs s"
  by (subst strip_leading.simps) (simp add: leading_strip_leading)

lemma length_TrimSpace: "length (TrimSpace s) \<le> length s"
proof -
  have "length (TrimSpace s) \<le> length (rev (strip_leading space_encodings s))"
    unfolding TrimSpace_def length_rev [of "strip_leading (map rev space_encodings) _"]
    by (rule length_strip_leading)
  also have "\<dots> \<le> length s" by (simp add: length_strip_leading)
  finally show ?thesis .
qed

section \<open>Numbers and hexadecimal\<close>

definition digit_char :: "nat \<Rightarrow> char" where
  "digit_char n = char_of (if n < 10 then 48 + n else 87 + n)"

text \<open>\<^verbatim>\<open>strconv.Itoa\<close>, \<^verbatim>\<open>FormatInt(_, 10)\<close> and the \<^verbatim>\<open>%d\<close> verb.\<close>

fun nat_digits :: "nat \<Rightarrow> string" where
  "nat_digits n = (if n < 10 then [digit_char n] else nat_digits (n div 10) @ [digit_char (n mod 10)])"

declare nat_digits.simps [simp del]

definition Itoa :: "int \<Rightarrow> string" where
  "Itoa i = (if i < 0 then CHR ''-'' # nat_digits (nat (- i)) else nat_digits (nat i))"

text \<open>\<^verbatim>\<open>hex.EncodeToString\<close>\<close>

definition hex_byte :: "char \<Rightarrow> string" where
  "hex_byte c = (let n = of_char c :: nat in [digit_char (n div 16), digit_char (n mod 16)])"

definition hex_encode :: "string \<Rightarrow> string" where
  "hex_encode s = concat (map hex_byte s)"

lemma of_char_digit_char: "n < 16 \<Longrightarrow> of_char (digit_char n) = (if n < 10 then 48 + n else 87 + n)"
  by (simp add: digit_char_def)

lemma digit_char_inject:
  assumes "m < 16" "n < 16"
  shows "digit_char m = digit_char n \<longleftrightarrow> m = n"
proof
  assume "digit_char m = digit_char n"
  then have "(of_char (digit_char m) :: nat) = of_char (digit_char n)" by simp
  with assms show "m = n" by (simp add: of_char_digit_char split: if_splits)
qed simp

text \<open>The alphabets: decimal digits and a sign, and lower-case hexadecimal digits.\<close>

definition hex_digits :: "char set" where
  "hex_digits = digit_char ` {n. n < 16}"

lemma digit_char_hex: "n < 16 \<Longrightarrow> digit_char n \<in> hex_digits"
  by (simp add: hex_digits_def)

lemma hex_digits_code: "c \<in> hex_digits \<Longrightarrow>
    (of_char c :: nat) \<in> {48..57} \<union> {97..102}"
  by (auto simp: hex_digits_def of_char_digit_char split: if_splits)

lemma colon_not_hex: "CHR '':'' \<notin> hex_digits" "CHR ''-'' \<notin> hex_digits"
  by (auto dest: hex_digits_code)

lemma of_char_less_256: "(of_char c :: nat) < 256"
  using range_nat_of_char by (metis atLeastLessThan_iff rangeI)

lemma set_hex_encode: "set (hex_encode s) \<subseteq> hex_digits"
  by (induction s) (auto simp: hex_encode_def hex_byte_def Let_def less_mult_imp_div_less of_char_less_256
      intro!: digit_char_hex)

lemma length_hex_encode: "length (hex_encode s) = 2 * length s"
  by (induction s) (simp_all add: hex_encode_def hex_byte_def Let_def)

lemma hex_byte_inject: "hex_byte c = hex_byte d \<longleftrightarrow> c = d"
proof
  assume "hex_byte c = hex_byte d"
  then have "(of_char c :: nat) div 16 = of_char d div 16" "(of_char c :: nat) mod 16 = of_char d mod 16"
    using of_char_less_256 [of c] of_char_less_256 [of d]
    by (simp_all add: hex_byte_def Let_def digit_char_inject less_mult_imp_div_less)
  then have "(of_char c :: nat) = of_char d" by (metis div_mod_decomp)
  then show "c = d" by simp
qed simp

lemma hex_encode_inject: "hex_encode s = hex_encode t \<longleftrightarrow> s = t"
proof (induction s arbitrary: t)
  case Nil
  then show ?case by (cases t) (simp_all add: hex_encode_def hex_byte_def Let_def)
next
  case (Cons c s)
  then show ?case
    by (cases t) (simp_all add: hex_encode_def hex_byte_def Let_def,
        metis hex_byte_def hex_byte_inject)
qed

lemma nat_digits_nonempty: "nat_digits n \<noteq> []"
  by (subst nat_digits.simps) simp

lemma set_nat_digits: "set (nat_digits n) \<subseteq> hex_digits"
proof (induction n rule: nat_digits.induct)
  case (1 n)
  then show ?case
    by (subst nat_digits.simps) (auto intro: digit_char_hex)
qed

lemma nat_digits_inject: "nat_digits m = nat_digits n \<Longrightarrow> m = n"
proof (induction m arbitrary: n rule: nat_digits.induct)
  case (1 m)
  show ?case
  proof (cases "m < 10 \<or> n < 10")
    case True
    with 1(2) show ?thesis
      by (simp add: nat_digits.simps [of m] nat_digits.simps [of n] digit_char_inject
          nat_digits_nonempty append_eq_Cons_conv Cons_eq_append_conv split: if_splits)
  next
    case False
    with 1(2) have "nat_digits (m div 10) = nat_digits (n div 10)" "m mod 10 = n mod 10"
      by (simp_all add: nat_digits.simps [of m] nat_digits.simps [of n] digit_char_inject)
    with 1(1) False have "m div 10 = n div 10" by simp
    with \<open>m mod 10 = n mod 10\<close> show ?thesis by (metis div_mod_decomp)
  qed
qed

lemma Itoa_inject: "Itoa i = Itoa j \<longleftrightarrow> i = j"
proof
  assume eq: "Itoa i = Itoa j"
  have no_sign: "nat_digits n \<noteq> CHR ''-'' # s" for n s
    using set_nat_digits [of n] colon_not_hex(2) by auto
  from eq show "i = j"
    by (auto simp: Itoa_def no_sign no_sign [symmetric] dest!: nat_digits_inject split: if_splits)
qed simp

lemma colon_not_Itoa: "CHR '':'' \<notin> set (Itoa i)"
  using set_nat_digits colon_not_hex(1) by (auto simp: Itoa_def)

section \<open>Unambiguous concatenation\<close>

text \<open>A separator that does not occur in the first parts splits both sides at the same place.\<close>

lemma append_sep_eq:
  assumes "c \<notin> set xs" "c \<notin> set ys"
  shows "xs @ c # us = ys @ c # vs \<longleftrightarrow> xs = ys \<and> us = vs"
  using assms
proof (induction xs arbitrary: ys)
  case Nil
  then show ?case by (cases ys) auto
next
  case (Cons x xs)
  then show ?case by (cases ys) auto
qed

lemma Split_nonempty: "Split c s \<noteq> []"
  by (induction s) (auto split: list.splits)

lemma Split_no_sep: "c \<notin> set s \<Longrightarrow> Split c s = [s]"
  by (induction s) auto

lemma Split_append_sep: "c \<notin> set p \<Longrightarrow> Split c (p @ c # s) = p # Split c s"
  by (induction p) auto

lemma Split_parts: "p \<in> set (Split c s) \<Longrightarrow> c \<notin> set p"
proof (induction s arbitrary: p)
  case Nil
  then show ?case by simp
next
  case (Cons x s)
  then show ?case
    by (cases "Split c s") (auto simp: Split_nonempty split: if_splits)
qed

lemma Join_Split: "Join (Split c s) [c] = s"
proof (induction s)
  case Nil
  show ?case by simp
next
  case (Cons x s)
  obtain p ps where "Split c s = p # ps" using Split_nonempty by (cases "Split c s") auto
  with Cons show ?case by (cases ps) auto
qed

end
