(* ===== verification/Store_Users.thy ===== *)
theory Store_Users
  imports Store_Schema Go_Text
begin

text \<open>
  The user store of \<^verbatim>\<open>sqlstore.go\<close> (\<^verbatim>\<open>userStore\<close>), without the operations that replace a
  password, which \<^verbatim>\<open>Store_Sessions\<close> holds beside the grants they revoke.
  \<^verbatim>\<open>LOWER\<close> and \<^verbatim>\<open>strings.ToLower\<close> are modelled on ASCII letters; \<^verbatim>\<open>LIKE\<close> matches bytes.
\<close>

section \<open>Text helpers of the queries\<close>

text \<open>SQL's \<^verbatim>\<open>LIKE\<close>: \<open>%\<close> matches any run of bytes and \<open>_\<close> exactly one.\<close>

fun like :: "string \<Rightarrow> string \<Rightarrow> bool" where
  "like [] s = (s = [])"
| "like (p # ps) s =
     (if p = CHR ''%'' then (case s of [] \<Rightarrow> like ps [] | _ # cs \<Rightarrow> like ps s \<or> like (p # ps) cs)
      else (case s of [] \<Rightarrow> False | c # cs \<Rightarrow> (p = CHR ''_'' \<or> p = c) \<and> like ps cs))"

section \<open>Statements\<close>

definition upd_users :: "(user \<Rightarrow> bool) \<Rightarrow> (user \<Rightarrow> user) \<Rightarrow> stmt" where
  "upd_users p f d = Inr (d\<lparr>users := upd_where p f (users d)\<rparr>, count_where p (users d))"

text \<open>\<^verbatim>\<open>INSERT INTO users\<close>: the column \<^verbatim>\<open>totp_last_counter\<close> is not named and starts at 0.\<close>

definition ins_user :: "user \<Rightarrow> stmt" where
  "ins_user u d =
     (if uID u \<in> user_ids d \<or> uUsername u \<in> uUsername ` set (users d) then Inl ErrUnique
      else Inr (d\<lparr>users := users d @ [u\<lparr>uTOTPLastCounter := 0\<rparr>]\<rparr>, 1))"

text \<open>
  \<^verbatim>\<open>DELETE FROM users\<close> with the cascades of the schema: the user's sessions, MFA challenges
  and group memberships go with the row; \<^verbatim>\<open>device_pairings\<close> has no foreign key and keeps its rows.
\<close>

definition del_user :: "string \<Rightarrow> stmt" where
  "del_user i d =
     (if count_where (\<lambda>u. uID u = i) (users d) = 0 then Inr (d, 0)
      else Inr (d\<lparr>users := del_where (\<lambda>u. uID u = i) (users d),
             sessions := del_where (\<lambda>s. sUserID s = i) (sessions d),
             mfa_challenges := del_where (\<lambda>m. mUserID m = i) (mfa_challenges d),
             group_members := del_where (\<lambda>m. snd m = i) (group_members d)\<rparr>,
           count_where (\<lambda>u. uID u = i) (users d)))"

section \<open>Operations\<close>

definition CreateUser :: "time \<Rightarrow> user \<Rightarrow> world \<Rightarrow> user outcome" where
  "CreateUser now u w =
     (let u = (if IsZero (uCreatedAt u) then u\<lparr>uCreatedAt := now\<rparr> else u);
          u = (if IsZero (uUpdatedAt u) then u\<lparr>uUpdatedAt := now\<rparr> else u);
          u = (if uRecoveryCodesHash u = [] then u\<lparr>uRecoveryCodesHash := ''[]''\<rparr> else u)
      in case exec (ins_user u) w of
           (Inl e, w) \<Rightarrow> (Inl (if e = ErrUnique then ErrAlreadyExists else e), w)
         | (Inr _, w) \<Rightarrow> (Inr u, w))"

text \<open>\<^verbatim>\<open>scanUser\<close>: the first row of the result, \<^verbatim>\<open>ErrNotFound\<close> when there is none.\<close>

definition scanUser :: "(user \<Rightarrow> bool) \<Rightarrow> world \<Rightarrow> user outcome" where
  "scanUser p w = (case sql_query (\<lambda>d. find p (users d)) w of
     (Inl e, w) \<Rightarrow> (Inl e, w)
   | (Inr None, w) \<Rightarrow> (Inl ErrNotFound, w)
   | (Inr (Some u), w) \<Rightarrow> (Inr u, w))"

definition GetUserByID :: "string \<Rightarrow> world \<Rightarrow> user outcome" where
  "GetUserByID i = scanUser (\<lambda>u. uID u = i)"

definition GetUserByUsername :: "string \<Rightarrow> world \<Rightarrow> user outcome" where
  "GetUserByUsername n = scanUser (\<lambda>u. ToLower (uUsername u) = ToLower n)"

definition GetUserByEmail :: "string \<Rightarrow> world \<Rightarrow> user outcome" where
  "GetUserByEmail e = scanUser (\<lambda>u. ToLower (uEmail u) = ToLower e)"

definition GetUserBySSO :: "string \<Rightarrow> string \<Rightarrow> world \<Rightarrow> user outcome" where
  "GetUserBySSO provider subject = scanUser (\<lambda>u. uSSOProvider u = provider \<and> uSSOSubject u = subject)"

text \<open>
  \<^verbatim>\<open>UpdateUser\<close> writes every column but \<^verbatim>\<open>id\<close>, \<^verbatim>\<open>created_at\<close> and \<^verbatim>\<open>totp_last_counter\<close>. A
  username that another row holds violates UNIQUE, which this operation does not translate.
\<close>

definition write_user :: "user \<Rightarrow> user \<Rightarrow> user" where
  "write_user u row = u\<lparr>uID := uID row, uCreatedAt := uCreatedAt row,
     uTOTPLastCounter := uTOTPLastCounter row\<rparr>"

lemma write_user_simps [simp]:
  "uID (write_user u r) = uID r" "uUsername (write_user u r) = uUsername u"
  "uTOTPLastCounter (write_user u r) = uTOTPLastCounter r"
  "uPasswordHash (write_user u r) = uPasswordHash u" "uStatus (write_user u r) = uStatus u"
  "uRole (write_user u r) = uRole u" "uMustChangePassword (write_user u r) = uMustChangePassword u"
  "uRecoveryCodesHash (write_user u r) = uRecoveryCodesHash u"
  by (simp_all add: write_user_def)

definition upd_user_row :: "user \<Rightarrow> stmt" where
  "upd_user_row u d =
     (if \<exists>r \<in> set (users d). uID r = uID u \<and>
           (\<exists>r' \<in> set (users d). uID r' \<noteq> uID u \<and> uUsername r' = uUsername u)
      then Inl ErrUnique
      else upd_users (\<lambda>r. uID r = uID u) (write_user u) d)"

definition UpdateUser :: "time \<Rightarrow> user \<Rightarrow> world \<Rightarrow> user outcome" where
  "UpdateUser now u w =
     (let u = u\<lparr>uUpdatedAt := now\<rparr>
      in case exec (upd_user_row u) w of
           (Inl e, w) \<Rightarrow> (Inl e, w)
         | (Inr n, w) \<Rightarrow> (case RowsAffected_ignoring n w of (rows, w) \<Rightarrow>
             if rows = 0 then (Inl ErrNotFound, w) else (Inr u, w)))"

definition UpdateRecoveryCodes ::
    "time \<Rightarrow> string \<Rightarrow> string \<Rightarrow> string \<Rightarrow> world \<Rightarrow> unit outcome" where
  "UpdateRecoveryCodes now userID oldHashes newHashes w =
     (case exec (upd_users (\<lambda>u. uID u = userID \<and> uRecoveryCodesHash u = oldHashes)
                  (\<lambda>u. u\<lparr>uRecoveryCodesHash := newHashes, uUpdatedAt := now\<rparr>)) w of
        (Inl e, w) \<Rightarrow> (Inl e, w)
      | (Inr n, w) \<Rightarrow> (case RowsAffected n w of
            (Inl e, w) \<Rightarrow> (Inl e, w)
          | (Inr rows, w) \<Rightarrow> if rows \<noteq> 1 then (Inl ErrAlreadyExists, w) else (Inr (), w)))"

definition SpendTOTPCounter :: "time \<Rightarrow> string \<Rightarrow> int \<Rightarrow> world \<Rightarrow> unit outcome" where
  "SpendTOTPCounter now userID counter w =
     (case exec (upd_users (\<lambda>u. uID u = userID \<and> uTOTPLastCounter u < counter)
                  (\<lambda>u. u\<lparr>uTOTPLastCounter := counter, uUpdatedAt := now\<rparr>)) w of
        (Inl e, w) \<Rightarrow> (Inl e, w)
      | (Inr n, w) \<Rightarrow> (case RowsAffected n w of
            (Inl e, w) \<Rightarrow> (Inl e, w)
          | (Inr rows, w) \<Rightarrow> if rows \<noteq> 1 then (Inl ErrAlreadyExists, w) else (Inr (), w)))"

definition DeleteUser :: "string \<Rightarrow> world \<Rightarrow> unit outcome" where
  "DeleteUser i w = (case exec (del_user i) w of
     (Inl e, w) \<Rightarrow> (Inl e, w)
   | (Inr n, w) \<Rightarrow> (case RowsAffected_ignoring n w of (rows, w) \<Rightarrow>
       if rows = 0 then (Inl ErrNotFound, w) else (Inr (), w)))"

text \<open>
  \<^verbatim>\<open>ORDER BY created_at DESC LIMIT ? OFFSET ?\<close>: rows with equal times keep the order of
  the table.
\<close>

definition page :: "int \<Rightarrow> int \<Rightarrow> 'a list \<Rightarrow> 'a list" where
  "page offset limit xs = take (nat limit) (drop (nat offset) xs)"

definition page_bounds :: "int \<Rightarrow> int \<Rightarrow> int \<times> int" where
  "page_bounds offset limit = (if offset < 0 then 0 else offset, if limit \<le> 0 then 50 else limit)"

definition user_matches :: "string \<Rightarrow> user \<Rightarrow> bool" where
  "user_matches pat u \<longleftrightarrow> like pat (ToLower (uUsername u)) \<or>
     like pat (ToLower (uDisplayName u)) \<or> like pat (ToLower (uEmail u))"

text \<open>
  \<^verbatim>\<open>ListUsers\<close>: a search term that is blank lists everyone. The count and the page are two
  queries.
\<close>

definition ListUsers :: "int \<Rightarrow> int \<Rightarrow> string \<Rightarrow> world \<Rightarrow> (user list \<times> nat) outcome" where
  "ListUsers offset limit search w =
     (case page_bounds offset limit of (offset, limit) \<Rightarrow>
      let p = (if TrimSpace search \<noteq> []
               then user_matches (''%'' @ ToLower (TrimSpace search) @ ''%'') else (\<lambda>_. True))
      in case sql_query (\<lambda>d. count_where p (users d)) w of
           (Inl e, w) \<Rightarrow> (Inl e, w)
         | (Inr cnt, w) \<Rightarrow>
             (case sql_query (\<lambda>d. page offset limit (sort_key (\<lambda>u. - uCreatedAt u) (filter p (users d)))) w of
                (Inl e, w) \<Rightarrow> (Inl e, w)
              | (Inr us, w) \<Rightarrow> (Inr (us, cnt), w)))"

definition CountUsers :: "world \<Rightarrow> nat outcome" where
  "CountUsers w = sql_query (\<lambda>d. length (users d)) w"

section \<open>What the operations do\<close>

lemma scanUser_Inr: "scanUser p w = (Inr u, w') \<Longrightarrow> find p (users (db w)) = Some u \<and> db w' = db w"
  by (auto simp: scanUser_def dest: sql_query_Inr split: prod.splits sum.splits option.splits)

lemma scanUser_db: "scanUser p w = (r, w') \<Longrightarrow> db w' = db w"
  by (auto simp: scanUser_def dest: sql_query_db split: prod.splits sum.splits option.splits)

lemma scanUser_ok [simp]:
  "faults w = [] \<Longrightarrow> scanUser p w =
     (case find p (users (db w)) of None \<Rightarrow> (Inl ErrNotFound, w) | Some u \<Rightarrow> (Inr u, w))"
  by (simp add: scanUser_def split: option.splits)

lemmas get_user_defs = GetUserByID_def GetUserByUsername_def GetUserByEmail_def GetUserBySSO_def

lemma GetUserByID_Inr:
  "GetUserByID i w = (Inr u, w') \<Longrightarrow> u \<in> set (users (db w)) \<and> uID u = i \<and> db w' = db w"
  by (auto simp: GetUserByID_def dest!: scanUser_Inr dest: find_SomeD)

lemma GetUserByID_db: "GetUserByID i w = (r, w') \<Longrightarrow> db w' = db w"
  by (simp add: GetUserByID_def scanUser_db)

lemma GetUserByUsername_Inr:
  "GetUserByUsername n w = (Inr u, w') \<Longrightarrow>
     u \<in> set (users (db w)) \<and> ToLower (uUsername u) = ToLower n \<and> db w' = db w"
  by (auto simp: GetUserByUsername_def dest!: scanUser_Inr dest: find_SomeD)

lemma GetUserByUsername_db: "GetUserByUsername n w = (r, w') \<Longrightarrow> db w' = db w"
  by (simp add: GetUserByUsername_def scanUser_db)

lemma GetUserBySSO_Inr:
  "GetUserBySSO p s w = (Inr u, w') \<Longrightarrow>
     u \<in> set (users (db w)) \<and> uSSOProvider u = p \<and> uSSOSubject u = s \<and> db w' = db w"
  by (auto simp: GetUserBySSO_def dest!: scanUser_Inr dest: find_SomeD)

lemma GetUserBySSO_db: "GetUserBySSO p s w = (r, w') \<Longrightarrow> db w' = db w"
  by (simp add: GetUserBySSO_def scanUser_db)

lemma CreateUser_Inl: "CreateUser now u w = (Inl e, w') \<Longrightarrow> db w' = db w"
  by (auto simp: CreateUser_def Let_def dest: exec_Inl split: prod.splits sum.splits)

lemma CreateUser_Inr:
  assumes "CreateUser now u w = (Inr u', w')"
  shows "uID u' = uID u" "uUsername u' = uUsername u"
    and "uID u \<notin> user_ids (db w)" "uUsername u \<notin> uUsername ` set (users (db w))"
    and "db w' = (db w)\<lparr>users := users (db w) @ [u'\<lparr>uTOTPLastCounter := 0\<rparr>]\<rparr>"
    and "uPasswordHash u' = uPasswordHash u"
  using assms
  by (auto simp: CreateUser_def Let_def ins_user_def dest!: exec_Inr
      split: prod.splits sum.splits if_splits)

lemma count_upd_one:
  assumes "count_where p xs = 1"
  obtains x where "x \<in> set xs" "p x"
  using assms count_where_pos [of p xs] by auto

lemma SpendTOTPCounter_Inr:
  assumes "SpendTOTPCounter now i c w = (Inr (), w')"
  shows "db w' = (db w)\<lparr>users := upd_where (\<lambda>u. uID u = i \<and> uTOTPLastCounter u < c)
           (\<lambda>u. u\<lparr>uTOTPLastCounter := c, uUpdatedAt := now\<rparr>) (users (db w))\<rparr>"
    and "count_where (\<lambda>u. uID u = i \<and> uTOTPLastCounter u < c) (users (db w)) = 1"
  using assms
  by (auto simp: SpendTOTPCounter_def upd_users_def dest!: exec_Inr RowsAffected_Inr
      split: prod.splits sum.splits if_splits)

lemma UpdateRecoveryCodes_Inr:
  assumes "UpdateRecoveryCodes now i old new w = (Inr (), w')"
  shows "db w' = (db w)\<lparr>users := upd_where (\<lambda>u. uID u = i \<and> uRecoveryCodesHash u = old)
           (\<lambda>u. u\<lparr>uRecoveryCodesHash := new, uUpdatedAt := now\<rparr>) (users (db w))\<rparr>"
    and "count_where (\<lambda>u. uID u = i \<and> uRecoveryCodesHash u = old) (users (db w)) = 1"
  using assms
  by (auto simp: UpdateRecoveryCodes_def upd_users_def dest!: exec_Inr RowsAffected_Inr
      split: prod.splits sum.splits if_splits)

text \<open>
  Every operation either leaves the database alone or has its one effect. An operation that
  reports an error after its statement ran (a failed \<^verbatim>\<open>RowsAffected\<close>) is in the second case.
\<close>

definition user_written :: "user \<Rightarrow> db \<Rightarrow> db" where
  "user_written u d = d\<lparr>users := upd_where (\<lambda>r. uID r = uID u) (write_user u) (users d)\<rparr>"

definition user_deleted :: "string \<Rightarrow> db \<Rightarrow> db" where
  "user_deleted i d = d\<lparr>users := del_where (\<lambda>u. uID u = i) (users d),
     sessions := del_where (\<lambda>s. sUserID s = i) (sessions d),
     mfa_challenges := del_where (\<lambda>m. mUserID m = i) (mfa_challenges d),
     group_members := del_where (\<lambda>m. snd m = i) (group_members d)\<rparr>"

definition codes_written :: "time \<Rightarrow> string \<Rightarrow> string \<Rightarrow> string \<Rightarrow> db \<Rightarrow> db" where
  "codes_written now i old new d = d\<lparr>users := upd_where (\<lambda>u. uID u = i \<and> uRecoveryCodesHash u = old)
     (\<lambda>u. u\<lparr>uRecoveryCodesHash := new, uUpdatedAt := now\<rparr>) (users d)\<rparr>"

definition counter_spent :: "time \<Rightarrow> string \<Rightarrow> int \<Rightarrow> db \<Rightarrow> db" where
  "counter_spent now i c d = d\<lparr>users := upd_where (\<lambda>u. uID u = i \<and> uTOTPLastCounter u < c)
     (\<lambda>u. u\<lparr>uTOTPLastCounter := c, uUpdatedAt := now\<rparr>) (users d)\<rparr>"

lemma UpdateUser_cases:
  assumes "UpdateUser now u w = (r, w')"
  shows "db w' = db w \<or> db w' = user_written (u\<lparr>uUpdatedAt := now\<rparr>) (db w) \<and>
    (\<forall>x \<in> set (users (db w)). uID x = uID u \<longrightarrow>
       (\<forall>y \<in> set (users (db w)). uID y \<noteq> uID u \<longrightarrow> uUsername y \<noteq> uUsername u))"
  using assms
  by (auto simp: UpdateUser_def Let_def upd_user_row_def upd_users_def user_written_def
      dest!: exec_Inr exec_Inl RowsAffected_ignoring_db split: prod.splits sum.splits if_splits)

lemma UpdateUser_Inr:
  assumes "UpdateUser now u w = (Inr u', w')"
  shows "u' = u\<lparr>uUpdatedAt := now\<rparr>" and "db w' = user_written u' (db w)"
    and "\<exists>x \<in> set (users (db w)). uID x = uID u"
  using assms
  by (auto simp: UpdateUser_def Let_def upd_user_row_def upd_users_def user_written_def count_where_gt
      dest!: exec_Inr RowsAffected_ignoring_db split: prod.splits sum.splits if_splits)

lemma UpdateRecoveryCodes_cases:
  "UpdateRecoveryCodes now i old new w = (r, w') \<Longrightarrow>
     db w' = db w \<or> db w' = codes_written now i old new (db w)"
  by (auto simp: UpdateRecoveryCodes_def upd_users_def codes_written_def
      dest!: exec_Inr exec_Inl RowsAffected_db split: prod.splits sum.splits if_splits)

lemma SpendTOTPCounter_cases:
  "SpendTOTPCounter now i c w = (r, w') \<Longrightarrow> db w' = db w \<or> db w' = counter_spent now i c (db w)"
  by (auto simp: SpendTOTPCounter_def upd_users_def counter_spent_def
      dest!: exec_Inr exec_Inl RowsAffected_db split: prod.splits sum.splits if_splits)

lemma DeleteUser_cases:
  "DeleteUser i w = (r, w') \<Longrightarrow> db w' = db w \<or> db w' = user_deleted i (db w)"
  by (auto simp: DeleteUser_def del_user_def user_deleted_def
      dest!: exec_Inr exec_Inl RowsAffected_ignoring_db split: prod.splits sum.splits if_splits)

lemma DeleteUser_Inr: "DeleteUser i w = (Inr (), w') \<Longrightarrow> db w' = user_deleted i (db w) \<and> i \<in> user_ids (db w)"
  by (auto simp: DeleteUser_def del_user_def user_deleted_def user_ids_def image_iff count_where_gt count_where_0
      dest!: exec_Inr RowsAffected_ignoring_db split: prod.splits sum.splits if_splits)

lemma CreateUser_cases:
  assumes "CreateUser now u w = (r, w')"
  shows "db w' = db w \<or> (\<exists>u'. uID u' = uID u \<and> uUsername u' = uUsername u \<and> uID u \<notin> user_ids (db w) \<and>
      uUsername u \<notin> uUsername ` set (users (db w)) \<and>
      db w' = (db w)\<lparr>users := users (db w) @ [u'\<lparr>uTOTPLastCounter := 0\<rparr>]\<rparr>)"
  using assms CreateUser_Inl [of now u w _ w'] CreateUser_Inr [of now u w _ w'] by (cases r) blast+

section \<open>Schema\<close>

lemma schema_ok_user_written:
  assumes "schema_ok d" "\<forall>x \<in> set (users d). uID x = uID u \<longrightarrow>
       (\<forall>y \<in> set (users d). uID y \<noteq> uID u \<longrightarrow> uUsername y \<noteq> uUsername u)"
  shows "schema_ok (user_written u d)"
  unfolding user_written_def
proof (rule schema_ok_users_same_ids [OF assms(1)])
  show "map uID (upd_where (\<lambda>r. uID r = uID u) (write_user u) (users d)) = map uID (users d)"
    by (simp add: row_simps)
  show "unique_on uUsername (upd_where (\<lambda>r. uID r = uID u) (write_user u) (users d))"
    using assms by (intro unique_on_overwrite [where v = "uUsername u"]) (auto simp: schema_okD)
qed

lemma schema_ok_user_deleted:
  assumes "schema_ok d"
  shows "schema_ok (user_deleted i d)"
proof -
  note D = schema_okD [OF assms]
  have "unique_on uID (del_where (\<lambda>u. uID u = i) (users d))"
    "unique_on uUsername (del_where (\<lambda>u. uID u = i) (users d))"
    "unique_on sTokenHash (del_where (\<lambda>s. sUserID s = i) (sessions d))"
    "unique_on mTokenHash (del_where (\<lambda>m. mUserID m = i) (mfa_challenges d))"
    using D by (auto intro: unique_on_del_where)
  moreover have "sUserID ` set (del_where (\<lambda>s. sUserID s = i) (sessions d)) \<subseteq>
      uID ` set (del_where (\<lambda>u. uID u = i) (users d))"
    using D(4) by (auto simp: row_simps user_ids_def image_subset_iff image_iff)
  moreover have "mUserID ` set (del_where (\<lambda>m. mUserID m = i) (mfa_challenges d)) \<subseteq>
      uID ` set (del_where (\<lambda>u. uID u = i) (users d))"
    using D(6) by (auto simp: row_simps user_ids_def image_subset_iff image_iff)
  moreover have "distinct (del_where (\<lambda>m. snd m = i) (group_members d))"
    using D(11) by (simp add: del_where_def)
  moreover have "set (del_where (\<lambda>m. snd m = i) (group_members d)) \<subseteq>
      gID ` set (groups d) \<times> uID ` set (del_where (\<lambda>u. uID u = i) (users d))"
    using D(12) by (auto simp: row_simps user_ids_def group_ids_def)
  ultimately show ?thesis
    using assms by (simp add: user_deleted_def schema_ok_def schema_defs)
qed

interpretation CreateUser_schema: schema_op "CreateUser now u" for now u
  by unfold_locales (auto dest!: CreateUser_cases intro!: schema_ok_users_snoc)

interpretation UpdateUser_schema: schema_op "UpdateUser now u" for now u
  by unfold_locales (auto dest!: UpdateUser_cases intro!: schema_ok_user_written)

interpretation UpdateRecoveryCodes_schema: schema_op "UpdateRecoveryCodes now i old new"
  for now i old new
  by unfold_locales (auto simp: codes_written_def row_simps schema_okD
      dest!: UpdateRecoveryCodes_cases intro!: schema_ok_users_same_ids)

interpretation SpendTOTPCounter_schema: schema_op "SpendTOTPCounter now i c" for now i c
  by unfold_locales (auto simp: counter_spent_def row_simps schema_okD
      dest!: SpendTOTPCounter_cases intro!: schema_ok_users_same_ids)

interpretation DeleteUser_schema: schema_op "DeleteUser i" for i
  by unfold_locales (auto dest!: DeleteUser_cases intro!: schema_ok_user_deleted)

interpretation CreateUser_atomic: atomic_op "CreateUser now u" for now u
  by unfold_locales (rule CreateUser_Inl)

end
