(* ===== verification/Store_Audit.thy ===== *)
theory Store_Audit
  imports Store_Users
begin

text \<open>
  The audit store and the settings store of \<^verbatim>\<open>sqlstore.go\<close>. The settings store is a
  key-value map; the locale \<open>kv_store\<close> is that interface as its clients use it (the theme
  handler, and the recovery library behind \<^verbatim>\<open>backup.Settings\<close>), interpreted on the table.
\<close>

section \<open>Audit records\<close>

text \<open>\<^verbatim>\<open>INSERT INTO audit_records\<close>: the id is the next of the sequence.\<close>

definition ins_audit :: "audit_record \<Rightarrow> stmt" where
  "ins_audit r d = Inr (d\<lparr>audit_records := audit_records d @ [r\<lparr>aID := audit_seq d\<rparr>],
     audit_seq := audit_seq d + 1\<rparr>, 1)"

text \<open>An audit record as the callers build it: no id and no time of its own yet.\<close>

definition audit :: "string \<Rightarrow> string \<Rightarrow> string \<Rightarrow> string \<Rightarrow> string \<Rightarrow> audit_record" where
  "audit userID action resource details ip = \<lparr>aID = 0, aUserID = userID, aAction = action,
     aResource = resource, aDetails = details, aIPAddress = ip, aCreatedAt = zero_time\<rparr>"

definition LogAudit :: "time \<Rightarrow> audit_record \<Rightarrow> world \<Rightarrow> unit outcome" where
  "LogAudit now r w =
     (let r = (if IsZero (aCreatedAt r) then r\<lparr>aCreatedAt := now\<rparr> else r)
      in case exec (ins_audit r) w of (Inl e, w) \<Rightarrow> (Inl e, w) | (Inr _, w) \<Rightarrow> (Inr (), w))"

definition ListAuditRecords :: "int \<Rightarrow> int \<Rightarrow> world \<Rightarrow> (audit_record list \<times> nat) outcome" where
  "ListAuditRecords offset limit w =
     (case page_bounds offset limit of (offset, limit) \<Rightarrow>
      case sql_query (\<lambda>d. length (audit_records d)) w of
        (Inl e, w) \<Rightarrow> (Inl e, w)
      | (Inr cnt, w) \<Rightarrow>
          (case sql_query (\<lambda>d. page offset limit (sort_key (\<lambda>r. - aCreatedAt r) (audit_records d))) w of
             (Inl e, w) \<Rightarrow> (Inl e, w)
           | (Inr rs, w) \<Rightarrow> (Inr (rs, cnt), w)))"

text \<open>
  The audit trail only grows: a record once written stays where it is. Every operation of
  the store is shown to keep this.
\<close>

definition audit_extends :: "db \<Rightarrow> db \<Rightarrow> bool" where
  "audit_extends d d' \<longleftrightarrow> (\<exists>rs. audit_records d' = audit_records d @ rs)"

lemma audit_extends_refl [simp]: "audit_extends d d"
  by (simp add: audit_extends_def)

lemma audit_extends_eq: "audit_records d' = audit_records d \<Longrightarrow> audit_extends d d'"
  by (simp add: audit_extends_def)

lemma audit_extends_trans: "audit_extends a b \<Longrightarrow> audit_extends b c \<Longrightarrow> audit_extends a c"
  by (auto simp: audit_extends_def)

definition stamped :: "time \<Rightarrow> audit_record \<Rightarrow> audit_record" where
  "stamped now r = (if IsZero (aCreatedAt r) then r\<lparr>aCreatedAt := now\<rparr> else r)"

lemma LogAudit_cases:
  assumes "LogAudit now r w = (res, w')"
  shows "db w' = db w \<or>
    db w' = (db w)\<lparr>audit_records := audit_records (db w) @ [(stamped now r)\<lparr>aID := audit_seq (db w)\<rparr>],
       audit_seq := audit_seq (db w) + 1\<rparr>"
  using assms
  by (auto simp: LogAudit_def stamped_def Let_def ins_audit_def dest!: exec_Inr exec_Inl
      split: prod.splits sum.splits if_splits)

lemma LogAudit_frame:
  assumes "LogAudit now r w = (res, w')"
  shows "users (db w') = users (db w)" "sessions (db w') = sessions (db w)"
    "mfa_challenges (db w') = mfa_challenges (db w)"
    "device_pairings (db w') = device_pairings (db w)" "groups (db w') = groups (db w)"
    "group_members (db w') = group_members (db w)"
    "server_settings (db w') = server_settings (db w)"
  using LogAudit_cases [OF assms] by auto

lemma LogAudit_extends: "LogAudit now r w = (res, w') \<Longrightarrow> audit_extends (db w) (db w')"
  by (auto dest!: LogAudit_cases simp: audit_extends_def)

interpretation LogAudit_schema: schema_op "LogAudit now r" for now r
proof
  fix w res w' assume "LogAudit now r w = (res, w')" "schema_ok (db w)"
  then show "schema_ok (db w')"
    using schema_ok_audit [of "db w" "stamped now r"] by (auto dest!: LogAudit_cases)
qed

interpretation LogAudit_atomic: atomic_op "LogAudit now r" for now r
  by unfold_locales
    (auto simp: LogAudit_def Let_def dest: exec_Inl split: prod.splits sum.splits)

section \<open>Settings\<close>

definition upsert_setting :: "string \<Rightarrow> string \<Rightarrow> time \<Rightarrow> stmt" where
  "upsert_setting k v now d =
     (if k \<in> kKey ` set (server_settings d)
      then Inr (d\<lparr>server_settings := upd_where (\<lambda>s. kKey s = k)
              (\<lambda>s. s\<lparr>kValue := v, kUpdatedAt := now\<rparr>) (server_settings d)\<rparr>, 1)
      else Inr (d\<lparr>server_settings := server_settings d @
              [\<lparr>kKey = k, kValue = v, kUpdatedAt = now\<rparr>]\<rparr>, 1))"

definition del_setting :: "string \<Rightarrow> stmt" where
  "del_setting k d = Inr (d\<lparr>server_settings := del_where (\<lambda>s. kKey s = k) (server_settings d)\<rparr>,
     count_where (\<lambda>s. kKey s = k) (server_settings d))"

definition setting_of :: "db \<Rightarrow> string \<Rightarrow> string option" where
  "setting_of d k = map_option kValue (find (\<lambda>s. kKey s = k) (server_settings d))"

definition GetSetting :: "string \<Rightarrow> world \<Rightarrow> string outcome" where
  "GetSetting k w = (case sql_query (\<lambda>d. setting_of d k) w of
     (Inl e, w) \<Rightarrow> (Inl e, w)
   | (Inr None, w) \<Rightarrow> (Inl ErrNotFound, w)
   | (Inr (Some v), w) \<Rightarrow> (Inr v, w))"

definition SetSetting :: "time \<Rightarrow> string \<Rightarrow> string \<Rightarrow> world \<Rightarrow> unit outcome" where
  "SetSetting now k v w = (case exec (upsert_setting k v now) w of
     (Inl e, w) \<Rightarrow> (Inl e, w) | (Inr _, w) \<Rightarrow> (Inr (), w))"

definition DeleteSetting :: "string \<Rightarrow> world \<Rightarrow> unit outcome" where
  "DeleteSetting k w = (case exec (del_setting k) w of
     (Inl e, w) \<Rightarrow> (Inl e, w) | (Inr _, w) \<Rightarrow> (Inr (), w))"

text \<open>\<^verbatim>\<open>GetAllSettings\<close> builds a Go map: the pairs of the table, in no particular order.\<close>

definition GetAllSettings :: "world \<Rightarrow> ((string \<times> string) list) outcome" where
  "GetAllSettings w = sql_query (\<lambda>d. map (\<lambda>s. (kKey s, kValue s)) (server_settings d)) w"

text \<open>
  The interface of a persistent key-value store: \<open>lookup\<close> is its contents, and a call that
  succeeds reads or changes exactly one key, while a failed one changes nothing.
\<close>

locale kv_store =
  fixes lookup :: "world \<Rightarrow> string \<Rightarrow> string option"
    and get :: "string \<Rightarrow> world \<Rightarrow> string outcome"
    and set :: "string \<Rightarrow> string \<Rightarrow> world \<Rightarrow> unit outcome"
    and delete :: "string \<Rightarrow> world \<Rightarrow> unit outcome"
  assumes get_ok: "get k w = (Inr v, w') \<Longrightarrow> lookup w k = Some v"
    and get_missing: "get k w = (Inl ErrNotFound, w') \<Longrightarrow> lookup w k = None"
    and get_frame: "get k w = (r, w') \<Longrightarrow> lookup w' = lookup w"
    and set_ok: "set k v w = (Inr (), w') \<Longrightarrow> lookup w' = (lookup w)(k \<mapsto> v)"
    and set_failed: "set k v w = (Inl e, w') \<Longrightarrow> lookup w' = lookup w"
    and delete_ok: "delete k w = (Inr (), w') \<Longrightarrow> lookup w' = (lookup w)(k := None)"
    and delete_failed: "delete k w = (Inl e, w') \<Longrightarrow> lookup w' = lookup w"
begin

lemma get_after_set:
  assumes "set k v w = (Inr (), w1)" "get k w1 = (Inr v', w2)"
  shows "v' = v"
  using set_ok [OF assms(1)] get_ok [OF assms(2)] by simp

lemma found_after_set:
  assumes "set k v w = (Inr (), w1)"
  shows "get k w1 \<noteq> (Inl ErrNotFound, w2)"
  using set_ok [OF assms] get_missing [of k w1 w2] by auto

lemma missing_after_delete:
  assumes "delete k w = (Inr (), w1)"
  shows "get k w1 \<noteq> (Inr v, w2)"
  using delete_ok [OF assms] get_ok [of k w1 v w2] by auto

lemma set_keeps_others:
  assumes "set k v w = (r, w1)" "k' \<noteq> k"
  shows "lookup w1 k' = lookup w k'"
  using assms set_ok [of k v w w1] set_failed [of k v w _ w1] by (cases r) auto

end

lemma setting_of_upsert:
  "setting_of (fst (projr (upsert_setting k v now d))) = (setting_of d)(k \<mapsto> v)"
proof (cases "k \<in> kKey ` set (server_settings d)")
  case True
  then obtain s where "find (\<lambda>s. kKey s = k) (server_settings d) = Some s"
    using find_None [of "\<lambda>s. kKey s = k" "server_settings d"] by fastforce
  with True show ?thesis
    by (auto simp: upsert_setting_def setting_of_def fun_eq_iff find_key_upd_where option.map_comp
        comp_def dest: find_SomeD intro!: option.map_cong)
next
  case False
  then have "find (\<lambda>s. kKey s = k) (server_settings d) = None" by (auto simp: find_None)
  with False show ?thesis
    by (auto simp: upsert_setting_def setting_of_def fun_eq_iff row_simps split: option.splits)
qed

lemma setting_of_delete:
  "setting_of (fst (projr (del_setting k d))) = (setting_of d)(k := None)"
  by (auto simp: del_setting_def setting_of_def fun_eq_iff find_key_del_where)

lemma GetSetting_db: "GetSetting k w = (r, w') \<Longrightarrow> db w' = db w"
  by (auto simp: GetSetting_def dest: sql_query_db split: prod.splits sum.splits option.splits)

interpretation settings: kv_store "\<lambda>w. setting_of (db w)" GetSetting "SetSetting now" DeleteSetting
  for now
proof
  show "GetSetting k w = (Inr v, w') \<Longrightarrow> setting_of (db w) k = Some v" for k w v w'
    by (auto simp: GetSetting_def dest!: sql_query_Inr split: prod.splits sum.splits option.splits)
  show "GetSetting k w = (Inl ErrNotFound, w') \<Longrightarrow> setting_of (db w) k = None" for k w w'
    by (auto simp: GetSetting_def dest: sql_query_Inl dest!: sql_query_Inr
        split: prod.splits sum.splits option.splits)
  show "GetSetting k w = (r, w') \<Longrightarrow> setting_of (db w') = setting_of (db w)" for k w r w'
    by (simp add: GetSetting_db)
  show "SetSetting now k v w = (Inr (), w') \<Longrightarrow> setting_of (db w') = (setting_of (db w))(k \<mapsto> v)"
    for k v w w'
    by (auto simp: SetSetting_def dest!: exec_Inr simp: setting_of_upsert split: prod.splits sum.splits)
  show "SetSetting now k v w = (Inl e, w') \<Longrightarrow> setting_of (db w') = setting_of (db w)" for k v w e w'
    by (auto simp: SetSetting_def dest!: exec_Inl split: prod.splits sum.splits)
  show "DeleteSetting k w = (Inr (), w') \<Longrightarrow> setting_of (db w') = (setting_of (db w))(k := None)"
    for k w w'
    by (auto simp: DeleteSetting_def dest!: exec_Inr simp: setting_of_delete split: prod.splits sum.splits)
  show "DeleteSetting k w = (Inl e, w') \<Longrightarrow> setting_of (db w') = setting_of (db w)" for k w e w'
    by (auto simp: DeleteSetting_def dest!: exec_Inl split: prod.splits sum.splits)
qed

interpretation SetSetting_schema: schema_op "SetSetting now k v" for now k v
proof
  fix w r w' assume "SetSetting now k v w = (r, w')" "schema_ok (db w)"
  then show "schema_ok (db w')"
    by (auto simp: SetSetting_def upsert_setting_def row_simps schema_okD dest!: exec_Inr exec_Inl
        intro!: schema_ok_settings split: prod.splits sum.splits if_splits)
qed

interpretation DeleteSetting_schema: schema_op "DeleteSetting k" for k
proof
  fix w r w' assume "DeleteSetting k w = (r, w')" "schema_ok (db w)"
  then show "schema_ok (db w')"
    by (auto simp: DeleteSetting_def del_setting_def schema_okD dest!: exec_Inr exec_Inl
        intro!: schema_ok_settings unique_on_del_where split: prod.splits sum.splits if_splits)
qed

end
