(* ===== verification/Store_Sessions.thy ===== *)
theory Store_Sessions
  imports Store_Audit
begin

text \<open>
  The session store of \<^verbatim>\<open>sqlstore.go\<close> and the two operations that replace a password:
  \<^verbatim>\<open>withPassword\<close> (the gate every grant that follows from a password passes through), sessions,
  one-time MFA challenges, \<^verbatim>\<open>CompletePasswordChange\<close> and \<^verbatim>\<open>ResetAdminPassword\<close>. The locale
  \<open>credential_gate\<close> is the contract \<^verbatim>\<open>withPassword\<close> gives its three callers: nothing is granted
  unless the account is active and still has the password hash that was checked.
\<close>

section \<open>The credential gate\<close>

definition has_credential :: "string \<Rightarrow> string \<Rightarrow> user \<Rightarrow> bool" where
  "has_credential userID hash u \<longleftrightarrow> uID u = userID \<and> uPasswordHash u = hash \<and> uStatus u = ''active''"

definition withPassword ::
    "string \<Rightarrow> string \<Rightarrow> (world \<Rightarrow> 'a outcome) \<Rightarrow> world \<Rightarrow> 'a outcome" where
  "withPassword userID expectedHash body =
     transaction (\<lambda>w. case exec (upd_users (has_credential userID expectedHash) id) w of
         (Inl e, w) \<Rightarrow> (Inl e, w)
       | (Inr n, w) \<Rightarrow> (case RowsAffected n w of
             (Inl e, w) \<Rightarrow> (Inl e, w)
           | (Inr n, w) \<Rightarrow> if n \<noteq> 1 then (Inl ErrNotFound, w) else body w))"

section \<open>Sessions\<close>

definition ins_session :: "session \<Rightarrow> stmt" where
  "ins_session s d =
     (if sTokenHash s \<in> sTokenHash ` set (sessions d) then Inl ErrUnique
      else if sUserID s \<notin> user_ids d then Inl ErrForeignKey
      else Inr (d\<lparr>sessions := sessions d @ [s]\<rparr>, 1))"

definition del_sessions :: "(session \<Rightarrow> bool) \<Rightarrow> stmt" where
  "del_sessions p d = Inr (d\<lparr>sessions := del_where p (sessions d)\<rparr>, count_where p (sessions d))"

definition CreateSession :: "session \<Rightarrow> string \<Rightarrow> world \<Rightarrow> unit outcome" where
  "CreateSession sess expectedPasswordHash =
     withPassword (sUserID sess) expectedPasswordHash
       (\<lambda>w. case exec (ins_session sess) w of (Inl e, w) \<Rightarrow> (Inl e, w) | (Inr _, w) \<Rightarrow> (Inr (), w))"

definition DeleteSession :: "string \<Rightarrow> world \<Rightarrow> unit outcome" where
  "DeleteSession tokenHash w = (case exec (del_sessions (\<lambda>s. sTokenHash s = tokenHash)) w of
     (Inl e, w) \<Rightarrow> (Inl e, w) | (Inr _, w) \<Rightarrow> (Inr (), w))"

text \<open>\<^verbatim>\<open>GetSession\<close> deletes a session it finds expired (and ignores a failure to).\<close>

definition GetSession :: "time \<Rightarrow> string \<Rightarrow> world \<Rightarrow> session outcome" where
  "GetSession now tokenHash w =
     (case sql_query (\<lambda>d. find (\<lambda>s. sTokenHash s = tokenHash) (sessions d)) w of
        (Inl e, w) \<Rightarrow> (Inl e, w)
      | (Inr None, w) \<Rightarrow> (Inl ErrNotFound, w)
      | (Inr (Some sess), w) \<Rightarrow>
          if now > sExpiresAt sess
          then (case DeleteSession tokenHash w of (_, w) \<Rightarrow> (Inl ErrSessionExpired, w))
          else (Inr sess, w))"

definition DeleteUserSessions :: "string \<Rightarrow> world \<Rightarrow> unit outcome" where
  "DeleteUserSessions userID w = (case exec (del_sessions (\<lambda>s. sUserID s = userID)) w of
     (Inl e, w) \<Rightarrow> (Inl e, w) | (Inr _, w) \<Rightarrow> (Inr (), w))"

definition CleanExpiredSessions :: "time \<Rightarrow> world \<Rightarrow> unit outcome" where
  "CleanExpiredSessions now w = (case exec (del_sessions (\<lambda>s. sExpiresAt s < now)) w of
     (Inl e, w) \<Rightarrow> (Inl e, w) | (Inr _, w) \<Rightarrow> (Inr (), w))"

section \<open>MFA challenges\<close>

definition ins_challenge :: "mfa_row \<Rightarrow> stmt" where
  "ins_challenge m d =
     (if mTokenHash m \<in> mTokenHash ` set (mfa_challenges d) then Inl ErrUnique
      else if mUserID m \<notin> user_ids d then Inl ErrForeignKey
      else Inr (d\<lparr>mfa_challenges := mfa_challenges d @ [m]\<rparr>, 1))"

definition del_challenges :: "(mfa_row \<Rightarrow> bool) \<Rightarrow> stmt" where
  "del_challenges p d =
     Inr (d\<lparr>mfa_challenges := del_where p (mfa_challenges d)\<rparr>, count_where p (mfa_challenges d))"

definition challenge_row :: "mfa_challenge \<Rightarrow> string \<Rightarrow> mfa_row" where
  "challenge_row c hash = \<lparr>mTokenHash = mTokenHash c, mUserID = mUserID c, mExpiresAt = mExpiresAt c,
     mPasswordHash = hash\<rparr>"

definition CreateMFAChallenge :: "mfa_challenge \<Rightarrow> string \<Rightarrow> world \<Rightarrow> unit outcome" where
  "CreateMFAChallenge challenge expectedPasswordHash =
     withPassword (mUserID challenge) expectedPasswordHash
       (\<lambda>w. case exec (ins_challenge (challenge_row challenge expectedPasswordHash)) w of
          (Inl e, w) \<Rightarrow> (Inl e, w) | (Inr _, w) \<Rightarrow> (Inr (), w))"

text \<open>
  \<^verbatim>\<open>ConsumeMFAChallenge\<close> returns the user and the password hash the challenge was created
  under. An expired challenge is refused and stays in the table.
\<close>

definition ConsumeMFAChallenge :: "time \<Rightarrow> string \<Rightarrow> world \<Rightarrow> (string \<times> string) outcome" where
  "ConsumeMFAChallenge now tokenHash =
     transaction (\<lambda>w.
       case sql_query (\<lambda>d. find (\<lambda>m. mTokenHash m = tokenHash) (mfa_challenges d)) w of
         (Inl e, w) \<Rightarrow> (Inl e, w)
       | (Inr None, w) \<Rightarrow> (Inl ErrNotFound, w)
       | (Inr (Some m), w) \<Rightarrow>
           if \<not> now < mExpiresAt m then (Inl ErrSessionExpired, w)
           else (case exec (del_challenges (\<lambda>m. mTokenHash m = tokenHash)) w of
                   (Inl e, w) \<Rightarrow> (Inl e, w)
                 | (Inr n, w) \<Rightarrow> (case RowsAffected n w of
                       (Inl _, w) \<Rightarrow> (Inl ErrNotFound, w)
                     | (Inr rows, w) \<Rightarrow>
                         if rows \<noteq> 1 then (Inl ErrNotFound, w) else (Inr (mUserID m, mPasswordHash m), w))))"

section \<open>Replacing a password\<close>

definition del_pairings :: "(device_pairing \<Rightarrow> bool) \<Rightarrow> stmt" where
  "del_pairings p d =
     Inr (d\<lparr>device_pairings := del_where p (device_pairings d)\<rparr>, count_where p (device_pairings d))"

text \<open>
  \<^verbatim>\<open>revokePasswordGrants\<close> runs one DELETE per table of the source's list, in that order, and
  then writes the audit row.
\<close>

fun exec_all :: "stmt list \<Rightarrow> world \<Rightarrow> unit outcome" where
  "exec_all [] w = (Inr (), w)"
| "exec_all (st # sts) w = (case exec st w of (Inl e, w) \<Rightarrow> (Inl e, w) | (Inr _, w) \<Rightarrow> exec_all sts w)"

definition revokePasswordGrants ::
    "string \<Rightarrow> string \<Rightarrow> string \<Rightarrow> time \<Rightarrow> world \<Rightarrow> unit outcome" where
  "revokePasswordGrants userID details ip now w =
     (case exec_all [del_sessions (\<lambda>s. sUserID s = userID),
                     del_challenges (\<lambda>m. mUserID m = userID),
                     del_pairings (\<lambda>p. pUserID p = userID)] w of
        (Inl e, w) \<Rightarrow> (Inl e, w)
      | (Inr _, w) \<Rightarrow>
          (case exec (ins_audit ((audit userID ''auth.password_changed'' ''user'' details ip)
                  \<lparr>aCreatedAt := now\<rparr>)) w of
             (Inl e, w) \<Rightarrow> (Inl e, w) | (Inr _, w) \<Rightarrow> (Inr (), w)))"

definition CompletePasswordChange ::
    "time \<Rightarrow> string \<Rightarrow> string \<Rightarrow> string \<Rightarrow> string \<Rightarrow> world \<Rightarrow> unit outcome" where
  "CompletePasswordChange now userID oldHash newHash ip =
     withPassword userID oldHash
       (\<lambda>w. case exec (upd_users (\<lambda>u. uID u = userID \<and> uMustChangePassword u \<and> uSSOProvider u = ''local'')
                 (\<lambda>u. u\<lparr>uPasswordHash := newHash, uMustChangePassword := False, uUpdatedAt := now\<rparr>)) w of
          (Inl e, w) \<Rightarrow> (Inl e, w)
        | (Inr n, w) \<Rightarrow> (case RowsAffected n w of
              (Inl e, w) \<Rightarrow> (Inl e, w)
            | (Inr n, w) \<Rightarrow>
                if n \<noteq> 1 then (Inl ErrNotFound, w)
                else revokePasswordGrants userID ''forced replacement; sessions revoked'' ip now w))"

definition ResetAdminPassword :: "time \<Rightarrow> string \<Rightarrow> string \<Rightarrow> world \<Rightarrow> unit outcome" where
  "ResetAdminPassword now userID newHash =
     transaction (\<lambda>w.
       case exec (upd_users (\<lambda>u. uID u = userID \<and> uSSOProvider u = ''local'')
              (\<lambda>u. u\<lparr>uPasswordHash := newHash, uMustChangePassword := True, uStatus := ''active'',
                     uRole := ''admin'', uUpdatedAt := now\<rparr>)) w of
         (Inl e, w) \<Rightarrow> (Inl e, w)
       | (Inr n, w) \<Rightarrow> (case RowsAffected n w of
             (Inl e, w) \<Rightarrow> (Inl e, w)
           | (Inr n, w) \<Rightarrow>
               if n \<noteq> 1 then (Inl ErrNotFound, w)
               else revokePasswordGrants userID ''operator reset; sessions revoked'' [] now w))"

section \<open>Laws of the gate\<close>

lemma withPassword_Inl: "withPassword i h body w = (Inl e, w') \<Longrightarrow> db w' = db w"
  by (simp add: withPassword_def transaction_Inl)

lemma withPassword_Inr:
  assumes "withPassword i h body w = (Inr x, w')"
  obtains w0 w1 where "count_where (has_credential i h) (users (db w)) = 1"
    "db w0 = db w" "body w0 = (Inr x, w1)" "db w' = db w1"
  using assms unfolding withPassword_def
  by (elim transaction_Inr)
    (auto simp: upd_users_def row_simps dest!: exec_Inr RowsAffected_Inr
      split: prod.splits sum.splits if_splits)

lemma withPassword_refused:
  assumes "count_where (has_credential i h) (users (db w)) \<noteq> 1"
  shows "\<exists>e. fst (withPassword i h body w) = Inl e"
proof (cases "withPassword i h body w")
  case (Pair r w')
  with assms show ?thesis by (cases r) (auto elim: withPassword_Inr)
qed

text \<open>Without failures the refusal is \<^verbatim>\<open>ErrNotFound\<close>.\<close>

lemma withPassword_refused_ok:
  assumes "faults w = []" "count_where (has_credential i h) (users (db w)) \<noteq> 1"
  shows "fst (withPassword i h body w) = Inl ErrNotFound"
proof -
  let ?b = "\<lambda>w. case exec (upd_users (has_credential i h) id) w of
         (Inl e, w) \<Rightarrow> (Inl e, w)
       | (Inr n, w) \<Rightarrow> (case RowsAffected n w of
             (Inl e, w) \<Rightarrow> (Inl e, w)
           | (Inr n, w) \<Rightarrow> if n \<noteq> 1 then (Inl ErrNotFound, w) else body w)"
  have "?b w = (Inl ErrNotFound, w)"
    using assms by (simp add: upd_users_def row_simps)
  then have "transaction ?b w = (Inl ErrNotFound, w)"
    using assms(1) by (simp add: transaction_def)
  then show ?thesis unfolding withPassword_def by simp
qed

text \<open>
  The contract of a grant: it fails and changes nothing unless exactly one active account
  has the user id and the password hash the caller verified.
\<close>

locale credential_gate =
  fixes grant :: "string \<Rightarrow> string \<Rightarrow> world \<Rightarrow> 'a outcome"
  assumes gate: "grant i h w = (Inr x, w') \<Longrightarrow> count_where (has_credential i h) (users (db w)) = 1"
    and failed: "grant i h w = (Inl e, w') \<Longrightarrow> db w' = db w"
begin

lemma needs_account:
  assumes "grant i h w = (Inr x, w')"
  obtains u where "u \<in> set (users (db w))" "uID u = i" "uPasswordHash u = h" "uStatus u = ''active''"
  using count_upd_one [OF gate [OF assms]] by (auto simp: has_credential_def)

text \<open>A grant checked against a password that has been replaced is refused.\<close>

lemma stale_refused:
  assumes "\<And>u. u \<in> set (users (db w)) \<Longrightarrow> uID u = i \<Longrightarrow> uPasswordHash u \<noteq> h"
  shows "\<exists>e. fst (grant i h w) = Inl e" and "db (snd (grant i h w)) = db w"
proof -
  show *: "\<exists>e. fst (grant i h w) = Inl e"
  proof (cases "grant i h w")
    case (Pair r w')
    with assms show ?thesis by (cases r) (auto elim: needs_account)
  qed
  then show "db (snd (grant i h w)) = db w"
    using failed [of i h w _ "snd (grant i h w)"] by (auto simp: prod_eq_iff)
qed

lemma inactive_refused:
  assumes "\<And>u. u \<in> set (users (db w)) \<Longrightarrow> uID u = i \<Longrightarrow> uStatus u \<noteq> ''active''"
  shows "\<exists>e. fst (grant i h w) = Inl e"
proof (cases "grant i h w")
  case (Pair r w')
  with assms show ?thesis by (cases r) (auto elim: needs_account)
qed

end

lemma withPassword_gate: "credential_gate (\<lambda>i h. withPassword i h (body i h))"
  by unfold_locales (auto elim: withPassword_Inr dest: withPassword_Inl)

lemma CreateSession_withPassword:
  "CreateSession (s\<lparr>sUserID := i\<rparr>) h = withPassword i h
     (\<lambda>w. case exec (ins_session (s\<lparr>sUserID := i\<rparr>)) w of
        (Inl e, w) \<Rightarrow> (Inl e, w) | (Inr _, w) \<Rightarrow> (Inr (), w))"
  by (simp add: CreateSession_def)

interpretation session_gate: credential_gate "\<lambda>i h. CreateSession (s\<lparr>sUserID := i\<rparr>) h" for s
  unfolding CreateSession_withPassword by (rule withPassword_gate)

interpretation challenge_gate: credential_gate "\<lambda>i h. CreateMFAChallenge (c\<lparr>mUserID := i\<rparr>) h" for c
  unfolding CreateMFAChallenge_def by unfold_locales (auto elim: withPassword_Inr dest: withPassword_Inl)

interpretation change_gate: credential_gate "\<lambda>i h. CompletePasswordChange now i h new ip" for now new ip
  unfolding CompletePasswordChange_def by (rule withPassword_gate)

section \<open>What the operations do\<close>

text \<open>The database after every grant of a user is gone, and after one more audit row.\<close>

definition grants_revoked :: "string \<Rightarrow> db \<Rightarrow> db" where
  "grants_revoked i d = d\<lparr>sessions := del_where (\<lambda>s. sUserID s = i) (sessions d),
     mfa_challenges := del_where (\<lambda>m. mUserID m = i) (mfa_challenges d),
     device_pairings := del_where (\<lambda>p. pUserID p = i) (device_pairings d)\<rparr>"

definition audited :: "audit_record \<Rightarrow> db \<Rightarrow> db" where
  "audited r d = d\<lparr>audit_records := audit_records d @ [r\<lparr>aID := audit_seq d\<rparr>],
     audit_seq := audit_seq d + 1\<rparr>"

text \<open>The account row after a replacement by its owner and after a reset by the operator.\<close>

definition replaced :: "time \<Rightarrow> string \<Rightarrow> string \<Rightarrow> db \<Rightarrow> db" where
  "replaced now i newHash d = d\<lparr>users :=
     upd_where (\<lambda>u. uID u = i \<and> uMustChangePassword u \<and> uSSOProvider u = ''local'')
       (\<lambda>u. u\<lparr>uPasswordHash := newHash, uMustChangePassword := False, uUpdatedAt := now\<rparr>) (users d)\<rparr>"

definition reset :: "time \<Rightarrow> string \<Rightarrow> string \<Rightarrow> db \<Rightarrow> db" where
  "reset now i newHash d = d\<lparr>users :=
     upd_where (\<lambda>u. uID u = i \<and> uSSOProvider u = ''local'')
       (\<lambda>u. u\<lparr>uPasswordHash := newHash, uMustChangePassword := True, uStatus := ''active'',
              uRole := ''admin'', uUpdatedAt := now\<rparr>) (users d)\<rparr>"

lemma revokePasswordGrants_Inr:
  "revokePasswordGrants i details ip now w = (Inr (), w') \<Longrightarrow>
     db w' = audited ((audit i ''auth.password_changed'' ''user'' details ip)\<lparr>aCreatedAt := now\<rparr>)
       (grants_revoked i (db w))"
  by (auto simp: revokePasswordGrants_def del_sessions_def del_challenges_def del_pairings_def
      ins_audit_def audited_def grants_revoked_def dest!: exec_Inr split: prod.splits sum.splits)

lemma CompletePasswordChange_Inl:
  "CompletePasswordChange now i old new ip w = (Inl e, w') \<Longrightarrow> db w' = db w"
  by (rule change_gate.failed)

lemma CompletePasswordChange_Inr:
  assumes "CompletePasswordChange now i old new ip w = (Inr (), w')"
  shows "count_where (has_credential i old) (users (db w)) = 1"
    and "count_where (\<lambda>u. uID u = i \<and> uMustChangePassword u \<and> uSSOProvider u = ''local'') (users (db w)) = 1"
    and "db w' = audited ((audit i ''auth.password_changed'' ''user''
        ''forced replacement; sessions revoked'' ip)\<lparr>aCreatedAt := now\<rparr>)
        (grants_revoked i (replaced now i new (db w)))"
  using assms unfolding CompletePasswordChange_def
  by (auto elim!: withPassword_Inr simp: upd_users_def replaced_def
      dest!: exec_Inr RowsAffected_Inr revokePasswordGrants_Inr split: prod.splits sum.splits if_splits)

lemma ResetAdminPassword_Inl: "ResetAdminPassword now i new w = (Inl e, w') \<Longrightarrow> db w' = db w"
  by (simp add: ResetAdminPassword_def transaction_Inl)

lemma ResetAdminPassword_Inr:
  assumes "ResetAdminPassword now i new w = (Inr (), w')"
  shows "count_where (\<lambda>u. uID u = i \<and> uSSOProvider u = ''local'') (users (db w)) = 1"
    and "db w' = audited ((audit i ''auth.password_changed'' ''user''
        ''operator reset; sessions revoked'' [])\<lparr>aCreatedAt := now\<rparr>)
        (grants_revoked i (reset now i new (db w)))"
  using assms unfolding ResetAdminPassword_def
  by (auto elim!: transaction_Inr simp: upd_users_def reset_def
      dest!: exec_Inr RowsAffected_Inr revokePasswordGrants_Inr split: prod.splits sum.splits if_splits)

lemma CreateSession_Inl: "CreateSession s h w = (Inl e, w') \<Longrightarrow> db w' = db w"
  by (simp add: CreateSession_def withPassword_Inl)

lemma CreateSession_Inr:
  assumes "CreateSession s h w = (Inr (), w')"
  shows "count_where (has_credential (sUserID s) h) (users (db w)) = 1"
    and "sTokenHash s \<notin> sTokenHash ` set (sessions (db w))"
    and "sUserID s \<in> user_ids (db w)"
    and "db w' = (db w)\<lparr>sessions := sessions (db w) @ [s]\<rparr>"
  using assms unfolding CreateSession_def
  by (auto elim!: withPassword_Inr simp: ins_session_def dest!: exec_Inr
      split: prod.splits sum.splits if_splits)

lemma CreateMFAChallenge_Inl: "CreateMFAChallenge c h w = (Inl e, w') \<Longrightarrow> db w' = db w"
  by (simp add: CreateMFAChallenge_def withPassword_Inl)

lemma CreateMFAChallenge_Inr:
  assumes "CreateMFAChallenge c h w = (Inr (), w')"
  shows "count_where (has_credential (mUserID c) h) (users (db w)) = 1"
    and "mTokenHash c \<notin> mTokenHash ` set (mfa_challenges (db w))"
    and "mUserID c \<in> user_ids (db w)"
    and "db w' = (db w)\<lparr>mfa_challenges := mfa_challenges (db w) @ [challenge_row c h]\<rparr>"
  using assms unfolding CreateMFAChallenge_def
  by (auto elim!: withPassword_Inr simp: ins_challenge_def challenge_row_def dest!: exec_Inr
      split: prod.splits sum.splits if_splits)

lemma ConsumeMFAChallenge_Inl: "ConsumeMFAChallenge now t w = (Inl e, w') \<Longrightarrow> db w' = db w"
  by (simp add: ConsumeMFAChallenge_def transaction_Inl)

lemma ConsumeMFAChallenge_Inr:
  assumes "ConsumeMFAChallenge now t w = (Inr (i, h), w')"
  obtains m where "m \<in> set (mfa_challenges (db w))" "mTokenHash m = t" "now < mExpiresAt m"
    "mUserID m = i" "mPasswordHash m = h"
    "db w' = (db w)\<lparr>mfa_challenges := del_where (\<lambda>m. mTokenHash m = t) (mfa_challenges (db w))\<rparr>"
  using assms unfolding ConsumeMFAChallenge_def
  by (elim transaction_Inr)
    (auto simp: del_challenges_def dest!: exec_Inr RowsAffected_Inr sql_query_Inr dest: find_SomeD
      split: prod.splits sum.splits if_splits option.splits)

lemma DeleteSession_cases:
  "DeleteSession t w = (r, w') \<Longrightarrow>
     db w' = db w \<or> db w' = (db w)\<lparr>sessions := del_where (\<lambda>s. sTokenHash s = t) (sessions (db w))\<rparr>"
  by (auto simp: DeleteSession_def del_sessions_def dest!: exec_Inr exec_Inl split: prod.splits sum.splits)

lemma DeleteUserSessions_cases:
  "DeleteUserSessions i w = (r, w') \<Longrightarrow>
     db w' = db w \<or> db w' = (db w)\<lparr>sessions := del_where (\<lambda>s. sUserID s = i) (sessions (db w))\<rparr>"
  by (auto simp: DeleteUserSessions_def del_sessions_def dest!: exec_Inr exec_Inl
      split: prod.splits sum.splits)

lemma DeleteUserSessions_Inr:
  "DeleteUserSessions i w = (Inr (), w') \<Longrightarrow>
     db w' = (db w)\<lparr>sessions := del_where (\<lambda>s. sUserID s = i) (sessions (db w))\<rparr>"
  by (auto simp: DeleteUserSessions_def del_sessions_def dest!: exec_Inr exec_Inl
      split: prod.splits sum.splits)

lemma CleanExpiredSessions_cases:
  "CleanExpiredSessions now w = (r, w') \<Longrightarrow>
     db w' = db w \<or> db w' = (db w)\<lparr>sessions := del_where (\<lambda>s. sExpiresAt s < now) (sessions (db w))\<rparr>"
  by (auto simp: CleanExpiredSessions_def del_sessions_def dest!: exec_Inr exec_Inl
      split: prod.splits sum.splits)

lemma GetSession_Inr:
  assumes "GetSession now t w = (Inr s, w')"
  shows "s \<in> set (sessions (db w))" "sTokenHash s = t" "now \<le> sExpiresAt s" "db w' = db w"
  using assms
  by (auto simp: GetSession_def dest!: sql_query_Inr dest: find_SomeD
      split: prod.splits sum.splits option.splits if_splits)

lemma GetSession_InrD:
  "GetSession now t w = (Inr s, w') \<Longrightarrow>
     s \<in> set (sessions (db w)) \<and> sTokenHash s = t \<and> now \<le> sExpiresAt s \<and> db w' = db w"
  using GetSession_Inr by blast

text \<open>Reading a session changes the table only by dropping the row it read.\<close>

lemma GetSession_cases:
  assumes "GetSession now t w = (r, w')"
  shows "db w' = db w \<or> db w' = (db w)\<lparr>sessions := del_where (\<lambda>s. sTokenHash s = t) (sessions (db w))\<rparr>"
  using assms
  by (auto simp: GetSession_def dest!: sql_query_Inr sql_query_Inl DeleteSession_cases
      split: prod.splits sum.splits option.splits if_splits)

section \<open>Schema\<close>

lemma schema_ok_sessions_del: "schema_ok d \<Longrightarrow> schema_ok (d\<lparr>sessions := del_where p (sessions d)\<rparr>)"
  using schema_okD(3,4) [of d]
  by (intro schema_ok_sessions) (auto simp: row_simps intro: unique_on_del_where)

lemma schema_ok_grants_revoked:
  assumes "schema_ok d"
  shows "schema_ok (grants_revoked i d)"
proof -
  have "schema_ok (d\<lparr>sessions := del_where (\<lambda>s. sUserID s = i) (sessions d)\<rparr>)" (is "schema_ok ?d1")
    by (rule schema_ok_sessions_del) fact
  then have "schema_ok (?d1\<lparr>mfa_challenges := del_where (\<lambda>m. mUserID m = i) (mfa_challenges d)\<rparr>)"
      (is "schema_ok ?d2")
    using schema_okD(5,6) [OF assms]
    by (intro schema_ok_challenges) (auto simp: row_simps user_ids_def intro: unique_on_del_where)
  then have "schema_ok (?d2\<lparr>device_pairings := del_where (\<lambda>p. pUserID p = i) (device_pairings d)\<rparr>)"
    using schema_okD(7,8) [OF assms]
    by (intro schema_ok_pairings) (auto intro: unique_on_del_where)
  then show ?thesis by (simp add: grants_revoked_def)
qed

lemma schema_ok_audited: "schema_ok d \<Longrightarrow> schema_ok (audited r d)"
  by (simp add: audited_def schema_ok_audit)

lemma schema_ok_replaced: "schema_ok d \<Longrightarrow> schema_ok (replaced now i h d)"
  unfolding replaced_def by (rule schema_ok_users_same_ids) (simp_all add: row_simps schema_okD)

lemma schema_ok_reset: "schema_ok d \<Longrightarrow> schema_ok (reset now i h d)"
  unfolding reset_def by (rule schema_ok_users_same_ids) (simp_all add: row_simps schema_okD)

interpretation CompletePasswordChange_schema: schema_op "CompletePasswordChange now i old new ip"
  for now i old new ip
proof
  fix w and r :: "err + unit" and w'
  assume "CompletePasswordChange now i old new ip w = (r, w')" "schema_ok (db w)"
  then show "schema_ok (db w')"
    by (cases r) (auto dest!: CompletePasswordChange_Inl CompletePasswordChange_Inr(3)
        intro!: schema_ok_audited schema_ok_grants_revoked schema_ok_replaced)
qed

interpretation ResetAdminPassword_schema: schema_op "ResetAdminPassword now i new" for now i new
proof
  fix w and r :: "err + unit" and w'
  assume "ResetAdminPassword now i new w = (r, w')" "schema_ok (db w)"
  then show "schema_ok (db w')"
    by (cases r) (auto dest!: ResetAdminPassword_Inl ResetAdminPassword_Inr(2)
        intro!: schema_ok_audited schema_ok_grants_revoked schema_ok_reset)
qed

interpretation CreateSession_schema: schema_op "CreateSession s h" for s h
proof
  fix w and r :: "err + unit" and w'
  assume a: "CreateSession s h w = (r, w')" "schema_ok (db w)"
  show "schema_ok (db w')"
  proof (cases r)
    case (Inl e)
    with a show ?thesis by (auto dest: CreateSession_Inl)
  next
    case (Inr u)
    with a CreateSession_Inr [of s h w w'] schema_okD(3,4) [OF a(2)] show ?thesis
      by (auto simp: row_simps image_subset_iff intro!: schema_ok_sessions)
  qed
qed

interpretation CreateMFAChallenge_schema: schema_op "CreateMFAChallenge c h" for c h
proof
  fix w and r :: "err + unit" and w'
  assume a: "CreateMFAChallenge c h w = (r, w')" "schema_ok (db w)"
  show "schema_ok (db w')"
  proof (cases r)
    case (Inl e)
    with a show ?thesis by (auto dest: CreateMFAChallenge_Inl)
  next
    case (Inr u)
    with a CreateMFAChallenge_Inr [of c h w w'] schema_okD(5,6) [OF a(2)] show ?thesis
      by (auto simp: row_simps challenge_row_def image_subset_iff intro!: schema_ok_challenges)
  qed
qed

interpretation ConsumeMFAChallenge_schema: schema_op "ConsumeMFAChallenge now t" for now t
proof
  fix w and r :: "err + (string \<times> string)" and w'
  assume a: "ConsumeMFAChallenge now t w = (r, w')" "schema_ok (db w)"
  show "schema_ok (db w')"
  proof (cases r)
    case (Inl e)
    with a show ?thesis by (auto dest: ConsumeMFAChallenge_Inl)
  next
    case (Inr x)
    with a obtain i h where "ConsumeMFAChallenge now t w = (Inr (i, h), w')" by (cases x) auto
    then have "db w' = (db w)\<lparr>mfa_challenges := del_where (\<lambda>m. mTokenHash m = t) (mfa_challenges (db w))\<rparr>"
      by (rule ConsumeMFAChallenge_Inr)
    with schema_okD(5,6) [OF a(2)] a(2) show ?thesis
      by (auto simp: row_simps intro!: schema_ok_challenges unique_on_del_where)
  qed
qed

interpretation GetSession_schema: schema_op "GetSession now t" for now t
  by unfold_locales (auto dest!: GetSession_cases intro: schema_ok_sessions_del)

interpretation DeleteSession_schema: schema_op "DeleteSession t" for t
  by unfold_locales (auto dest!: DeleteSession_cases intro: schema_ok_sessions_del)

interpretation DeleteUserSessions_schema: schema_op "DeleteUserSessions i" for i
  by unfold_locales (auto dest!: DeleteUserSessions_cases intro: schema_ok_sessions_del)

interpretation CleanExpiredSessions_schema: schema_op "CleanExpiredSessions now" for now
  by unfold_locales (auto dest!: CleanExpiredSessions_cases intro: schema_ok_sessions_del)

interpretation CompletePasswordChange_atomic: atomic_op "CompletePasswordChange now i old new ip"
  for now i old new ip
  by unfold_locales (rule CompletePasswordChange_Inl)

interpretation ResetAdminPassword_atomic: atomic_op "ResetAdminPassword now i new" for now i new
  by unfold_locales (rule ResetAdminPassword_Inl)

interpretation CreateSession_atomic: atomic_op "CreateSession s h" for s h
  by unfold_locales (rule CreateSession_Inl)

interpretation CreateMFAChallenge_atomic: atomic_op "CreateMFAChallenge c h" for c h
  by unfold_locales (rule CreateMFAChallenge_Inl)

interpretation ConsumeMFAChallenge_atomic: atomic_op "ConsumeMFAChallenge now t" for now t
  by unfold_locales (rule ConsumeMFAChallenge_Inl)

end
