(* ===== verification/Store_Devices.thy ===== *)
theory Store_Devices
  imports Store_Sessions
begin

text \<open>
  The device-pairing store of \<^verbatim>\<open>sqlstore.go\<close> (\<^verbatim>\<open>deviceStore\<close>): rows with a unique secret and
  a unique six-digit code, consumed at most once.
\<close>

definition ins_pairing :: "device_pairing \<Rightarrow> stmt" where
  "ins_pairing p d =
     (if pSecret p \<in> pSecret ` set (device_pairings d) \<or> pCode p \<in> pCode ` set (device_pairings d)
      then Inl ErrUnique
      else Inr (d\<lparr>device_pairings := device_pairings d @ [p]\<rparr>, 1))"

definition CreatePairing :: "time \<Rightarrow> device_pairing \<Rightarrow> world \<Rightarrow> device_pairing outcome" where
  "CreatePairing now p w =
     (let p = (if IsZero (pCreatedAt p) then p\<lparr>pCreatedAt := now\<rparr> else p);
          p = (if IsZero (pExpiresAt p) then p\<lparr>pExpiresAt := now + 90 * Second\<rparr> else p)
      in case exec (ins_pairing p) w of (Inl e, w) \<Rightarrow> (Inl e, w) | (Inr _, w) \<Rightarrow> (Inr p, w))"

definition scanPairing :: "time \<Rightarrow> (device_pairing \<Rightarrow> bool) \<Rightarrow> world \<Rightarrow> device_pairing outcome" where
  "scanPairing now q w =
     (case sql_query (\<lambda>d. find q (device_pairings d)) w of
        (Inl e, w) \<Rightarrow> (Inl e, w)
      | (Inr None, w) \<Rightarrow> (Inl ErrNotFound, w)
      | (Inr (Some p), w) \<Rightarrow> if now > pExpiresAt p then (Inl ErrPairingExpired, w) else (Inr p, w))"

definition GetPairingByCode :: "time \<Rightarrow> string \<Rightarrow> world \<Rightarrow> device_pairing outcome" where
  "GetPairingByCode now code = scanPairing now (\<lambda>p. pCode p = code)"

definition GetPairingBySecret :: "time \<Rightarrow> string \<Rightarrow> world \<Rightarrow> device_pairing outcome" where
  "GetPairingBySecret now secret = scanPairing now (\<lambda>p. pSecret p = secret)"

text \<open>The row \<^verbatim>\<open>ConsumePairing\<close> may take: pending, with the secret, not yet expired.\<close>

definition consumable :: "time \<Rightarrow> string \<Rightarrow> device_pairing \<Rightarrow> bool" where
  "consumable now secret p \<longleftrightarrow> pSecret p = secret \<and> pStatus p = ''pending'' \<and> pExpiresAt p > now"

definition consume_row :: "string \<Rightarrow> string \<Rightarrow> string \<Rightarrow> device_pairing \<Rightarrow> device_pairing" where
  "consume_row deviceName platform pushToken p = p\<lparr>pStatus := ''consumed'', pDeviceName := deviceName,
     pPlatform := platform, pPushToken := pushToken\<rparr>"

definition upd_pairings ::
    "(device_pairing \<Rightarrow> bool) \<Rightarrow> (device_pairing \<Rightarrow> device_pairing) \<Rightarrow> stmt" where
  "upd_pairings p f d = Inr (d\<lparr>device_pairings := upd_where p f (device_pairings d)\<rparr>,
     count_where p (device_pairings d))"

definition ConsumePairing ::
    "time \<Rightarrow> string \<Rightarrow> string \<Rightarrow> string \<Rightarrow> string \<Rightarrow> world \<Rightarrow> unit outcome" where
  "ConsumePairing now secret deviceName platform pushToken w =
     (case exec (upd_pairings (consumable now secret) (consume_row deviceName platform pushToken)) w of
        (Inl e, w) \<Rightarrow> (Inl e, w)
      | (Inr n, w) \<Rightarrow> (case RowsAffected_ignoring n w of (rows, w) \<Rightarrow>
          if rows = 0 then (Inl ErrNotFound, w) else (Inr (), w)))"

definition CleanExpiredPairings :: "time \<Rightarrow> world \<Rightarrow> unit outcome" where
  "CleanExpiredPairings now w = (case exec (del_pairings (\<lambda>p. pExpiresAt p < now)) w of
     (Inl e, w) \<Rightarrow> (Inl e, w) | (Inr _, w) \<Rightarrow> (Inr (), w))"

section \<open>What the operations do\<close>

lemma scanPairing_Inr:
  assumes "scanPairing now q w = (Inr p, w')"
  shows "p \<in> set (device_pairings (db w))" "q p" "now \<le> pExpiresAt p" "db w' = db w"
  using assms
  by (auto simp: scanPairing_def dest!: sql_query_Inr dest: find_SomeD
      split: prod.splits sum.splits option.splits if_splits)

lemma scanPairing_db: "scanPairing now q w = (r, w') \<Longrightarrow> db w' = db w"
  by (auto simp: scanPairing_def dest!: sql_query_db
      split: prod.splits sum.splits option.splits if_splits)

lemmas get_pairing_defs = GetPairingByCode_def GetPairingBySecret_def

definition pairing_consumed :: "time \<Rightarrow> string \<Rightarrow> string \<Rightarrow> string \<Rightarrow> string \<Rightarrow> db \<Rightarrow> db" where
  "pairing_consumed now secret dn pf pt d =
     d\<lparr>device_pairings := upd_where (consumable now secret) (consume_row dn pf pt) (device_pairings d)\<rparr>"

lemma ConsumePairing_cases:
  "ConsumePairing now s dn pf pt w = (r, w') \<Longrightarrow>
     db w' = db w \<or> db w' = pairing_consumed now s dn pf pt (db w)"
  by (auto simp: ConsumePairing_def upd_pairings_def pairing_consumed_def
      dest!: exec_Inr exec_Inl RowsAffected_ignoring_db split: prod.splits sum.splits if_splits)

lemma ConsumePairing_Inr:
  assumes "ConsumePairing now s dn pf pt w = (Inr (), w')"
  shows "db w' = pairing_consumed now s dn pf pt (db w)"
    and "\<exists>p \<in> set (device_pairings (db w)). consumable now s p"
  using assms
  by (auto simp: ConsumePairing_def upd_pairings_def pairing_consumed_def count_where_gt
      dest!: exec_Inr RowsAffected_ignoring_db split: prod.splits sum.splits if_splits)

lemma ConsumePairing_refused:
  assumes "\<And>p. p \<in> set (device_pairings (db w)) \<Longrightarrow> pSecret p = s \<Longrightarrow> pStatus p \<noteq> ''pending''"
  shows "\<exists>e. fst (ConsumePairing now s dn pf pt w) = Inl e"
proof (cases "ConsumePairing now s dn pf pt w")
  case (Pair r w')
  with assms ConsumePairing_Inr(2) [of now s dn pf pt w w'] show ?thesis
    by (cases r) (auto simp: consumable_def)
qed

lemma CreatePairing_Inl: "CreatePairing now p w = (Inl e, w') \<Longrightarrow> db w' = db w"
  by (auto simp: CreatePairing_def Let_def dest: exec_Inl split: prod.splits sum.splits)

lemma CreatePairing_Inr:
  assumes "CreatePairing now p w = (Inr p', w')"
  shows "pSecret p' = pSecret p" "pCode p' = pCode p"
    and "pSecret p \<notin> pSecret ` set (device_pairings (db w))" "pCode p \<notin> pCode ` set (device_pairings (db w))"
    and "db w' = (db w)\<lparr>device_pairings := device_pairings (db w) @ [p']\<rparr>"
  using assms
  by (auto simp: CreatePairing_def Let_def ins_pairing_def dest!: exec_Inr
      split: prod.splits sum.splits if_splits)

lemma CleanExpiredPairings_cases:
  "CleanExpiredPairings now w = (r, w') \<Longrightarrow> db w' = db w \<or>
     db w' = (db w)\<lparr>device_pairings := del_where (\<lambda>p. pExpiresAt p < now) (device_pairings (db w))\<rparr>"
  by (auto simp: CleanExpiredPairings_def del_pairings_def dest!: exec_Inr exec_Inl
      split: prod.splits sum.splits)

section \<open>Schema\<close>

interpretation CreatePairing_schema: schema_op "CreatePairing now p" for now p
proof
  fix w and r :: "err + device_pairing" and w'
  assume a: "CreatePairing now p w = (r, w')" "schema_ok (db w)"
  show "schema_ok (db w')"
  proof (cases r)
    case (Inl e)
    with a show ?thesis by (auto dest: CreatePairing_Inl)
  next
    case (Inr p')
    with a(1) have "CreatePairing now p w = (Inr p', w')" by simp
    note C = CreatePairing_Inr [OF this]
    from C a(2) show ?thesis by (auto simp: row_simps schema_okD intro!: schema_ok_pairings)
  qed
qed

interpretation ConsumePairing_schema: schema_op "ConsumePairing now s dn pf pt" for now s dn pf pt
  by unfold_locales (auto simp: pairing_consumed_def consume_row_def row_simps schema_okD
      dest!: ConsumePairing_cases intro!: schema_ok_pairings)

interpretation CleanExpiredPairings_schema: schema_op "CleanExpiredPairings now" for now
  by unfold_locales (auto simp: schema_okD dest!: CleanExpiredPairings_cases
      intro!: schema_ok_pairings unique_on_del_where)

interpretation CreatePairing_atomic: atomic_op "CreatePairing now p" for now p
  by unfold_locales (rule CreatePairing_Inl)

end
