(* ===== verification/Store_Groups.thy ===== *)
theory Store_Groups
  imports Store_Devices
begin

text \<open>
  The group store of \<^verbatim>\<open>sqlstore.go\<close> (\<^verbatim>\<open>groupStore\<close>): groups with a unique display name, and
  the membership table with its two foreign keys.
\<close>

section \<open>Statements\<close>

definition ins_group :: "group_row \<Rightarrow> stmt" where
  "ins_group g d =
     (if gID g \<in> group_ids d \<or> gDisplayName g \<in> gDisplayName ` set (groups d) then Inl ErrUnique
      else Inr (d\<lparr>groups := groups d @ [g]\<rparr>, 1))"

definition write_group :: "group_row \<Rightarrow> group_row \<Rightarrow> group_row" where
  "write_group g row = row\<lparr>gDisplayName := gDisplayName g, gExternalID := gExternalID g,
     gUpdatedAt := gUpdatedAt g\<rparr>"

definition upd_group_row :: "group_row \<Rightarrow> stmt" where
  "upd_group_row g d =
     (if \<exists>r \<in> set (groups d). gID r = gID g \<and>
           (\<exists>r' \<in> set (groups d). gID r' \<noteq> gID g \<and> gDisplayName r' = gDisplayName g)
      then Inl ErrUnique
      else Inr (d\<lparr>groups := upd_where (\<lambda>r. gID r = gID g) (write_group g) (groups d)\<rparr>,
             count_where (\<lambda>r. gID r = gID g) (groups d)))"

text \<open>\<^verbatim>\<open>DELETE FROM groups\<close> takes the memberships with it.\<close>

definition del_group :: "string \<Rightarrow> stmt" where
  "del_group i d =
     Inr (d\<lparr>groups := del_where (\<lambda>g. gID g = i) (groups d),
            group_members := (if count_where (\<lambda>g. gID g = i) (groups d) = 0 then group_members d
                              else del_where (\<lambda>m. fst m = i) (group_members d))\<rparr>,
          count_where (\<lambda>g. gID g = i) (groups d))"

text \<open>\<^verbatim>\<open>INSERT ... ON CONFLICT DO NOTHING\<close>; the foreign keys are checked all the same.\<close>

definition ins_member :: "string \<Rightarrow> string \<Rightarrow> stmt" where
  "ins_member g u d =
     (if (g, u) \<in> set (group_members d) then Inr (d, 0)
      else if g \<notin> group_ids d \<or> u \<notin> user_ids d then Inl ErrForeignKey
      else Inr (d\<lparr>group_members := group_members d @ [(g, u)]\<rparr>, 1))"

definition del_member :: "string \<Rightarrow> string \<Rightarrow> stmt" where
  "del_member g u d = Inr (d\<lparr>group_members := del_where (\<lambda>m. m = (g, u)) (group_members d)\<rparr>,
     count_where (\<lambda>m. m = (g, u)) (group_members d))"

section \<open>Operations\<close>

definition with_members :: "group_row \<Rightarrow> string list \<Rightarrow> group" where
  "with_members g ms = \<lparr>gID = gID g, gDisplayName = gDisplayName g, gExternalID = gExternalID g,
     gCreatedAt = gCreatedAt g, gUpdatedAt = gUpdatedAt g, gMembers = ms\<rparr>"

definition group_row_of :: "group \<Rightarrow> group_row" where
  "group_row_of g = \<lparr>gID = gID g, gDisplayName = gDisplayName g, gExternalID = gExternalID g,
     gCreatedAt = gCreatedAt g, gUpdatedAt = gUpdatedAt g\<rparr>"

definition CreateGroup :: "time \<Rightarrow> group \<Rightarrow> world \<Rightarrow> group outcome" where
  "CreateGroup now g w =
     (let g = (if IsZero (gCreatedAt g) then g\<lparr>gCreatedAt := now\<rparr> else g);
          g = (if IsZero (gUpdatedAt g) then g\<lparr>gUpdatedAt := now\<rparr> else g)
      in case exec (ins_group (group_row_of g)) w of
           (Inl e, w) \<Rightarrow> (Inl (if e = ErrUnique then ErrAlreadyExists else e), w)
         | (Inr _, w) \<Rightarrow> (Inr g, w))"

definition members_of :: "string \<Rightarrow> db \<Rightarrow> string list" where
  "members_of i d = map snd (filter (\<lambda>m. fst m = i) (group_members d))"

definition getMembers :: "string \<Rightarrow> world \<Rightarrow> (string list) outcome" where
  "getMembers groupID w = sql_query (members_of groupID) w"

definition scanGroup :: "(group_row \<Rightarrow> bool) \<Rightarrow> world \<Rightarrow> group outcome" where
  "scanGroup p w =
     (case sql_query (\<lambda>d. find p (groups d)) w of
        (Inl e, w) \<Rightarrow> (Inl e, w)
      | (Inr None, w) \<Rightarrow> (Inl ErrNotFound, w)
      | (Inr (Some g), w) \<Rightarrow> (case getMembers (gID g) w of
            (Inl e, w) \<Rightarrow> (Inl e, w)
          | (Inr ms, w) \<Rightarrow> (Inr (with_members g ms), w)))"

definition GetGroupByID :: "string \<Rightarrow> world \<Rightarrow> group outcome" where
  "GetGroupByID i = scanGroup (\<lambda>g. gID g = i)"

definition GetGroupByName :: "string \<Rightarrow> world \<Rightarrow> group outcome" where
  "GetGroupByName n = scanGroup (\<lambda>g. ToLower (gDisplayName g) = ToLower n)"

definition UpdateGroup :: "time \<Rightarrow> group \<Rightarrow> world \<Rightarrow> group outcome" where
  "UpdateGroup now g w =
     (let g = g\<lparr>gUpdatedAt := now\<rparr>
      in case exec (upd_group_row (group_row_of g)) w of
           (Inl e, w) \<Rightarrow> (Inl e, w)
         | (Inr n, w) \<Rightarrow> (case RowsAffected_ignoring n w of (rows, w) \<Rightarrow>
             if rows = 0 then (Inl ErrNotFound, w) else (Inr g, w)))"

definition DeleteGroup :: "string \<Rightarrow> world \<Rightarrow> unit outcome" where
  "DeleteGroup i w = (case exec (del_group i) w of
     (Inl e, w) \<Rightarrow> (Inl e, w)
   | (Inr n, w) \<Rightarrow> (case RowsAffected_ignoring n w of (rows, w) \<Rightarrow>
       if rows = 0 then (Inl ErrNotFound, w) else (Inr (), w)))"

text \<open>
  \<^verbatim>\<open>ListGroups\<close> reads the members of each listed group with a query of its own, and an error
  of that query leaves the group without members. \<^verbatim>\<open>ORDER BY display_name\<close> compares bytes.
\<close>

definition name_key :: "group_row \<Rightarrow> nat list" where
  "name_key g = map of_char (gDisplayName g)"

fun ins_by :: "('a \<Rightarrow> nat list) \<Rightarrow> 'a \<Rightarrow> 'a list \<Rightarrow> 'a list" where
  "ins_by k x [] = [x]"
| "ins_by k x (y # ys) =
     (if ord.lexordp (<) (k y) (k x) \<or> k y = k x then y # ins_by k x ys else x # y # ys)"

definition order_by :: "('a \<Rightarrow> nat list) \<Rightarrow> 'a list \<Rightarrow> 'a list" where
  "order_by k xs = fold (ins_by k) xs []"

fun fill_members :: "group_row list \<Rightarrow> world \<Rightarrow> group list \<times> world" where
  "fill_members [] w = ([], w)"
| "fill_members (g # gs) w =
     (case getMembers (gID g) w of (r, w) \<Rightarrow>
      case fill_members gs w of (rest, w) \<Rightarrow>
        (with_members g (case r of Inl _ \<Rightarrow> [] | Inr ms \<Rightarrow> ms) # rest, w))"

definition ListGroups :: "int \<Rightarrow> int \<Rightarrow> world \<Rightarrow> (group list \<times> nat) outcome" where
  "ListGroups offset limit w =
     (case page_bounds offset limit of (offset, limit) \<Rightarrow>
      case sql_query (\<lambda>d. length (groups d)) w of
        (Inl e, w) \<Rightarrow> (Inl e, w)
      | (Inr cnt, w) \<Rightarrow>
          (case sql_query (\<lambda>d. page offset limit (order_by name_key (groups d))) w of
             (Inl e, w) \<Rightarrow> (Inl e, w)
           | (Inr gs, w) \<Rightarrow> (case fill_members gs w of (full, w) \<Rightarrow> (Inr (full, cnt), w))))"

definition AddGroupMember :: "string \<Rightarrow> string \<Rightarrow> world \<Rightarrow> unit outcome" where
  "AddGroupMember groupID userID w = (case exec (ins_member groupID userID) w of
     (Inl e, w) \<Rightarrow> (Inl e, w) | (Inr _, w) \<Rightarrow> (Inr (), w))"

definition RemoveGroupMember :: "string \<Rightarrow> string \<Rightarrow> world \<Rightarrow> unit outcome" where
  "RemoveGroupMember groupID userID w = (case exec (del_member groupID userID) w of
     (Inl e, w) \<Rightarrow> (Inl e, w) | (Inr _, w) \<Rightarrow> (Inr (), w))"

text \<open>\<^verbatim>\<open>GetUserGroups\<close> joins the two tables; the groups come without their members.\<close>

definition GetUserGroups :: "string \<Rightarrow> world \<Rightarrow> (group list) outcome" where
  "GetUserGroups userID w =
     sql_query (\<lambda>d. map (\<lambda>g. with_members g [])
       (order_by name_key (concat (map (\<lambda>g. replicate
          (count_where (\<lambda>m. m = (gID g, userID)) (group_members d)) g) (groups d))))) w"

section \<open>What the operations do\<close>

definition group_written :: "group_row \<Rightarrow> db \<Rightarrow> db" where
  "group_written g d = d\<lparr>groups := upd_where (\<lambda>r. gID r = gID g) (write_group g) (groups d)\<rparr>"

definition group_deleted :: "string \<Rightarrow> db \<Rightarrow> db" where
  "group_deleted i d = d\<lparr>groups := del_where (\<lambda>g. gID g = i) (groups d),
     group_members := (if count_where (\<lambda>g. gID g = i) (groups d) = 0 then group_members d
                       else del_where (\<lambda>m. fst m = i) (group_members d))\<rparr>"

lemma group_row_of_simps [simp]:
  "gID (group_row_of g) = gID g" "gDisplayName (group_row_of g) = gDisplayName g"
  "gExternalID (group_row_of g) = gExternalID g"
  by (simp_all add: group_row_of_def)

lemma write_group_simps [simp]:
  "gID (write_group g r) = gID r" "gDisplayName (write_group g r) = gDisplayName g"
  by (simp_all add: write_group_def)

lemma CreateGroup_Inl: "CreateGroup now g w = (Inl e, w') \<Longrightarrow> db w' = db w"
  by (auto simp: CreateGroup_def Let_def dest: exec_Inl split: prod.splits sum.splits)

lemma CreateGroup_Inr:
  assumes "CreateGroup now g w = (Inr g', w')"
  shows "gID g' = gID g" "gDisplayName g' = gDisplayName g"
    and "gID g \<notin> group_ids (db w)" "gDisplayName g \<notin> gDisplayName ` set (groups (db w))"
    and "db w' = (db w)\<lparr>groups := groups (db w) @ [group_row_of g']\<rparr>"
  using assms
  by (auto simp: CreateGroup_def Let_def ins_group_def dest!: exec_Inr
      split: prod.splits sum.splits if_splits)

lemma UpdateGroup_cases:
  assumes "UpdateGroup now g w = (r, w')"
  shows "db w' = db w \<or> db w' = group_written (group_row_of (g\<lparr>gUpdatedAt := now\<rparr>)) (db w) \<and>
    (\<forall>x \<in> set (groups (db w)). gID x = gID g \<longrightarrow>
       (\<forall>y \<in> set (groups (db w)). gID y \<noteq> gID g \<longrightarrow> gDisplayName y \<noteq> gDisplayName g))"
  using assms
  by (auto simp: UpdateGroup_def Let_def upd_group_row_def group_written_def
      dest!: exec_Inr exec_Inl RowsAffected_ignoring_db split: prod.splits sum.splits if_splits)

lemma DeleteGroup_cases:
  "DeleteGroup i w = (r, w') \<Longrightarrow> db w' = db w \<or> db w' = group_deleted i (db w)"
  by (auto simp: DeleteGroup_def del_group_def group_deleted_def
      dest!: exec_Inr exec_Inl RowsAffected_ignoring_db split: prod.splits sum.splits if_splits)

lemma AddGroupMember_cases:
  "AddGroupMember g u w = (r, w') \<Longrightarrow> db w' = db w \<or>
     (g, u) \<notin> set (group_members (db w)) \<and> g \<in> group_ids (db w) \<and> u \<in> user_ids (db w) \<and>
     db w' = (db w)\<lparr>group_members := group_members (db w) @ [(g, u)]\<rparr>"
  by (auto simp: AddGroupMember_def ins_member_def dest!: exec_Inr exec_Inl
      split: prod.splits sum.splits if_splits)

lemma RemoveGroupMember_cases:
  "RemoveGroupMember g u w = (r, w') \<Longrightarrow> db w' = db w \<or>
     db w' = (db w)\<lparr>group_members := del_where (\<lambda>m. m = (g, u)) (group_members (db w))\<rparr>"
  by (auto simp: RemoveGroupMember_def del_member_def dest!: exec_Inr exec_Inl
      split: prod.splits sum.splits)

section \<open>Schema\<close>

lemma schema_ok_group_written:
  assumes "schema_ok d" "\<forall>x \<in> set (groups d). gID x = gID g \<longrightarrow>
       (\<forall>y \<in> set (groups d). gID y \<noteq> gID g \<longrightarrow> gDisplayName y \<noteq> gDisplayName g)"
  shows "schema_ok (group_written g d)"
  unfolding group_written_def
proof (rule schema_ok_groups_same_ids [OF assms(1)])
  show "map gID (upd_where (\<lambda>r. gID r = gID g) (write_group g) (groups d)) = map gID (groups d)"
    by (simp add: row_simps)
  show "unique_on gDisplayName (upd_where (\<lambda>r. gID r = gID g) (write_group g) (groups d))"
    using assms by (intro unique_on_overwrite [where v = "gDisplayName g"]) (auto simp: schema_okD)
qed

lemma schema_ok_group_deleted:
  assumes "schema_ok d"
  shows "schema_ok (group_deleted i d)"
proof -
  note D = schema_okD [OF assms]
  have "unique_on gID (del_where (\<lambda>g. gID g = i) (groups d))"
    "unique_on gDisplayName (del_where (\<lambda>g. gID g = i) (groups d))"
    using D by (auto intro: unique_on_del_where)
  moreover have "distinct (group_members (group_deleted i d))"
    using D(11) by (simp add: group_deleted_def del_where_def)
  moreover have "set (group_members (group_deleted i d)) \<subseteq>
      gID ` set (del_where (\<lambda>g. gID g = i) (groups d)) \<times> uID ` set (users d)"
    using D(12) by (auto simp: group_deleted_def row_simps user_ids_def group_ids_def del_where_none)
  ultimately show ?thesis
    using assms by (simp add: group_deleted_def schema_ok_def schema_defs)
qed

interpretation CreateGroup_schema: schema_op "CreateGroup now g" for now g
proof
  fix w and r :: "err + group" and w'
  assume a: "CreateGroup now g w = (r, w')" "schema_ok (db w)"
  show "schema_ok (db w')"
  proof (cases r)
    case (Inl e)
    with a show ?thesis by (auto dest: CreateGroup_Inl)
  next
    case (Inr g')
    with a(1) have "CreateGroup now g w = (Inr g', w')" by simp
    note C = CreateGroup_Inr [OF this]
    from C a(2) show ?thesis by (auto intro!: schema_ok_groups_snoc)
  qed
qed

interpretation UpdateGroup_schema: schema_op "UpdateGroup now g" for now g
  by unfold_locales (auto dest!: UpdateGroup_cases intro!: schema_ok_group_written)

interpretation DeleteGroup_schema: schema_op "DeleteGroup i" for i
  by unfold_locales (auto dest!: DeleteGroup_cases intro: schema_ok_group_deleted)

interpretation AddGroupMember_schema: schema_op "AddGroupMember g u" for g u
proof
  fix w and r :: "err + unit" and w'
  assume "AddGroupMember g u w = (r, w')" "schema_ok (db w)"
  then show "schema_ok (db w')"
    using schema_okD(11,12) [of "db w"]
    by (auto simp: subset_iff dest!: AddGroupMember_cases intro!: schema_ok_members)
qed

interpretation RemoveGroupMember_schema: schema_op "RemoveGroupMember g u" for g u
proof
  fix w and r :: "err + unit" and w'
  assume "RemoveGroupMember g u w = (r, w')" "schema_ok (db w)"
  then show "schema_ok (db w')"
    using schema_okD(11,12) [of "db w"]
    by (auto simp: del_where_def subset_iff dest!: RemoveGroupMember_cases intro!: schema_ok_members)
qed

interpretation CreateGroup_atomic: atomic_op "CreateGroup now g" for now g
  by unfold_locales (rule CreateGroup_Inl)

interpretation AddGroupMember_atomic: atomic_op "AddGroupMember g u" for g u
  by unfold_locales (auto simp: AddGroupMember_def dest: exec_Inl split: prod.splits sum.splits)

end
