(* ===== verification/Store_Machine.thy ===== *)
theory Store_Machine
  imports Store_Groups
begin

text \<open>
  The store as a state machine: the writing operations of the \<^verbatim>\<open>Store\<close> interface
  (\<^verbatim>\<open>store.go\<close>) as one datatype, one step per call, and the states reachable from the empty
  database by any sequence of calls under any pattern of driver failures. The requests of
  concurrent clients reach the store as such a sequence, since every operation is one
  statement or one transaction. The locale \<open>one_shot\<close> is the contract of a right that can be
  used once (a TOTP counter, a list of recovery codes, an MFA challenge, a pairing); its
  instances give the replay properties.
\<close>

section \<open>Steps\<close>

datatype store_op =
    OpCreateUser time user
  | OpUpdateUser time user
  | OpUpdateRecoveryCodes time string string string
  | OpSpendTOTPCounter time string int
  | OpDeleteUser string
  | OpCompletePasswordChange time string string string string
  | OpResetAdminPassword time string string
  | OpCreateSession session string
  | OpGetSession time string
  | OpDeleteSession string
  | OpDeleteUserSessions string
  | OpCleanExpiredSessions time
  | OpCreateMFAChallenge mfa_challenge string
  | OpConsumeMFAChallenge time string
  | OpCreatePairing time device_pairing
  | OpConsumePairing time string string string string
  | OpCleanExpiredPairings time
  | OpCreateGroup time group
  | OpUpdateGroup time group
  | OpDeleteGroup string
  | OpAddGroupMember string string
  | OpRemoveGroupMember string string
  | OpLogAudit time audit_record
  | OpSetSetting time string string
  | OpDeleteSetting string

primrec run_op :: "store_op \<Rightarrow> world \<Rightarrow> world" where
  "run_op (OpCreateUser now u) w = snd (CreateUser now u w)"
| "run_op (OpUpdateUser now u) w = snd (UpdateUser now u w)"
| "run_op (OpUpdateRecoveryCodes now i old new) w = snd (UpdateRecoveryCodes now i old new w)"
| "run_op (OpSpendTOTPCounter now i c) w = snd (SpendTOTPCounter now i c w)"
| "run_op (OpDeleteUser i) w = snd (DeleteUser i w)"
| "run_op (OpCompletePasswordChange now i old new ip) w = snd (CompletePasswordChange now i old new ip w)"
| "run_op (OpResetAdminPassword now i new) w = snd (ResetAdminPassword now i new w)"
| "run_op (OpCreateSession s h) w = snd (CreateSession s h w)"
| "run_op (OpGetSession now t) w = snd (GetSession now t w)"
| "run_op (OpDeleteSession t) w = snd (DeleteSession t w)"
| "run_op (OpDeleteUserSessions i) w = snd (DeleteUserSessions i w)"
| "run_op (OpCleanExpiredSessions now) w = snd (CleanExpiredSessions now w)"
| "run_op (OpCreateMFAChallenge c h) w = snd (CreateMFAChallenge c h w)"
| "run_op (OpConsumeMFAChallenge now t) w = snd (ConsumeMFAChallenge now t w)"
| "run_op (OpCreatePairing now p) w = snd (CreatePairing now p w)"
| "run_op (OpConsumePairing now s dn pf pt) w = snd (ConsumePairing now s dn pf pt w)"
| "run_op (OpCleanExpiredPairings now) w = snd (CleanExpiredPairings now w)"
| "run_op (OpCreateGroup now g) w = snd (CreateGroup now g w)"
| "run_op (OpUpdateGroup now g) w = snd (UpdateGroup now g w)"
| "run_op (OpDeleteGroup i) w = snd (DeleteGroup i w)"
| "run_op (OpAddGroupMember g u) w = snd (AddGroupMember g u w)"
| "run_op (OpRemoveGroupMember g u) w = snd (RemoveGroupMember g u w)"
| "run_op (OpLogAudit now r) w = snd (LogAudit now r w)"
| "run_op (OpSetSetting now k v) w = snd (SetSetting now k v w)"
| "run_op (OpDeleteSetting k) w = snd (DeleteSetting k w)"

definition run_ops :: "store_op list \<Rightarrow> world \<Rightarrow> world" where
  "run_ops ops w = fold run_op ops w"

lemma run_ops_simps [simp]:
  "run_ops [] w = w" "run_ops (p # ps) w = run_ops ps (run_op p w)"
  by (simp_all add: run_ops_def)

inductive reachable :: "world \<Rightarrow> bool" where
  start: "db w = empty_db \<Longrightarrow> reachable w"
| step: "reachable w \<Longrightarrow> reachable (run_op p w)"

lemma reachable_run_ops: "reachable w \<Longrightarrow> reachable (run_ops ps w)"
  by (induction ps arbitrary: w) (auto intro: reachable.step)

text \<open>A property of the database that every step of a sequence keeps holds at its end.\<close>

lemma run_ops_keeps:
  assumes "\<And>p w. p \<in> set ps \<Longrightarrow> P (db w) \<Longrightarrow> P (db (run_op p w))" "P (db w)"
  shows "P (db (run_ops ps w))"
  using assms by (induction ps arbitrary: w) auto

section \<open>The schema and the audit trail\<close>

lemmas step_schema =
  CreateUser_schema.schema_snd UpdateUser_schema.schema_snd UpdateRecoveryCodes_schema.schema_snd
  SpendTOTPCounter_schema.schema_snd DeleteUser_schema.schema_snd
  CompletePasswordChange_schema.schema_snd ResetAdminPassword_schema.schema_snd
  CreateSession_schema.schema_snd GetSession_schema.schema_snd DeleteSession_schema.schema_snd
  DeleteUserSessions_schema.schema_snd CleanExpiredSessions_schema.schema_snd
  CreateMFAChallenge_schema.schema_snd ConsumeMFAChallenge_schema.schema_snd
  CreatePairing_schema.schema_snd ConsumePairing_schema.schema_snd
  CleanExpiredPairings_schema.schema_snd CreateGroup_schema.schema_snd UpdateGroup_schema.schema_snd
  DeleteGroup_schema.schema_snd AddGroupMember_schema.schema_snd RemoveGroupMember_schema.schema_snd
  LogAudit_schema.schema_snd SetSetting_schema.schema_snd DeleteSetting_schema.schema_snd

lemma run_op_schema: "schema_ok (db w) \<Longrightarrow> schema_ok (db (run_op p w))"
  by (cases p) (simp_all add: step_schema)

lemma run_ops_schema: "schema_ok (db w) \<Longrightarrow> schema_ok (db (run_ops ps w))"
  by (rule run_ops_keeps) (simp add: run_op_schema)

lemma reachable_schema: "reachable w \<Longrightarrow> schema_ok (db w)"
  by (induction rule: reachable.induct) (simp_all add: schema_ok_empty run_op_schema)

section \<open>What a step may do\<close>

text \<open>
  The change each call can make to the database. A step makes its change or leaves the
  database as it was.
\<close>

primrec db_change :: "store_op \<Rightarrow> db \<Rightarrow> db \<Rightarrow> bool" where
  "db_change (OpCreateUser now u) d d' \<longleftrightarrow> (\<exists>u'. uID u' = uID u \<and> uPasswordHash u' = uPasswordHash u \<and>
     uID u \<notin> uID ` set (users d) \<and> d' = d\<lparr>users := users d @ [u']\<rparr>)"
| "db_change (OpUpdateUser now u) d d' \<longleftrightarrow> d' = user_written (u\<lparr>uUpdatedAt := now\<rparr>) d \<and>
     (\<forall>x \<in> set (users d). uID x = uID u \<longrightarrow>
       (\<forall>y \<in> set (users d). uID y \<noteq> uID u \<longrightarrow> uUsername y \<noteq> uUsername u))"
| "db_change (OpUpdateRecoveryCodes now i old new) d d' \<longleftrightarrow> d' = codes_written now i old new d"
| "db_change (OpSpendTOTPCounter now i c) d d' \<longleftrightarrow> d' = counter_spent now i c d"
| "db_change (OpDeleteUser i) d d' \<longleftrightarrow> d' = user_deleted i d"
| "db_change (OpCompletePasswordChange now i old new ip) d d' \<longleftrightarrow>
     d' = audited ((audit i ''auth.password_changed'' ''user''
        ''forced replacement; sessions revoked'' ip)\<lparr>aCreatedAt := now\<rparr>)
        (grants_revoked i (replaced now i new d))"
| "db_change (OpResetAdminPassword now i new) d d' \<longleftrightarrow>
     d' = audited ((audit i ''auth.password_changed'' ''user''
        ''operator reset; sessions revoked'' [])\<lparr>aCreatedAt := now\<rparr>)
        (grants_revoked i (reset now i new d))"
| "db_change (OpCreateSession s h) d d' \<longleftrightarrow> d' = d\<lparr>sessions := sessions d @ [s]\<rparr>"
| "db_change (OpGetSession now t) d d' \<longleftrightarrow>
     d' = d\<lparr>sessions := del_where (\<lambda>s. sTokenHash s = t) (sessions d)\<rparr>"
| "db_change (OpDeleteSession t) d d' \<longleftrightarrow>
     d' = d\<lparr>sessions := del_where (\<lambda>s. sTokenHash s = t) (sessions d)\<rparr>"
| "db_change (OpDeleteUserSessions i) d d' \<longleftrightarrow>
     d' = d\<lparr>sessions := del_where (\<lambda>s. sUserID s = i) (sessions d)\<rparr>"
| "db_change (OpCleanExpiredSessions now) d d' \<longleftrightarrow>
     d' = d\<lparr>sessions := del_where (\<lambda>s. sExpiresAt s < now) (sessions d)\<rparr>"
| "db_change (OpCreateMFAChallenge c h) d d' \<longleftrightarrow>
     d' = d\<lparr>mfa_challenges := mfa_challenges d @ [challenge_row c h]\<rparr>"
| "db_change (OpConsumeMFAChallenge now t) d d' \<longleftrightarrow>
     d' = d\<lparr>mfa_challenges := del_where (\<lambda>m. mTokenHash m = t) (mfa_challenges d)\<rparr>"
| "db_change (OpCreatePairing now p) d d' \<longleftrightarrow> (\<exists>p'. pSecret p' = pSecret p \<and>
     d' = d\<lparr>device_pairings := device_pairings d @ [p']\<rparr>)"
| "db_change (OpConsumePairing now s dn pf pt) d d' \<longleftrightarrow> d' = pairing_consumed now s dn pf pt d"
| "db_change (OpCleanExpiredPairings now) d d' \<longleftrightarrow>
     d' = d\<lparr>device_pairings := del_where (\<lambda>p. pExpiresAt p < now) (device_pairings d)\<rparr>"
| "db_change (OpCreateGroup now g) d d' \<longleftrightarrow> (\<exists>g'. d' = d\<lparr>groups := groups d @ [g']\<rparr>)"
| "db_change (OpUpdateGroup now g) d d' \<longleftrightarrow> d' = group_written (group_row_of (g\<lparr>gUpdatedAt := now\<rparr>)) d \<and>
     (\<forall>x \<in> set (groups d). gID x = gID g \<longrightarrow>
       (\<forall>y \<in> set (groups d). gID y \<noteq> gID g \<longrightarrow> gDisplayName y \<noteq> gDisplayName g))"
| "db_change (OpDeleteGroup i) d d' \<longleftrightarrow> d' = group_deleted i d"
| "db_change (OpAddGroupMember g u) d d' \<longleftrightarrow>
     (g, u) \<notin> set (group_members d) \<and> g \<in> group_ids d \<and> u \<in> user_ids d \<and>
     d' = d\<lparr>group_members := group_members d @ [(g, u)]\<rparr>"
| "db_change (OpRemoveGroupMember g u) d d' \<longleftrightarrow>
     d' = d\<lparr>group_members := del_where (\<lambda>m. m = (g, u)) (group_members d)\<rparr>"
| "db_change (OpLogAudit now r) d d' \<longleftrightarrow>
     d' = d\<lparr>audit_records := audit_records d @ [(stamped now r)\<lparr>aID := audit_seq d\<rparr>],
        audit_seq := audit_seq d + 1\<rparr>"
| "db_change (OpSetSetting now k v) d d' \<longleftrightarrow> (\<exists>ss. d' = d\<lparr>server_settings := ss\<rparr>)"
| "db_change (OpDeleteSetting k) d d' \<longleftrightarrow> (\<exists>ss. d' = d\<lparr>server_settings := ss\<rparr>)"

lemma CreateUser_effect:
  assumes "CreateUser now u w = (r, w')"
  shows "db w' = db w \<or> (\<exists>u'. uID u' = uID u \<and> uPasswordHash u' = uPasswordHash u \<and>
    uID u \<notin> uID ` set (users (db w)) \<and> db w' = (db w)\<lparr>users := users (db w) @ [u']\<rparr>)"
proof (cases r)
  case (Inl e)
  with assms show ?thesis by (simp add: CreateUser_Inl)
next
  case (Inr v)
  with assms have "CreateUser now u w = (Inr v, w')" by simp
  note C = CreateUser_Inr [OF this]
  from C show ?thesis
    by (intro disjI2 exI [of _ "v\<lparr>uTOTPLastCounter := 0\<rparr>"]) (simp add: user_ids_def)
qed

lemma CompletePasswordChange_cases:
  "CompletePasswordChange now i old new ip w = (r, w') \<Longrightarrow> db w' = db w \<or>
     db w' = audited ((audit i ''auth.password_changed'' ''user''
        ''forced replacement; sessions revoked'' ip)\<lparr>aCreatedAt := now\<rparr>)
        (grants_revoked i (replaced now i new (db w)))"
  by (cases r) (auto dest: CompletePasswordChange_Inl CompletePasswordChange_Inr(3))

lemma ResetAdminPassword_cases:
  "ResetAdminPassword now i new w = (r, w') \<Longrightarrow> db w' = db w \<or>
     db w' = audited ((audit i ''auth.password_changed'' ''user''
        ''operator reset; sessions revoked'' [])\<lparr>aCreatedAt := now\<rparr>)
        (grants_revoked i (reset now i new (db w)))"
  by (cases r) (auto dest: ResetAdminPassword_Inl ResetAdminPassword_Inr(2))

lemma CreateSession_cases:
  "CreateSession s h w = (r, w') \<Longrightarrow> db w' = db w \<or>
     db w' = (db w)\<lparr>sessions := sessions (db w) @ [s]\<rparr>"
  by (cases r) (auto dest: CreateSession_Inl CreateSession_Inr(4))

lemma CreateMFAChallenge_cases:
  "CreateMFAChallenge c h w = (r, w') \<Longrightarrow> db w' = db w \<or>
     db w' = (db w)\<lparr>mfa_challenges := mfa_challenges (db w) @ [challenge_row c h]\<rparr>"
  by (cases r) (auto dest: CreateMFAChallenge_Inl CreateMFAChallenge_Inr(4))

lemma ConsumeMFAChallenge_cases:
  assumes "ConsumeMFAChallenge now t w = (r, w')"
  shows "db w' = db w \<or>
     db w' = (db w)\<lparr>mfa_challenges := del_where (\<lambda>m. mTokenHash m = t) (mfa_challenges (db w))\<rparr>"
proof (cases r)
  case (Inl e)
  with assms show ?thesis by (auto dest: ConsumeMFAChallenge_Inl)
next
  case (Inr x)
  with assms show ?thesis by (cases x) (auto elim: ConsumeMFAChallenge_Inr)
qed

lemma CreatePairing_cases:
  "CreatePairing now p w = (r, w') \<Longrightarrow> db w' = db w \<or> (\<exists>p'. pSecret p' = pSecret p \<and>
     db w' = (db w)\<lparr>device_pairings := device_pairings (db w) @ [p']\<rparr>)"
  by (cases r) (auto dest: CreatePairing_Inl CreatePairing_Inr(1,5))

lemma CreateGroup_cases:
  "CreateGroup now g w = (r, w') \<Longrightarrow> db w' = db w \<or>
     (\<exists>g'. db w' = (db w)\<lparr>groups := groups (db w) @ [g']\<rparr>)"
  by (cases r) (auto dest: CreateGroup_Inl CreateGroup_Inr(5))

lemma SetSetting_cases:
  assumes "SetSetting now k v w = (r, w')"
  shows "db w' = db w \<or> (\<exists>ss. db w' = (db w)\<lparr>server_settings := ss\<rparr>)"
proof -
  obtain q where e: "exec (upsert_setting k v now) w = (q, w')"
    using assms by (cases "exec (upsert_setting k v now) w") (auto simp: SetSetting_def split: sum.splits)
  show ?thesis
  proof (cases q)
    case (Inl e)
    with e exec_Inl show ?thesis by blast
  next
    case (Inr n)
    with e have "db w' = fst (projr (upsert_setting k v now (db w)))" using exec_Inr by blast
    then show ?thesis by (cases "k \<in> kKey ` set (server_settings (db w))") (auto simp: upsert_setting_def)
  qed
qed

lemma DeleteSetting_cases:
  "DeleteSetting k w = (r, w') \<Longrightarrow> db w' = db w \<or> (\<exists>ss. db w' = (db w)\<lparr>server_settings := ss\<rparr>)"
  by (auto simp: DeleteSetting_def del_setting_def dest!: exec_Inr exec_Inl
      split: prod.splits sum.splits if_splits)

lemmas step_cases =
  CreateUser_effect UpdateUser_cases UpdateRecoveryCodes_cases SpendTOTPCounter_cases DeleteUser_cases
  CompletePasswordChange_cases ResetAdminPassword_cases CreateSession_cases GetSession_cases
  DeleteSession_cases DeleteUserSessions_cases CleanExpiredSessions_cases CreateMFAChallenge_cases
  ConsumeMFAChallenge_cases CreatePairing_cases ConsumePairing_cases CleanExpiredPairings_cases
  CreateGroup_cases UpdateGroup_cases DeleteGroup_cases AddGroupMember_cases RemoveGroupMember_cases
  LogAudit_cases SetSetting_cases DeleteSetting_cases

lemma run_op_change: "db (run_op p w) = db w \<or> db_change p (db w) (db (run_op p w))"
  by (cases p; simp only: run_op.simps db_change.simps; rule step_cases [OF surjective_pairing])

section \<open>The change seen from one table\<close>

fun user_change :: "store_op \<Rightarrow> user list \<Rightarrow> user list \<Rightarrow> bool" where
  "user_change (OpCreateUser now u) us us' \<longleftrightarrow> uID u \<notin> uID ` set us \<and>
     (\<exists>u'. uID u' = uID u \<and> uPasswordHash u' = uPasswordHash u \<and> us' = us @ [u'])"
| "user_change (OpUpdateUser now u) us us' \<longleftrightarrow>
     us' = upd_where (\<lambda>r. uID r = uID u) (write_user (u\<lparr>uUpdatedAt := now\<rparr>)) us"
| "user_change (OpUpdateRecoveryCodes now i old new) us us' \<longleftrightarrow>
     us' = upd_where (\<lambda>u. uID u = i \<and> uRecoveryCodesHash u = old)
       (\<lambda>u. u\<lparr>uRecoveryCodesHash := new, uUpdatedAt := now\<rparr>) us"
| "user_change (OpSpendTOTPCounter now i c) us us' \<longleftrightarrow>
     us' = upd_where (\<lambda>u. uID u = i \<and> uTOTPLastCounter u < c)
       (\<lambda>u. u\<lparr>uTOTPLastCounter := c, uUpdatedAt := now\<rparr>) us"
| "user_change (OpDeleteUser i) us us' \<longleftrightarrow> us' = del_where (\<lambda>u. uID u = i) us"
| "user_change (OpCompletePasswordChange now i old new ip) us us' \<longleftrightarrow>
     us' = upd_where (\<lambda>u. uID u = i \<and> uMustChangePassword u \<and> uSSOProvider u = ''local'')
       (\<lambda>u. u\<lparr>uPasswordHash := new, uMustChangePassword := False, uUpdatedAt := now\<rparr>) us"
| "user_change (OpResetAdminPassword now i new) us us' \<longleftrightarrow>
     us' = upd_where (\<lambda>u. uID u = i \<and> uSSOProvider u = ''local'')
       (\<lambda>u. u\<lparr>uPasswordHash := new, uMustChangePassword := True, uStatus := ''active'',
              uRole := ''admin'', uUpdatedAt := now\<rparr>) us"
| "user_change _ us us' \<longleftrightarrow> False"

fun challenge_change :: "store_op \<Rightarrow> mfa_row list \<Rightarrow> mfa_row list \<Rightarrow> bool" where
  "challenge_change (OpCreateMFAChallenge c h) ms ms' \<longleftrightarrow> ms' = ms @ [challenge_row c h]"
| "challenge_change _ ms ms' \<longleftrightarrow> (\<exists>p. ms' = del_where p ms)"

fun pairing_change :: "store_op \<Rightarrow> device_pairing list \<Rightarrow> device_pairing list \<Rightarrow> bool" where
  "pairing_change (OpCreatePairing now p) ps ps' \<longleftrightarrow> (\<exists>p'. pSecret p' = pSecret p \<and> ps' = ps @ [p'])"
| "pairing_change (OpConsumePairing now s dn pf pt) ps ps' \<longleftrightarrow>
     ps' = upd_where (consumable now s) (consume_row dn pf pt) ps"
| "pairing_change _ ps ps' \<longleftrightarrow> (\<exists>q. ps' = del_where q ps)"

fun session_change :: "store_op \<Rightarrow> session list \<Rightarrow> session list \<Rightarrow> bool" where
  "session_change (OpCreateSession s h) ss ss' \<longleftrightarrow> ss' = ss @ [s]"
| "session_change _ ss ss' \<longleftrightarrow> (\<exists>q. ss' = del_where q ss)"

lemmas effect_defs = user_written_def user_deleted_def codes_written_def counter_spent_def
  audited_def grants_revoked_def replaced_def reset_def pairing_consumed_def group_written_def
  group_deleted_def

lemma del_where_nothing: "\<exists>q. xs = del_where q xs"
  by (rule exI [of _ "\<lambda>_. False"]) (simp add: del_where_def)

lemma run_op_users:
  "users (db (run_op p w)) = users (db w) \<or> user_change p (users (db w)) (users (db (run_op p w)))"
  using run_op_change [of p w] by (cases p) (auto simp: effect_defs simp del: run_op.simps)

lemma run_op_sessions:
  "sessions (db (run_op p w)) = sessions (db w) \<or>
   session_change p (sessions (db w)) (sessions (db (run_op p w)))"
  using run_op_change [of p w] by (cases p) (auto simp: effect_defs simp del: run_op.simps)

lemma run_op_challenges:
  "mfa_challenges (db (run_op p w)) = mfa_challenges (db w) \<or>
   challenge_change p (mfa_challenges (db w)) (mfa_challenges (db (run_op p w)))"
  using run_op_change [of p w] by (cases p) (auto simp: effect_defs simp del: run_op.simps)

lemma run_op_pairings:
  "device_pairings (db (run_op p w)) = device_pairings (db w) \<or>
   pairing_change p (device_pairings (db w)) (device_pairings (db (run_op p w)))"
  using run_op_change [of p w] by (cases p) (auto simp: effect_defs simp del: run_op.simps)

lemma run_op_audit: "audit_extends (db w) (db (run_op p w))"
  using run_op_change [of p w]
  by (cases p) (auto simp: effect_defs audit_extends_def simp del: run_op.simps)

lemma run_ops_audit: "audit_extends (db w) (db (run_ops ps w))"
proof (induction ps arbitrary: w)
  case Nil
  show ?case by simp
next
  case (Cons p ps)
  from run_op_audit Cons.IH show ?case by (auto intro: audit_extends_trans)
qed

section \<open>Rights that are used once\<close>

text \<open>
  A right is spent by the call that uses it, a spent right is refused, and the calls that
  \<open>keeps\<close> describes never bring it back. \<open>uses\<close> are the parameters of an attempt that spends
  the right, \<open>replays\<close> those of an attempt that needs it.
\<close>

locale one_shot =
  fixes attempt :: "'p \<Rightarrow> world \<Rightarrow> 'a outcome"
    and uses :: "'p \<Rightarrow> bool"
    and replays :: "'p \<Rightarrow> bool"
    and spent :: "db \<Rightarrow> bool"
    and keeps :: "store_op \<Rightarrow> bool"
  assumes burns: "uses p \<Longrightarrow> schema_ok (db w) \<Longrightarrow> attempt p w = (Inr x, w') \<Longrightarrow> spent (db w')"
    and refused: "replays p \<Longrightarrow> spent (db w) \<Longrightarrow> attempt p w \<noteq> (Inr x, w')"
    and kept: "keeps q \<Longrightarrow> spent (db w) \<Longrightarrow> spent (db (run_op q w))"
begin

lemma stays_spent: "\<forall>q \<in> set ops. keeps q \<Longrightarrow> spent (db w) \<Longrightarrow> spent (db (run_ops ops w))"
  by (rule run_ops_keeps) (auto intro: kept)

lemma spent_fails: "replays p \<Longrightarrow> spent (db w) \<Longrightarrow> \<exists>e. fst (attempt p w) = Inl e"
  using refused [of p w _ "snd (attempt p w)"] by (cases "fst (attempt p w)") (auto simp: prod_eq_iff)

lemma at_most_once:
  assumes "schema_ok (db w)" "uses p" "attempt p w = (Inr x, w')"
    and "\<forall>q \<in> set ops. keeps q" "replays p'"
  shows "\<exists>e. fst (attempt p' (run_ops ops w')) = Inl e"
  using burns [OF assms(2,1,3)] stays_spent [OF assms(4)] spent_fails [OF assms(5)] by blast

end

text \<open>TOTP counters: once \<open>c\<close> is spent, no counter up to \<open>c\<close> is accepted again.\<close>

definition counter_used :: "string \<Rightarrow> int \<Rightarrow> db \<Rightarrow> bool" where
  "counter_used i c d \<longleftrightarrow> (\<forall>u \<in> set (users d). uID u = i \<longrightarrow> c \<le> uTOTPLastCounter u)"

fun keeps_counter :: "string \<Rightarrow> store_op \<Rightarrow> bool" where
  "keeps_counter i (OpCreateUser now u) = (uID u \<noteq> i)"
| "keeps_counter i _ = True"

lemma run_op_counter:
  assumes "keeps_counter i p" "counter_used i c (db w)"
  shows "counter_used i c (db (run_op p w))"
  using assms run_op_users [of p w]
  by (cases p) (fastforce simp: counter_used_def simp del: run_op.simps elim!: row_elims)+

interpretation totp_once: one_shot "\<lambda>(now, c'). SpendTOTPCounter now i c'" "\<lambda>(now, c'). c \<le> c'"
  "\<lambda>(now, c'). c' \<le> c" "counter_used i c" "keeps_counter i" for i c
proof
  fix p :: "time \<times> int" and w :: world and x :: unit and w'
  assume "case p of (now, c') \<Rightarrow> c \<le> c'"
    and "(case p of (now, c') \<Rightarrow> SpendTOTPCounter now i c') w = (Inr x, w')"
  then obtain now c' where c: "c \<le> c'" "SpendTOTPCounter now i c' w = (Inr (), w')" by (cases p) auto
  from c(1) show "counter_used i c (db w')"
    by (simp add: SpendTOTPCounter_Inr(1) [OF c(2)] counter_used_def ball_rows) auto
next
  fix p :: "time \<times> int" and w :: world and x :: unit and w'
  assume u: "case p of (now, c') \<Rightarrow> c' \<le> c" "counter_used i c (db w)"
  show "(case p of (now, c') \<Rightarrow> SpendTOTPCounter now i c') w \<noteq> (Inr x, w')"
  proof (cases p)
    case (Pair now c')
    with u have "\<forall>u \<in> set (users (db w)). \<not> (uID u = i \<and> uTOTPLastCounter u < c')"
      by (auto simp: counter_used_def)
    then have "count_where (\<lambda>u. uID u = i \<and> uTOTPLastCounter u < c') (users (db w)) = 0"
      by (auto simp: count_where_0)
    with Pair SpendTOTPCounter_Inr(2) [of now i c' w w'] show ?thesis by auto
  qed
qed (rule run_op_counter)

text \<open>A password hash that has been replaced.\<close>

definition hash_gone :: "string \<Rightarrow> string \<Rightarrow> db \<Rightarrow> bool" where
  "hash_gone i h d \<longleftrightarrow> (\<forall>u \<in> set (users d). uID u = i \<longrightarrow> uPasswordHash u \<noteq> h)"

text \<open>
  The calls that never write the hash \<open>h\<close> into the account \<open>i\<close>. \<^verbatim>\<open>UpdateUser\<close> writes the
  password column from the record it is given.
\<close>

fun keeps_hash_gone :: "string \<Rightarrow> string \<Rightarrow> store_op \<Rightarrow> bool" where
  "keeps_hash_gone i h (OpCreateUser now u) = (uID u = i \<longrightarrow> uPasswordHash u \<noteq> h)"
| "keeps_hash_gone i h (OpUpdateUser now u) = (uID u = i \<longrightarrow> uPasswordHash u \<noteq> h)"
| "keeps_hash_gone i h (OpCompletePasswordChange now j old new ip) = (j = i \<longrightarrow> new \<noteq> h)"
| "keeps_hash_gone i h (OpResetAdminPassword now j new) = (j = i \<longrightarrow> new \<noteq> h)"
| "keeps_hash_gone i h _ = True"

lemma run_op_hash_gone:
  assumes "keeps_hash_gone i h p" "hash_gone i h (db w)"
  shows "hash_gone i h (db (run_op p w))"
  using assms run_op_users [of p w]
  by (cases p) (fastforce simp: hash_gone_def simp del: run_op.simps elim!: row_elims)+

text \<open>The one account a replacement changes.\<close>

lemma CompletePasswordChange_account:
  assumes "schema_ok (db w)" "CompletePasswordChange now i old new ip w = (Inr (), w')"
    and "u \<in> set (users (db w))" "uID u = i"
  shows "uPasswordHash u = old" "uStatus u = ''active''" "uMustChangePassword u" "uSSOProvider u = ''local''"
proof -
  have one: "v = u" if "v \<in> set (users (db w))" "uID v = i" for v
    using unique_onD [OF schema_okD(1) [OF assms(1)] that(1) assms(3)] that(2) assms(4) by simp
  obtain v where "v \<in> set (users (db w))" "has_credential i old v"
    using count_upd_one [OF CompletePasswordChange_Inr(1) [OF assms(2)]] by blast
  with one show "uPasswordHash u = old" "uStatus u = ''active''" by (auto simp: has_credential_def)
  obtain v where "v \<in> set (users (db w))" "uID v = i" "uMustChangePassword v" "uSSOProvider v = ''local''"
    using count_upd_one [OF CompletePasswordChange_Inr(2) [OF assms(2)]] by blast
  with one show "uMustChangePassword u" "uSSOProvider u = ''local''" by auto
qed

interpretation change_once: one_shot "\<lambda>(now, new, ip). CompletePasswordChange now i old new ip"
  "\<lambda>(now, new, ip). new \<noteq> old" "\<lambda>_. True" "hash_gone i old" "keeps_hash_gone i old" for i old
proof
  fix p and w :: world and x :: unit and w'
  assume s: "schema_ok (db w)" and "case p of (now, new, ip) \<Rightarrow> new \<noteq> old"
    and "(case p of (now, new, ip) \<Rightarrow> CompletePasswordChange now i old new ip) w = (Inr x, w')"
  then obtain now new ip where n: "new \<noteq> old" and c: "CompletePasswordChange now i old new ip w = (Inr (), w')"
    by (cases p) auto
  show "hash_gone i old (db w')"
    using n CompletePasswordChange_account [OF s c]
    by (simp add: CompletePasswordChange_Inr(3) [OF c] hash_gone_def effect_defs ball_rows) auto
next
  fix p and w :: world and x :: unit and w'
  assume "hash_gone i old (db w)"
  then show "(case p of (now, new, ip) \<Rightarrow> CompletePasswordChange now i old new ip) w \<noteq> (Inr x, w')"
    by (cases p) (auto simp: hash_gone_def elim!: change_gate.needs_account)
qed (rule run_op_hash_gone)

text \<open>A list of recovery codes that has been replaced by a shorter one.\<close>

definition codes_gone :: "string \<Rightarrow> string \<Rightarrow> db \<Rightarrow> bool" where
  "codes_gone i old d \<longleftrightarrow> (\<forall>u \<in> set (users d). uID u = i \<longrightarrow> uRecoveryCodesHash u \<noteq> old)"

fun keeps_codes_gone :: "string \<Rightarrow> string \<Rightarrow> store_op \<Rightarrow> bool" where
  "keeps_codes_gone i old (OpCreateUser now u) = (uID u \<noteq> i)"
| "keeps_codes_gone i old (OpUpdateUser now u) = (uID u = i \<longrightarrow> uRecoveryCodesHash u \<noteq> old)"
| "keeps_codes_gone i old (OpUpdateRecoveryCodes now j o' new) = (j = i \<longrightarrow> new \<noteq> old)"
| "keeps_codes_gone i old _ = True"

interpretation codes_once: one_shot "\<lambda>(now, new). UpdateRecoveryCodes now i old new"
  "\<lambda>(now, new). new \<noteq> old" "\<lambda>_. True" "codes_gone i old" "keeps_codes_gone i old" for i old
proof
  fix p and w :: world and x :: unit and w'
  assume "case p of (now, new) \<Rightarrow> new \<noteq> old"
    and "(case p of (now, new) \<Rightarrow> UpdateRecoveryCodes now i old new) w = (Inr x, w')"
  then obtain now new where c: "new \<noteq> old" "UpdateRecoveryCodes now i old new w = (Inr (), w')"
    by (cases p) auto
  from c(1) show "codes_gone i old (db w')"
    by (simp add: UpdateRecoveryCodes_Inr(1) [OF c(2)] codes_gone_def ball_rows)
next
  fix p and w :: world and x :: unit and w'
  assume "codes_gone i old (db w)"
  then have "count_where (\<lambda>u. uID u = i \<and> uRecoveryCodesHash u = old) (users (db w)) = 0"
    by (auto simp: codes_gone_def count_where_0)
  then show "(case p of (now, new) \<Rightarrow> UpdateRecoveryCodes now i old new) w \<noteq> (Inr x, w')"
    by (cases p) (auto dest: UpdateRecoveryCodes_Inr(2))
next
  fix q and w :: world
  assume "keeps_codes_gone i old q" "codes_gone i old (db w)"
  then show "codes_gone i old (db (run_op q w))"
    using run_op_users [of q w] by (cases q) (fastforce simp: codes_gone_def simp del: run_op.simps elim!: row_elims)+
qed

text \<open>An MFA challenge that has been consumed.\<close>

definition challenge_gone :: "string \<Rightarrow> db \<Rightarrow> bool" where
  "challenge_gone t d \<longleftrightarrow> (\<forall>m \<in> set (mfa_challenges d). mTokenHash m \<noteq> t)"

fun keeps_challenge_gone :: "string \<Rightarrow> store_op \<Rightarrow> bool" where
  "keeps_challenge_gone t (OpCreateMFAChallenge c h) = (mTokenHash c \<noteq> t)"
| "keeps_challenge_gone t _ = True"

interpretation challenge_once: one_shot "\<lambda>now. ConsumeMFAChallenge now t" "\<lambda>_. True" "\<lambda>_. True"
  "challenge_gone t" "keeps_challenge_gone t" for t
proof
  fix p and w :: world and x :: "string \<times> string" and w'
  assume "ConsumeMFAChallenge p t w = (Inr x, w')"
  then show "challenge_gone t (db w')"
    by (cases x) (auto elim!: ConsumeMFAChallenge_Inr simp: challenge_gone_def elim!: row_elims)
next
  fix p and w :: world and x :: "string \<times> string" and w'
  assume "challenge_gone t (db w)"
  then show "ConsumeMFAChallenge p t w \<noteq> (Inr x, w')"
    by (cases x) (auto elim!: ConsumeMFAChallenge_Inr simp: challenge_gone_def)
next
  fix q and w :: world
  assume "keeps_challenge_gone t q" "challenge_gone t (db w)"
  then show "challenge_gone t (db (run_op q w))"
    using run_op_challenges [of q w]
    by (cases q) (auto simp: challenge_gone_def challenge_row_def elim!: row_elims)
qed

text \<open>A pairing that has been consumed.\<close>

definition pairing_gone :: "string \<Rightarrow> db \<Rightarrow> bool" where
  "pairing_gone s d \<longleftrightarrow> (\<forall>p \<in> set (device_pairings d). pSecret p = s \<longrightarrow> pStatus p \<noteq> ''pending'')"

fun keeps_pairing_gone :: "string \<Rightarrow> store_op \<Rightarrow> bool" where
  "keeps_pairing_gone s (OpCreatePairing now p) = (pSecret p \<noteq> s)"
| "keeps_pairing_gone s _ = True"

interpretation pairing_once: one_shot "\<lambda>(now, dn, pf, pt). ConsumePairing now s dn pf pt" "\<lambda>_. True"
  "\<lambda>_. True" "pairing_gone s" "keeps_pairing_gone s" for s
proof
  fix p and w :: world and x :: unit and w'
  assume sc: "schema_ok (db w)"
    and "(case p of (now, dn, pf, pt) \<Rightarrow> ConsumePairing now s dn pf pt) w = (Inr x, w')"
  then obtain now dn pf pt where c: "ConsumePairing now s dn pf pt w = (Inr (), w')" by (cases p) auto
  then obtain r where r: "r \<in> set (device_pairings (db w))" "consumable now s r"
    using ConsumePairing_Inr(2) by blast
  have "q = r" if "q \<in> set (device_pairings (db w))" "pSecret q = s" for q
    using unique_onD [OF schema_okD(7) [OF sc] that(1) r(1)] that(2) r(2) by (simp add: consumable_def)
  with r show "pairing_gone s (db w')"
    by (auto simp: ConsumePairing_Inr(1) [OF c] pairing_consumed_def pairing_gone_def consume_row_def elim!: row_elims)
next
  fix p and w :: world and x :: unit and w'
  assume "pairing_gone s (db w)"
  then show "(case p of (now, dn, pf, pt) \<Rightarrow> ConsumePairing now s dn pf pt) w \<noteq> (Inr x, w')"
    by (cases p) (auto dest!: ConsumePairing_Inr(2) simp: pairing_gone_def consumable_def)
next
  fix q and w :: world
  assume "keeps_pairing_gone s q" "pairing_gone s (db w)"
  then show "pairing_gone s (db (run_op q w))"
    using run_op_pairings [of q w]
    by (cases q) (auto simp: pairing_gone_def consume_row_def elim!: row_elims)
qed

end
