(* ===== verification/Store_Props.thy ===== *)
theory Store_Props
  imports Store_Machine
begin

text \<open>
  The properties of the store: what holds in every reachable database, what a password
  replacement does under any pattern of failures, and that the one-time rights (a TOTP
  counter, a list of recovery codes, an MFA challenge, a pairing, a verified password) are
  used once whatever other requests do in between.
\<close>

section \<open>Concrete databases\<close>

text \<open>A small database the witnesses are evaluated on: one local account.\<close>

definition alice :: user where
  "alice = zero_user\<lparr>uID := ''u1'', uUsername := ''alice'', uPasswordHash := ''old'', uRole := ''admin'',
     uStatus := ''active'', uSSOProvider := ''local'', uMustChangePassword := True,
     uRecoveryCodesHash := ''[]''\<rparr>"

definition alice_session :: session where
  "alice_session = \<lparr>sTokenHash = ''t1'', sUserID = ''u1'', sUserAgent = [], sIPAddress = [],
     sCreatedAt = 0, sExpiresAt = 100\<rparr>"

definition alice_challenge :: mfa_row where
  "alice_challenge = \<lparr>mTokenHash = ''m1'', mUserID = ''u1'', mExpiresAt = 100, mPasswordHash = ''old''\<rparr>"

definition alice_pairing :: device_pairing where
  "alice_pairing = \<lparr>pCode = ''123456'', pSecret = ''s1'', pUserID = ''u1'', pDeviceName = [],
     pPlatform = [], pPushToken = [], pStatus = ''pending'', pCreatedAt = 0, pExpiresAt = 100\<rparr>"

definition alice_db :: db where
  "alice_db = empty_db\<lparr>users := [alice], sessions := [alice_session], mfa_challenges := [alice_challenge],
     device_pairings := [alice_pairing]\<rparr>"

definition alice_world :: world where
  "alice_world = \<lparr>db = alice_db, faults = []\<rparr>"

lemmas alice_defs = alice_def alice_session_def alice_challenge_def alice_pairing_def alice_db_def
  alice_world_def zero_user_def empty_db_def

lemma alice_schema: "schema_ok (db alice_world)"
  by (simp add: schema_ok_def schema_defs alice_defs row_simps)

lemma alice_faults [simp]: "faults alice_world = []"
  by (simp add: alice_world_def)

section \<open>Invariants\<close>



text \<open>The audit trail is append-only: whatever sequence of operations runs, the records
  that were there stay in place, in order.\<close>

theorem audit_append_only:
  "\<exists>rs. audit_records (db (run_ops ops w)) = audit_records (db w) @ rs"
  using run_ops_audit [of w ops] by (simp add: audit_extends_def)

section \<open>Replacing a password\<close>

lemma filter_upd_where_other:
  "(\<And>x. p x \<Longrightarrow> \<not> q x \<and> \<not> q (f x)) \<Longrightarrow> filter q (upd_where p f xs) = filter q xs"
  by (induction xs) (auto simp: upd_where_def)

text \<open>C1: a forced password replacement is all or nothing under any pattern of driver failures:
  it fails and leaves the database as it was, or the account has the new hash and no
  pending change, every session, MFA challenge and pairing of the account is gone, the grants of
  other accounts are untouched and one audit record is appended.\<close>

theorem password_change_atomic:
  assumes "schema_ok (db w)" "CompletePasswordChange now i old new ip w = (r, w')"
  shows "(\<exists>e. r = Inl e) \<and> db w' = db w \<or>
    r = Inr () \<and>
    (\<exists>u \<in> set (users (db w')). uID u = i \<and> uPasswordHash u = new \<and> \<not> uMustChangePassword u) \<and>
    (\<forall>u \<in> set (users (db w')). uID u = i \<longrightarrow> uPasswordHash u = new \<and> \<not> uMustChangePassword u) \<and>
    sessions (db w') = filter (\<lambda>s. sUserID s \<noteq> i) (sessions (db w)) \<and>
    mfa_challenges (db w') = filter (\<lambda>m. mUserID m \<noteq> i) (mfa_challenges (db w)) \<and>
    device_pairings (db w') = filter (\<lambda>p. pUserID p \<noteq> i) (device_pairings (db w)) \<and>
    filter (\<lambda>u. uID u \<noteq> i) (users (db w')) = filter (\<lambda>u. uID u \<noteq> i) (users (db w)) \<and>
    length (audit_records (db w')) = length (audit_records (db w)) + 1"
proof (cases r)
  case (Inl e)
  with assms(2) show ?thesis by (auto dest: CompletePasswordChange_Inl)
next
  case (Inr x)
  with assms(2) have c: "CompletePasswordChange now i old new ip w = (Inr (), w')" by simp
  note eff = CompletePasswordChange_Inr(3) [OF c] and acc = CompletePasswordChange_account [OF assms(1) c]
  let ?f = "\<lambda>u. u\<lparr>uPasswordHash := new, uMustChangePassword := False, uUpdatedAt := now\<rparr>"
  let ?p = "\<lambda>u. uID u = i \<and> uMustChangePassword u \<and> uSSOProvider u = ''local''"
  have us: "users (db w') = upd_where ?p ?f (users (db w))" by (simp add: eff effect_defs)
  obtain u where u: "u \<in> set (users (db w))" "?p u"
    using count_upd_one [OF CompletePasswordChange_Inr(2) [OF c]] by blast
  have "\<exists>u \<in> set (users (db w')). uID u = i \<and> uPasswordHash u = new \<and> \<not> uMustChangePassword u"
    using u by (intro bexI [of _ "?f u"]) (auto simp: us upd_where_def)
  moreover have "\<forall>u \<in> set (users (db w')). uID u = i \<longrightarrow> uPasswordHash u = new \<and> \<not> uMustChangePassword u"
    using acc(3,4) unfolding us by (simp add: ball_upd_where) auto
  moreover have "filter (\<lambda>u. uID u \<noteq> i) (users (db w')) = filter (\<lambda>u. uID u \<noteq> i) (users (db w))"
    unfolding us by (rule filter_upd_where_other) simp
  ultimately show ?thesis
    using Inr by (simp add: eff effect_defs del_where_def)
qed

theorem password_change_atomic_witness:
  "\<exists>w'. CompletePasswordChange 7 ''u1'' ''old'' ''new'' [] alice_world = (Inr (), w') \<and>
     sessions (db w') = [] \<and> mfa_challenges (db w') = [] \<and> device_pairings (db w') = []"
  using password_change_atomic [OF alice_schema, of 7 "''u1''" "''old''" "''new''" "[]"]
  by (simp add: CompletePasswordChange_def withPassword_def upd_users_def has_credential_def
      count_where_def revokePasswordGrants_def del_sessions_def del_challenges_def del_pairings_def
      ins_audit_def alice_defs upd_where_def del_where_def)

text \<open>C6: once a password has been replaced by another one, no grant that was verified
  against the old hash goes through any more, whatever other operations run in between as long
  as none of them writes the old hash back: no session, no MFA challenge, no second replacement.\<close>

theorem stale_password_refused:
  assumes "schema_ok (db w)" "CompletePasswordChange now i old new ip w = (Inr (), w')" "new \<noteq> old"
    and "\<forall>op \<in> set ops. keeps_hash_gone i old op"
  shows "(\<exists>e. fst (CreateSession (s\<lparr>sUserID := i\<rparr>) old (run_ops ops w')) = Inl e) \<and>
    (\<exists>e. fst (CreateMFAChallenge (c\<lparr>mUserID := i\<rparr>) old (run_ops ops w')) = Inl e) \<and>
    (\<exists>e. fst (CompletePasswordChange now' i old new' ip' (run_ops ops w')) = Inl e)"
proof -
  have "hash_gone i old (db (run_ops ops w'))"
    using change_once.burns [where p = "(now, new, ip)" and old = old and i = i and w = w and w' = w']
      change_once.stays_spent assms by simp
  then have "\<And>u. u \<in> set (users (db (run_ops ops w'))) \<Longrightarrow> uID u = i \<Longrightarrow> uPasswordHash u \<noteq> old"
    by (simp add: hash_gone_def)
  then show ?thesis
    using session_gate.stale_refused(1) challenge_gate.stale_refused(1) change_gate.stale_refused(1) by blast
qed

theorem stale_password_refused_witness:
  "\<exists>e. fst (CreateSession (alice_session\<lparr>sUserID := ''u1''\<rparr>) ''old''
     (run_ops [OpSpendTOTPCounter 9 ''u1'' 4]
       (snd (CompletePasswordChange 7 ''u1'' ''old'' ''new'' [] alice_world)))) = Inl e"
proof -
  have c: "CompletePasswordChange 7 ''u1'' ''old'' ''new'' [] alice_world =
      (Inr (), snd (CompletePasswordChange 7 ''u1'' ''old'' ''new'' [] alice_world))"
    by (simp add: CompletePasswordChange_def withPassword_def upd_users_def has_credential_def
        count_where_def revokePasswordGrants_def del_sessions_def del_challenges_def del_pairings_def
        ins_audit_def alice_defs upd_where_def del_where_def)
  show ?thesis using stale_password_refused [OF alice_schema c, of "[OpSpendTOTPCounter 9 ''u1'' 4]"] by simp
qed

section \<open>Rights that are used once\<close>

text \<open>C33: a TOTP counter is accepted at most once, and so is every earlier one: after
  counter \<open>c\<close> has been spent, no counter up to \<open>c\<close> is accepted for the account, whatever
  other operations run in between (short of creating an account under the same id).\<close>

theorem totp_counter_once:
  assumes "schema_ok (db w)" "SpendTOTPCounter now i c w = (Inr (), w')"
    and "\<forall>op \<in> set ops. keeps_counter i op" "c' \<le> c"
  shows "\<exists>e. fst (SpendTOTPCounter now' i c' (run_ops ops w')) = Inl e"
  using totp_once.at_most_once [where p = "(now, c)" and p' = "(now', c')" and w = w and w' = w' and c = c and ops = ops]
    assms by simp

theorem totp_counter_once_witness:
  "\<exists>e. fst (SpendTOTPCounter 9 ''u1'' 4 (run_ops [OpDeleteSession ''t1'', OpUpdateUser 8 alice]
     (snd (SpendTOTPCounter 7 ''u1'' 4 alice_world)))) = Inl e"
proof -
  have "SpendTOTPCounter 7 ''u1'' 4 alice_world = (Inr (), snd (SpendTOTPCounter 7 ''u1'' 4 alice_world))"
    by (simp add: SpendTOTPCounter_def upd_users_def count_where_def alice_defs)
  from totp_counter_once [OF alice_schema this, of "[OpDeleteSession ''t1'', OpUpdateUser 8 alice]"] show ?thesis by simp
qed

text \<open>The compare-and-swap on recovery codes lets one of several concurrent redemptions
  through: of two that read the same list of codes, the second to write fails, unless some
  operation writes the old list back.\<close>

theorem recovery_codes_once:
  assumes "schema_ok (db w)" "UpdateRecoveryCodes now i old new w = (Inr (), w')" "new \<noteq> old"
    and "\<forall>op \<in> set ops. keeps_codes_gone i old op"
  shows "\<exists>e. fst (UpdateRecoveryCodes now' i old new' (run_ops ops w')) = Inl e"
  using codes_once.at_most_once [where p = "(now, new)" and p' = "(now', new')" and w = w and w' = w' and ops = ops]
    assms by simp

theorem recovery_codes_once_witness:
  "\<exists>e. fst (UpdateRecoveryCodes 9 ''u1'' ''[]'' ''y'' (run_ops [OpCleanExpiredSessions 5]
     (snd (UpdateRecoveryCodes 7 ''u1'' ''[]'' ''x'' alice_world)))) = Inl e"
proof -
  have "UpdateRecoveryCodes 7 ''u1'' ''[]'' ''x'' alice_world =
      (Inr (), snd (UpdateRecoveryCodes 7 ''u1'' ''[]'' ''x'' alice_world))"
    by (simp add: UpdateRecoveryCodes_def upd_users_def count_where_def alice_defs)
  from recovery_codes_once [OF alice_schema this, of "[OpCleanExpiredSessions 5]"] show ?thesis by simp
qed

text \<open>An MFA challenge is consumed at most once; consuming it says which account and which
  password hash it was created for, and that it had not expired.\<close>

theorem mfa_challenge_once:
  assumes "schema_ok (db w)" "ConsumeMFAChallenge now t w = (Inr (i, h), w')"
    and "\<forall>op \<in> set ops. keeps_challenge_gone t op"
  shows "(\<exists>m \<in> set (mfa_challenges (db w)). mTokenHash m = t \<and> mUserID m = i \<and> mPasswordHash m = h \<and>
      now < mExpiresAt m) \<and>
    (\<exists>e. fst (ConsumeMFAChallenge now' t (run_ops ops w')) = Inl e)"
proof
  show "\<exists>m \<in> set (mfa_challenges (db w)). mTokenHash m = t \<and> mUserID m = i \<and> mPasswordHash m = h \<and>
      now < mExpiresAt m"
    using assms(2) by (auto elim: ConsumeMFAChallenge_Inr)
  show "\<exists>e. fst (ConsumeMFAChallenge now' t (run_ops ops w')) = Inl e"
    using challenge_once.at_most_once [where p = now and p' = now'] assms by blast
qed

theorem mfa_challenge_once_witness:
  "\<exists>e. fst (ConsumeMFAChallenge 9 ''m1'' (run_ops [OpDeleteSession ''t1'']
     (snd (ConsumeMFAChallenge 7 ''m1'' alice_world)))) = Inl e"
proof -
  have "ConsumeMFAChallenge 7 ''m1'' alice_world =
      (Inr (''u1'', ''old''), snd (ConsumeMFAChallenge 7 ''m1'' alice_world))"
    by (simp add: ConsumeMFAChallenge_def transaction_def del_challenges_def count_where_def alice_defs)
  from mfa_challenge_once [OF alice_schema this, of "[OpDeleteSession ''t1'']"] show ?thesis by simp
qed

text \<open>C34: a device pairing is consumed at most once, and only while it is pending and not
  expired.\<close>

theorem pairing_consumed_once:
  assumes "schema_ok (db w)" "ConsumePairing now s dn pf pt w = (Inr (), w')"
    and "\<forall>op \<in> set ops. keeps_pairing_gone s op"
  shows "(\<exists>p \<in> set (device_pairings (db w)). pSecret p = s \<and> pStatus p = ''pending'' \<and> now < pExpiresAt p) \<and>
    (\<exists>e. fst (ConsumePairing now' s dn' pf' pt' (run_ops ops w')) = Inl e)"
proof
  show "\<exists>p \<in> set (device_pairings (db w)). pSecret p = s \<and> pStatus p = ''pending'' \<and> now < pExpiresAt p"
    using ConsumePairing_Inr(2) [OF assms(2)] by (auto simp: consumable_def)
  show "\<exists>e. fst (ConsumePairing now' s dn' pf' pt' (run_ops ops w')) = Inl e"
    using pairing_once.at_most_once [where p = "(now, dn, pf, pt)" and p' = "(now', dn', pf', pt')"
        and w = w and w' = w' and ops = ops] assms
    by simp
qed

theorem pairing_consumed_once_witness:
  "\<exists>e. fst (ConsumePairing 9 ''s1'' ''x'' ''y'' [] (run_ops [OpCleanExpiredPairings 5]
     (snd (ConsumePairing 7 ''s1'' ''a'' ''b'' [] alice_world)))) = Inl e"
proof -
  have "ConsumePairing 7 ''s1'' ''a'' ''b'' [] alice_world =
      (Inr (), snd (ConsumePairing 7 ''s1'' ''a'' ''b'' [] alice_world))"
    by (simp add: ConsumePairing_def upd_pairings_def consumable_def count_where_def alice_defs)
  from pairing_consumed_once [OF alice_schema this, of "[OpCleanExpiredPairings 5]"] show ?thesis by simp
qed

section \<open>Deleting an account\<close>

text \<open>Deleting an account takes its sessions, MFA challenges and memberships with it, so
  the foreign keys keep holding, and touches no other account; its device pairings stay.\<close>

theorem delete_user_cascade:
  assumes "schema_ok (db w)" "DeleteUser i w = (Inr (), w')"
  shows "i \<in> user_ids (db w) \<and> user_ids (db w') = user_ids (db w) - {i} \<and>
    sessions (db w') = filter (\<lambda>s. sUserID s \<noteq> i) (sessions (db w)) \<and>
    mfa_challenges (db w') = filter (\<lambda>m. mUserID m \<noteq> i) (mfa_challenges (db w)) \<and>
    group_members (db w') = filter (\<lambda>m. snd m \<noteq> i) (group_members (db w)) \<and>
    device_pairings (db w') = device_pairings (db w) \<and> schema_ok (db w')"
  using DeleteUser_Inr [OF assms(2)] schema_ok_user_deleted [OF assms(1)]
  by (auto simp: user_deleted_def user_ids_def del_where_def)

theorem delete_user_cascade_witness:
  "\<exists>w'. DeleteUser ''u1'' alice_world = (Inr (), w') \<and> sessions (db w') = [] \<and>
     device_pairings (db w') = [alice_pairing]"
proof -
  have "DeleteUser ''u1'' alice_world = (Inr (), snd (DeleteUser ''u1'' alice_world))"
    by (simp add: DeleteUser_def del_user_def count_where_def alice_defs)
  from delete_user_cascade [OF alice_schema this] this show ?thesis
    by (auto simp: alice_defs)
qed

section \<open>Settings\<close>



end
