(* ===== verification/Store_Migrations.thy ===== *)
theory Store_Migrations
  imports Store_Schema Go_Text
begin

text \<open>
  The migrations (\<^verbatim>\<open>internal/store/migrations/migrations.go\<close>): the registry with the statements
  it runs on either driver, what those statements do to the catalog of tables and indexes and to
  the rows, and \<^verbatim>\<open>Run\<close> over a driver that may fail at every call.
\<close>

section \<open>Statements\<close>

datatype literal = DText string | DInt int | DBool bool

datatype attr =
    PrimaryKey
  | Autoincrement
  | NotNull
  | Unique
  | Default literal
  | ReferencesCascade string

text \<open>A column: its name, its type and the rest of its declaration.\<close>

type_synonym column = "string \<times> string \<times> attr list"

text \<open>
  The forms of statement in the registry: \<^verbatim>\<open>CREATE TABLE IF NOT EXISTS\<close> with its columns and the
  table's composite key, \<^verbatim>\<open>CREATE INDEX IF NOT EXISTS\<close>, \<^verbatim>\<open>ALTER TABLE ... ADD COLUMN\<close> (true for
  the form with \<^verbatim>\<open>IF NOT EXISTS\<close>) and \<^verbatim>\<open>DELETE FROM mfa_challenges\<close>.
\<close>

datatype ddl =
    CreateTable string "column list" "string list"
  | CreateIndex string string "string list"
  | AddColumn bool string column
  | DeleteMFAChallenges

record migration =
  mgVersion :: int
  mgName :: string
  mgSQLite :: "ddl list"
  mgPostgres :: "ddl list"

section \<open>The registry\<close>

definition sqlite_v1 :: "ddl list" where
  "sqlite_v1 =
    [CreateTable ''users''
      [(''id'', ''TEXT'', [PrimaryKey]),
       (''username'', ''TEXT'', [NotNull, Unique]),
       (''email'', ''TEXT'', [NotNull, Default (DText [])]),
       (''display_name'', ''TEXT'', [NotNull, Default (DText [])]),
       (''password_hash'', ''TEXT'', [NotNull, Default (DText [])]),
       (''role'', ''TEXT'', [NotNull, Default (DText ''user'')]),
       (''status'', ''TEXT'', [NotNull, Default (DText ''active'')]),
       (''sso_provider'', ''TEXT'', [NotNull, Default (DText ''local'')]),
       (''sso_subject'', ''TEXT'', [NotNull, Default (DText [])]),
       (''totp_secret_enc'', ''TEXT'', [NotNull, Default (DText [])]),
       (''totp_enabled'', ''INTEGER'', [NotNull, Default (DInt 0)]),
       (''recovery_codes_hash'', ''TEXT'', [NotNull, Default (DText ''[]'')]),
       (''push_device_id'', ''TEXT'', [NotNull, Default (DText [])]),
       (''must_change_password'', ''INTEGER'', [NotNull, Default (DInt 0)]),
       (''created_at'', ''DATETIME'', [NotNull]),
       (''updated_at'', ''DATETIME'', [NotNull]),
       (''last_login_at'', ''DATETIME'', [])] [],
     CreateIndex ''idx_users_username'' ''users'' [''username''],
     CreateIndex ''idx_users_email'' ''users'' [''email''],
     CreateIndex ''idx_users_sso'' ''users'' [''sso_provider'', ''sso_subject''],
     CreateTable ''sessions''
      [(''token_hash'', ''TEXT'', [PrimaryKey]),
       (''user_id'', ''TEXT'', [NotNull, ReferencesCascade ''users'']),
       (''user_agent'', ''TEXT'', [NotNull, Default (DText [])]),
       (''ip_address'', ''TEXT'', [NotNull, Default (DText [])]),
       (''created_at'', ''DATETIME'', [NotNull]),
       (''expires_at'', ''DATETIME'', [NotNull])] [],
     CreateIndex ''idx_sessions_user_id'' ''sessions'' [''user_id''],
     CreateIndex ''idx_sessions_expires_at'' ''sessions'' [''expires_at''],
     CreateTable ''device_pairings''
      [(''secret'', ''TEXT'', [PrimaryKey]),
       (''code'', ''TEXT'', [NotNull, Unique]),
       (''user_id'', ''TEXT'', [NotNull, Default (DText [])]),
       (''device_name'', ''TEXT'', [NotNull, Default (DText [])]),
       (''platform'', ''TEXT'', [NotNull, Default (DText [])]),
       (''push_token'', ''TEXT'', [NotNull, Default (DText [])]),
       (''status'', ''TEXT'', [NotNull, Default (DText ''pending'')]),
       (''created_at'', ''DATETIME'', [NotNull]),
       (''expires_at'', ''DATETIME'', [NotNull])] [],
     CreateIndex ''idx_pairings_code'' ''device_pairings'' [''code''],
     CreateIndex ''idx_pairings_expires'' ''device_pairings'' [''expires_at''],
     CreateTable ''groups''
      [(''id'', ''TEXT'', [PrimaryKey]),
       (''display_name'', ''TEXT'', [NotNull, Unique]),
       (''external_id'', ''TEXT'', [NotNull, Default (DText [])]),
       (''created_at'', ''DATETIME'', [NotNull]),
       (''updated_at'', ''DATETIME'', [NotNull])] [],
     CreateTable ''group_members''
      [(''group_id'', ''TEXT'', [NotNull, ReferencesCascade ''groups'']),
       (''user_id'', ''TEXT'', [NotNull, ReferencesCascade ''users''])] [''group_id'', ''user_id''],
     CreateTable ''audit_records''
      [(''id'', ''INTEGER'', [PrimaryKey, Autoincrement]),
       (''user_id'', ''TEXT'', [NotNull, Default (DText [])]),
       (''action'', ''TEXT'', [NotNull]),
       (''resource'', ''TEXT'', [NotNull, Default (DText [])]),
       (''details'', ''TEXT'', [NotNull, Default (DText [])]),
       (''ip_address'', ''TEXT'', [NotNull, Default (DText [])]),
       (''created_at'', ''DATETIME'', [NotNull])] [],
     CreateIndex ''idx_audit_user_created'' ''audit_records'' [''user_id'', ''created_at''],
     CreateTable ''server_settings''
      [(''key'', ''TEXT'', [PrimaryKey]),
       (''value'', ''TEXT'', [NotNull, Default (DText [])]),
       (''updated_at'', ''DATETIME'', [NotNull])] []]"

definition postgres_v1 :: "ddl list" where
  "postgres_v1 =
    [CreateTable ''users''
      [(''id'', ''VARCHAR(64)'', [PrimaryKey]),
       (''username'', ''VARCHAR(128)'', [NotNull, Unique]),
       (''email'', ''VARCHAR(255)'', [NotNull, Default (DText [])]),
       (''display_name'', ''VARCHAR(255)'', [NotNull, Default (DText [])]),
       (''password_hash'', ''TEXT'', [NotNull, Default (DText [])]),
       (''role'', ''VARCHAR(32)'', [NotNull, Default (DText ''user'')]),
       (''status'', ''VARCHAR(32)'', [NotNull, Default (DText ''active'')]),
       (''sso_provider'', ''VARCHAR(32)'', [NotNull, Default (DText ''local'')]),
       (''sso_subject'', ''VARCHAR(255)'', [NotNull, Default (DText [])]),
       (''totp_secret_enc'', ''TEXT'', [NotNull, Default (DText [])]),
       (''totp_enabled'', ''BOOLEAN'', [NotNull, Default (DBool False)]),
       (''recovery_codes_hash'', ''TEXT'', [NotNull, Default (DText ''[]'')]),
       (''push_device_id'', ''VARCHAR(255)'', [NotNull, Default (DText [])]),
       (''must_change_password'', ''BOOLEAN'', [NotNull, Default (DBool False)]),
       (''created_at'', ''TIMESTAMPTZ'', [NotNull]),
       (''updated_at'', ''TIMESTAMPTZ'', [NotNull]),
       (''last_login_at'', ''TIMESTAMPTZ'', [])] [],
     CreateIndex ''idx_users_username'' ''users'' [''username''],
     CreateIndex ''idx_users_email'' ''users'' [''email''],
     CreateIndex ''idx_users_sso'' ''users'' [''sso_provider'', ''sso_subject''],
     CreateTable ''sessions''
      [(''token_hash'', ''VARCHAR(64)'', [PrimaryKey]),
       (''user_id'', ''VARCHAR(64)'', [NotNull, ReferencesCascade ''users'']),
       (''user_agent'', ''TEXT'', [NotNull, Default (DText [])]),
       (''ip_address'', ''VARCHAR(64)'', [NotNull, Default (DText [])]),
       (''created_at'', ''TIMESTAMPTZ'', [NotNull]),
       (''expires_at'', ''TIMESTAMPTZ'', [NotNull])] [],
     CreateIndex ''idx_sessions_user_id'' ''sessions'' [''user_id''],
     CreateIndex ''idx_sessions_expires_at'' ''sessions'' [''expires_at''],
     CreateTable ''device_pairings''
      [(''secret'', ''VARCHAR(64)'', [PrimaryKey]),
       (''code'', ''VARCHAR(16)'', [NotNull, Unique]),
       (''user_id'', ''VARCHAR(64)'', [NotNull, Default (DText [])]),
       (''device_name'', ''VARCHAR(255)'', [NotNull, Default (DText [])]),
       (''platform'', ''VARCHAR(32)'', [NotNull, Default (DText [])]),
       (''push_token'', ''TEXT'', [NotNull, Default (DText [])]),
       (''status'', ''VARCHAR(32)'', [NotNull, Default (DText ''pending'')]),
       (''created_at'', ''TIMESTAMPTZ'', [NotNull]),
       (''expires_at'', ''TIMESTAMPTZ'', [NotNull])] [],
     CreateIndex ''idx_pairings_code'' ''device_pairings'' [''code''],
     CreateIndex ''idx_pairings_expires'' ''device_pairings'' [''expires_at''],
     CreateTable ''groups''
      [(''id'', ''VARCHAR(64)'', [PrimaryKey]),
       (''display_name'', ''VARCHAR(255)'', [NotNull, Unique]),
       (''external_id'', ''VARCHAR(255)'', [NotNull, Default (DText [])]),
       (''created_at'', ''TIMESTAMPTZ'', [NotNull]),
       (''updated_at'', ''TIMESTAMPTZ'', [NotNull])] [],
     CreateTable ''group_members''
      [(''group_id'', ''VARCHAR(64)'', [NotNull, ReferencesCascade ''groups'']),
       (''user_id'', ''VARCHAR(64)'', [NotNull, ReferencesCascade ''users''])] [''group_id'', ''user_id''],
     CreateTable ''audit_records''
      [(''id'', ''BIGSERIAL'', [PrimaryKey]),
       (''user_id'', ''VARCHAR(64)'', [NotNull, Default (DText [])]),
       (''action'', ''VARCHAR(64)'', [NotNull]),
       (''resource'', ''VARCHAR(255)'', [NotNull, Default (DText [])]),
       (''details'', ''TEXT'', [NotNull, Default (DText [])]),
       (''ip_address'', ''VARCHAR(64)'', [NotNull, Default (DText [])]),
       (''created_at'', ''TIMESTAMPTZ'', [NotNull])] [],
     CreateIndex ''idx_audit_user_created'' ''audit_records'' [''user_id'', ''created_at''],
     CreateTable ''server_settings''
      [(''key'', ''VARCHAR(128)'', [PrimaryKey]),
       (''value'', ''TEXT'', [NotNull, Default (DText [])]),
       (''updated_at'', ''TIMESTAMPTZ'', [NotNull])] []]"

definition sqlite_v2 :: "ddl list" where
  "sqlite_v2 =
    [CreateTable ''mfa_challenges''
      [(''token_hash'', ''TEXT'', [PrimaryKey]),
       (''user_id'', ''TEXT'', [NotNull, ReferencesCascade ''users'']),
       (''expires_at'', ''DATETIME'', [NotNull])] [],
     CreateIndex ''idx_mfa_challenges_expires'' ''mfa_challenges'' [''expires_at'']]"

definition postgres_v2 :: "ddl list" where
  "postgres_v2 =
    [CreateTable ''mfa_challenges''
      [(''token_hash'', ''VARCHAR(64)'', [PrimaryKey]),
       (''user_id'', ''VARCHAR(64)'', [NotNull, ReferencesCascade ''users'']),
       (''expires_at'', ''TIMESTAMPTZ'', [NotNull])] [],
     CreateIndex ''idx_mfa_challenges_expires'' ''mfa_challenges'' [''expires_at'']]"

definition sqlite_v3 :: "ddl list" where
  "sqlite_v3 =
    [AddColumn False ''users'' (''totp_last_counter'', ''INTEGER'', [NotNull, Default (DInt 0)])]"

definition postgres_v3 :: "ddl list" where
  "postgres_v3 =
    [AddColumn True ''users'' (''totp_last_counter'', ''BIGINT'', [NotNull, Default (DInt 0)])]"

definition sqlite_v4 :: "ddl list" where
  "sqlite_v4 =
    [DeleteMFAChallenges,
     AddColumn False ''mfa_challenges'' (''password_hash'', ''TEXT'', [NotNull, Default (DText [])])]"

definition postgres_v4 :: "ddl list" where
  "postgres_v4 =
    [DeleteMFAChallenges,
     AddColumn False ''mfa_challenges'' (''password_hash'', ''TEXT'', [NotNull, Default (DText [])])]"

definition registry :: "migration list" where
  "registry =
    [\<lparr>mgVersion = 1, mgName = ''initial_schema'', mgSQLite = sqlite_v1, mgPostgres = postgres_v1\<rparr>,
     \<lparr>mgVersion = 2, mgName = ''one_time_auth_challenges'', mgSQLite = sqlite_v2, mgPostgres = postgres_v2\<rparr>,
     \<lparr>mgVersion = 3, mgName = ''totp_last_counter'', mgSQLite = sqlite_v3, mgPostgres = postgres_v3\<rparr>,
     \<lparr>mgVersion = 4, mgName = ''mfa_credential_snapshot'', mgSQLite = sqlite_v4, mgPostgres = postgres_v4\<rparr>]"

section \<open>What the statements do\<close>

text \<open>
  The database as the runner sees it: the tables with their columns and composite keys, the
  indexes, the rows, and the table \<^verbatim>\<open>schema_migrations\<close> (\<open>None\<close> before it exists).
\<close>

record catalog =
  ctTables :: "(string \<times> column list \<times> string list) list"
  ctIndexes :: "(string \<times> string \<times> string list) list"
  ctRows :: db
  ctApplied :: "(int \<times> string \<times> time) list option"

definition empty_catalog :: catalog where
  "empty_catalog = \<lparr>ctTables = [], ctIndexes = [], ctRows = empty_db, ctApplied = None\<rparr>"

definition table_columns :: "string \<Rightarrow> catalog \<Rightarrow> (column list \<times> string list) option" where
  "table_columns t c = map_of (ctTables c) t"

text \<open>The default of a new column, written to the rows the table already has.\<close>

definition fill_column :: "string \<Rightarrow> string \<Rightarrow> db \<Rightarrow> db" where
  "fill_column t col d =
     (if t = ''users'' \<and> col = ''totp_last_counter''
      then d\<lparr>users := map (\<lambda>u. u\<lparr>uTOTPLastCounter := 0\<rparr>) (users d)\<rparr>
      else if t = ''mfa_challenges'' \<and> col = ''password_hash''
      then d\<lparr>mfa_challenges := map (\<lambda>m. m\<lparr>mPasswordHash := []\<rparr>) (mfa_challenges d)\<rparr>
      else d)"

fun exec_ddl :: "ddl \<Rightarrow> catalog \<Rightarrow> catalog option" where
  "exec_ddl (CreateTable t cols pk) c =
     (if table_columns t c \<noteq> None then Some c
      else Some (c\<lparr>ctTables := ctTables c @ [(t, cols, pk)]\<rparr>))"
| "exec_ddl (CreateIndex i t cols) c =
     (if i \<in> fst ` set (ctIndexes c) then Some c
      else case table_columns t c of
             None \<Rightarrow> None
           | Some (have_cols, _) \<Rightarrow>
               if set cols \<subseteq> fst ` set have_cols then Some (c\<lparr>ctIndexes := ctIndexes c @ [(i, t, cols)]\<rparr>)
               else None)"
| "exec_ddl (AddColumn if_not_exists t col) c =
     (case table_columns t c of
        None \<Rightarrow> None
      | Some (cols, _) \<Rightarrow>
          if fst col \<in> fst ` set cols then (if if_not_exists then Some c else None)
          else Some (c\<lparr>ctTables := map (\<lambda>(n, cs, pk). (n, if n = t then cs @ [col] else cs, pk)) (ctTables c),
                       ctRows := fill_column t (fst col) (ctRows c)\<rparr>))"
| "exec_ddl DeleteMFAChallenges c =
     (if table_columns ''mfa_challenges'' c = None then None
      else Some (c\<lparr>ctRows := (ctRows c)\<lparr>mfa_challenges := []\<rparr>\<rparr>))"

fun exec_ddls :: "ddl list \<Rightarrow> catalog \<Rightarrow> catalog option" where
  "exec_ddls [] c = Some c"
| "exec_ddls (s # ss) c = (case exec_ddl s c of None \<Rightarrow> None | Some c \<Rightarrow> exec_ddls ss c)"

section \<open>The runner\<close>

datatype mig_err =
    MigInit
  | MigCheck int
  | MigBegin int
  | MigExec int
  | MigRecord int
  | MigCommit int

record mig_world =
  mwCatalog :: catalog
  mwFaults :: "bool list"

definition mig_call :: "mig_world \<Rightarrow> bool \<times> mig_world" where
  "mig_call w = (case mwFaults w of [] \<Rightarrow> (False, w) | b # bs \<Rightarrow> (b, w\<lparr>mwFaults := bs\<rparr>))"

definition driver_name :: "string \<Rightarrow> string" where
  "driver_name driver = (if ToLower driver = ''postgresql'' then ''postgres'' else ToLower driver)"

definition migration_ddl :: "string \<Rightarrow> migration \<Rightarrow> ddl list" where
  "migration_ddl driver m = (if driver_name driver = ''postgres'' then mgPostgres m else mgSQLite m)"

definition version_applied :: "int \<Rightarrow> catalog \<Rightarrow> bool" where
  "version_applied v c = (\<exists>a \<in> set (case ctApplied c of None \<Rightarrow> [] | Some as \<Rightarrow> as). fst a = v)"

text \<open>The count of a version, asked again with the other placeholder when the first query fails.\<close>

definition check_version :: "int \<Rightarrow> mig_world \<Rightarrow> (mig_err + bool) \<times> mig_world" where
  "check_version v w = (case mig_call w of (bad, w) \<Rightarrow>
     if \<not> bad then (Inr (version_applied v (mwCatalog w)), w)
     else case mig_call w of (bad, w) \<Rightarrow>
       if \<not> bad then (Inr (version_applied v (mwCatalog w)), w) else (Inl (MigCheck v), w))"

text \<open>One migration's transaction: a failure rolls back, so the catalog is what it was.\<close>

definition apply_migration :: "string \<Rightarrow> time \<Rightarrow> migration \<Rightarrow> mig_world \<Rightarrow> (mig_err + unit) \<times> mig_world" where
  "apply_migration driver now m w =
     (let v = mgVersion m in case mig_call w of (bad, w) \<Rightarrow>
      if bad then (Inl (MigBegin v), w)
      else case mig_call w of (bad, w) \<Rightarrow>
      case (if bad then None else exec_ddls (migration_ddl driver m) (mwCatalog w)) of
        None \<Rightarrow> (Inl (MigExec v), w)
      | Some c \<Rightarrow>
          (case mig_call w of (bad, w) \<Rightarrow>
           if bad \<or> ctApplied c = None \<or> version_applied v c then (Inl (MigRecord v), w)
           else case mig_call w of (bad, w) \<Rightarrow>
             if bad then (Inl (MigCommit v), w)
             else (Inr (), w\<lparr>mwCatalog := c\<lparr>ctApplied := Some (the (ctApplied c) @ [(v, mgName m, now)])\<rparr>\<rparr>)))"

fun run_migrations :: "string \<Rightarrow> (int \<Rightarrow> time) \<Rightarrow> migration list \<Rightarrow> mig_world \<Rightarrow> (mig_err + unit) \<times> mig_world" where
  "run_migrations driver now [] w = (Inr (), w)"
| "run_migrations driver now (m # ms) w = (case check_version (mgVersion m) w of
     (Inl e, w) \<Rightarrow> (Inl e, w)
   | (Inr True, w) \<Rightarrow> run_migrations driver now ms w
   | (Inr False, w) \<Rightarrow> (case apply_migration driver (now (mgVersion m)) m w of
        (Inl e, w) \<Rightarrow> (Inl e, w)
      | (Inr _, w) \<Rightarrow> run_migrations driver now ms w))"

definition Run :: "string \<Rightarrow> (int \<Rightarrow> time) \<Rightarrow> mig_world \<Rightarrow> (mig_err + unit) \<times> mig_world" where
  "Run driver now w = (case mig_call w of (bad, w) \<Rightarrow>
     if bad then (Inl MigInit, w)
     else run_migrations driver now registry
       (w\<lparr>mwCatalog := (mwCatalog w)\<lparr>ctApplied := Some (case ctApplied (mwCatalog w) of None \<Rightarrow> [] | Some as \<Rightarrow> as)\<rparr>\<rparr>))"

section \<open>Laws\<close>

definition skeleton :: "catalog \<Rightarrow> (string \<times> column list \<times> string list) list \<times> (string \<times> string \<times> string list) list" where
  "skeleton c = (ctTables c, ctIndexes c)"

definition applied_versions :: "catalog \<Rightarrow> int list" where
  "applied_versions c = map fst (case ctApplied c of None \<Rightarrow> [] | Some as \<Rightarrow> as)"

lemma version_applied_iff: "version_applied v c \<longleftrightarrow> v \<in> set (applied_versions c)"
  by (cases "ctApplied c") (auto simp: version_applied_def applied_versions_def)

text \<open>What statements do to tables and indexes does not depend on the rows, nor on what was applied.\<close>

lemma exec_ddl_skeleton:
  assumes "skeleton c = skeleton d"
  shows "map_option skeleton (exec_ddl s c) = map_option skeleton (exec_ddl s d)"
proof -
  have "ctTables c = ctTables d" "ctIndexes c = ctIndexes d" using assms by (simp_all add: skeleton_def)
  moreover from this have "table_columns t c = table_columns t d" for t by (simp add: table_columns_def)
  ultimately show ?thesis
    by (cases s) (simp_all add: skeleton_def split_beta split: option.split)
qed

lemma exec_ddl_applied: "exec_ddl s c = Some c' \<Longrightarrow> ctApplied c' = ctApplied c"
  by (cases s) (auto split: option.splits if_splits)

lemma exec_ddls_skeleton:
  assumes "skeleton c = skeleton d"
  shows "map_option skeleton (exec_ddls ss c) = map_option skeleton (exec_ddls ss d)"
  using assms
proof (induction ss arbitrary: c d)
  case (Cons s ss)
  note one = exec_ddl_skeleton [OF Cons.prems, of s]
  show ?case
  proof (cases "exec_ddl s c")
    case None
    with one have "exec_ddl s d = None" by simp
    with None show ?thesis by simp
  next
    case (Some c')
    with one obtain d' where d': "exec_ddl s d = Some d'" "skeleton c' = skeleton d'" by (metis map_option_eq_Some)
    with Some Cons.IH [OF d'(2)] show ?thesis by simp
  qed
qed simp

lemma exec_ddls_applied: "exec_ddls ss c = Some c' \<Longrightarrow> ctApplied c' = ctApplied c"
  by (induction ss arbitrary: c) (auto split: option.splits dest: exec_ddl_applied)

lemma exec_ddls_append: "exec_ddls (ss @ ts) c = Option.bind (exec_ddls ss c) (exec_ddls ts)"
  by (induction ss arbitrary: c) (auto split: option.splits)

section \<open>Stages\<close>

text \<open>The catalog after the first \<open>k\<close> migrations of a fresh database.\<close>

definition stage_ddl :: "string \<Rightarrow> nat \<Rightarrow> ddl list" where
  "stage_ddl driver k = concat (map (migration_ddl driver) (take k registry))"

definition stage :: "string \<Rightarrow> nat \<Rightarrow> catalog option" where
  "stage driver k = exec_ddls (stage_ddl driver k) empty_catalog"

definition versions :: "nat \<Rightarrow> int list" where
  "versions k = map mgVersion (take k registry)"

lemma all_run:
  "exec_ddls (sqlite_v1 @ sqlite_v2 @ sqlite_v3 @ sqlite_v4) empty_catalog \<noteq> None"
  "exec_ddls (postgres_v1 @ postgres_v2 @ postgres_v3 @ postgres_v4) empty_catalog \<noteq> None"
  by code_simp+

lemma length_registry: "length registry = 4" by (simp add: registry_def)

lemma stage_Some:
  assumes "k \<le> 4" shows "\<exists>c. stage driver k = Some c"
proof -
  have "stage_ddl driver 4 = stage_ddl driver k @ concat (map (migration_ddl driver) (drop k registry))"
    using append_take_drop_id [of k registry] by (metis stage_ddl_def concat_append map_append length_registry order_refl take_all)
  moreover have "stage_ddl driver 4 =
      (if driver_name driver = ''postgres'' then postgres_v1 @ postgres_v2 @ postgres_v3 @ postgres_v4
       else sqlite_v1 @ sqlite_v2 @ sqlite_v3 @ sqlite_v4)"
    by (simp add: stage_ddl_def registry_def migration_ddl_def)
  ultimately have "exec_ddls (stage_ddl driver k @ concat (map (migration_ddl driver) (drop k registry))) empty_catalog \<noteq> None"
    using all_run by presburger
  then show ?thesis by (auto simp: stage_def exec_ddls_append bind_eq_Some_conv)
qed

lemma stage_Suc:
  assumes "k < 4"
  shows "Option.bind (stage driver k) (exec_ddls (migration_ddl driver (registry ! k))) = stage driver (Suc k)"
  using assms by (simp add: stage_def stage_ddl_def exec_ddls_append [symmetric] take_Suc_conv_app_nth length_registry)

definition at_stage :: "string \<Rightarrow> nat \<Rightarrow> catalog \<Rightarrow> bool" where
  "at_stage driver k c \<longleftrightarrow> k \<le> 4 \<and> map_option skeleton (stage driver k) = Some (skeleton c) \<and>
     applied_versions c = versions k"

lemma applied_iff: "at_stage driver k c \<Longrightarrow> j < 4 \<Longrightarrow> version_applied (mgVersion (registry ! j)) c \<longleftrightarrow> j < k"
  by (auto simp: at_stage_def version_applied_iff versions_def registry_def numeral_eq_Suc less_Suc_eq le_Suc_eq)

text \<open>A migration's transaction moves from one stage to the next or leaves the catalog alone.\<close>

lemma apply_migration_stage:
  assumes "at_stage driver k (mwCatalog w)" "k < 4" "ctApplied (mwCatalog w) \<noteq> None"
    and "apply_migration driver now (registry ! k) w = (r, w')"
  shows "(isl r \<and> mwCatalog w' = mwCatalog w \<and> mwFaults w \<noteq> []) \<or>
    (r = Inr () \<and> at_stage driver (Suc k) (mwCatalog w') \<and> ctApplied (mwCatalog w') \<noteq> None \<and>
     (mwFaults w = [] \<longrightarrow> mwFaults w' = []) \<and> (k = 3 \<longrightarrow> mfa_challenges (ctRows (mwCatalog w')) = []))"
proof -
  let ?m = "registry ! k"
  let ?run = "exec_ddls (migration_ddl driver ?m)"
  obtain d where d: "stage driver k = Some d" "skeleton d = skeleton (mwCatalog w)"
    using assms(1) by (auto simp: at_stage_def)
  obtain d' where d': "stage driver (Suc k) = Some d'" using stage_Some assms(2) by (metis Suc_leI)
  have "?run d = Some d'" using stage_Suc [OF assms(2), of driver] d d' by simp
  then have "map_option skeleton (?run (mwCatalog w)) = Some (skeleton d')"
    using exec_ddls_skeleton [OF d(2)] by (metis option.simps(9))
  then obtain c where c: "?run (mwCatalog w) = Some c" "skeleton c = skeleton d'" by auto
  have a: "ctApplied c = ctApplied (mwCatalog w)" using exec_ddls_applied [OF c(1)] .
  have fresh: "\<not> version_applied (mgVersion ?m) c"
    using applied_iff [OF assms(1), of k] assms(2) a by (simp add: version_applied_def)
  have last: "mfa_challenges (ctRows c) = []" if "k = 3"
    using c(1) that by (auto simp: registry_def numeral_eq_Suc migration_ddl_def sqlite_v4_def postgres_v4_def
        fill_column_def split: option.splits if_splits)
  have next_stage: "at_stage driver (Suc k) (c\<lparr>ctApplied := Some (the (ctApplied c) @ [(mgVersion ?m, mgName ?m, now)])\<rparr>)"
    using assms c a d' by (auto simp: at_stage_def skeleton_def applied_versions_def versions_def
        take_Suc_conv_app_nth length_registry)
  have "ctApplied c \<noteq> None" using a assms(3) by simp
  then show ?thesis using assms(4) c(1) fresh last next_stage
    by (auto simp: apply_migration_def Let_def mig_call_def split: list.splits if_splits)
qed

lemma check_version_cases:
  assumes "check_version v w = (r, w')"
  shows "mwCatalog w' = mwCatalog w \<and> (mwFaults w = [] \<longrightarrow> mwFaults w' = []) \<and>
    (r = Inr (version_applied v (mwCatalog w)) \<or> isl r \<and> mwFaults w \<noteq> [])"
  using assms by (auto simp: check_version_def mig_call_def split: list.splits if_splits)

lemma run_migrations_stage:
  assumes "at_stage driver k (mwCatalog w)" "ctApplied (mwCatalog w) \<noteq> None" "j \<le> k"
    and "run_migrations driver now (drop j registry) w = (r, w')"
  shows "\<exists>k'. at_stage driver k' (mwCatalog w') \<and> (isl r \<longrightarrow> mwFaults w \<noteq> []) \<and>
    (r = Inr () \<longrightarrow> k' = 4 \<and> (k < 4 \<longrightarrow> mfa_challenges (ctRows (mwCatalog w')) = []) \<and>
      (mwFaults w = [] \<longrightarrow> mwFaults w' = []))"
  using assms
proof (induction "4 - j" arbitrary: j k w)
  case 0
  then have "k = 4" by (simp add: at_stage_def)
  with 0 show ?case by (auto simp: length_registry)
next
  case (Suc n)
  then have n: "n = 4 - Suc j" by simp
  from Suc have j: "j < 4" "drop j registry = registry ! j # drop (Suc j) registry"
    by (simp_all add: Cons_nth_drop_Suc length_registry)
  obtain r1 w1 where c: "check_version (mgVersion (registry ! j)) w = (r1, w1)" by fastforce
  note C = check_version_cases [OF c]
  show ?case
  proof (cases "r1 = Inr (version_applied (mgVersion (registry ! j)) (mwCatalog w))")
    case False
    with C c Suc.prems j show ?thesis by (cases r1) auto
  next
    case r1: True
    show ?thesis
    proof (cases "j < k")
      case True
      then have "run_migrations driver now (drop (Suc j) registry) w1 = (r, w')"
        using Suc.prems c r1 j applied_iff [OF Suc.prems(1) j(1)] by simp
      from Suc.hyps(1) [OF n _ _ _ this, of k] show ?thesis
        using Suc.prems(1,2) C True by fastforce
    next
      case False
      with Suc.prems(3) have k: "k = j" by simp
      obtain r2 w2 where a: "apply_migration driver (now (mgVersion (registry ! j))) (registry ! j) w1 = (r2, w2)"
        by fastforce
      have A: "isl r2 \<and> mwCatalog w2 = mwCatalog w1 \<and> mwFaults w1 \<noteq> [] \<or>
        r2 = Inr () \<and> at_stage driver (Suc j) (mwCatalog w2) \<and> ctApplied (mwCatalog w2) \<noteq> None \<and>
        (mwFaults w1 = [] \<longrightarrow> mwFaults w2 = []) \<and> (j = 3 \<longrightarrow> mfa_challenges (ctRows (mwCatalog w2)) = [])"
        using apply_migration_stage [OF _ j(1) _ a] Suc.prems C k by simp
      have run: "run_migrations driver now (drop j registry) w =
          (case r2 of Inl e \<Rightarrow> (Inl e, w2) | Inr _ \<Rightarrow> run_migrations driver now (drop (Suc j) registry) w2)"
        using c r1 j a k applied_iff [OF Suc.prems(1) j(1)] by (simp split: sum.split)
      show ?thesis
      proof (cases r2)
        case (Inl e)
        with A run Suc.prems C show ?thesis by auto
      next
        case (Inr u)
        with run Suc.prems have more: "run_migrations driver now (drop (Suc j) registry) w2 = (r, w')" by simp
        from Inr A have "at_stage driver (Suc j) (mwCatalog w2)" "ctApplied (mwCatalog w2) \<noteq> None"
          "mwFaults w1 = [] \<longrightarrow> mwFaults w2 = []" "j = 3 \<longrightarrow> mfa_challenges (ctRows (mwCatalog w2)) = []" by auto
        moreover have "j = 3 \<Longrightarrow> mwCatalog w' = mwCatalog w2" using more by (simp add: length_registry)
        ultimately show ?thesis
          using Suc.hyps(1) [OF n _ _ _ more, of "Suc j"] C k j(1) by fastforce
      qed
    qed
  qed
qed

section \<open>Runs over the life of a database\<close>

text \<open>A database that any number of runs, failed or not, and any writes to its rows led to.\<close>

inductive mig_reachable :: "string \<Rightarrow> catalog \<Rightarrow> bool" for driver :: string where
  fresh: "mig_reachable driver empty_catalog"
| ran: "mig_reachable driver c \<Longrightarrow>
     mig_reachable driver (mwCatalog (snd (Run driver now \<lparr>mwCatalog = c, mwFaults = fs\<rparr>)))"
| rows: "mig_reachable driver c \<Longrightarrow> mig_reachable driver (c\<lparr>ctRows := d\<rparr>)"

lemma Run_stage:
  assumes "at_stage driver k (mwCatalog w)" "Run driver now w = (r, w')"
  shows "\<exists>k'. at_stage driver k' (mwCatalog w') \<and> (isl r \<longrightarrow> mwFaults w \<noteq> []) \<and>
    (r = Inr () \<longrightarrow> k' = 4 \<and> (k < 4 \<longrightarrow> mfa_challenges (ctRows (mwCatalog w')) = []) \<and>
      (mwFaults w = [] \<longrightarrow> mwFaults w' = []))"
proof -
  obtain bad w1 where m: "mig_call w = (bad, w1)" by fastforce
  then have w1: "mwCatalog w1 = mwCatalog w" "mwFaults w = [] \<longrightarrow> \<not> bad \<and> mwFaults w1 = []"
    by (auto simp: mig_call_def split: list.splits)
  let ?w = "w1\<lparr>mwCatalog := (mwCatalog w1)\<lparr>ctApplied := Some (case ctApplied (mwCatalog w1) of None \<Rightarrow> [] | Some as \<Rightarrow> as)\<rparr>\<rparr>"
  show ?thesis
  proof (cases bad)
    case True
    with m w1 assms show ?thesis by (auto simp: Run_def)
  next
    case False
    with m assms(2) have run: "run_migrations driver now (drop 0 registry) ?w = (r, w')" by (simp add: Run_def)
    have "at_stage driver k (mwCatalog ?w)"
      using assms(1) w1(1) by (auto simp: at_stage_def skeleton_def applied_versions_def split: option.splits)
    from run_migrations_stage [OF this _ _ run] w1(2) show ?thesis by fastforce
  qed
qed

lemma reachable_stage: "mig_reachable driver c \<Longrightarrow> \<exists>k. at_stage driver k c"
proof (induction rule: mig_reachable.induct)
  case fresh
  then show ?case
    by (auto intro!: exI [of _ 0] simp: at_stage_def stage_def stage_ddl_def versions_def applied_versions_def empty_catalog_def)
next
  case (ran c now fs)
  then obtain k where "at_stage driver k c" by blast
  then show ?case using Run_stage [of driver k "\<lparr>mwCatalog = c, mwFaults = fs\<rparr>" now] by (metis mig_world.select_convs(1) prod.collapse)
next
  case (rows c d)
  then show ?case by (auto simp: at_stage_def skeleton_def applied_versions_def)
qed

text \<open>
  What two catalogs have in common whatever the driver's types: tables, columns, keys,
  uniqueness, references and indexes. Booleans are integers in SQLite.
\<close>

definition same_literal :: "literal \<Rightarrow> literal" where
  "same_literal l = (case l of DBool b \<Rightarrow> DInt (if b then 1 else 0) | _ \<Rightarrow> l)"

definition attr_shape :: "attr \<Rightarrow> attr list" where
  "attr_shape a = (case a of Autoincrement \<Rightarrow> [] | Default l \<Rightarrow> [Default (same_literal l)] | _ \<Rightarrow> [a])"

definition catalog_shape :: "catalog \<Rightarrow> (string \<times> (string \<times> attr list) list \<times> string list) list \<times> (string \<times> string \<times> string list) list" where
  "catalog_shape c =
     (map (\<lambda>(t, cols, pk). (t, map (\<lambda>(n, ty, as). (n, concat (map attr_shape as))) cols, pk)) (ctTables c), ctIndexes c)"

lemma final_shapes:
  "map_option catalog_shape (exec_ddls (sqlite_v1 @ sqlite_v2 @ sqlite_v3 @ sqlite_v4) empty_catalog) =
   map_option catalog_shape (exec_ddls (postgres_v1 @ postgres_v2 @ postgres_v3 @ postgres_v4) empty_catalog)"
  by code_simp

section \<open>Properties\<close>

text \<open>C28: whatever runs, complete, failed at any call or interrupted between migrations, and
  whatever rows a database has been through, a run whose calls succeed completes: all four
  migrations are recorded, once and in order, the tables and indexes are those of a fresh
  database, and a run that reports success reached that state even if calls failed on the way;
  if version 4 was still pending, no MFA challenge without a password snapshot is left.\<close>

theorem migrations_resume:
  assumes "mig_reachable driver c"
  shows "(\<exists>c'. Run driver now \<lparr>mwCatalog = c, mwFaults = []\<rparr> = (Inr (), \<lparr>mwCatalog = c', mwFaults = []\<rparr>) \<and>
      applied_versions c' = [1, 2, 3, 4] \<and> Some (skeleton c') = map_option skeleton (stage driver 4) \<and>
      (version_applied 4 c \<or> mfa_challenges (ctRows c') = [])) \<and>
    (\<forall>fs w. Run driver now \<lparr>mwCatalog = c, mwFaults = fs\<rparr> = (Inr (), w) \<longrightarrow>
      applied_versions (mwCatalog w) = [1, 2, 3, 4] \<and>
      Some (skeleton (mwCatalog w)) = map_option skeleton (stage driver 4))"
proof -
  have v4: "versions 4 = [1, 2, 3, 4]" by (simp add: versions_def registry_def)
  obtain k where k: "at_stage driver k c" using reachable_stage [OF assms] by blast
  have pending: "version_applied 4 c \<longleftrightarrow> 3 < k" using applied_iff [OF k, of 3] by (simp add: registry_def)
  obtain r w' where run: "Run driver now \<lparr>mwCatalog = c, mwFaults = []\<rparr> = (r, w')" by fastforce
  have r: "r = Inr ()" using Run_stage [OF _ run, of k] k by (cases r) auto
  have "\<exists>c'. Run driver now \<lparr>mwCatalog = c, mwFaults = []\<rparr> = (Inr (), \<lparr>mwCatalog = c', mwFaults = []\<rparr>) \<and>
      applied_versions c' = [1, 2, 3, 4] \<and> Some (skeleton c') = map_option skeleton (stage driver 4) \<and>
      (version_applied 4 c \<or> mfa_challenges (ctRows c') = [])"
    using Run_stage [OF _ run, of k] k run r pending v4
    by (intro exI [of _ "mwCatalog w'"]) (auto simp: at_stage_def)
  moreover have "applied_versions (mwCatalog w) = [1, 2, 3, 4] \<and> Some (skeleton (mwCatalog w)) = map_option skeleton (stage driver 4)"
    if "Run driver now \<lparr>mwCatalog = c, mwFaults = fs\<rparr> = (Inr (), w)" for fs w
    using Run_stage [OF _ that, of k] k v4 by (auto simp: at_stage_def)
  ultimately show ?thesis by blast
qed

theorem migrations_resume_witness:
  "\<exists>c'. Run ''sqlite'' (\<lambda>_. 0) \<lparr>mwCatalog = mwCatalog (snd (Run ''sqlite'' (\<lambda>_. 0)
       \<lparr>mwCatalog = empty_catalog, mwFaults = replicate 7 False @ [True, True]\<rparr>)), mwFaults = []\<rparr> =
     (Inr (), \<lparr>mwCatalog = c', mwFaults = []\<rparr>)"
  using migrations_resume [OF mig_reachable.ran [OF mig_reachable.fresh]] by blast


end
