(* ===== verification/Go_Base64.thy ===== *)
theory Go_Base64
  imports Go_Text
begin

text \<open>
  What the program uses of \<^verbatim>\<open>encoding/base64\<close>: the padded standard alphabet with its raw
  variant (PoW solutions) and the raw URL alphabet (ciphertexts, random tokens). Decoding
  skips line breaks and does not look at the unused bits of the last character.
\<close>

section \<open>Alphabets\<close>

datatype alphabet = StdAlphabet | URLAlphabet

definition b64_char :: "alphabet \<Rightarrow> int \<Rightarrow> char" where
  "b64_char al n =
     (if n < 26 then char_of (65 + n) else if n < 52 then char_of (71 + n)
      else if n < 62 then char_of (n - 4)
      else case al of StdAlphabet \<Rightarrow> if n = 62 then CHR ''+'' else CHR ''/''
                    | URLAlphabet \<Rightarrow> if n = 62 then CHR ''-'' else CHR ''_'')"

definition b64_val :: "alphabet \<Rightarrow> char \<Rightarrow> int option" where
  "b64_val al c =
     (let n = of_char c :: int
      in if 65 \<le> n \<and> n \<le> 90 then Some (n - 65) else if 97 \<le> n \<and> n \<le> 122 then Some (n - 71)
         else if 48 \<le> n \<and> n \<le> 57 then Some (n + 4)
         else case al of
                StdAlphabet \<Rightarrow> if c = CHR ''+'' then Some 62 else if c = CHR ''/'' then Some 63 else None
              | URLAlphabet \<Rightarrow> if c = CHR ''-'' then Some 62 else if c = CHR ''_'' then Some 63 else None)"

section \<open>Encoding and decoding\<close>

fun sextets :: "int list \<Rightarrow> int list" where
  "sextets [] = []"
| "sextets [a] = [a div 4, a mod 4 * 16]"
| "sextets [a, b] = [a div 4, a mod 4 * 16 + b div 16, b mod 16 * 4]"
| "sextets (a # b # c # s) =
     [a div 4, a mod 4 * 16 + b div 16, b mod 16 * 4 + c div 64, c mod 64] @ sextets s"

fun octets :: "int list \<Rightarrow> (int list) option" where
  "octets [] = Some []"
| "octets [w] = None"
| "octets [w, x] = Some [w * 4 + x div 16]"
| "octets [w, x, y] = Some [w * 4 + x div 16, x mod 16 * 16 + y div 4]"
| "octets (w # x # y # z # s) =
     map_option ((@) [w * 4 + x div 16, x mod 16 * 16 + y div 4, y mod 4 * 64 + z]) (octets s)"

definition RawEncode :: "alphabet \<Rightarrow> string \<Rightarrow> string" where
  "RawEncode al s = map (b64_char al) (sextets (map of_char s))"

fun vals :: "alphabet \<Rightarrow> string \<Rightarrow> (int list) option" where
  "vals al [] = Some []"
| "vals al (c # s) = (case b64_val al c of None \<Rightarrow> None | Some n \<Rightarrow> map_option ((#) n) (vals al s))"

definition without_breaks :: "string \<Rightarrow> string" where
  "without_breaks s = filter (\<lambda>c. c \<noteq> CHR 0x0A \<and> c \<noteq> CHR 0x0D) s"

definition RawDecode :: "alphabet \<Rightarrow> string \<Rightarrow> string option" where
  "RawDecode al s = (case vals al (without_breaks s) of
     None \<Rightarrow> None | Some ns \<Rightarrow> map_option (map char_of) (octets ns))"

definition strip_padding :: "string \<Rightarrow> string" where
  "strip_padding s =
     (if s \<noteq> [] \<and> last s = CHR ''='' then
        (if butlast s \<noteq> [] \<and> last (butlast s) = CHR ''='' then butlast (butlast s) else butlast s)
      else s)"

definition StdDecode :: "string \<Rightarrow> string option" where
  "StdDecode s = (let s = without_breaks s
     in if length s mod 4 \<noteq> 0 then None else RawDecode StdAlphabet (strip_padding s))"

text \<open>The padded encoder, which a client uses.\<close>

definition StdEncode :: "string \<Rightarrow> string" where
  "StdEncode s = (let e = RawEncode StdAlphabet s in e @ replicate ((4 - length e mod 4) mod 4) (CHR ''=''))"

section \<open>Round trip\<close>

lemma of_char_b64_char:
  "0 \<le> n \<Longrightarrow> n < 62 \<Longrightarrow> of_char (b64_char al n) = (if n < 26 then 65 + n else if n < 52 then 71 + n else n - 4)"
  by (auto simp: b64_char_def)

lemma b64_val_char:
  assumes "0 \<le> n" "n < 64"
  shows "b64_val al (b64_char al n) = Some n"
proof (cases "n < 62")
  case True
  with assms of_char_b64_char [of n al] show ?thesis
    by (cases "n < 26"; cases "n < 52") (auto simp: b64_val_def Let_def)
next
  case False
  with assms have "n = 62 \<or> n = 63" by arith
  then show ?thesis by (cases al) (auto simp: b64_val_def b64_char_def Let_def)
qed

definition in_range :: "int \<Rightarrow> int list \<Rightarrow> bool" where
  "in_range m ns \<longleftrightarrow> (\<forall>n \<in> set ns. 0 \<le> n \<and> n < m)"

lemma in_range_simps [simp]:
  "in_range m []" "in_range m (n # ns) \<longleftrightarrow> 0 \<le> n \<and> n < m \<and> in_range m ns"
  by (auto simp: in_range_def)

lemma vals_encode: "in_range 64 ns \<Longrightarrow> vals al (map (b64_char al) ns) = Some ns"
  by (induction ns) (simp_all add: b64_val_char)

lemma sextets_bound: "in_range 256 ns \<Longrightarrow> in_range 64 (sextets ns)"
  by (induction ns rule: sextets.induct) (auto; linarith)+

lemma octets_sextets: "in_range 256 ns \<Longrightarrow> octets (sextets ns) = Some ns"
proof (induction ns rule: sextets.induct)
  case (4 a b c s)
  have "(a mod 4 * 16 + b div 16) div 16 = a mod 4" "(a mod 4 * 16 + b div 16) mod 16 = b div 16"
    "(b mod 16 * 4 + c div 64) div 4 = b mod 16" "(b mod 16 * 4 + c div 64) mod 4 = c div 64"
    using 4(2) by auto
  with 4 show ?case by simp
next
  case (3 a b)
  have "(a mod 4 * 16 + b div 16) div 16 = a mod 4" "(a mod 4 * 16 + b div 16) mod 16 = b div 16"
    using 3 by auto
  then show ?case by simp
qed simp_all

lemma b64_char_no_break:
  assumes "0 \<le> n" "n < 64"
  shows "b64_char al n \<noteq> CHR 0x0A" "b64_char al n \<noteq> CHR 0x0D" "b64_char al n \<noteq> CHR ''=''"
  using b64_val_char [OF assms, of al] by (auto simp: b64_val_def Let_def split: alphabet.splits)

lemma without_breaks_encode:
  "in_range 64 ns \<Longrightarrow> without_breaks (map (b64_char al) ns) = map (b64_char al) ns"
  by (induction ns) (simp_all add: without_breaks_def b64_char_no_break)

lemma bytes_in_range: "in_range 256 (map of_char s)"
proof (induction s)
  case (Cons c s)
  have "(of_char c :: int) = int (of_char c)" by (rule of_nat_of_char [symmetric])
  with Cons of_char_less_256 [of c] show ?case by simp
qed simp

theorem RawDecode_RawEncode: "RawDecode al (RawEncode al s) = Some s"
proof -
  have "in_range 64 (sextets (map of_char s))" by (rule sextets_bound [OF bytes_in_range])
  then show ?thesis
    by (simp add: RawDecode_def RawEncode_def without_breaks_encode vals_encode
        octets_sextets [OF bytes_in_range] comp_def)
qed

lemma length_sextets: "length (sextets ns) mod 4 \<noteq> 1"
  by (induction ns rule: sextets.induct) auto

lemma strip_padding_replicate:
  assumes "CHR ''='' \<notin> set e" "k \<le> 2"
  shows "strip_padding (e @ replicate k (CHR ''='')) = e"
proof -
  have "e = [] \<or> last e \<noteq> CHR ''=''" using assms(1) by (metis last_in_set)
  moreover have "k = 0 \<or> k = 1 \<or> k = 2" using assms(2) by arith
  ultimately show ?thesis by (auto simp: strip_padding_def butlast_append numeral_2_eq_2)
qed

lemma padding_length:
  assumes "n mod 4 \<noteq> (1 :: nat)"
  shows "(4 - n mod 4) mod 4 \<le> 2" "(n + (4 - n mod 4) mod 4) mod 4 = 0"
proof -
  obtain q r where n: "n = 4 * q + r" "r < 4" using mult_div_mod_eq [of 4 n] by (metis mod_less_divisor zero_less_numeral)
  with assms have "r = 0 \<or> r = 2 \<or> r = 3" by auto
  with n show "(4 - n mod 4) mod 4 \<le> 2" "(n + (4 - n mod 4) mod 4) mod 4 = 0" by auto
qed

theorem StdDecode_StdEncode: "StdDecode (StdEncode s) = Some s"
proof -
  let ?ns = "sextets (map of_char s)" and ?e = "RawEncode StdAlphabet s"
  let ?k = "(4 - length ?e mod 4) mod 4"
  have small: "in_range 64 ?ns" by (rule sextets_bound [OF bytes_in_range])
  then have wb: "without_breaks ?e = ?e" by (simp add: RawEncode_def without_breaks_encode)
  have noeq: "CHR ''='' \<notin> set ?e"
  proof
    assume "CHR ''='' \<in> set ?e"
    then obtain n where "n \<in> set ?ns" "b64_char StdAlphabet n = CHR ''=''" by (auto simp: RawEncode_def)
    with small b64_char_no_break(3) [of n StdAlphabet] show False by (simp add: in_range_def)
  qed
  have "length ?e mod 4 \<noteq> 1" using length_sextets by (simp add: RawEncode_def)
  then have k: "?k \<le> 2" "(length ?e + ?k) mod 4 = 0" by (rule padding_length)+
  have "without_breaks (StdEncode s) = ?e @ replicate ?k (CHR ''='')"
    unfolding StdEncode_def Let_def without_breaks_def filter_append
    using wb [unfolded without_breaks_def] by simp
  then show ?thesis
    using k strip_padding_replicate [OF noeq k(1)]
    by (simp only: StdDecode_def Let_def RawDecode_RawEncode length_append length_replicate) simp
qed

end
