(* ===== verification/Auth_Crypto.thy ===== *)
theory Auth_Crypto
  imports Go_Base64
begin

text \<open>
  \<^verbatim>\<open>internal/crypto\<close> over the primitives of Go's \<^verbatim>\<open>crypto/...\<close> packages and of the
  \<^verbatim>\<open>ky-primitives\<close> module, which are parameters: the record \<open>prims\<close> holds one function per
  primitive and the laws they are documented to obey are named predicates. Random bytes are
  arguments; where reading them may fail they are an option.
\<close>

section \<open>Primitives\<close>

record prims =
  sha256 :: "string \<Rightarrow> string"
  hmac_sha256 :: "string \<Rightarrow> string \<Rightarrow> string"
  gcm_seal :: "string \<Rightarrow> string \<Rightarrow> string \<Rightarrow> string"
  gcm_open :: "string \<Rightarrow> string \<Rightarrow> string \<Rightarrow> string option"
  pw_verify :: "string \<Rightarrow> string \<Rightarrow> bool option"
  pw_hash :: "string \<Rightarrow> string \<Rightarrow> string option"
  totp_validate :: "string \<Rightarrow> string \<Rightarrow> int \<Rightarrow> int option"
  rc_match :: "string \<Rightarrow> string list \<Rightarrow> (string \<Rightarrow> string) \<Rightarrow> nat option"
  rc_normalize :: "string \<Rightarrow> string"

text \<open>SHA-256 and HMAC-SHA256 give 32 bytes.\<close>

definition digest_size :: "prims \<Rightarrow> bool" where
  "digest_size pr \<longleftrightarrow> (\<forall>m. length (sha256 pr m) = 32) \<and> (\<forall>k m. length (hmac_sha256 pr k m) = 32)"

text \<open>No two messages the program handles share a digest, or a MAC under one key.\<close>

definition collision_free :: "prims \<Rightarrow> bool" where
  "collision_free pr \<longleftrightarrow> inj (sha256 pr)"

definition mac_collision_free :: "prims \<Rightarrow> string \<Rightarrow> bool" where
  "mac_collision_free pr k \<longleftrightarrow> inj (hmac_sha256 pr k)"

text \<open>Opening with the key and the nonce of the seal gives the plaintext back.\<close>

definition gcm_correct :: "prims \<Rightarrow> bool" where
  "gcm_correct pr \<longleftrightarrow> (\<forall>k n m. length k = 32 \<longrightarrow> length n = 12 \<longrightarrow>
     gcm_open pr k n (gcm_seal pr k n m) = Some m)"

text \<open>
  Concrete primitives for evaluating the program on an input: digests that keep their
  message, a cipher that does not hide it, codes compared as they are typed.
\<close>

fun first_index :: "('a \<Rightarrow> bool) \<Rightarrow> 'a list \<Rightarrow> nat option" where
  "first_index p [] = None"
| "first_index p (x # xs) = (if p x then Some 0 else map_option Suc (first_index p xs))"

definition clear_prims :: prims where
  "clear_prims = \<lparr>sha256 = id, hmac_sha256 = (\<lambda>k m. m), gcm_seal = (\<lambda>k n m. m),
     gcm_open = (\<lambda>k n c. Some c), pw_verify = (\<lambda>p h. Some (h = p)), pw_hash = (\<lambda>salt p. Some p),
     totp_validate = (\<lambda>secret code now. if code = secret then Some (now div (30 * Second)) else None),
     rc_match = (\<lambda>code ds h. first_index (\<lambda>d. d = h code) ds), rc_normalize = id\<rparr>"

definition pad32 :: "string \<Rightarrow> string" where
  "pad32 s = take 32 (s @ replicate 32 (CHR 0x00))"

definition sized_prims :: prims where
  "sized_prims = clear_prims\<lparr>sha256 := pad32, hmac_sha256 := (\<lambda>k m. pad32 m)\<rparr>"

lemma clear_prims_laws:
  "collision_free clear_prims" "mac_collision_free clear_prims k" "gcm_correct clear_prims"
  by (simp_all add: collision_free_def mac_collision_free_def gcm_correct_def clear_prims_def inj_def)

lemma sized_prims_laws: "digest_size sized_prims" "gcm_correct sized_prims"
  by (auto simp: digest_size_def gcm_correct_def sized_prims_def clear_prims_def pad32_def)

section \<open>AES-256-GCM\<close>

datatype crypto_err = ErrKeyLength | ErrCiphertextTooShort | ErrDecode | ErrOpen | ErrRand

definition newGCM :: "string \<Rightarrow> crypto_err + unit" where
  "newGCM key = (if length key \<noteq> 32 then Inl ErrKeyLength else Inr ())"

definition EncryptAESGCM :: "prims \<Rightarrow> string option \<Rightarrow> string \<Rightarrow> string \<Rightarrow> crypto_err + string" where
  "EncryptAESGCM pr nonce plaintext key =
     (case newGCM key of
        Inl e \<Rightarrow> Inl e
      | Inr _ \<Rightarrow> (case nonce of
            None \<Rightarrow> Inl ErrRand
          | Some nonce \<Rightarrow> Inr (RawEncode URLAlphabet (nonce @ gcm_seal pr key nonce plaintext))))"

definition DecryptAESGCM :: "prims \<Rightarrow> string \<Rightarrow> string \<Rightarrow> crypto_err + string" where
  "DecryptAESGCM pr encoded key =
     (case newGCM key of
        Inl e \<Rightarrow> Inl e
      | Inr _ \<Rightarrow> (case RawDecode URLAlphabet encoded of
            None \<Rightarrow> Inl ErrDecode
          | Some data \<Rightarrow>
              if length data < 12 then Inl ErrCiphertextTooShort
              else (case gcm_open pr key (take 12 data) (drop 12 data) of
                      None \<Rightarrow> Inl ErrOpen | Some m \<Rightarrow> Inr m)))"

definition DeriveKey :: "prims \<Rightarrow> string \<Rightarrow> string \<Rightarrow> string" where
  "DeriveKey pr master label = hmac_sha256 pr master label"

section \<open>Digests and random tokens\<close>

definition ComputeHMACSHA256 :: "prims \<Rightarrow> string \<Rightarrow> string \<Rightarrow> string" where
  "ComputeHMACSHA256 pr data secret = hex_encode (hmac_sha256 pr secret data)"

text \<open>\<^verbatim>\<open>subtle.ConstantTimeCompare\<close> is equality of the two byte strings.\<close>

definition VerifyHMACSHA256 :: "prims \<Rightarrow> string \<Rightarrow> string \<Rightarrow> string \<Rightarrow> bool" where
  "VerifyHMACSHA256 pr data secret expectedHex \<longleftrightarrow> ComputeHMACSHA256 pr data secret = expectedHex"

definition SHA256Hex :: "prims \<Rightarrow> string \<Rightarrow> string" where
  "SHA256Hex pr data = hex_encode (sha256 pr data)"

definition RandomHex :: "string \<Rightarrow> string" where
  "RandomHex bytes = hex_encode bytes"

definition RandomBase64URL :: "string \<Rightarrow> string" where
  "RandomBase64URL bytes = RawEncode URLAlphabet bytes"

definition GeneratePKCE :: "prims \<Rightarrow> string option \<Rightarrow> (string \<times> string) option" where
  "GeneratePKCE pr bytes = (case bytes of
     None \<Rightarrow> None
   | Some b \<Rightarrow> (let verifier = RawEncode URLAlphabet b
               in Some (verifier, RawEncode URLAlphabet (sha256 pr verifier))))"

section \<open>Laws\<close>

lemma SHA256Hex_inject: "collision_free pr \<Longrightarrow> SHA256Hex pr a = SHA256Hex pr b \<longleftrightarrow> a = b"
  by (auto simp: SHA256Hex_def hex_encode_inject collision_free_def dest: injD)

lemma SHA256Hex_nonempty: "digest_size pr \<Longrightarrow> SHA256Hex pr a \<noteq> []"
  using length_hex_encode [of "sha256 pr a"] by (auto simp: SHA256Hex_def digest_size_def)

lemma VerifyHMAC_inject:
  "mac_collision_free pr k \<Longrightarrow> VerifyHMACSHA256 pr a k (ComputeHMACSHA256 pr b k) \<longleftrightarrow> a = b"
  by (auto simp: VerifyHMACSHA256_def ComputeHMACSHA256_def hex_encode_inject mac_collision_free_def
      dest: injD)

lemma encrypt_decrypt:
  assumes "gcm_correct pr" "length nonce = 12" "EncryptAESGCM pr (Some nonce) m key = Inr c"
  shows "DecryptAESGCM pr c key = Inr m"
  using assms by (auto simp: EncryptAESGCM_def DecryptAESGCM_def newGCM_def RawDecode_RawEncode
      gcm_correct_def split: if_splits)

end
