(* ===== verification/Go_Netip.thy ===== *)
theory Go_Netip
  imports Go_Text "HOL-Library.Word"
begin

text \<open>
  What the program uses of \<^verbatim>\<open>net/netip\<close> and \<^verbatim>\<open>net\<close>: addresses with their textual forms,
  prefixes, and \<^verbatim>\<open>net.SplitHostPort\<close>. An IPv4 address is a 32-bit word; an IPv6 address is a
  128-bit word with its zone, empty for none.
\<close>

unbundle bit_operations_syntax

datatype addr = V4 "32 word" | V6 "128 word" string

definition BitLen :: "addr \<Rightarrow> nat" where
  "BitLen a = (case a of V4 _ \<Rightarrow> 32 | V6 _ _ \<Rightarrow> 128)"

definition hasZone :: "addr \<Rightarrow> bool" where
  "hasZone a = (case a of V4 _ \<Rightarrow> False | V6 _ z \<Rightarrow> z \<noteq> [])"

definition Is4In6 :: "addr \<Rightarrow> bool" where
  "Is4In6 a = (case a of V4 _ \<Rightarrow> False | V6 x _ \<Rightarrow> drop_bit 32 x = 0xFFFF)"

definition Unmap :: "addr \<Rightarrow> addr" where
  "Unmap a = (case a of V4 _ \<Rightarrow> a | V6 x _ \<Rightarrow> if Is4In6 a then V4 (ucast x) else a)"

section \<open>Parsing an address\<close>

definition dec_digit :: "char \<Rightarrow> bool" where
  "dec_digit c \<longleftrightarrow> (48 :: nat) \<le> of_char c \<and> of_char c \<le> (57 :: nat)"

definition dec_val :: "string \<Rightarrow> int" where
  "dec_val s = foldl (\<lambda>n c. 10 * n + (of_char c - 48)) 0 s"

text \<open>One field of a dotted quad: digits without a leading zero, at most 255.\<close>

definition octet :: "string \<Rightarrow> int option" where
  "octet s = (if s \<noteq> [] \<and> list_all dec_digit s \<and> (hd s = CHR ''0'' \<longrightarrow> s = ''0'') \<and> dec_val s \<le> 255
     then Some (dec_val s) else None)"

definition bytes_val :: "int list \<Rightarrow> int" where
  "bytes_val bs = foldl (\<lambda>n b. 256 * n + b) 0 bs"

definition parseIPv4Fields :: "string \<Rightarrow> (int list) option" where
  "parseIPv4Fields s = (case map octet (Split (CHR ''.'') s) of
     [Some a, Some b, Some c, Some d] \<Rightarrow> Some [a, b, c, d] | _ \<Rightarrow> None)"

definition parseIPv4 :: "string \<Rightarrow> addr option" where
  "parseIPv4 s = map_option (\<lambda>bs. V4 (word_of_int (bytes_val bs))) (parseIPv4Fields s)"

definition hex_digit_val :: "char \<Rightarrow> int option" where
  "hex_digit_val c = (let n = of_char c in
     if 48 \<le> n \<and> n \<le> (57 :: int) then Some (n - 48)
     else if 97 \<le> n \<and> n \<le> 102 then Some (n - 87)
     else if 65 \<le> n \<and> n \<le> 70 then Some (n - 55) else None)"

text \<open>The hexadecimal digits a text starts with, and the rest.\<close>

definition hex_run :: "string \<Rightarrow> string \<times> string" where
  "hex_run s = (takeWhile (\<lambda>c. hex_digit_val c \<noteq> None) s, dropWhile (\<lambda>c. hex_digit_val c \<noteq> None) s)"

definition hex_num :: "string \<Rightarrow> int" where
  "hex_num s = foldl (\<lambda>n c. 16 * n + the (hex_digit_val c)) 0 s"

text \<open>
  The loop of \<^verbatim>\<open>parseIPv6\<close>: the bytes read so far, the position of the ellipsis, the text left.
  It ends with the bytes, the ellipsis and what was not used.
\<close>

function ipv6_fields :: "int list \<Rightarrow> nat option \<Rightarrow> string \<Rightarrow> (int list \<times> nat option \<times> string) option" where
  "ipv6_fields bs ell s =
     (if length bs \<ge> 16 then Some (bs, ell, s)
      else let (ds, rest) = hex_run s
      in if length ds > 4 \<or> ds = [] then None
         else if rest \<noteq> [] \<and> hd rest = CHR ''.'' then
           (if ell = None \<and> length bs \<noteq> 12 \<or> length bs + 4 > 16 then None
            else map_option (\<lambda>f. (bs @ f, ell, [])) (parseIPv4Fields s))
         else (let bs = bs @ [hex_num ds div 256, hex_num ds mod 256]
               in case rest of
                    [] \<Rightarrow> Some (bs, ell, [])
                  | c # rest \<Rightarrow>
                      if c \<noteq> CHR '':'' \<or> rest = [] then None
                      else if hd rest = CHR '':'' then
                        (if ell \<noteq> None then None
                         else if tl rest = [] then Some (bs, Some (length bs), [])
                         else ipv6_fields bs (Some (length bs)) (tl rest))
                      else ipv6_fields bs ell rest))"
  by pat_completeness auto
termination
  by (relation "measure (\<lambda>(bs, ell, s). 16 - length bs)") auto

declare ipv6_fields.simps [simp del]

definition split_zone :: "string \<Rightarrow> string \<times> (string option)" where
  "split_zone s = (if CHR ''%'' \<in> set s
     then (takeWhile (\<lambda>c. c \<noteq> CHR ''%'') s, Some (tl (dropWhile (\<lambda>c. c \<noteq> CHR ''%'') s)))
     else (s, None))"

definition expand_ellipsis :: "int list \<Rightarrow> nat option \<Rightarrow> (int list) option" where
  "expand_ellipsis bs ell =
     (if length bs < 16
      then (case ell of None \<Rightarrow> None
            | Some e \<Rightarrow> Some (take e bs @ replicate (16 - length bs) 0 @ drop e bs))
      else if ell \<noteq> None then None else Some bs)"

definition parseIPv6 :: "string \<Rightarrow> addr option" where
  "parseIPv6 s =
     (case split_zone s of (s, zone) \<Rightarrow>
      if zone = Some [] then None
      else let z = (case zone of None \<Rightarrow> [] | Some z \<Rightarrow> z)
      in if s = ''::'' then Some (V6 0 z)
         else (case (if HasPrefix s ''::'' then ipv6_fields [] (Some 0) (drop 2 s)
                     else ipv6_fields [] None s) of
                 None \<Rightarrow> None
               | Some (bs, ell, rest) \<Rightarrow>
                   if rest \<noteq> [] then None
                   else map_option (\<lambda>bs. V6 (word_of_int (bytes_val bs)) z) (expand_ellipsis bs ell)))"

text \<open>The first dot, colon or percent sign decides the family.\<close>

definition ParseAddr :: "string \<Rightarrow> addr option" where
  "ParseAddr s = (case find (\<lambda>c. c = CHR ''.'' \<or> c = CHR '':'' \<or> c = CHR ''%'') s of
     None \<Rightarrow> None
   | Some c \<Rightarrow> if c = CHR ''.'' then parseIPv4 s else if c = CHR '':'' then parseIPv6 s else None)"

section \<open>Printing an address\<close>

definition v4_string :: "32 word \<Rightarrow> string" where
  "v4_string x = Join (map (\<lambda>k. Itoa (uint (drop_bit k x AND 0xFF))) [24, 16, 8, 0]) ''.''"

text \<open>A group of 16 bits in hexadecimal, without leading zeros.\<close>

definition hex16 :: "int \<Rightarrow> string" where
  "hex16 n = (let ds = map (\<lambda>k. digit_char (nat (n div k mod 16))) [4096, 256, 16];
                  short = dropWhile (\<lambda>c. c = CHR ''0'') ds
              in short @ [digit_char (nat (n mod 16))])"

definition v6_groups :: "128 word \<Rightarrow> int list" where
  "v6_groups x = map (\<lambda>k. uint (drop_bit k x AND 0xFFFF)) [112, 96, 80, 64, 48, 32, 16, 0]"

text \<open>The first longest run of two zero groups or more: its start and its length.\<close>

fun zero_run :: "nat \<Rightarrow> int list \<Rightarrow> (nat \<times> nat) option" where
  "zero_run i [] = None"
| "zero_run i (g # gs) =
     (let l = length (takeWhile (\<lambda>g. g = 0) (g # gs))
      in case zero_run (i + 1) gs of
           None \<Rightarrow> if l \<ge> 2 then Some (i, l) else None
         | Some (j, m) \<Rightarrow> if l \<ge> 2 \<and> l \<ge> m then Some (i, l) else Some (j, m))"

definition v6_string :: "128 word \<Rightarrow> string" where
  "v6_string x =
     (let gs = v6_groups x; show = (\<lambda>gs. Join (map hex16 gs) '':'')
      in case zero_run 0 gs of
           None \<Rightarrow> show gs
         | Some (i, l) \<Rightarrow> show (take i gs) @ ''::'' @ show (drop (i + l) gs))"

definition AddrString :: "addr \<Rightarrow> string" where
  "AddrString a = (case a of
     V4 x \<Rightarrow> v4_string x
   | V6 x z \<Rightarrow>
       (if Is4In6 a then ''::ffff:'' @ v4_string (ucast x) else v6_string x) @
       (if z = [] then [] else ''%'' @ z))"

section \<open>Prefixes\<close>

record prefix =
  pfxAddr :: addr
  pfxBits :: nat

definition last_index :: "char \<Rightarrow> string \<Rightarrow> nat option" where
  "last_index c s = (if c \<in> set s then Some (length s - 1 - length (takeWhile (\<lambda>d. d \<noteq> c) (rev s))) else None)"

definition ParsePrefix :: "string \<Rightarrow> prefix option" where
  "ParsePrefix s =
     (case last_index (CHR ''/'') s of
        None \<Rightarrow> None
      | Some i \<Rightarrow> (case ParseAddr (take i s) of
            None \<Rightarrow> None
          | Some ip \<Rightarrow>
              (let bitsStr = drop (i + 1) s
               in if hasZone ip then None
                  else if length bitsStr > 1 \<and> hd bitsStr = CHR ''0'' then None
                  else if bitsStr = [] \<or> \<not> list_all dec_digit bitsStr then None
                  else if dec_val bitsStr > int (BitLen ip) then None
                  else Some \<lparr>pfxAddr = ip, pfxBits = nat (dec_val bitsStr)\<rparr>)))"

text \<open>
  \<^verbatim>\<open>Contains\<close> compares the first \<open>bits\<close> bits of two addresses of one family; an address with
  a zone is in no prefix.
\<close>

definition Contains :: "prefix \<Rightarrow> addr \<Rightarrow> bool" where
  "Contains p a = (case (pfxAddr p, a) of
     (V4 x, V4 y) \<Rightarrow> pfxBits p \<le> 32 \<and> drop_bit (32 - pfxBits p) (x XOR y) = 0
   | (V6 x _, V6 y z) \<Rightarrow> z = [] \<and> pfxBits p \<le> 128 \<and> drop_bit (128 - pfxBits p) (x XOR y) = 0
   | _ \<Rightarrow> False)"

definition Masked :: "prefix \<Rightarrow> prefix" where
  "Masked p = p\<lparr>pfxAddr := (case pfxAddr p of
     V4 x \<Rightarrow> V4 (push_bit (32 - pfxBits p) (drop_bit (32 - pfxBits p) x))
   | V6 x z \<Rightarrow> V6 (push_bit (128 - pfxBits p) (drop_bit (128 - pfxBits p) x)) z)\<rparr>"

section \<open>Host and port\<close>

definition SplitHostPort :: "string \<Rightarrow> (string \<times> string) option" where
  "SplitHostPort s =
     (case last_index (CHR '':'') s of
        None \<Rightarrow> None
      | Some i \<Rightarrow>
          if hd s = CHR ''['' then
            (let e = length (takeWhile (\<lambda>c. c \<noteq> CHR '']'') s)
             in if CHR '']'' \<notin> set s \<or> e + 1 \<noteq> i then None
                else if CHR ''['' \<in> set (drop 1 s) \<or> CHR '']'' \<in> set (drop (e + 1) s) then None
                else Some (drop 1 (take e s), drop (i + 1) s))
          else if CHR '':'' \<in> set (take i s) \<or> CHR ''['' \<in> set s \<or> CHR '']'' \<in> set s then None
          else Some (take i s, drop (i + 1) s))"

text \<open>\<^verbatim>\<open>strings.Trim(s, "[]")\<close>\<close>

definition trim_brackets :: "string \<Rightarrow> string" where
  "trim_brackets s = (let p = (\<lambda>c. c = CHR ''['' \<or> c = CHR '']'')
     in rev (dropWhile p (rev (dropWhile p s))))"

end
