(* ===== verification/Ky_Config.thy ===== *)
theory Ky_Config
  imports Go_Netip
begin

text \<open>
  \<^verbatim>\<open>internal/config/config.go\<close>: the configuration structs and the trusted-proxy allowlist.
\<close>

section \<open>Configuration\<close>

record ServerConfig =
  svHost :: string
  svPort :: int
  svAppURL :: string
  svAppName :: string
  svReadTimeout :: duration
  svWriteTimeout :: duration
  svEnvironment :: string

record DatabaseConfig =
  dbDriver :: string
  dbDSN :: string
  dbDataDir :: string
  dbMaxOpenConns :: int
  dbMaxIdleConns :: int
  dbConnMaxLifetime :: duration

record SecurityConfig =
  scSessionSecret :: string
  scEncryptionKey :: string
  scCookieSecure :: bool
  scCookieDomain :: string
  scSessionTTL :: duration
  scTrustedProxies :: "prefix list"

record SSOConfig =
  ssEnabled :: bool
  ssKySignOnIssuer :: string
  ssKySignOnClientID :: string
  ssKySignOnSecret :: string
  ssKySignOnHMACSecret :: string
  ssGenericOIDCIssuer :: string
  ssGenericOIDCClientID :: string
  ssGenericOIDCSecret :: string
  ssSAMLEntityID :: string
  ssSAMLMetadataURL :: string
  ssAutoProvision :: bool

record SCIMConfig =
  smEnabled :: bool
  smBearerToken :: string

record BackupConfig =
  bkDir :: string
  bkKeep :: int
  bkDepositInterval :: duration
  bkAllowPrivateRecovery :: bool

record CaptchaConfig =
  cpProvider :: string
  cpSiteKey :: string
  cpSecretKey :: string
  cpDifficultyPoW :: int

record Config =
  cfServer :: ServerConfig
  cfDatabase :: DatabaseConfig
  cfSecurity :: SecurityConfig
  cfSSO :: SSOConfig
  cfSCIM :: SCIMConfig
  cfBackup :: BackupConfig
  cfCaptcha :: CaptchaConfig

section \<open>Trusted proxies\<close>

datatype proxy_err = ErrInvalidCIDR string | ErrTrustsEverything string | ErrInvalidIP string

definition unmapPrefix :: "prefix \<Rightarrow> prefix" where
  "unmapPrefix p = (if \<not> Is4In6 (pfxAddr p) \<or> pfxBits p < 96 then p
     else \<lparr>pfxAddr = Unmap (pfxAddr p), pfxBits = pfxBits p - 96\<rparr>)"

text \<open>
  \<^verbatim>\<open>netip.PrefixFrom(addr, addr.BitLen())\<close> drops the zone of its address.
\<close>

definition single :: "addr \<Rightarrow> prefix" where
  "single a = \<lparr>pfxAddr = (case a of V4 x \<Rightarrow> V4 x | V6 x _ \<Rightarrow> V6 x []), pfxBits = BitLen a\<rparr>"

fun parse_proxies :: "string list \<Rightarrow> proxy_err + prefix list" where
  "parse_proxies [] = Inr []"
| "parse_proxies (f # fs) =
     (let field = TrimSpace f
      in if field = [] then parse_proxies fs
         else if CHR ''/'' \<in> set field then
           (case ParsePrefix field of
              None \<Rightarrow> Inl (ErrInvalidCIDR field)
            | Some prefix \<Rightarrow>
                (let masked = Masked (unmapPrefix prefix)
                 in if pfxBits masked = 0 then Inl (ErrTrustsEverything field)
                    else map_sum id ((#) masked) (parse_proxies fs)))
         else (case ParseAddr field of
                 None \<Rightarrow> Inl (ErrInvalidIP field)
               | Some addr \<Rightarrow> map_sum id ((#) (single (Unmap addr))) (parse_proxies fs)))"

definition ParseTrustedProxies :: "string \<Rightarrow> proxy_err + prefix list" where
  "ParseTrustedProxies raw = parse_proxies (Split (CHR '','') raw)"

section \<open>Laws\<close>

text \<open>A prefix that leaves at least one bit fixed does not trust every address.\<close>

definition restrictive :: "prefix \<Rightarrow> bool" where
  "restrictive p \<longleftrightarrow> 1 \<le> pfxBits p \<and> pfxBits p \<le> BitLen (pfxAddr p)"

lemma ParsePrefix_bits: "ParsePrefix s = Some p \<Longrightarrow> pfxBits p \<le> BitLen (pfxAddr p) \<and> \<not> hasZone (pfxAddr p)"
  by (auto simp: ParsePrefix_def Let_def nat_le_iff split: option.splits if_splits)

lemma Masked_simps [simp]:
  "pfxBits (Masked p) = pfxBits p" "BitLen (pfxAddr (Masked p)) = BitLen (pfxAddr p)"
  by (simp_all add: Masked_def BitLen_def split: addr.splits)

lemma unmapPrefix_bits:
  "pfxBits p \<le> BitLen (pfxAddr p) \<Longrightarrow> pfxBits (unmapPrefix p) \<le> BitLen (pfxAddr (unmapPrefix p))"
  by (auto simp: unmapPrefix_def BitLen_def Unmap_def Is4In6_def split: addr.splits)

lemma single_restrictive: "restrictive (single a)"
  by (auto simp: restrictive_def single_def BitLen_def split: addr.splits)

lemma masked_restrictive:
  assumes "ParsePrefix s = Some p" "0 < pfxBits (unmapPrefix p)"
  shows "restrictive (Masked (unmapPrefix p))"
  using assms unmapPrefix_bits [of p] ParsePrefix_bits [OF assms(1)] by (auto simp: restrictive_def)

lemma parse_proxies_restrictive:
  "parse_proxies fs = Inr ps \<Longrightarrow> p \<in> set ps \<Longrightarrow> restrictive p"
proof (induction fs arbitrary: ps)
  case Nil
  then show ?case by simp
next
  case (Cons f fs)
  show ?case
  proof (cases "parse_proxies fs")
    case (Inl e)
    with Cons.prems show ?thesis by (auto simp: Let_def split: if_splits option.splits)
  next
    case (Inr qs)
    with Cons.prems Cons.IH [OF Inr] show ?thesis
      by (auto simp: Let_def single_restrictive masked_restrictive split: if_splits option.splits)
  qed
qed

text \<open>For every such prefix there is an address of its family outside it.\<close>

lemma xor_top_bit_word:
  assumes "0 < b" "b \<le> LENGTH('a)"
  shows "drop_bit (LENGTH('a) - b) (x XOR (x XOR push_bit (LENGTH('a) - 1) (1 :: 'a :: len word))) \<noteq> 0"
proof -
  have "bit (drop_bit (LENGTH('a) - b) (push_bit (LENGTH('a) - 1) (1 :: 'a word))) (b - 1)"
    using assms by (simp add: bit_simps)
  then show ?thesis by (auto simp: xor.assoc [symmetric])
qed

lemma restrictive_excludes:
  assumes "restrictive p"
  shows "\<exists>a. BitLen a = BitLen (pfxAddr p) \<and> \<not> hasZone a \<and> \<not> Contains p a"
proof (cases "pfxAddr p")
  case (V4 x)
  with assms have b: "0 < pfxBits p" "pfxBits p \<le> 32" by (auto simp: restrictive_def BitLen_def)
  with V4 xor_top_bit_word [where 'a = 32 and x = x and b = "pfxBits p"] show ?thesis
    by (intro exI [of _ "V4 (x XOR push_bit 31 1)"]) (simp add: BitLen_def hasZone_def Contains_def)
next
  case (V6 x z)
  with assms have b: "0 < pfxBits p" "pfxBits p \<le> 128" by (auto simp: restrictive_def BitLen_def)
  with V6 xor_top_bit_word [where 'a = 128 and x = x and b = "pfxBits p"] show ?thesis
    by (intro exI [of _ "V6 (x XOR push_bit 127 1) []"]) (simp add: BitLen_def hasZone_def Contains_def)
qed

text \<open>
  Rewriting a mapped prefix changes nothing: an unmapped peer is in the rewritten prefix
  exactly when its mapped form is in the original one.
\<close>

lemma drop_bit_ucast_xor:
  fixes x y :: "128 word"
  assumes "drop_bit 32 x = drop_bit 32 y" "k \<le> 32"
  shows "drop_bit k ((ucast x :: 32 word) XOR ucast y) = 0 \<longleftrightarrow> drop_bit k (x XOR y) = 0"
proof -
  have top: "bit x n = bit y n" if "32 \<le> n" for n
  proof -
    have "bit (drop_bit 32 x) (n - 32) = bit (drop_bit 32 y) (n - 32)" using assms(1) by simp
    with that show ?thesis by (simp add: bit_drop_bit_eq)
  qed
  have "bit (ucast x :: 32 word) (k + n) = bit (ucast y :: 32 word) (k + n) \<longleftrightarrow> bit x (k + n) = bit y (k + n)" for n
    using top [of "k + n"] by (cases "k + n < 32") (simp_all add: bit_simps)
  then show ?thesis
    by (auto simp: bit_eq_iff bit_drop_bit_eq bit_xor_iff) (metis not_less top trans_le_add2)+
qed

lemma unmapPrefix_contains:
  assumes "pfxAddr p = V6 x z" "Is4In6 (V6 x z)" "96 \<le> pfxBits p" "pfxBits p \<le> 128"
    and "Is4In6 (V6 y [])"
  shows "Contains (unmapPrefix p) (Unmap (V6 y [])) \<longleftrightarrow> Contains p (V6 y [])"
proof -
  let ?k = "128 - pfxBits p"
  have k: "32 - (pfxBits p - 96) = ?k" "?k \<le> 32" using assms(3,4) by simp_all
  have "drop_bit 32 x = drop_bit 32 y" using assms(2,5) by (simp add: Is4In6_def)
  note eq = drop_bit_ucast_xor [OF this k(2)]
  have u: "unmapPrefix p = \<lparr>pfxAddr = V4 (ucast x), pfxBits = pfxBits p - 96\<rparr>" "Unmap (V6 y []) = V4 (ucast y)"
    using assms by (simp_all add: unmapPrefix_def Unmap_def)
  have "pfxBits p - 96 \<le> 32" using assms(4) by simp
  then show ?thesis
    unfolding u Contains_def using assms(1,4) k eq by (simp only: prefix.simps addr.case prod.case) simp
qed

end
