(* ===== verification/Go_Json.thy ===== *)
theory Go_Json
  imports Go_Text
begin

text \<open>
  What the program uses of \<^verbatim>\<open>encoding/json\<close>: parsing a text into a value, decoding a value
  into a flat struct (exact, then case-folded field names; \<^verbatim>\<open>null\<close> leaves a field alone; a
  value of another type is an error), and printing a value. Strings are bytes; what is not
  UTF-8 becomes the replacement character, as the package does.
\<close>

section \<open>UTF-8\<close>

definition between :: "int \<Rightarrow> int \<Rightarrow> char \<Rightarrow> bool" where
  "between lo hi c \<longleftrightarrow> lo \<le> of_char c \<and> of_char c \<le> hi"

text \<open>The length of the valid encoding a text starts with, 0 when there is none.\<close>

fun rune_len :: "string \<Rightarrow> nat" where
  "rune_len [] = 0"
| "rune_len (a # s) =
     (if of_char a < (128 :: int) then 1
      else case s of [] \<Rightarrow> 0 | b # s \<Rightarrow>
        if between 0xC2 0xDF a \<and> between 0x80 0xBF b then 2
        else case s of [] \<Rightarrow> 0 | c # s \<Rightarrow>
          if between 0x80 0xBF c \<and>
             (of_char a = (0xE0 :: int) \<and> between 0xA0 0xBF b \<or>
              of_char a = (0xED :: int) \<and> between 0x80 0x9F b \<or>
              (between 0xE1 0xEC a \<or> between 0xEE 0xEF a) \<and> between 0x80 0xBF b) then 3
          else case s of [] \<Rightarrow> 0 | d # _ \<Rightarrow>
            if between 0x80 0xBF c \<and> between 0x80 0xBF d \<and>
               (of_char a = (0xF0 :: int) \<and> between 0x90 0xBF b \<or>
                of_char a = (0xF4 :: int) \<and> between 0x80 0x8F b \<or>
                between 0xF1 0xF3 a \<and> between 0x80 0xBF b) then 4
            else 0)"

definition replacement :: string where
  "replacement = [CHR 0xEF, CHR 0xBF, CHR 0xBD]"

definition utf8_encode :: "int \<Rightarrow> string" where
  "utf8_encode r = map char_of
     (if r < 0x80 then [r]
      else if r < 0x800 then [0xC0 + r div 64, 0x80 + r mod 64]
      else if r < 0x10000 then [0xE0 + r div 4096, 0x80 + r div 64 mod 64, 0x80 + r mod 64]
      else [0xF0 + r div 262144, 0x80 + r div 4096 mod 64, 0x80 + r div 64 mod 64, 0x80 + r mod 64])"

section \<open>Values and tokens\<close>

text \<open>A number keeps its literal: whether it fits a Go type is decided on decoding.\<close>

datatype json =
    JNull
  | JBool bool
  | JNum string
  | JStr string
  | JArr "json list"
  | JObj "(string \<times> json) list"

datatype token =
    TOpen | TClose | TLBrack | TRBrack | TColon | TComma
  | TLit json
  | TBad

definition digit :: "char \<Rightarrow> bool" where
  "digit c \<longleftrightarrow> between 48 57 c"

definition digits1 :: "string \<Rightarrow> string option" where
  "digits1 s = (if s \<noteq> [] \<and> digit (hd s) then Some (dropWhile digit s) else None)"

text \<open>The grammar of a number: sign, integer part without leading zeros, fraction, exponent.\<close>

definition number_ok :: "string \<Rightarrow> bool" where
  "number_ok s =
     (let s = TrimPrefix s ''-''
      in case (if HasPrefix s ''0'' then Some (tl s) else digits1 s) of
           None \<Rightarrow> False
         | Some s \<Rightarrow> (case (if HasPrefix s ''.'' then digits1 (tl s) else Some s) of
               None \<Rightarrow> False
             | Some s \<Rightarrow>
                 (case (if s \<noteq> [] \<and> (hd s = CHR ''e'' \<or> hd s = CHR ''E'')
                        then digits1 (let s = tl s in if s \<noteq> [] \<and> (hd s = CHR ''+'' \<or> hd s = CHR ''-'') then tl s else s)
                        else Some s) of
                    None \<Rightarrow> False
                  | Some s \<Rightarrow> s = [])))"

definition hex_val :: "char \<Rightarrow> int option" where
  "hex_val c = (if between 48 57 c then Some (of_char c - 48)
     else if between 97 102 c then Some (of_char c - 87)
     else if between 65 70 c then Some (of_char c - 55) else None)"

text \<open>The four digits of a \<^verbatim>\<open>\u\<close> escape.\<close>

fun hex4 :: "string \<Rightarrow> int option" where
  "hex4 (a # b # c # d # _) =
     (case (hex_val a, hex_val b, hex_val c, hex_val d) of
        (Some a, Some b, Some c, Some d) \<Rightarrow> Some (((a * 16 + b) * 16 + c) * 16 + d)
      | _ \<Rightarrow> None)"
| "hex4 _ = None"

definition escape_val :: "char \<Rightarrow> char option" where
  "escape_val c = map_of [(CHR 0x22, CHR 0x22), (CHR 0x5C, CHR 0x5C), (CHR ''/'', CHR ''/''),
     (CHR ''b'', CHR 0x08), (CHR ''f'', CHR 0x0C), (CHR ''n'', CHR 0x0A), (CHR ''r'', CHR 0x0D),
     (CHR ''t'', CHR 0x09)] c"

text \<open>
  The bytes between two quotes, unquoted. A high surrogate followed by an escaped low one
  is one character; a surrogate on its own is replaced.
\<close>

definition surrogate_pair :: "int \<Rightarrow> string \<Rightarrow> int option" where
  "surrogate_pair hi s =
     (if 0xD800 \<le> hi \<and> hi < 0xDC00 \<and> HasPrefix s [CHR 0x5C, CHR ''u'']
      then (case hex4 (drop 2 s) of
              Some lo \<Rightarrow> if 0xDC00 \<le> lo \<and> lo < 0xE000
                then Some (0x10000 + (hi - 0xD800) * 1024 + (lo - 0xDC00)) else None
            | None \<Rightarrow> None)
      else None)"

function unquote :: "string \<Rightarrow> string option" where
  "unquote s =
     (if s = [] then Some []
      else if hd s = CHR 0x5C then
        (case tl s of [] \<Rightarrow> None | e # r \<Rightarrow>
           if e = CHR ''u'' then
             (case hex4 r of None \<Rightarrow> None | Some n \<Rightarrow>
               (case surrogate_pair n (drop 4 r) of
                  Some m \<Rightarrow> map_option ((@) (utf8_encode m)) (unquote (drop 10 r))
                | None \<Rightarrow> map_option ((@) (if 0xD800 \<le> n \<and> n < 0xE000 then replacement else utf8_encode n))
                    (unquote (drop 4 r))))
           else (case escape_val e of None \<Rightarrow> None | Some c \<Rightarrow> map_option ((#) c) (unquote r)))
      else if of_char (hd s) < (32 :: int) then None
      else if rune_len s = 0 then map_option ((@) replacement) (unquote (tl s))
      else map_option ((@) (take (rune_len s) s)) (unquote (drop (rune_len s) s)))"
  by pat_completeness auto
termination
  by (relation "measure length") (auto simp: neq_Nil_conv)

declare unquote.simps [simp del]

section \<open>Lexing\<close>

text \<open>
  The lexer reads one byte at a time: between tokens, inside a string (with the escape
  flag), inside a number or a keyword. A text that is not a token ends in \<open>TBad\<close>.
\<close>

datatype lex_state = LStart | LStr string bool | LWord string

definition is_space :: "char \<Rightarrow> bool" where
  "is_space c \<longleftrightarrow> c \<in> set [CHR 0x20, CHR 0x09, CHR 0x0A, CHR 0x0D]"

definition punct :: "char \<Rightarrow> token option" where
  "punct c = map_of [(CHR ''{'', TOpen), (CHR ''}'', TClose), (CHR ''['', TLBrack),
     (CHR '']'', TRBrack), (CHR '':'', TColon), (CHR '','', TComma)] c"

definition word_token :: "string \<Rightarrow> token" where
  "word_token s = (if s = ''null'' then TLit JNull else if s = ''true'' then TLit (JBool True)
     else if s = ''false'' then TLit (JBool False) else if number_ok s then TLit (JNum s) else TBad)"

definition str_token :: "string \<Rightarrow> token" where
  "str_token raw = (case unquote raw of None \<Rightarrow> TBad | Some s \<Rightarrow> TLit (JStr s))"

fun lex :: "lex_state \<Rightarrow> string \<Rightarrow> token list" where
  "lex LStart [] = []"
| "lex (LStr acc esc) [] = [TBad]"
| "lex (LWord acc) [] = [word_token (rev acc)]"
| "lex (LStr acc esc) (c # cs) =
     (if esc then lex (LStr (c # acc) False) cs
      else if c = CHR 0x22 then str_token (rev acc) # lex LStart cs
      else lex (LStr (c # acc) (c = CHR 0x5C)) cs)"
| "lex LStart (c # cs) =
     (if is_space c then lex LStart cs
      else if c = CHR 0x22 then lex (LStr [] False) cs
      else case punct c of Some t \<Rightarrow> t # lex LStart cs | None \<Rightarrow> lex (LWord [c]) cs)"
| "lex (LWord acc) (c # cs) =
     (if is_space c then word_token (rev acc) # lex LStart cs
      else if c = CHR 0x22 then word_token (rev acc) # lex (LStr [] False) cs
      else case punct c of
             Some t \<Rightarrow> word_token (rev acc) # t # lex LStart cs
           | None \<Rightarrow> lex (LWord (c # acc)) cs)"

section \<open>Parsing\<close>

text \<open>
  The containers that are open, innermost first, and what may come next. Containers nest
  at most 10000 deep.
\<close>

datatype frame = FArr "json list" | FObj "(string \<times> json) list" | FKey "(string \<times> json) list" string

datatype expect = EValue | EFirst | EKey | EFirstKey | EColon | EAfter

definition plug :: "json \<Rightarrow> frame list \<Rightarrow> (frame list) option" where
  "plug v fs = (case fs of
     FArr vs # fs \<Rightarrow> Some (FArr (v # vs) # fs)
   | FKey ms k # fs \<Rightarrow> Some (FObj ((k, v) # ms) # fs)
   | _ \<Rightarrow> None)"

text \<open>The result: the first value of the text and the tokens after it.\<close>

fun parse :: "expect \<Rightarrow> frame list \<Rightarrow> token list \<Rightarrow> (json \<times> token list) option" where
  "parse e fs [] = None"
| "parse EColon fs (t # ts) = (if t = TColon then parse EValue fs ts else None)"
| "parse EKey (FObj ms # fs) (TLit (JStr k) # ts) = parse EColon (FKey ms k # fs) ts"
| "parse EFirstKey (FObj ms # fs) (TLit (JStr k) # ts) = parse EColon (FKey ms k # fs) ts"
| "parse EFirstKey (FObj ms # fs) (TClose # ts) =
     (if fs = [] then Some (JObj (rev ms), ts)
      else case plug (JObj (rev ms)) fs of None \<Rightarrow> None | Some fs \<Rightarrow> parse EAfter fs ts)"
| "parse EFirst (FArr vs # fs) (TRBrack # ts) =
     (if fs = [] then Some (JArr (rev vs), ts)
      else case plug (JArr (rev vs)) fs of None \<Rightarrow> None | Some fs \<Rightarrow> parse EAfter fs ts)"
| "parse EAfter (FArr vs # fs) (t # ts) =
     (if t = TComma then parse EValue (FArr vs # fs) ts
      else if t \<noteq> TRBrack then None
      else if fs = [] then Some (JArr (rev vs), ts)
      else case plug (JArr (rev vs)) fs of None \<Rightarrow> None | Some fs \<Rightarrow> parse EAfter fs ts)"
| "parse EAfter (FObj ms # fs) (t # ts) =
     (if t = TComma then parse EKey (FObj ms # fs) ts
      else if t \<noteq> TClose then None
      else if fs = [] then Some (JObj (rev ms), ts)
      else case plug (JObj (rev ms)) fs of None \<Rightarrow> None | Some fs \<Rightarrow> parse EAfter fs ts)"
| "parse e fs (t # ts) =
     (if e \<noteq> EValue \<and> e \<noteq> EFirst then None
      else case t of
        TLit v \<Rightarrow> (if fs = [] then Some (v, ts)
                   else case plug v fs of None \<Rightarrow> None | Some fs \<Rightarrow> parse EAfter fs ts)
      | TLBrack \<Rightarrow> if length fs \<ge> 10000 then None else parse EFirst (FArr [] # fs) ts
      | TOpen \<Rightarrow> if length fs \<ge> 10000 then None else parse EFirstKey (FObj [] # fs) ts
      | _ \<Rightarrow> None)"

text \<open>
  \<^verbatim>\<open>json.Unmarshal\<close> wants the whole text to be one value; \<^verbatim>\<open>Decoder.Decode\<close> reads the first
  value of a stream and leaves the rest.
\<close>

definition json_whole :: "string \<Rightarrow> json option" where
  "json_whole s = (case parse EValue [] (lex LStart s) of
     Some (v, []) \<Rightarrow> Some v | _ \<Rightarrow> None)"

definition json_first :: "string \<Rightarrow> json option" where
  "json_first s = map_option fst (parse EValue [] (lex LStart s))"

section \<open>Decoding into a struct\<close>

text \<open>
  A struct with string, integer and boolean fields, by their JSON names. Field names are
  ASCII; besides ASCII letters only the long s and the Kelvin sign fold to one.
\<close>

datatype fval = VStr string | VInt int | VBool bool

type_synonym fields = "(string \<times> fval) list"

fun fold_key :: "string \<Rightarrow> string" where
  "fold_key [] = []"
| "fold_key (c # cs) =
     (if HasPrefix (c # cs) [CHR 0xC5, CHR 0xBF] then CHR ''s'' # fold_key (tl cs)
      else if HasPrefix (c # cs) [CHR 0xE2, CHR 0x84, CHR 0xAA] then CHR ''k'' # fold_key (drop 2 cs)
      else lower_char c # fold_key cs)"

definition field_for :: "fields \<Rightarrow> string \<Rightarrow> string option" where
  "field_for fs k = (if k \<in> fst ` set fs then Some k
     else find (\<lambda>f. fold_key f = fold_key k) (map fst fs))"

text \<open>\<^verbatim>\<open>strconv.ParseInt(_, 10, 64)\<close> on the literal of a number.\<close>

definition digits_val :: "string \<Rightarrow> int" where
  "digits_val s = foldl (\<lambda>n c. 10 * n + (of_char c - 48)) 0 s"

definition ParseInt64 :: "string \<Rightarrow> int option" where
  "ParseInt64 s =
     (let body = (if s \<noteq> [] \<and> (hd s = CHR ''-'' \<or> hd s = CHR ''+'') then tl s else s);
          n = (if s \<noteq> [] \<and> hd s = CHR ''-'' then - digits_val body else digits_val body)
      in if body \<noteq> [] \<and> list_all digit body \<and> - (2 ^ 63) \<le> n \<and> n < 2 ^ 63 then Some n else None)"

fun decode_value :: "fval \<Rightarrow> json \<Rightarrow> fval option" where
  "decode_value v JNull = Some v"
| "decode_value (VStr _) (JStr s) = Some (VStr s)"
| "decode_value (VInt _) (JNum l) = map_option VInt (ParseInt64 l)"
| "decode_value (VBool _) (JBool b) = Some (VBool b)"
| "decode_value _ _ = None"

fun decode_members :: "fields \<Rightarrow> (string \<times> json) list \<Rightarrow> fields option" where
  "decode_members fs [] = Some fs"
| "decode_members fs ((k, j) # ms) =
     (case field_for fs k of
        None \<Rightarrow> decode_members fs ms
      | Some f \<Rightarrow> (case map_of fs f of
            None \<Rightarrow> decode_members fs ms
          | Some v \<Rightarrow> (case decode_value v j of
                None \<Rightarrow> None
              | Some v \<Rightarrow> decode_members (map (\<lambda>(n, o'). (n, if n = f then v else o')) fs) ms)))"

fun decode_struct :: "fields \<Rightarrow> json \<Rightarrow> fields option" where
  "decode_struct fs JNull = Some fs"
| "decode_struct fs (JObj ms) = decode_members fs ms"
| "decode_struct fs _ = None"

definition str_field :: "fields \<Rightarrow> string \<Rightarrow> string" where
  "str_field fs k = (case map_of fs k of Some (VStr s) \<Rightarrow> s | _ \<Rightarrow> [])"

definition int_field :: "fields \<Rightarrow> string \<Rightarrow> int" where
  "int_field fs k = (case map_of fs k of Some (VInt i) \<Rightarrow> i | _ \<Rightarrow> 0)"

text \<open>\<^verbatim>\<open>json.NewDecoder(r.Body).Decode(&req)\<close> and \<^verbatim>\<open>json.Unmarshal(data, &v)\<close> for such a struct.\<close>

definition Decode :: "fields \<Rightarrow> string \<Rightarrow> fields option" where
  "Decode fs body = (case json_first body of None \<Rightarrow> None | Some j \<Rightarrow> decode_struct fs j)"

definition Unmarshal :: "fields \<Rightarrow> string \<Rightarrow> fields option" where
  "Unmarshal fs body = (case json_whole body of None \<Rightarrow> None | Some j \<Rightarrow> decode_struct fs j)"

text \<open>
  \<^verbatim>\<open>json.Unmarshal\<close> into a \<^verbatim>\<open>[]string\<close>: \<^verbatim>\<open>null\<close> gives the nil slice, and a \<^verbatim>\<open>null\<close> element the
  empty string.
\<close>

fun decode_strings :: "json list \<Rightarrow> (string list) option" where
  "decode_strings [] = Some []"
| "decode_strings (JStr s # js) = map_option ((#) s) (decode_strings js)"
| "decode_strings (JNull # js) = map_option ((#) []) (decode_strings js)"
| "decode_strings (_ # js) = None"

definition UnmarshalStrings :: "string \<Rightarrow> (string list) option" where
  "UnmarshalStrings body = (case json_whole body of
     Some JNull \<Rightarrow> Some [] | Some (JArr js) \<Rightarrow> decode_strings js | _ \<Rightarrow> None)"

section \<open>Printing\<close>

definition hex4_print :: "nat \<Rightarrow> string" where
  "hex4_print n = map digit_char [n div 4096 mod 16, n div 256 mod 16, n div 16 mod 16, n mod 16]"

text \<open>\<^verbatim>\<open>json.Marshal\<close> escapes the control characters and, for HTML, the angle brackets and \<^verbatim>\<open>&\<close>.\<close>

definition escape_ascii :: "char \<Rightarrow> string" where
  "escape_ascii c =
     (if c = CHR 0x22 \<or> c = CHR 0x5C then [CHR 0x5C, c]
      else if c = CHR 0x08 then [CHR 0x5C, CHR ''b''] else if c = CHR 0x0C then [CHR 0x5C, CHR ''f'']
      else if c = CHR 0x0A then [CHR 0x5C, CHR ''n''] else if c = CHR 0x0D then [CHR 0x5C, CHR ''r'']
      else if c = CHR 0x09 then [CHR 0x5C, CHR ''t'']
      else if of_char c < (32 :: int) \<or> c = CHR ''<'' \<or> c = CHR ''>'' \<or> c = CHR ''&''
      then [CHR 0x5C, CHR ''u''] @ hex4_print (of_char c)
      else [c])"

function escape_string :: "string \<Rightarrow> string" where
  "escape_string s =
     (if s = [] then []
      else if rune_len s = 0 then [CHR 0x5C, CHR ''u''] @ ''fffd'' @ escape_string (tl s)
      else if rune_len s = 1 then escape_ascii (hd s) @ escape_string (tl s)
      else if take 3 s = [CHR 0xE2, CHR 0x80, CHR 0xA8] then [CHR 0x5C, CHR ''u''] @ ''2028'' @ escape_string (drop 3 s)
      else if take 3 s = [CHR 0xE2, CHR 0x80, CHR 0xA9] then [CHR 0x5C, CHR ''u''] @ ''2029'' @ escape_string (drop 3 s)
      else take (rune_len s) s @ escape_string (drop (rune_len s) s))"
  by pat_completeness auto
termination
  by (relation "measure length") (auto simp: neq_Nil_conv)

declare escape_string.simps [simp del]

definition quoted :: "string \<Rightarrow> string" where
  "quoted s = [CHR 0x22] @ escape_string s @ [CHR 0x22]"

text \<open>An object prints its members in the order it has them; a Go map sorts its keys first.\<close>

fun Marshal :: "json \<Rightarrow> string" where
  "Marshal JNull = ''null''"
| "Marshal (JBool b) = (if b then ''true'' else ''false'')"
| "Marshal (JNum l) = l"
| "Marshal (JStr s) = quoted s"
| "Marshal (JArr js) = ''['' @ Join (map Marshal js) '','' @ '']''"
| "Marshal (JObj ms) = ''{'' @ Join (map (\<lambda>(k, j). quoted k @ '':'' @ Marshal j) ms) '','' @ ''}''"

definition MarshalStrings :: "string list \<Rightarrow> string" where
  "MarshalStrings ss = Marshal (JArr (map JStr ss))"

section \<open>Lists of plain strings survive printing and parsing\<close>

definition plain :: "char \<Rightarrow> bool" where
  "plain c \<longleftrightarrow> (32 :: int) \<le> of_char c \<and> of_char c < (128 :: int) \<and>
     c \<noteq> CHR 0x22 \<and> c \<noteq> CHR 0x5C \<and> c \<noteq> CHR ''<'' \<and> c \<noteq> CHR ''>'' \<and> c \<noteq> CHR ''&''"

lemma rune_len_plain: "plain c \<Longrightarrow> rune_len (c # cs) = Suc 0"
  by (simp add: plain_def)

lemma plain_neq:
  assumes "plain c"
  shows "c \<noteq> CHR 0x22" "c \<noteq> CHR 0x5C" "c \<noteq> CHR ''<''" "c \<noteq> CHR ''>''" "c \<noteq> CHR ''&''"
    "\<not> of_char c < (32 :: int)"
  using assms by (simp_all add: plain_def)

lemma plain_not_control:
  assumes "plain c" "of_char d < (32 :: int)"
  shows "c \<noteq> d"
  using assms by (auto simp: plain_def)

lemma escape_ascii_plain: "plain c \<Longrightarrow> escape_ascii c = [c]"
  by (simp add: escape_ascii_def plain_neq plain_not_control)

lemma escape_plain: "list_all plain s \<Longrightarrow> escape_string s = s"
proof (induction s)
  case Nil
  show ?case by (simp add: escape_string.simps)
next
  case (Cons c s)
  then show ?case
    by (subst escape_string.simps) (simp add: rune_len_plain escape_ascii_plain del: rune_len.simps)
qed

lemma unquote_plain: "list_all plain s \<Longrightarrow> unquote s = Some s"
proof (induction s)
  case Nil
  show ?case by (simp add: unquote.simps)
next
  case (Cons c s)
  then show ?case
    by (subst unquote.simps) (simp add: rune_len_plain plain_neq del: rune_len.simps)
qed

lemma lex_str_plain:
  "list_all plain s \<Longrightarrow> lex (LStr acc False) (s @ CHR 0x22 # rest) = str_token (rev acc @ s) # lex LStart rest"
  by (induction s arbitrary: acc) (simp_all add: plain_neq)

lemma lex_quoted:
  "list_all plain s \<Longrightarrow> lex LStart (quoted s @ rest) = TLit (JStr s) # lex LStart rest"
  by (simp add: quoted_def escape_plain lex_str_plain is_space_def str_token_def unquote_plain)

fun string_toks :: "string list \<Rightarrow> token list" where
  "string_toks [] = []"
| "string_toks [s] = [TLit (JStr s)]"
| "string_toks (s # t # ss) = TLit (JStr s) # TComma # string_toks (t # ss)"

lemma lex_strings:
  "list_all (list_all plain) ss \<Longrightarrow>
   lex LStart (Join (map (\<lambda>s. Marshal (JStr s)) ss) '','' @ '']'') = string_toks ss @ [TRBrack]"
  by (induction ss rule: string_toks.induct) (simp_all add: lex_quoted punct_def is_space_def)

lemma parse_strings:
  "parse EAfter [FArr vs] (concat (map (\<lambda>s. [TComma, TLit (JStr s)]) ss) @ [TRBrack]) =
     Some (JArr (rev vs @ map JStr ss), [])"
  by (induction ss arbitrary: vs) (simp_all add: plug_def)

lemma string_toks_Cons:
  "string_toks (s # ss) = TLit (JStr s) # concat (map (\<lambda>s. [TComma, TLit (JStr s)]) ss)"
  by (induction ss arbitrary: s) simp_all

lemma json_strings_roundtrip:
  assumes "list_all (list_all plain) ss"
  shows "json_whole (MarshalStrings ss) = Some (JArr (map JStr ss))"
proof -
  have "lex LStart (MarshalStrings ss) = TLBrack # string_toks ss @ [TRBrack]"
    using lex_strings [OF assms] by (simp add: MarshalStrings_def is_space_def punct_def comp_def)
  then show ?thesis
    by (cases ss) (simp_all add: json_whole_def string_toks_Cons plug_def parse_strings)
qed

lemma decode_strings_JStr: "decode_strings (map JStr ss) = Some ss"
  by (induction ss) simp_all

lemma strings_roundtrip:
  "list_all (list_all plain) ss \<Longrightarrow> UnmarshalStrings (MarshalStrings ss) = Some ss"
  by (simp add: UnmarshalStrings_def json_strings_roundtrip decode_strings_JStr)

end
