(* ===== verification/Go_Http.thy ===== *)
theory Go_Http
  imports Go_Json Ky_Prelude
begin

text \<open>
  What the program uses of \<^verbatim>\<open>net/http\<close>: requests as their parsed parts (method, path, query,
  headers under their canonical names, cookies, peer address, body) and responses. The body is text; reading it beyond the one
  megabyte \<^verbatim>\<open>MaxBytesReader\<close> admits is an error of the decoder, which \<open>rBody\<close> being \<open>None\<close>
  stands for.
\<close>

record request =
  rMethod :: string
  rPath :: string
  rQuery :: "(string \<times> string) list"
  rHeaders :: "(string \<times> string) list"
  rCookies :: "(string \<times> string) list"
  rRemoteAddr :: string
  rBody :: "string option"

definition HeaderValues :: "request \<Rightarrow> string \<Rightarrow> string list" where
  "HeaderValues r k = map snd (filter (\<lambda>h. fst h = k) (rHeaders r))"

definition HeaderGet :: "request \<Rightarrow> string \<Rightarrow> string" where
  "HeaderGet r k = (case HeaderValues r k of [] \<Rightarrow> [] | v # _ \<Rightarrow> v)"

definition QueryGet :: "request \<Rightarrow> string \<Rightarrow> string" where
  "QueryGet r k = (case map_of (rQuery r) k of None \<Rightarrow> [] | Some v \<Rightarrow> v)"

text \<open>\<^verbatim>\<open>r.Cookie(name)\<close>: the first cookie of that name, \<open>None\<close> for \<^verbatim>\<open>ErrNoCookie\<close>.\<close>

definition Cookie :: "request \<Rightarrow> string \<Rightarrow> string option" where
  "Cookie r name = map_of (rCookies r) name"

record cookie =
  ckName :: string
  ckValue :: string
  ckPath :: string
  ckExpires :: time
  ckMaxAge :: int
  ckHttpOnly :: bool
  ckSecure :: bool
  ckSameSite :: string
  ckDomain :: string

text \<open>
  A response: status, headers in the order they were set, body and cookies. Go encodes a map
  with its keys in order, which is how the handlers' objects are written here. \<open>BodyLink\<close> is
  the HTML link a redirect carries, \<open>BodyScimError\<close> the JSON form the SCIM library gives an error,
  \<open>BodyBytes\<close> a download.
\<close>

datatype body = BodyEmpty | BodyJSON json | BodyText string | BodyLink string | BodyScimError nat string | BodyBytes string

record response =
  pStatusCode :: nat
  pHeaders :: "(string \<times> string) list"
  pBody :: body
  pCookies :: "cookie list"

definition writeJSON :: "nat \<Rightarrow> json \<Rightarrow> response" where
  "writeJSON status data = \<lparr>pStatusCode = status, pHeaders = [(''Content-Type'', ''application/json'')],
     pBody = BodyJSON data, pCookies = []\<rparr>"

definition writeError :: "nat \<Rightarrow> string \<Rightarrow> response" where
  "writeError status message = writeJSON status (JObj [(''error'', JStr message)])"

text \<open>\<^verbatim>\<open>http.Error\<close>: the message as plain text.\<close>

definition http_Error :: "string \<Rightarrow> nat \<Rightarrow> response" where
  "http_Error message status = \<lparr>pStatusCode = status,
     pHeaders = [(''Content-Type'', ''text/plain; charset=utf-8''), (''X-Content-Type-Options'', ''nosniff'')],
     pBody = BodyText (message @ [CHR 0x0A]), pCookies = []\<rparr>"

definition http_Redirect :: "string \<Rightarrow> nat \<Rightarrow> response" where
  "http_Redirect url status = \<lparr>pStatusCode = status,
     pHeaders = [(''Location'', url), (''Content-Type'', ''text/html; charset=utf-8'')],
     pBody = BodyLink url, pCookies = []\<rparr>"

lemma write_simps [simp]:
  "pStatusCode (writeJSON c d) = c" "pBody (writeJSON c d) = BodyJSON d" "pCookies (writeJSON c d) = []"
  "pStatusCode (writeError c m) = c" "pCookies (writeError c m) = []"
  "pStatusCode (http_Error m c) = c" "pCookies (http_Error m c) = []"
  "pStatusCode (http_Redirect u c) = c" "pCookies (http_Redirect u c) = []"
  by (simp_all add: writeJSON_def writeError_def http_Error_def http_Redirect_def)

text \<open>The decoder reads the body into a struct; a body that cannot be read is an error.\<close>

definition DecodeBody :: "fields \<Rightarrow> request \<Rightarrow> fields option" where
  "DecodeBody fs r = (case rBody r of None \<Rightarrow> None | Some b \<Rightarrow> Decode fs b)"

end
