(* ===== verification/Auth_ClientIP.thy ===== *)
theory Auth_ClientIP
  imports Ky_Config Go_Http
begin

text \<open>
  \<^verbatim>\<open>internal/auth/clientip.go\<close>: the address a request is attributed to.
\<close>

definition peerIP :: "request \<Rightarrow> string" where
  "peerIP r =
     (let host = (case SplitHostPort (rRemoteAddr r) of
                    Some (host, _) \<Rightarrow> host | None \<Rightarrow> trim_brackets (rRemoteAddr r))
      in case ParseAddr host of Some addr \<Rightarrow> AddrString (Unmap addr) | None \<Rightarrow> host)"

definition isTrusted :: "addr \<Rightarrow> prefix list \<Rightarrow> bool" where
  "isTrusted addr trusted \<longleftrightarrow> (\<exists>p \<in> set trusted. Contains p addr)"

definition parseForwardedEntry :: "string \<Rightarrow> addr option" where
  "parseForwardedEntry entry =
     (case ParseAddr entry of
        Some addr \<Rightarrow> Some (Unmap addr)
      | None \<Rightarrow> (case SplitHostPort entry of
            None \<Rightarrow> None
          | Some (host, _) \<Rightarrow> map_option Unmap (ParseAddr host)))"

text \<open>The walk over the entries, the last one first.\<close>

fun walk_forwarded :: "prefix list \<Rightarrow> string \<Rightarrow> string list \<Rightarrow> string" where
  "walk_forwarded trusted peer [] = peer"
| "walk_forwarded trusted peer (part # parts) =
     (case parseForwardedEntry (TrimSpace part) of
        None \<Rightarrow> peer
      | Some addr \<Rightarrow> if \<not> isTrusted addr trusted then AddrString addr
                     else walk_forwarded trusted peer parts)"

definition ClientIP :: "request \<Rightarrow> prefix list \<Rightarrow> string" where
  "ClientIP r trusted =
     (let peer = peerIP r
      in case ParseAddr peer of
           None \<Rightarrow> peer
         | Some peerAddr \<Rightarrow>
             if \<not> isTrusted peerAddr trusted then peer
             else walk_forwarded trusted peer
                    (rev (Split (CHR '','') (Join (HeaderValues r ''X-Forwarded-For'') '',''))))"

section \<open>Laws\<close>

lemma walk_forwarded_trusted_prefix:
  assumes "\<forall>p \<in> set ps. \<exists>a. parseForwardedEntry (TrimSpace p) = Some a \<and> isTrusted a trusted"
  shows "walk_forwarded trusted peer (ps @ qs) = walk_forwarded trusted peer qs"
  using assms by (induction ps) auto

text \<open>
  Entries left of the first untrusted one, read from the right, have no influence: they may
  be forged.
\<close>

lemma walk_forwarded_stops:
  assumes "\<forall>p \<in> set ps. \<exists>a. parseForwardedEntry (TrimSpace p) = Some a \<and> isTrusted a trusted"
    and "parseForwardedEntry (TrimSpace e) = Some a" "\<not> isTrusted a trusted"
  shows "walk_forwarded trusted peer (ps @ e # qs) = AddrString a"
  by (simp add: walk_forwarded_trusted_prefix [OF assms(1)] assms(2,3))

lemma Split_append:
  "Split c (s @ c # t) = Split c s @ Split c t"
proof (induction s)
  case Nil
  show ?case by simp
next
  case (Cons x s)
  obtain p ps where "Split c s = p # ps" using Split_nonempty by (cases "Split c s") auto
  with Cons show ?case by simp
qed

lemma isTrusted_Nil [simp]: "\<not> isTrusted a []"
  by (simp add: isTrusted_def)

end
