(* ===== verification/Auth_Session.thy ===== *)
theory Auth_Session
  imports Store_Machine Auth_Crypto Auth_ClientIP
begin

text \<open>
  \<^verbatim>\<open>internal/auth/session.go\<close>: issuing, checking and revoking sessions. Requests run
  concurrently on one store, so a function that makes several store calls takes, besides
  its readings of the clock, what other requests do to the store before each call
  (\<open>others k\<close>, a list of store operations); with empty lists it runs alone.
\<close>

definition SessionCookieName :: string where "SessionCookieName = ''ky_session''"
definition CSRFCookieName :: string where "CSRFCookieName = ''ky_csrf''"
definition HeaderCSRF :: string where "HeaderCSRF = ''X-Csrf-Token''"

type_synonym interference = "nat \<Rightarrow> store_op list"

section \<open>Operations\<close>

definition session_cookie :: "SecurityConfig \<Rightarrow> string \<Rightarrow> string \<Rightarrow> time \<Rightarrow> bool \<Rightarrow> cookie" where
  "session_cookie cfg name val expires httpOnly = \<lparr>ckName = name, ckValue = val, ckPath = ''/'',
     ckExpires = expires, ckMaxAge = 0, ckHttpOnly = httpOnly, ckSecure = scCookieSecure cfg,
     ckSameSite = ''Lax'', ckDomain = scCookieDomain cfg\<rparr>"

text \<open>\<^verbatim>\<open>IssueSession\<close> reads the clock twice and draws the token and the CSRF token.\<close>

definition IssueSession ::
    "prims \<Rightarrow> SecurityConfig \<Rightarrow> time \<Rightarrow> time \<Rightarrow> string \<Rightarrow> string \<Rightarrow> request \<Rightarrow> user \<Rightarrow> world \<Rightarrow>
     (session \<times> string \<times> cookie list) outcome" where
  "IssueSession pr cfg now1 now2 tokenBytes csrfBytes r user w =
     (let rawToken = RandomHex tokenBytes;
          tokenHash = SHA256Hex pr rawToken;
          ttl = (if scSessionTTL cfg \<le> 0 then 7 * 24 * Hour else scSessionTTL cfg);
          sess = \<lparr>sTokenHash = tokenHash, sUserID = uID user, sUserAgent = HeaderGet r ''User-Agent'',
                  sIPAddress = ClientIP r (scTrustedProxies cfg), sCreatedAt = now1, sExpiresAt = now2 + ttl\<rparr>
      in case CreateSession sess (uPasswordHash user) w of
           (Inl e, w) \<Rightarrow> (Inl e, w)
         | (Inr _, w) \<Rightarrow>
             (let csrfToken = RandomHex csrfBytes
              in (Inr (sess, rawToken,
                    [session_cookie cfg SessionCookieName rawToken (sExpiresAt sess) True,
                     session_cookie cfg CSRFCookieName csrfToken (sExpiresAt sess) False]), w)))"

definition bearer_token :: "request \<Rightarrow> string" where
  "bearer_token r = (let h = HeaderGet r ''Authorization''
     in if HasPrefix h ''Bearer '' then TrimPrefix h ''Bearer '' else [])"

definition request_token :: "request \<Rightarrow> string" where
  "request_token r =
     (let rawToken = bearer_token r
      in if rawToken = []
         then (case Cookie r SessionCookieName of Some v \<Rightarrow> if v \<noteq> [] then v else rawToken | None \<Rightarrow> rawToken)
         else rawToken)"

text \<open>What a session with a pending password change may still do.\<close>

definition restricted_route :: "request \<Rightarrow> bool" where
  "restricted_route r \<longleftrightarrow> rMethod r = ''GET'' \<and> rPath r = ''/api/auth/me'' \<or>
     rMethod r = ''POST'' \<and> (rPath r = ''/api/auth/change-password'' \<or> rPath r = ''/api/auth/logout'')"

definition AuthenticateRequest ::
    "prims \<Rightarrow> time \<Rightarrow> time \<Rightarrow> interference \<Rightarrow> request \<Rightarrow> world \<Rightarrow> (user \<times> session) outcome" where
  "AuthenticateRequest pr now1 now2 others r w =
     (let rawToken = request_token r
      in if rawToken = [] then (Inl ErrNotFound, w)
         else let tokenHash = SHA256Hex pr rawToken
         in case GetSession now1 tokenHash (run_ops (others 0) w) of
              (Inl e, w) \<Rightarrow> (Inl e, w)
            | (Inr sess, w) \<Rightarrow>
                (case GetUserByID (sUserID sess) (run_ops (others 1) w) of
                   (Inl e, w) \<Rightarrow> (Inl e, w)
                 | (Inr user, w) \<Rightarrow>
                     if uStatus user \<noteq> ''active''
                     then (case DeleteSession tokenHash (run_ops (others 2) w) of (_, w) \<Rightarrow> (Inl ErrNotFound, w))
                     else (case GetSession now2 tokenHash (run_ops (others 2) w) of
                             (Inl e, w) \<Rightarrow> (Inl e, w)
                           | (Inr _, w) \<Rightarrow>
                               if uMustChangePassword user \<and> \<not> restricted_route r
                               then (Inl ErrPasswordChangeRequired, w)
                               else (Inr (user, sess), w))))"

definition ValidateCSRF :: "request \<Rightarrow> bool" where
  "ValidateCSRF r = (case Cookie r CSRFCookieName of
     None \<Rightarrow> False
   | Some v \<Rightarrow> if v = [] then False
               else length (HeaderGet r HeaderCSRF) = length v \<and> HeaderGet r HeaderCSRF = v)"

definition RevokeSession :: "prims \<Rightarrow> SecurityConfig \<Rightarrow> request \<Rightarrow> world \<Rightarrow> cookie list \<times> world" where
  "RevokeSession pr cfg r w =
     (let rawToken = TrimPrefix (HeaderGet r ''Authorization'') ''Bearer '';
          rawToken = (if \<not> HasPrefix (HeaderGet r ''Authorization'') ''Bearer '' then [] else rawToken);
          rawToken = (if rawToken = []
                      then (case Cookie r SessionCookieName of Some v \<Rightarrow> v | None \<Rightarrow> rawToken) else rawToken);
          w = (if rawToken \<noteq> [] then snd (DeleteSession (SHA256Hex pr rawToken) w) else w)
      in ([session_cookie cfg SessionCookieName [] 0 True, session_cookie cfg CSRFCookieName [] 0 False], w))"

section \<open>Laws\<close>

lemma IssueSession_Inl: "IssueSession pr cfg n1 n2 tb cb r u w = (Inl e, w') \<Longrightarrow> db w' = db w"
  by (auto simp: IssueSession_def Let_def dest: CreateSession_Inl split: prod.splits sum.splits)

lemma IssueSession_Inr:
  assumes "IssueSession pr cfg n1 n2 tb cb r u w = (Inr (s, t, cs), w')"
  shows "count_where (has_credential (uID u) (uPasswordHash u)) (users (db w)) = 1"
    and "sTokenHash s = SHA256Hex pr t" "t = RandomHex tb" "sUserID s = uID u"
    and "sIPAddress s = ClientIP r (scTrustedProxies cfg)" "n2 < sExpiresAt s"
    and "db w' = (db w)\<lparr>sessions := sessions (db w) @ [s]\<rparr>"
    and "sTokenHash s \<notin> sTokenHash ` set (sessions (db w))"
proof -
  have c: "CreateSession s (uPasswordHash u) w = (Inr (), w')"
    using assms by (auto simp: IssueSession_def Let_def split: prod.splits sum.splits)
  show "sTokenHash s = SHA256Hex pr t" "t = RandomHex tb" and u: "sUserID s = uID u"
    and "sIPAddress s = ClientIP r (scTrustedProxies cfg)" "n2 < sExpiresAt s"
    using assms by (auto simp: IssueSession_def Let_def duration_defs split: prod.splits sum.splits)
  from CreateSession_Inr [OF c] u
  show "count_where (has_credential (uID u) (uPasswordHash u)) (users (db w)) = 1"
    "db w' = (db w)\<lparr>sessions := sessions (db w) @ [s]\<rparr>"
    "sTokenHash s \<notin> sTokenHash ` set (sessions (db w))"
    by simp_all
qed

lemma RevokeSession_token: 
  "RevokeSession pr cfg r w =
     ([session_cookie cfg SessionCookieName [] 0 True, session_cookie cfg CSRFCookieName [] 0 False],
      if request_token r \<noteq> [] then snd (DeleteSession (SHA256Hex pr (request_token r)) w) else w)"
  by (auto simp: RevokeSession_def request_token_def bearer_token_def Let_def split: option.splits)

text \<open>What an accepted request tells about the store at the three moments it is read.\<close>

lemma AuthenticateRequest_Inr:
  assumes "AuthenticateRequest pr n1 n2 others r w = (Inr (u, s), w')"
  obtains w1 w2 w3 where
    "request_token r \<noteq> []"
    "GetSession n1 (SHA256Hex pr (request_token r)) (run_ops (others 0) w) = (Inr s, w1)"
    "GetUserByID (sUserID s) (run_ops (others 1) w1) = (Inr u, w2)"
    "uStatus u = ''active''"
    "GetSession n2 (SHA256Hex pr (request_token r)) (run_ops (others 2) w2) = (Inr w3, w')"
    "uMustChangePassword u \<Longrightarrow> restricted_route r"
  using assms
  by (auto simp: AuthenticateRequest_def Let_def split: prod.splits sum.splits if_splits)

text \<open>Alone, the check reads the store and changes nothing on success.\<close>

lemma AuthenticateRequest_alone:
  assumes "AuthenticateRequest pr n1 n2 (\<lambda>_. []) r w = (Inr (u, s), w')"
  shows "db w' = db w" "s \<in> set (sessions (db w))" "sTokenHash s = SHA256Hex pr (request_token r)"
    "n1 \<le> sExpiresAt s" "u \<in> set (users (db w))" "uID u = sUserID s" "uStatus u = ''active''"
    "uMustChangePassword u \<Longrightarrow> restricted_route r"
  using assms by (auto elim!: AuthenticateRequest_Inr dest!: GetUserByID_Inr GetSession_InrD)

section \<open>A session that has been revoked\<close>

definition session_gone :: "string \<Rightarrow> db \<Rightarrow> bool" where
  "session_gone t d \<longleftrightarrow> (\<forall>s \<in> set (sessions d). sTokenHash s \<noteq> t)"

fun makes_session :: "string \<Rightarrow> store_op \<Rightarrow> bool" where
  "makes_session t (OpCreateSession s h) = (sTokenHash s = t)"
| "makes_session t _ = False"

lemma run_op_session_gone:
  assumes "\<not> makes_session t p" "session_gone t (db w)"
  shows "session_gone t (db (run_op p w))"
  using assms run_op_sessions [of p w]
  by (cases p) (fastforce simp: session_gone_def simp del: run_op.simps elim!: row_elims)+

lemma run_ops_session_gone:
  assumes "\<forall>p \<in> set ps. \<not> makes_session t p" "session_gone t (db w)"
  shows "session_gone t (db (run_ops ps w))"
  by (rule run_ops_keeps [where P = "session_gone t"]) (use assms run_op_session_gone in auto)

text \<open>
  The state of a session whose owner has to replace the password: the session belongs to
  that account and the account still has the flag, or the session is gone.
\<close>

definition held_back :: "string \<Rightarrow> string \<Rightarrow> db \<Rightarrow> bool" where
  "held_back t i d \<longleftrightarrow> (\<forall>s \<in> set (sessions d). sTokenHash s = t \<longrightarrow> sUserID s = i) \<and>
     (session_gone t d \<or> (\<forall>u \<in> set (users d). uID u = i \<longrightarrow> uMustChangePassword u))"

text \<open>
  The only other operations that could lift the restriction: writing the account record
  without the flag, or creating the account or the session anew.
\<close>

fun lifts :: "string \<Rightarrow> string \<Rightarrow> store_op \<Rightarrow> bool" where
  "lifts t i (OpCreateUser now u) = (uID u = i)"
| "lifts t i (OpUpdateUser now u) = (uID u = i \<and> \<not> uMustChangePassword u)"
| "lifts t i (OpCreateSession s h) = (sTokenHash s = t)"
| "lifts t i _ = False"

lemma lifts_makes_session: "\<not> lifts t i p \<Longrightarrow> \<not> makes_session t p"
  by (cases p) auto

lemma run_op_owner:
  assumes "\<not> lifts t i p" "\<forall>s \<in> set (sessions (db w)). sTokenHash s = t \<longrightarrow> sUserID s = i"
  shows "\<forall>s \<in> set (sessions (db (run_op p w))). sTokenHash s = t \<longrightarrow> sUserID s = i"
  using assms run_op_sessions [of p w] by (cases p) (fastforce simp del: run_op.simps elim!: row_elims)+

lemma run_op_flag:
  assumes "\<not> lifts t i p" "\<forall>u \<in> set (users (db w)). uID u = i \<longrightarrow> uMustChangePassword u"
    and "\<And>now old new ip. p \<noteq> OpCompletePasswordChange now i old new ip"
  shows "\<forall>u \<in> set (users (db (run_op p w))). uID u = i \<longrightarrow> uMustChangePassword u"
  using assms run_op_users [of p w] by (cases p) (fastforce simp del: run_op.simps elim!: row_elims)+

lemma run_op_held_back:
  assumes "\<not> lifts t i p" "held_back t i (db w)"
  shows "held_back t i (db (run_op p w))"
proof -
  have owner: "\<forall>s \<in> set (sessions (db (run_op p w))). sTokenHash s = t \<longrightarrow> sUserID s = i"
    using run_op_owner [OF assms(1)] assms(2) unfolding held_back_def by blast
  consider (gone) "session_gone t (db w)"
    | (change) now old new ip where "p = OpCompletePasswordChange now i old new ip"
    | (other) "\<forall>u \<in> set (users (db w)). uID u = i \<longrightarrow> uMustChangePassword u"
        "\<And>now old new ip. p \<noteq> OpCompletePasswordChange now i old new ip"
    using assms(2) by (auto simp: held_back_def)
  then show ?thesis
  proof cases
    case gone
    with owner run_op_session_gone [OF lifts_makes_session [OF assms(1)]] show ?thesis
      by (simp add: held_back_def)
  next
    case change
    obtain r w' where e: "CompletePasswordChange now i old new ip w = (r, w')" by fastforce
    have "db w' = db w \<or> sessions (db w') = del_where (\<lambda>s. sUserID s = i) (sessions (db w))"
      using CompletePasswordChange_cases [OF e] by (auto simp: effect_defs)
    then have "db w' = db w \<or> session_gone t (db w')"
      using assms(2) by (auto simp: held_back_def session_gone_def del_where_def)
    with assms(2) owner change e show ?thesis
      by (cases "db w' = db w") (simp_all add: held_back_def)
  next
    case other
    with owner run_op_flag [OF assms(1)] show ?thesis by (simp add: held_back_def)
  qed
qed

lemma run_ops_held_back:
  assumes "\<forall>p \<in> set ps. \<not> lifts t i p" "held_back t i (db w)"
  shows "held_back t i (db (run_ops ps w))"
  by (rule run_ops_keeps [where P = "held_back t i"]) (use assms run_op_held_back in auto)

lemma GetSession_held_back:
  assumes "GetSession now t' w = (r, w')" "held_back t i (db w)"
  shows "held_back t i (db w')"
  using run_op_held_back [of t i "OpGetSession now t'" w] assms by simp

text \<open>
  A session whose owner must replace the password opens no product route, even when the
  replacement happens while the request is being checked.
\<close>

lemma AuthenticateRequest_held_back:
  assumes "held_back (SHA256Hex pr (request_token r)) i (db w)" "\<not> restricted_route r"
    and lifts: "\<forall>k. \<forall>p \<in> set (others k). \<not> lifts (SHA256Hex pr (request_token r)) i p"
  shows "AuthenticateRequest pr n1 n2 others r w \<noteq> (Inr x, w')"
proof
  let ?t = "SHA256Hex pr (request_token r)"
  assume "AuthenticateRequest pr n1 n2 others r w = (Inr x, w')"
  then obtain u s where "AuthenticateRequest pr n1 n2 others r w = (Inr (u, s), w')" by (cases x) auto
  then obtain w1 w2 s' where
    g1: "GetSession n1 ?t (run_ops (others 0) w) = (Inr s, w1)" and
    gu: "GetUserByID (sUserID s) (run_ops (others 1) w1) = (Inr u, w2)" and
    g2: "GetSession n2 ?t (run_ops (others 2) w2) = (Inr s', w')" and
    flag: "uMustChangePassword u \<longrightarrow> restricted_route r"
    by (auto elim: AuthenticateRequest_Inr)
  have h0: "held_back ?t i (db (run_ops (others 0) w))"
    using assms(1) lifts by (intro run_ops_held_back) auto
  then have h1: "held_back ?t i (db (run_ops (others 1) w1))"
    using lifts GetSession_held_back [OF g1] run_ops_held_back by blast
  have i: "sUserID s = i" using h0 GetSession_Inr [OF g1] by (auto simp: held_back_def)
  have u: "u \<in> set (users (db (run_ops (others 1) w1)))" "uID u = i" "db w2 = db (run_ops (others 1) w1)"
    using GetUserByID_Inr [OF gu] i by auto
  with h1 flag assms(2) have "session_gone ?t (db w2)" by (auto simp: held_back_def)
  then have "session_gone ?t (db (run_ops (others 2) w2))"
    using lifts lifts_makes_session run_ops_session_gone by blast
  with GetSession_Inr [OF g2] show False by (auto simp: session_gone_def)
qed

end
