(* ===== verification/Auth_Pow.thy ===== *)
theory Auth_Pow
  imports Auth_Crypto Go_Json
begin

text \<open>
  \<^verbatim>\<open>internal/auth/pow.go\<close>: the signed SHA-256 puzzle of the login form. Go's \<^verbatim>\<open>int\<close> and
  \<^verbatim>\<open>int64\<close> are 64 bits wide; nothing is added to a number a caller supplies, so they stay
  plain integers, and decoding refuses what does not fit.
\<close>

record pow_challenge =
  cAlgorithm :: string
  cSalt :: string
  cChallenge :: string
  cMaxNumber :: int
  cExpiresAt :: int
  cSignature :: string

record pow_solution =
  oAlgorithm :: string
  oSalt :: string
  oChallenge :: string
  oNumber :: int
  oMaxNumber :: int
  oExpiresAt :: int
  oSignature :: string

definition signature_payload :: "string \<Rightarrow> string \<Rightarrow> int \<Rightarrow> int \<Rightarrow> string" where
  "signature_payload salt challenge maxNumber expiresAt =
     salt @ '':'' @ challenge @ '':'' @ Itoa maxNumber @ '':'' @ Itoa expiresAt"

definition puzzle :: "prims \<Rightarrow> string \<Rightarrow> int \<Rightarrow> string" where
  "puzzle pr salt number = hex_encode (sha256 pr (salt @ Itoa number))"

text \<open>The two random draws, the salt bytes and the winning number, may fail.\<close>

definition GeneratePoWChallenge ::
    "prims \<Rightarrow> time \<Rightarrow> string option \<Rightarrow> (int \<Rightarrow> int option) \<Rightarrow> int \<Rightarrow> string \<Rightarrow> pow_challenge option" where
  "GeneratePoWChallenge pr now saltBytes randInt difficulty signingSecret =
     (let difficulty = (if difficulty \<le> 0 then 20000 else difficulty)
      in case saltBytes of
           None \<Rightarrow> None
         | Some saltBytes \<Rightarrow>
             (let salt = hex_encode saltBytes
              in case randInt difficulty of
                   None \<Rightarrow> None
                 | Some n \<Rightarrow>
                     (let challenge = puzzle pr salt (n + 1);
                          challengeExpires = Unix (now + 5 * Minute)
                      in Some \<lparr>cAlgorithm = ''SHA-256'', cSalt = salt, cChallenge = challenge,
                           cMaxNumber = difficulty, cExpiresAt = challengeExpires,
                           cSignature = ComputeHMACSHA256 pr
                             (signature_payload salt challenge difficulty challengeExpires) signingSecret\<rparr>)))"

text \<open>\<^verbatim>\<open>rand.Int\<close> draws from \<open>[0, max)\<close>.\<close>

definition rand_in_range :: "(int \<Rightarrow> int option) \<Rightarrow> bool" where
  "rand_in_range rnd \<longleftrightarrow> (\<forall>m n. 0 < m \<longrightarrow> rnd m = Some n \<longrightarrow> 0 \<le> n \<and> n < m)"

definition solution_fields :: fields where
  "solution_fields = [(''algorithm'', VStr []), (''salt'', VStr []), (''challenge'', VStr []),
     (''number'', VInt 0), (''maxnumber'', VInt 0), (''expires_at'', VInt 0), (''signature'', VStr [])]"

definition solution_of :: "fields \<Rightarrow> pow_solution" where
  "solution_of fs = \<lparr>oAlgorithm = str_field fs ''algorithm'', oSalt = str_field fs ''salt'',
     oChallenge = str_field fs ''challenge'', oNumber = int_field fs ''number'',
     oMaxNumber = int_field fs ''maxnumber'', oExpiresAt = int_field fs ''expires_at'',
     oSignature = str_field fs ''signature''\<rparr>"

text \<open>Padded base64 first, unpadded when that fails, then JSON.\<close>

definition decode_solution :: "string \<Rightarrow> pow_solution option" where
  "decode_solution solutionBase64 =
     (case (case StdDecode solutionBase64 of Some d \<Rightarrow> Some d | None \<Rightarrow> RawDecode StdAlphabet solutionBase64) of
        None \<Rightarrow> None
      | Some data \<Rightarrow> map_option solution_of (Unmarshal solution_fields data))"

definition VerifyPoWSolution :: "prims \<Rightarrow> time \<Rightarrow> string \<Rightarrow> string \<Rightarrow> bool" where
  "VerifyPoWSolution pr now solutionBase64 signingSecret =
     (case decode_solution solutionBase64 of
        None \<Rightarrow> False
      | Some sol \<Rightarrow>
          if oAlgorithm sol \<noteq> ''SHA-256'' \<or> oSalt sol = [] \<or> oChallenge sol = [] \<or> oSignature sol = [] \<or>
             oNumber sol < 1 \<or> oMaxNumber sol < 1 \<or> oNumber sol > oMaxNumber sol \<or>
             oExpiresAt sol < Unix now
          then False
          else if \<not> VerifyHMACSHA256 pr
                 (signature_payload (oSalt sol) (oChallenge sol) (oMaxNumber sol) (oExpiresAt sol))
                 signingSecret (oSignature sol)
          then False
          else puzzle pr (oSalt sol) (oNumber sol) = oChallenge sol)"

section \<open>Laws\<close>

lemma colon_not_hex_encode: "CHR '':'' \<notin> set (hex_encode s)"
  using set_hex_encode [of s] colon_not_hex(1) by blast

lemma count_list_append: "count_list (xs @ ys) c = count_list xs c + count_list ys c"
  by (induction xs) auto

lemma count_list_notin: "count_list xs c = 0 \<longleftrightarrow> c \<notin> set xs"
  by (induction xs) auto

text \<open>
  The signed payload is unambiguous: a payload the server signs has three colons, so any
  other way to read the same text gives the same four parts, whatever a caller puts into
  the first two.
\<close>

lemma signature_payload_inject:
  assumes "signature_payload s c m e = signature_payload s' c' m' e'"
    and "CHR '':'' \<notin> set s" "CHR '':'' \<notin> set c"
  shows "s' = s \<and> c' = c \<and> m' = m \<and> e' = e"
proof -
  have "count_list (signature_payload s c m e) (CHR '':'') = 3"
    using assms(2,3) count_list_notin [of s "CHR '':''"] count_list_notin [of c "CHR '':''"]
      count_list_notin [of "Itoa m" "CHR '':''"] count_list_notin [of "Itoa e" "CHR '':''"]
    by (simp add: signature_payload_def count_list_append colon_not_Itoa)
  then have "count_list s' (CHR '':'') = 0" "count_list c' (CHR '':'') = 0"
    unfolding assms(1) by (simp_all add: signature_payload_def count_list_append)
  then have "CHR '':'' \<notin> set s'" "CHR '':'' \<notin> set c'" by (simp_all add: count_list_notin)
  with assms show ?thesis
    by (simp add: signature_payload_def append_sep_eq colon_not_Itoa Itoa_inject)
qed

lemma VerifyPoWSolution_True:
  assumes "VerifyPoWSolution pr now text secret"
  obtains sol where "decode_solution text = Some sol"
    "1 \<le> oNumber sol" "oNumber sol \<le> oMaxNumber sol" "Unix now \<le> oExpiresAt sol"
    "oSignature sol = ComputeHMACSHA256 pr
       (signature_payload (oSalt sol) (oChallenge sol) (oMaxNumber sol) (oExpiresAt sol)) secret"
    "puzzle pr (oSalt sol) (oNumber sol) = oChallenge sol"
  using assms
  by (auto simp: VerifyPoWSolution_def VerifyHMACSHA256_def not_less split: option.splits if_splits)

lemma GeneratePoWChallenge_Some:
  assumes "GeneratePoWChallenge pr now saltBytes rnd difficulty secret = Some ch"
  obtains sb n where "saltBytes = Some sb" "rnd (cMaxNumber ch) = Some n"
    "cMaxNumber ch = (if difficulty \<le> 0 then 20000 else difficulty)"
    "cSalt ch = hex_encode sb" "cChallenge ch = puzzle pr (cSalt ch) (n + 1)"
    "cExpiresAt ch = Unix (now + 5 * Minute)" "cAlgorithm ch = ''SHA-256''"
    "cSignature ch = ComputeHMACSHA256 pr
       (signature_payload (cSalt ch) (cChallenge ch) (cMaxNumber ch) (cExpiresAt ch)) secret"
  using assms by (auto simp: GeneratePoWChallenge_def Let_def split: option.splits)

lemma colon_not_puzzle: "CHR '':'' \<notin> set (puzzle pr s n)"
  by (simp add: puzzle_def colon_not_hex_encode)

end
