(* ===== verification/Auth_Recovery.thy ===== *)
theory Auth_Recovery
  imports Auth_Crypto Go_Json
begin

text \<open>
  \<^verbatim>\<open>internal/auth/recovery.go\<close> and \<^verbatim>\<open>totp.go\<close>: one-time recovery codes kept as a JSON array
  of digests, and TOTP validation. Matching, normalising and generating codes belong to the
  \<^verbatim>\<open>recoverycode\<close> package; what it is documented to do is the predicate \<open>match_spec\<close>.
\<close>

definition digest :: "prims \<Rightarrow> string \<Rightarrow> string" where
  "digest pr normalised = hex_encode (sha256 pr normalised)"

text \<open>\<open>codes\<close> is what \<^verbatim>\<open>recoverycode.Generate(count)\<close> returns, \<open>None\<close> its error.\<close>

definition GenerateRecoveryCodes ::
    "prims \<Rightarrow> (int \<Rightarrow> (string list) option) \<Rightarrow> int \<Rightarrow> (string list \<times> string) option" where
  "GenerateRecoveryCodes pr generate count =
     (let count = (if count \<le> 0 then 8 else count)
      in case generate count of
           None \<Rightarrow> None
         | Some codes \<Rightarrow> Some (codes, MarshalStrings (map (\<lambda>c. digest pr (rc_normalize pr c)) codes)))"

definition RedeemRecoveryCode :: "prims \<Rightarrow> string \<Rightarrow> string \<Rightarrow> string option" where
  "RedeemRecoveryCode pr candidateCode hashedJSON =
     (case UnmarshalStrings hashedJSON of
        None \<Rightarrow> None
      | Some digests \<Rightarrow> (case rc_match pr candidateCode digests (digest pr) of
            None \<Rightarrow> None
          | Some i \<Rightarrow> Some (MarshalStrings (digests[i := []]))))"

text \<open>\<^verbatim>\<open>ValidateTOTP\<close>: the counter the code matched.\<close>

definition ValidateTOTP :: "prims \<Rightarrow> time \<Rightarrow> string \<Rightarrow> string \<Rightarrow> int option" where
  "ValidateTOTP pr now secret code = totp_validate pr secret code now"

text \<open>
  \<^verbatim>\<open>recoverycode.MatchCode(code, digests, digest)\<close> returns the index of a slot that holds the
  digest of the normalised code, and finds one when there is one.
\<close>

definition match_spec :: "prims \<Rightarrow> bool" where
  "match_spec pr \<longleftrightarrow> (\<forall>code ds h. case rc_match pr code ds h of
     None \<Rightarrow> h (rc_normalize pr code) \<notin> set ds
   | Some i \<Rightarrow> i < length ds \<and> ds ! i = h (rc_normalize pr code))"

lemma first_index_Some: "first_index p xs = Some i \<Longrightarrow> i < length xs \<and> p (xs ! i)"
  by (induction xs arbitrary: i) (auto split: if_splits)

lemma first_index_None: "first_index p xs = None \<Longrightarrow> x \<in> set xs \<Longrightarrow> \<not> p x"
  by (induction xs) (auto split: if_splits)

lemma clear_prims_match: "match_spec clear_prims" "match_spec sized_prims"
  by (auto simp: match_spec_def clear_prims_def sized_prims_def dest: first_index_Some first_index_None
      split: option.splits)

section \<open>Laws\<close>

lemma hex_digits_plain:
  assumes "c \<in> hex_digits"
  shows "plain c"
proof -
  have "(of_char c :: int) = int (of_char c)" by (rule of_nat_of_char [symmetric])
  with hex_digits_code [OF assms] have "(32 :: int) \<le> of_char c" "of_char c < (128 :: int)" by auto
  moreover have "c \<noteq> CHR 0x22" "c \<noteq> CHR 0x5C" "c \<noteq> CHR ''<''" "c \<noteq> CHR ''>''" "c \<noteq> CHR ''&''"
    using hex_digits_code [OF assms] by auto
  ultimately show ?thesis by (simp add: plain_def)
qed

lemma plain_digest: "list_all plain (digest pr s)"
  using set_hex_encode [of "sha256 pr s"] hex_digits_plain by (auto simp: list_all_iff digest_def)

lemma digest_nonempty: "digest_size pr \<Longrightarrow> digest pr s \<noteq> []"
  using SHA256Hex_nonempty by (simp add: digest_def SHA256Hex_def)

text \<open>The digests of an enrolled user: printed as hex, each slot either a digest or blank.\<close>

definition code_slots :: "string \<Rightarrow> string list \<Rightarrow> bool" where
  "code_slots hashedJSON ds \<longleftrightarrow> UnmarshalStrings hashedJSON = Some ds \<and> list_all (list_all plain) ds"

lemma code_slots_marshal: "list_all (list_all plain) ds \<Longrightarrow> code_slots (MarshalStrings ds) ds"
  by (simp add: code_slots_def strings_roundtrip)

lemma list_all_update: "list_all P xs \<Longrightarrow> P x \<Longrightarrow> list_all P (xs[i := x])"
  by (auto simp: list_all_iff dest: set_update_subset_insert [THEN subsetD])

text \<open>A redemption blanks one slot, the one that holds the code's digest, and nothing else.\<close>

lemma RedeemRecoveryCode_Some:
  assumes "match_spec pr" "code_slots hashes ds" "RedeemRecoveryCode pr code hashes = Some out"
  obtains i where "i < length ds" "ds ! i = digest pr (rc_normalize pr code)" "code_slots out (ds[i := []])"
proof -
  obtain i where i: "rc_match pr code ds (digest pr) = Some i" "out = MarshalStrings (ds[i := []])"
    using assms(2,3) by (auto simp: RedeemRecoveryCode_def code_slots_def split: option.splits)
  have "case rc_match pr code ds (digest pr) of
      None \<Rightarrow> digest pr (rc_normalize pr code) \<notin> set ds
    | Some i \<Rightarrow> i < length ds \<and> ds ! i = digest pr (rc_normalize pr code)"
    using assms(1) unfolding match_spec_def by blast
  moreover have "code_slots out (ds[i := []])"
    using assms(2) i(2) by (simp add: code_slots_marshal list_all_update code_slots_def [of hashes])
  ultimately show thesis using i(1) that [of i] by simp
qed

lemma RedeemRecoveryCode_None:
  assumes "match_spec pr" "code_slots hashes ds" "RedeemRecoveryCode pr code hashes = None"
  shows "digest pr (rc_normalize pr code) \<notin> set ds"
proof -
  have "case rc_match pr code ds (digest pr) of
      None \<Rightarrow> digest pr (rc_normalize pr code) \<notin> set ds
    | Some i \<Rightarrow> i < length ds \<and> ds ! i = digest pr (rc_normalize pr code)"
    using assms(1) unfolding match_spec_def by blast
  with assms(2,3) show ?thesis
    by (auto simp: RedeemRecoveryCode_def code_slots_def split: option.splits)
qed

lemma RedeemRecoveryCode_iff:
  assumes "match_spec pr" "code_slots hashes ds"
  shows "RedeemRecoveryCode pr code hashes \<noteq> None \<longleftrightarrow> digest pr (rc_normalize pr code) \<in> set ds"
proof
  assume "RedeemRecoveryCode pr code hashes \<noteq> None"
  then obtain out where "RedeemRecoveryCode pr code hashes = Some out" by blast
  with assms show "digest pr (rc_normalize pr code) \<in> set ds"
    by (auto elim!: RedeemRecoveryCode_Some) (metis nth_mem)
next
  assume "digest pr (rc_normalize pr code) \<in> set ds"
  with RedeemRecoveryCode_None [OF assms] show "RedeemRecoveryCode pr code hashes \<noteq> None" by blast
qed

end
