(* ===== verification/Auth_Policy.thy ===== *)
theory Auth_Policy
  imports Go_Text
begin

text \<open>
  \<^verbatim>\<open>internal/auth/policy.go\<close>: the password length rule and the two syntax checks. The regular
  expressions are written out as what they match; their classes hold ASCII characters only,
  so matching bytes is matching characters.
\<close>

datatype policy_err = ErrPasswordTooShort | ErrInvalidUsername | ErrInvalidEmail

definition ValidatePassword :: "string \<Rightarrow> policy_err option" where
  "ValidatePassword password =
     (if length (TrimSpace password) < 12 then Some ErrPasswordTooShort else None)"

definition code_in :: "nat \<Rightarrow> nat \<Rightarrow> char \<Rightarrow> bool" where
  "code_in lo hi c \<longleftrightarrow> lo \<le> of_char c \<and> of_char c \<le> hi"

definition letter :: "char \<Rightarrow> bool" where
  "letter c \<longleftrightarrow> code_in 97 122 c \<or> code_in 65 90 c"

definition alnum :: "char \<Rightarrow> bool" where
  "alnum c \<longleftrightarrow> letter c \<or> code_in 48 57 c"

definition username_char :: "char \<Rightarrow> bool" where
  "username_char c \<longleftrightarrow> alnum c \<or> c = CHR ''_'' \<or> c = CHR ''-'' \<or> c = CHR ''.''"

definition ValidateUsername :: "string \<Rightarrow> policy_err option" where
  "ValidateUsername username =
     (if list_all username_char username \<and> 3 \<le> length username \<and> length username \<le> 64
      then None else Some ErrInvalidUsername)"

definition local_char :: "char \<Rightarrow> bool" where
  "local_char c \<longleftrightarrow> alnum c \<or> c = CHR ''.'' \<or> c = CHR ''_'' \<or> c = CHR ''%'' \<or> c = CHR ''+'' \<or> c = CHR ''-''"

definition domain_char :: "char \<Rightarrow> bool" where
  "domain_char c \<longleftrightarrow> alnum c \<or> c = CHR ''.'' \<or> c = CHR ''-''"

text \<open>
  A match is a position \<open>i\<close> of the at sign and a position \<open>j\<close> of the dot before the last
  label: a part before \<open>i\<close>, a part between them and at least two letters after \<open>j\<close>.
\<close>

definition email_at :: "string \<Rightarrow> nat \<Rightarrow> nat \<Rightarrow> bool" where
  "email_at s i j \<longleftrightarrow> 0 < i \<and> i + 1 < j \<and> j < length s \<and> s ! i = CHR ''@'' \<and> s ! j = CHR ''.'' \<and>
     list_all local_char (take i s) \<and> list_all domain_char (drop (i + 1) (take j s)) \<and>
     list_all letter (drop (j + 1) s) \<and> 2 \<le> length (drop (j + 1) s)"

definition email_match :: "string \<Rightarrow> bool" where
  "email_match s \<longleftrightarrow> (\<exists>i \<in> set [0..<length s]. \<exists>j \<in> set [0..<length s]. email_at s i j)"

definition ValidateEmail :: "string \<Rightarrow> policy_err option" where
  "ValidateEmail email =
     (if email = [] then None else if email_match email then None else Some ErrInvalidEmail)"

text \<open>An accepted password has twelve bytes or more, and white space around it does not count.\<close>

lemma ValidatePassword_None:
  "ValidatePassword p = None \<longleftrightarrow> 12 \<le> length (TrimSpace p)"
  by (simp add: ValidatePassword_def)

lemma ValidatePassword_length: "ValidatePassword p = None \<Longrightarrow> 12 \<le> length p"
  using length_TrimSpace [of p] by (simp add: ValidatePassword_None)

text \<open>The at sign of an accepted address is its only one.\<close>

lemma local_char_not_at: "\<not> local_char (CHR ''@'')" "\<not> domain_char (CHR ''@'')" "\<not> letter (CHR ''@'')"
  by (simp_all add: local_char_def domain_char_def alnum_def letter_def code_in_def)

lemma email_at_split:
  assumes "email_at s i j"
  shows "s = take i s @ ''@'' @ drop (i + 1) (take j s) @ ''.'' @ drop (j + 1) s"
proof -
  have j: "i < j" "j < length s" and c: "s ! i = CHR ''@''" "s ! j = CHR ''.''"
    using assms by (simp_all add: email_at_def)
  have "take j s = take i (take j s) @ take j s ! i # drop (Suc i) (take j s)"
    using j by (intro id_take_nth_drop) simp
  moreover have "s = take j s @ s ! j # drop (Suc j) s"
    using j by (intro id_take_nth_drop) simp
  ultimately show ?thesis using j c by (metis append.assoc append_Cons append_Nil min.absorb1 less_imp_le nth_take take_take Suc_eq_plus1)
qed

lemma email_one_at:
  assumes "email_match s"
  shows "count_list s (CHR ''@'') = 1"
proof -
  obtain i j where ij: "email_at s i j" using assms by (auto simp: email_match_def)
  have no: "CHR ''@'' \<notin> set p" if "list_all P p" "\<not> P (CHR ''@'')" for P p
    using that by (auto simp: list_all_iff)
  have "CHR ''@'' \<notin> set (take i s)" "CHR ''@'' \<notin> set (drop (i + 1) (take j s))" "CHR ''@'' \<notin> set (drop (j + 1) s)"
    using ij no local_char_not_at by (auto simp: email_at_def)
  then show ?thesis
    by (subst email_at_split [OF ij]) (simp add: count_list_0_iff)
qed

end
