(* ===== verification/Device_Pairing.thy ===== *)
theory Device_Pairing
  imports Auth_Session
begin

text \<open>
  \<^verbatim>\<open>internal/devices/devices.go\<close>: the pairing service on top of the device store. As in
  \<^verbatim>\<open>Auth_Session\<close>, \<open>others k\<close> is what other requests do before the k-th store call.
\<close>

record pairing_service =
  psAppName :: string
  psAppURL :: string

record init_result =
  irCode :: string
  irSecret :: string
  irExpiresAt :: int
  irQRPayload :: string

text \<open>\<^verbatim>\<open>%06d\<close>\<close>

definition pad6 :: "int \<Rightarrow> string" where
  "pad6 n = (let s = Itoa n in replicate (6 - length s) (CHR ''0'') @ s)"

text \<open>The QR payload is a Go map: its keys are printed in order.\<close>

definition qr_payload :: "pairing_service \<Rightarrow> string \<Rightarrow> string \<Rightarrow> int \<Rightarrow> string" where
  "qr_payload svc code secret expires = Marshal (JObj
     [(''action'', JStr ''ky_pair''), (''app_name'', JStr (psAppName svc)), (''app_url'', JStr (psAppURL svc)),
      (''code'', JStr code), (''expires'', JNum (Itoa expires)), (''secret'', JStr secret)])"

text \<open>A failed random draw is reported like any other failure of the machine, \<open>ErrDriver\<close>.\<close>

definition InitPairing ::
    "pairing_service \<Rightarrow> time \<Rightarrow> (int \<Rightarrow> int option) \<Rightarrow> string \<Rightarrow> string \<Rightarrow> world \<Rightarrow> init_result outcome" where
  "InitPairing svc now randInt secretBytes userID w =
     (case randInt 900000 of
        None \<Rightarrow> (Inl ErrDriver, w)
      | Some n \<Rightarrow>
          (let code = pad6 (n + 100000);
               secret = RandomHex secretBytes;
               expiresAt = now + 90 * Second;
               pairing = \<lparr>pCode = code, pSecret = secret, pUserID = userID, pDeviceName = [],
                          pPlatform = [], pPushToken = [], pStatus = ''pending'', pCreatedAt = now,
                          pExpiresAt = expiresAt\<rparr>
           in case CreatePairing now pairing w of
                (Inl e, w) \<Rightarrow> (Inl e, w)
              | (Inr _, w) \<Rightarrow>
                  (Inr \<lparr>irCode = code, irSecret = secret, irExpiresAt = Unix expiresAt,
                        irQRPayload = qr_payload svc code secret (Unix expiresAt)\<rparr>, w)))"

text \<open>\<^verbatim>\<open>VerifyPairing\<close> reads the clock in its lookup, in its own check and in the consumption.\<close>

definition VerifyPairing ::
    "time \<Rightarrow> time \<Rightarrow> time \<Rightarrow> interference \<Rightarrow> string \<Rightarrow> string \<Rightarrow> string \<Rightarrow> string \<Rightarrow> world \<Rightarrow>
     (device_pairing \<times> user) outcome" where
  "VerifyPairing now1 now2 now3 others codeOrSecret deviceName platform pushToken w =
     (case (if length codeOrSecret = 6 then GetPairingByCode now1 codeOrSecret (run_ops (others 0) w)
            else GetPairingBySecret now1 codeOrSecret (run_ops (others 0) w)) of
        (Inl e, w) \<Rightarrow> (Inl (if e = ErrNotFound then ErrPairingNotFound
                            else if e = ErrPairingExpired then ErrPairingCodeExpired else e), w)
      | (Inr pairing, w) \<Rightarrow>
          if now2 > pExpiresAt pairing then (Inl ErrPairingCodeExpired, w)
          else if pStatus pairing \<noteq> ''pending'' then (Inl ErrPairingNotFound, w)
          else (case GetUserByID (pUserID pairing) (run_ops (others 1) w) of
                  (Inl _, w) \<Rightarrow> (Inl ErrPairingNotFound, w)
                | (Inr user, w) \<Rightarrow>
                    if uStatus user \<noteq> ''active'' \<or> uMustChangePassword user then (Inl ErrPairingNotFound, w)
                    else (case ConsumePairing now3 (pSecret pairing) deviceName platform pushToken
                                 (run_ops (others 2) w) of
                            (Inl e, w) \<Rightarrow> (Inl e, w)
                          | (Inr _, w) \<Rightarrow>
                              (Inr (pairing\<lparr>pDeviceName := deviceName, pPlatform := platform,
                                     pPushToken := pushToken, pStatus := ''consumed''\<rparr>, user), w))))"

definition PollPairingStatus :: "time \<Rightarrow> string \<Rightarrow> world \<Rightarrow> device_pairing outcome" where
  "PollPairingStatus now secret w = GetPairingBySecret now secret w"

section \<open>Laws\<close>

lemma scanPairing_InrD:
  "scanPairing now q w = (Inr p, w') \<Longrightarrow>
     p \<in> set (device_pairings (db w)) \<and> q p \<and> now \<le> pExpiresAt p \<and> db w' = db w"
  by (auto simp: scanPairing_def dest!: sql_query_Inr find_SomeD
      split: prod.splits sum.splits option.splits if_splits)

lemma VerifyPairing_Inr:
  assumes "VerifyPairing n1 n2 n3 others c dn pf pt w = (Inr (p, u), w')"
  obtains q w1 w2 where
    "q \<in> set (device_pairings (db (run_ops (others 0) w)))" "pStatus q = ''pending''"
    "pCode q = c \<or> pSecret q = c" "n1 \<le> pExpiresAt q" "n2 \<le> pExpiresAt q"
    "pUserID p = pUserID q" "pSecret p = pSecret q"
    "db w1 = db (run_ops (others 0) w)"
    "GetUserByID (pUserID q) (run_ops (others 1) w1) = (Inr u, w2)"
    "uStatus u = ''active''" "\<not> uMustChangePassword u" 
    "ConsumePairing n3 (pSecret q) dn pf pt (run_ops (others 2) w2) = (Inr (), w')"
  using assms unfolding VerifyPairing_def GetPairingByCode_def GetPairingBySecret_def
  by (auto dest!: scanPairing_InrD split: prod.splits sum.splits if_splits)

lemma InitPairing_Inr:
  assumes "InitPairing svc now rnd sb i w = (Inr res, w')"
  obtains p n where "rnd 900000 = Some n" "pCode p = irCode res" "pSecret p = irSecret res"
    "pUserID p = i" "pStatus p = ''pending''" "pExpiresAt p = now + 90 * Second"
    "irCode res = pad6 (n + 100000)" "irSecret res = RandomHex sb"
    "pSecret p \<notin> pSecret ` set (device_pairings (db w))"
    "pCode p \<notin> pCode ` set (device_pairings (db w))"
    "CreatePairing now p w = (Inr p, w')"
    "db w' = (db w)\<lparr>device_pairings := device_pairings (db w) @ [p]\<rparr>"
proof -
  obtain n where n: "rnd 900000 = Some n"
    using assms by (auto simp: InitPairing_def split: option.splits)
  let ?p = "\<lparr>pCode = pad6 (n + 100000), pSecret = RandomHex sb, pUserID = i, pDeviceName = [],
     pPlatform = [], pPushToken = [], pStatus = ''pending'', pCreatedAt = now, pExpiresAt = now + 90 * Second\<rparr>"
  obtain p' where c: "CreatePairing now ?p w = (Inr p', w')"
    and r: "irCode res = pad6 (n + 100000)" "irSecret res = RandomHex sb"
    using assms n by (auto simp: InitPairing_def Let_def split: prod.splits sum.splits)
  have eq: "p' = ?p"
    using c by (auto simp: CreatePairing_def Let_def split: prod.splits sum.splits if_splits)
  from that [of n ?p] n r c CreatePairing_Inr [OF c] show thesis unfolding eq by simp
qed

lemma length_nat_digits: "10 ^ k \<le> n \<Longrightarrow> n < 10 ^ Suc k \<Longrightarrow> length (nat_digits n) = Suc k"
proof (induction k arbitrary: n)
  case 0
  then show ?case by (simp add: nat_digits.simps)
next
  case (Suc k)
  have "10 \<le> n" using Suc.prems(1) by (rule order.trans [rotated]) simp
  moreover have "length (nat_digits (n div 10)) = Suc k"
    using Suc.prems by (intro Suc.IH) (simp_all add: less_mult_imp_div_less less_eq_div_iff_mult_less_eq)
  ultimately show ?case by (subst nat_digits.simps) simp
qed

lemma pad6_six: "100000 \<le> n \<Longrightarrow> n < 1000000 \<Longrightarrow> length (pad6 n) = 6"
  using length_nat_digits [of 5 "nat n"] by (simp add: pad6_def Itoa_def Let_def le_nat_iff nat_less_iff)

end
