(* ===== verification/Auth_Props.thy ===== *)
theory Auth_Props
  imports Store_Props Auth_Session Auth_Pow Auth_Recovery Auth_Policy Device_Pairing
begin

text \<open>
  The properties of the packages \<^verbatim>\<open>auth\<close>, \<^verbatim>\<open>crypto\<close>, \<^verbatim>\<open>config\<close> and \<^verbatim>\<open>devices\<close>.
\<close>

section \<open>Sessions\<close>

text \<open>C35: a request is authenticated only by a token whose session row exists and has not
  expired, checked before and again after the account is read; the account is the owner of the
  session, active, and without a pending password change unless the route is one of the three
  that are still open to it. This holds whatever other requests do to the store in between.\<close>

theorem authenticated_request_sound:
  assumes "AuthenticateRequest pr now1 now2 others r w = (Inr (u, s), w')"
  shows "request_token r \<noteq> [] \<and> sTokenHash s = SHA256Hex pr (request_token r) \<and>
    now1 \<le> sExpiresAt s \<and> uID u = sUserID s \<and> uStatus u = ''active'' \<and>
    (uMustChangePassword u \<longrightarrow> restricted_route r) \<and>
    (\<exists>s' \<in> set (sessions (db w')). sTokenHash s' = SHA256Hex pr (request_token r) \<and> now2 \<le> sExpiresAt s')"
  using assms by (auto elim!: AuthenticateRequest_Inr dest!: GetUserByID_Inr GetSession_InrD)

definition me_request :: request where
  "me_request = \<lparr>rMethod = ''GET'', rPath = ''/api/auth/me'', rQuery = [], rHeaders = [],
     rCookies = [(''ky_session'', ''tok'')], rRemoteAddr = ''10.0.0.9:1'', rBody = None\<rparr>"

definition tok_world :: world where
  "tok_world = \<lparr>db = alice_db\<lparr>sessions := [alice_session\<lparr>sTokenHash := SHA256Hex clear_prims ''tok''\<rparr>]\<rparr>, faults = []\<rparr>"

lemmas request_defs = me_request_def request_token_def bearer_token_def HeaderGet_def HeaderValues_def
  Cookie_def SessionCookieName_def CSRFCookieName_def HasPrefix_def

lemma tok_authenticates:
  "AuthenticateRequest clear_prims 5 6 (\<lambda>_. []) me_request tok_world =
     (Inr (alice, alice_session\<lparr>sTokenHash := SHA256Hex clear_prims ''tok''\<rparr>), tok_world)"
  by (simp add: AuthenticateRequest_def GetSession_def GetUserByID_def tok_world_def alice_defs
      request_defs restricted_route_def Let_def)

theorem authenticated_request_sound_witness:
  "AuthenticateRequest clear_prims 5 6 (\<lambda>_. []) me_request tok_world =
     (Inr (alice, alice_session\<lparr>sTokenHash := SHA256Hex clear_prims ''tok''\<rparr>), tok_world) \<and>
   uID alice = ''u1'' \<and> restricted_route me_request"
  using authenticated_request_sound [OF tok_authenticates] tok_authenticates by (simp add: alice_defs)

text \<open>C2: an account that has to replace its password reaches no route but the three that
  serve the replacement, even when the replacement (or anything else that does not reset the
  account by hand) happens while the request is being checked: an old session cannot inherit
  the cleared flag.\<close>

theorem restricted_session_held_back:
  assumes "\<forall>s \<in> set (sessions (db w)). sTokenHash s = SHA256Hex pr (request_token r) \<longrightarrow> sUserID s = i"
    and "\<forall>u \<in> set (users (db w)). uID u = i \<longrightarrow> uMustChangePassword u"
    and "\<not> restricted_route r"
    and "\<forall>k. \<forall>op \<in> set (others k). \<not> lifts (SHA256Hex pr (request_token r)) i op"
  shows "\<exists>e. fst (AuthenticateRequest pr now1 now2 others r w) = Inl e"
proof -
  have "held_back (SHA256Hex pr (request_token r)) i (db w)"
    using assms(1,2) by (auto simp: held_back_def)
  from AuthenticateRequest_held_back [OF this assms(3,4)] show ?thesis
    by (cases "AuthenticateRequest pr now1 now2 others r w"; cases "fst (AuthenticateRequest pr now1 now2 others r w)") auto
qed

definition settings_request :: request where
  "settings_request = me_request\<lparr>rPath := ''/api/settings''\<rparr>"

theorem restricted_session_held_back_witness:
  "\<exists>e. fst (AuthenticateRequest clear_prims 5 6
     (\<lambda>k. if k = 1 then [OpCompletePasswordChange 5 ''u1'' ''old'' ''new'' []] else [])
     settings_request tok_world) = Inl e"
  by (rule restricted_session_held_back [where i = "''u1''"])
    (auto simp: tok_world_def alice_defs settings_request_def me_request_def restricted_route_def)


definition demo_security :: SecurityConfig where
  "demo_security = \<lparr>scSessionSecret = ''key'', scEncryptionKey = replicate 32 (CHR ''k''), scCookieSecure = True,
     scCookieDomain = [], scSessionTTL = 0, scTrustedProxies = []\<rparr>"


section \<open>Proof of work\<close>


text \<open>A challenge issued at time 0 with one byte of salt and the number 2, and its solution.\<close>

definition demo_challenge :: pow_challenge where
  "demo_challenge = the (GeneratePoWChallenge clear_prims 0 (Some ''A'') (\<lambda>_. Some 1) 3 ''key'')"

definition demo_text :: string where
  "demo_text = StdEncode (Marshal (JObj [(''algorithm'', JStr ''SHA-256''), (''salt'', JStr (cSalt demo_challenge)),
     (''challenge'', JStr (cChallenge demo_challenge)), (''number'', JNum ''2''), (''maxnumber'', JNum ''3''),
     (''expires_at'', JNum ''300''), (''signature'', JStr (cSignature demo_challenge))]))"


definition demo_solution :: pow_solution where
  "demo_solution = \<lparr>oAlgorithm = ''SHA-256'', oSalt = cSalt demo_challenge, oChallenge = cChallenge demo_challenge,
     oNumber = 2, oMaxNumber = 3, oExpiresAt = 300, oSignature = cSignature demo_challenge\<rparr>"

lemma demo_challenge_issued:
  "GeneratePoWChallenge clear_prims 0 (Some ''A'') (\<lambda>_. Some 1) 3 ''key'' = Some demo_challenge"
  by (simp add: demo_challenge_def GeneratePoWChallenge_def Let_def)

lemma demo_text_decodes: "decode_solution demo_text = Some demo_solution"
  by code_simp

lemma demo_text_accepted: "VerifyPoWSolution clear_prims 0 demo_text ''key''"
  unfolding VerifyPoWSolution_def demo_text_decodes by code_simp


text \<open>Every challenge has a solution in its range: whoever submits the challenge back
  with that number before it expires passes the check, however the submission is spelled as
  long as it decodes to those values.\<close>

theorem pow_solvable:
  assumes "GeneratePoWChallenge pr issued (Some sb) rnd difficulty secret = Some ch"
    and "rand_in_range rnd" "digest_size pr" "sb \<noteq> []"
  shows "\<exists>n. 1 \<le> n \<and> n \<le> cMaxNumber ch \<and> (\<forall>text now.
     decode_solution text = Some \<lparr>oAlgorithm = cAlgorithm ch, oSalt = cSalt ch, oChallenge = cChallenge ch,
       oNumber = n, oMaxNumber = cMaxNumber ch, oExpiresAt = cExpiresAt ch, oSignature = cSignature ch\<rparr> \<longrightarrow>
     now \<le> issued + 5 * Minute \<longrightarrow> VerifyPoWSolution pr now text secret)"
proof -
  obtain n where ch: "rnd (cMaxNumber ch) = Some n" "cMaxNumber ch = (if difficulty \<le> 0 then 20000 else difficulty)"
      "cSalt ch = hex_encode sb" "cChallenge ch = puzzle pr (cSalt ch) (n + 1)"
      "cExpiresAt ch = Unix (issued + 5 * Minute)" "cAlgorithm ch = ''SHA-256''"
      "cSignature ch = ComputeHMACSHA256 pr
         (signature_payload (cSalt ch) (cChallenge ch) (cMaxNumber ch) (cExpiresAt ch)) secret"
    using assms(1) by (auto elim!: GeneratePoWChallenge_Some)
  have pos: "0 < cMaxNumber ch" using ch(2) by simp
  with assms(2) ch(1) have n: "0 \<le> n" "n < cMaxNumber ch" by (auto simp: rand_in_range_def)
  have hex: "hex_encode x \<noteq> []" if "x \<noteq> []" for x
    using that length_hex_encode [of x] by auto
  have "sha256 pr x \<noteq> []" "hmac_sha256 pr k x \<noteq> []" for k x
    using assms(3) unfolding digest_size_def by (metis list.size(3) zero_neq_numeral)+
  then have nonempty: "cSalt ch \<noteq> []" "cChallenge ch \<noteq> []" "cSignature ch \<noteq> []"
    using assms(4) ch(3,4,7) hex by (simp_all add: puzzle_def ComputeHMACSHA256_def)
  show ?thesis
  proof (intro exI conjI allI impI)
    show "1 \<le> n + 1" "n + 1 \<le> cMaxNumber ch" using n by simp_all
    fix body now
    assume d: "decode_solution body = Some \<lparr>oAlgorithm = cAlgorithm ch, oSalt = cSalt ch, oChallenge = cChallenge ch,
       oNumber = n + 1, oMaxNumber = cMaxNumber ch, oExpiresAt = cExpiresAt ch, oSignature = cSignature ch\<rparr>"
      and "now \<le> issued + 5 * Minute"
    then have "Unix now \<le> cExpiresAt ch" using Unix_mono ch(5) by simp
    with n pos nonempty ch(4,6,7) show "VerifyPoWSolution pr now body secret"
      by (simp add: VerifyPoWSolution_def d VerifyHMACSHA256_def)
  qed
qed

definition sized_challenge :: pow_challenge where
  "sized_challenge = the (GeneratePoWChallenge sized_prims 0 (Some ''A'') (\<lambda>_. Some 0) 3 ''key'')"

theorem pow_solvable_witness:
  "\<exists>n. 1 \<le> n \<and> n \<le> cMaxNumber sized_challenge"
proof -
  have g: "GeneratePoWChallenge sized_prims 0 (Some ''A'') (\<lambda>_. Some 0) 3 ''key'' = Some sized_challenge"
    by (simp add: sized_challenge_def GeneratePoWChallenge_def Let_def)
  have "rand_in_range (\<lambda>_. Some 0)" by (simp add: rand_in_range_def)
  from pow_solvable [OF g this sized_prims_laws(1)] show ?thesis by auto
qed

section \<open>Recovery codes and stored secrets\<close>

text \<open>Redeeming a recovery code uses it up and nothing else: the list it leaves refuses
  the same code, and every other code is redeemable from it exactly when it was before.\<close>

theorem recovery_code_redeemed_once:
  assumes "match_spec pr" "digest_size pr" "code_slots hashes ds"
    and "distinct (filter (\<lambda>d. d \<noteq> []) ds)" "RedeemRecoveryCode pr code hashes = Some out"
  shows "RedeemRecoveryCode pr code out = None \<and>
    (\<forall>other. digest pr (rc_normalize pr other) \<noteq> digest pr (rc_normalize pr code) \<longrightarrow>
       (RedeemRecoveryCode pr other out \<noteq> None \<longleftrightarrow> RedeemRecoveryCode pr other hashes \<noteq> None))"
proof -
  obtain i where i: "i < length ds" "ds ! i = digest pr (rc_normalize pr code)" "code_slots out (ds[i := []])"
    using RedeemRecoveryCode_Some [OF assms(1,3,5)] by blast
  have ne: "digest pr x \<noteq> []" for x by (rule digest_nonempty [OF assms(2)])
  have upd: "ds[i := []] = take i ds @ [] # drop (Suc i) ds" by (rule upd_conv_take_nth_drop [OF i(1)])
  have split: "ds = take i ds @ ds ! i # drop (Suc i) ds" by (rule id_take_nth_drop [OF i(1)])
  have gone: "digest pr (rc_normalize pr code) \<notin> set (take i ds) \<union> set (drop (Suc i) ds)"
    using assms(4) i(2) ne by (subst (asm) split) auto
  have mem: "d \<in> set (ds[i := []]) \<longleftrightarrow> d \<in> set (take i ds) \<union> set (drop (Suc i) ds) \<or> d = []" for d
    by (auto simp: upd)
  have mem': "d \<in> set ds \<longleftrightarrow> d \<in> set (take i ds) \<union> set (drop (Suc i) ds) \<or> d = ds ! i" for d
    by (subst split) auto
  note iff_out = RedeemRecoveryCode_iff [OF assms(1) i(3)] and iff_in = RedeemRecoveryCode_iff [OF assms(1,3)]
  have "RedeemRecoveryCode pr code out = None"
    using iff_out [of code] gone ne mem by blast
  moreover have "RedeemRecoveryCode pr other out \<noteq> None \<longleftrightarrow> RedeemRecoveryCode pr other hashes \<noteq> None"
    if "digest pr (rc_normalize pr other) \<noteq> digest pr (rc_normalize pr code)" for other
    using that iff_out [of other] iff_in [of other] ne mem mem' i(2) by auto
  ultimately show ?thesis by blast
qed

definition demo_codes :: "string list" where
  "demo_codes = map (digest sized_prims) [''aa'', ''bb'']"

lemma demo_codes_ok: "code_slots (MarshalStrings demo_codes) demo_codes"
  by (rule code_slots_marshal) (simp add: demo_codes_def plain_digest)

lemma demo_codes_distinct: "distinct (filter (\<lambda>d. d \<noteq> []) demo_codes)"
  by (simp add: demo_codes_def digest_def hex_encode_inject sized_prims_def pad32_def numeral_eq_Suc)

theorem recovery_code_redeemed_once_witness:
  "\<exists>out. RedeemRecoveryCode sized_prims ''aa'' (MarshalStrings demo_codes) = Some out \<and>
     RedeemRecoveryCode sized_prims ''aa'' out = None"
proof -
  have "digest sized_prims (rc_normalize sized_prims ''aa'') \<in> set demo_codes"
    by (simp add: demo_codes_def sized_prims_def clear_prims_def)
  then obtain out where out: "RedeemRecoveryCode sized_prims ''aa'' (MarshalStrings demo_codes) = Some out"
    using RedeemRecoveryCode_iff [OF clear_prims_match(2) demo_codes_ok, of "''aa''"] by blast
  with recovery_code_redeemed_once [OF clear_prims_match(2) sized_prims_laws(1) demo_codes_ok demo_codes_distinct out]
  show ?thesis by blast
qed

text \<open>Every code handed out at enrolment is redeemable from the list stored with it.\<close>

theorem generated_codes_redeem:
  assumes "match_spec pr" "GenerateRecoveryCodes pr generate count = Some (codes, hashes)" "c \<in> set codes"
  shows "RedeemRecoveryCode pr c hashes \<noteq> None"
proof -
  let ?ds = "map (\<lambda>c. digest pr (rc_normalize pr c)) codes"
  have "hashes = MarshalStrings ?ds"
    using assms(2) by (auto simp: GenerateRecoveryCodes_def Let_def split: option.splits)
  then have "code_slots hashes ?ds"
    by (simp add: code_slots_marshal list_all_iff plain_digest [unfolded list_all_iff])
  from RedeemRecoveryCode_iff [OF assms(1) this, of c] assms(3) show ?thesis by auto
qed

theorem generated_codes_redeem_witness:
  "RedeemRecoveryCode clear_prims ''b'' (snd (the (GenerateRecoveryCodes clear_prims (\<lambda>n. Some [''a'', ''b'']) 2))) \<noteq> None"
proof -
  have "GenerateRecoveryCodes clear_prims (\<lambda>n. Some [''a'', ''b'']) 2 =
      Some ([''a'', ''b''], snd (the (GenerateRecoveryCodes clear_prims (\<lambda>n. Some [''a'', ''b'']) 2)))"
    by (simp add: GenerateRecoveryCodes_def)
  from generated_codes_redeem [OF clear_prims_match(1) this] show ?thesis by simp
qed

text \<open>A secret sealed for the database opens under the same key to what was sealed; a key
  that is not 32 bytes long is refused in both directions, and so is a ciphertext too short to
  hold its nonce.\<close>

theorem encrypt_decrypt_roundtrip:
  assumes "gcm_correct pr" "length nonce = 12"
  shows "(length key = 32 \<longrightarrow> (\<exists>c. EncryptAESGCM pr (Some nonce) m key = Inr c \<and> DecryptAESGCM pr c key = Inr m)) \<and>
    (length key \<noteq> 32 \<longrightarrow> EncryptAESGCM pr (Some nonce) m key = Inl ErrKeyLength \<and>
       DecryptAESGCM pr c' key = Inl ErrKeyLength) \<and>
    (length key = 32 \<longrightarrow> length short < 12 \<longrightarrow>
       DecryptAESGCM pr (RawEncode URLAlphabet short) key = Inl ErrCiphertextTooShort)"
proof -
  have "\<exists>c. EncryptAESGCM pr (Some nonce) m key = Inr c" if "length key = 32"
    using that by (simp add: EncryptAESGCM_def newGCM_def)
  with encrypt_decrypt [OF assms]
  have "length key = 32 \<longrightarrow> (\<exists>c. EncryptAESGCM pr (Some nonce) m key = Inr c \<and> DecryptAESGCM pr c key = Inr m)"
    by blast
  then show ?thesis
    by (simp add: EncryptAESGCM_def DecryptAESGCM_def newGCM_def RawDecode_RawEncode)
qed

theorem encrypt_decrypt_roundtrip_witness:
  "\<exists>c. EncryptAESGCM clear_prims (Some (replicate 12 (CHR ''n''))) ''secret'' (replicate 32 (CHR ''k'')) = Inr c \<and>
     DecryptAESGCM clear_prims c (replicate 32 (CHR ''k'')) = Inr ''secret''"
  using encrypt_decrypt_roundtrip [OF clear_prims_laws(3), of "replicate 12 (CHR ''n'')" "replicate 32 (CHR ''k'')"]
  by simp

section \<open>Attribution of a request\<close>

text \<open>The trusted-proxy list never trusts everyone: of every prefix it yields some
  address of the same family lies outside.\<close>

theorem trusted_proxies_restrict:
  assumes "ParseTrustedProxies raw = Inr ps" "p \<in> set ps"
  shows "\<exists>a. BitLen a = BitLen (pfxAddr p) \<and> \<not> hasZone a \<and> \<not> Contains p a"
  using assms by (auto simp: ParseTrustedProxies_def dest: parse_proxies_restrictive intro: restrictive_excludes)

lemma demo_proxies: "ParseTrustedProxies ''10.0.0.0/8, ::ffff:192.0.2.1'' =
    Inr [\<lparr>pfxAddr = V4 0x0A000000, pfxBits = 8\<rparr>, \<lparr>pfxAddr = V4 0xC0000201, pfxBits = 32\<rparr>]"
  by code_simp

theorem trusted_proxies_restrict_witness:
  "\<exists>a. BitLen a = 32 \<and> \<not> Contains \<lparr>pfxAddr = V4 0x0A000000, pfxBits = 8\<rparr> a"
  using trusted_proxies_restrict [OF demo_proxies, of "\<lparr>pfxAddr = V4 0x0A000000, pfxBits = 8\<rparr>"]
  by (auto simp: BitLen_def)

text \<open>Rewriting an IPv4-mapped prefix to the IPv4 prefix it means changes nothing about
  which mapped peers it covers.\<close>

theorem unmap_prefix_equivalent:
  assumes "pfxAddr p = V6 x z" "Is4In6 (V6 x z)" "96 \<le> pfxBits p" "pfxBits p \<le> 128" "Is4In6 (V6 y [])"
  shows "Contains (unmapPrefix p) (Unmap (V6 y [])) \<longleftrightarrow> Contains p (V6 y [])"
  by (rule unmapPrefix_contains [OF assms])

theorem unmap_prefix_equivalent_witness:
  "Contains (unmapPrefix \<lparr>pfxAddr = V6 0xFFFF0A000000 [], pfxBits = 104\<rparr>) (Unmap (V6 0xFFFF0A010203 [])) \<longleftrightarrow>
   Contains \<lparr>pfxAddr = V6 0xFFFF0A000000 [], pfxBits = 104\<rparr> (V6 0xFFFF0A010203 [])"
proof (rule unmap_prefix_equivalent)
  show "Is4In6 (V6 0xFFFF0A000000 [])" by code_simp
  show "Is4In6 (V6 0xFFFF0A010203 [])" by code_simp
qed simp_all

text \<open>A client that does not come through a trusted proxy is attributed to its own
  address: no header it sends has any influence. With no trusted proxies that is everyone.\<close>

theorem client_ip_untrusted_peer:
  assumes "\<And>a. ParseAddr (peerIP r) = Some a \<Longrightarrow> \<not> isTrusted a trusted"
  shows "ClientIP r trusted = peerIP r \<and> ClientIP (r\<lparr>rHeaders := forged\<rparr>) trusted = ClientIP r trusted"
proof -
  have "peerIP (r\<lparr>rHeaders := forged\<rparr>) = peerIP r" by (simp add: peerIP_def cong: option.case_cong)
  with assms show ?thesis by (simp add: ClientIP_def Let_def split: option.splits)
qed

theorem client_ip_untrusted_peer_witness:
  "ClientIP (me_request\<lparr>rHeaders := [(''X-Forwarded-For'', ''1.2.3.4'')]\<rparr>) [] = ClientIP me_request []"
  by (rule client_ip_untrusted_peer [THEN conjunct2]) simp

text \<open>C38: behind a trusted proxy the address is the last entry of the forwarding chain that
  is not itself a trusted proxy; whatever a client put before it is ignored.\<close>

theorem client_ip_forged_prefix:
  assumes "ParseAddr (peerIP r) = Some peer" "isTrusted peer trusted"
    and "Join (HeaderValues r ''X-Forwarded-For'') '','' = forged @ CHR '','' # real"
    and "Split (CHR '','') real = e # hops"
    and "parseForwardedEntry (TrimSpace e) = Some a" "\<not> isTrusted a trusted"
    and "\<forall>h \<in> set hops. \<exists>b. parseForwardedEntry (TrimSpace h) = Some b \<and> isTrusted b trusted"
  shows "ClientIP r trusted = AddrString a"
proof -
  have "rev (Split (CHR '','') (Join (HeaderValues r ''X-Forwarded-For'') '','')) =
      rev hops @ e # rev (Split (CHR '','') forged)"
    unfolding assms(3) Split_append assms(4) by simp
  with assms walk_forwarded_stops [of "rev hops" trusted e a] show ?thesis
    by (simp add: ClientIP_def Let_def)
qed

definition proxied_request :: request where
  "proxied_request = me_request\<lparr>rRemoteAddr := ''10.0.0.1:443'',
     rHeaders := [(''X-Forwarded-For'', ''9.9.9.9''), (''X-Forwarded-For'', ''8.8.8.8, 10.1.1.1'')]\<rparr>"

theorem client_ip_forged_prefix_witness:
  "ClientIP proxied_request [\<lparr>pfxAddr = V4 0x0A000000, pfxBits = 8\<rparr>] = ''8.8.8.8''"
proof -
  have s: "AddrString (V4 0x08080808) = ''8.8.8.8''" by code_simp
  show ?thesis
    unfolding s [symmetric]
  proof (rule client_ip_forged_prefix)
    show "ParseAddr (peerIP proxied_request) = Some (V4 0x0A000001)" by code_simp
    show "isTrusted (V4 0x0A000001) [\<lparr>pfxAddr = V4 0x0A000000, pfxBits = 8\<rparr>]" by code_simp
    show "Join (HeaderValues proxied_request ''X-Forwarded-For'') '','' = ''9.9.9.9'' @ CHR '','' # ''8.8.8.8, 10.1.1.1''"
      by code_simp
    show "Split (CHR '','') ''8.8.8.8, 10.1.1.1'' = ''8.8.8.8'' # ['' 10.1.1.1'']" by code_simp
    show "parseForwardedEntry (TrimSpace ''8.8.8.8'') = Some (V4 0x08080808)" by code_simp
    show "\<not> isTrusted (V4 0x08080808) [\<lparr>pfxAddr = V4 0x0A000000, pfxBits = 8\<rparr>]" by code_simp
    have "parseForwardedEntry (TrimSpace '' 10.1.1.1'') = Some (V4 0x0A010101)" by code_simp
    moreover have "isTrusted (V4 0x0A010101) [\<lparr>pfxAddr = V4 0x0A000000, pfxBits = 8\<rparr>]" by code_simp
    ultimately show "\<forall>h \<in> set ['' 10.1.1.1'']. \<exists>b. parseForwardedEntry (TrimSpace h) = Some b \<and>
        isTrusted b [\<lparr>pfxAddr = V4 0x0A000000, pfxBits = 8\<rparr>]" by simp
  qed
qed

end
