(* ===== verification/Api_Limiter.thy ===== *)
theory Api_Limiter
  imports Ky_Prelude
begin

text \<open>
  The attempt limiter of \<^verbatim>\<open>internal/api/server.go\<close>. Go's map is a list of entries with
  distinct keys; which entry \<^verbatim>\<open>makeRoom\<close> meets first is random, so it takes a number that
  selects the victim and every theorem holds for each. The mutex makes a call one step.
\<close>

record attempt_window =
  awCount :: int
  awReset :: time

definition zero_window :: attempt_window where
  "zero_window = \<lparr>awCount = 0, awReset = zero_time\<rparr>"

type_synonym attempts = "(string \<times> attempt_window) list"

definition attemptsCap :: nat where "attemptsCap = 10000"

section \<open>Operations\<close>

definition bumpWindow :: "attempt_window \<Rightarrow> time \<Rightarrow> duration \<Rightarrow> attempt_window" where
  "bumpWindow entry now window =
     (let entry = (if now > awReset entry then \<lparr>awCount = 0, awReset = now + window\<rparr> else entry)
      in entry\<lparr>awCount := awCount entry + 1\<rparr>)"

definition del_key :: "string \<Rightarrow> attempts \<Rightarrow> attempts" where
  "del_key k m = filter (\<lambda>e. fst e \<noteq> k) m"

definition set_key :: "string \<Rightarrow> attempt_window \<Rightarrow> attempts \<Rightarrow> attempts" where
  "set_key k v m = (if k \<in> fst ` set m then map (\<lambda>e. if fst e = k then (k, v) else e) m else (k, v) # m)"

definition makeRoom :: "nat \<Rightarrow> time \<Rightarrow> attempts \<Rightarrow> attempts" where
  "makeRoom victim now m =
     (let m = filter (\<lambda>e. \<not> now > awReset (snd e)) m
      in if length m \<ge> attemptsCap then del_key (fst (m ! (victim mod length m))) m else m)"

definition allowAttempt ::
    "nat \<Rightarrow> time \<Rightarrow> string \<Rightarrow> int \<Rightarrow> duration \<Rightarrow> attempts \<Rightarrow> bool \<times> attempts" where
  "allowAttempt victim now key limit window m =
     (let m = (if key \<notin> fst ` set m \<and> length m \<ge> attemptsCap then makeRoom victim now m else m);
          entry = bumpWindow (case map_of m key of Some e \<Rightarrow> e | None \<Rightarrow> zero_window) now window
      in (awCount entry \<le> limit, set_key key entry m))"

section \<open>The map\<close>

definition limiter_ok :: "attempts \<Rightarrow> bool" where
  "limiter_ok m \<longleftrightarrow> distinct (map fst m) \<and> length m \<le> attemptsCap"

lemma map_fst_set_key: "map fst (set_key k v m) = (if k \<in> fst ` set m then map fst m else k # map fst m)"
  by (auto simp: set_key_def comp_def intro!: map_cong)

lemma map_of_overwrite:
  "map_of (map (\<lambda>e. if fst e = k then (k, v) else e) m) k' =
     (if k' = k then map_option (\<lambda>_. v) (map_of m k) else map_of m k')"
  by (induction m) auto

lemma key_map_of: "k \<in> fst ` set m \<longleftrightarrow> (\<exists>e. map_of m k = Some e)"
  by (metis map_of_eq_None_iff not_None_eq)

lemma map_of_set_key: "map_of (set_key k v m) k' = (if k' = k then Some v else map_of m k')"
  by (auto simp: set_key_def map_of_overwrite key_map_of)

lemma length_set_key: "length (set_key k v m) = (if k \<in> fst ` set m then length m else Suc (length m))"
  by (simp add: set_key_def)

lemma distinct_del_key: "distinct (map fst m) \<Longrightarrow> distinct (map fst (del_key k m))"
  by (simp add: del_key_def distinct_map_filter)

lemma length_del_key:
  assumes "distinct (map fst m)" "k \<in> fst ` set m"
  shows "Suc (length (del_key k m)) = length m"
  using assms
proof (induction m)
  case Nil
  then show ?case by simp
next
  case (Cons e m)
  then have "fst e = k \<Longrightarrow> filter (\<lambda>e. fst e \<noteq> k) m = m"
    by (intro filter_True) (auto simp: image_iff)
  with Cons show ?case by (auto simp: del_key_def dest: imageI [where f = fst])
qed

lemma makeRoom_ok:
  assumes "limiter_ok m"
  shows "distinct (map fst (makeRoom v now m))" "length (makeRoom v now m) < attemptsCap"
proof -
  let ?m = "filter (\<lambda>e. \<not> now > awReset (snd e)) m"
  have d: "distinct (map fst ?m)" "length ?m \<le> attemptsCap"
    using assms by (auto simp: limiter_ok_def distinct_map_filter intro: le_trans [OF length_filter_le])
  show "distinct (map fst (makeRoom v now m))"
    using d by (simp add: makeRoom_def Let_def distinct_del_key)
  show "length (makeRoom v now m) < attemptsCap"
  proof (cases "length ?m \<ge> attemptsCap")
    case True
    have "0 < attemptsCap" by (simp add: attemptsCap_def)
    with True have "0 < length ?m" by linarith
    then have "?m ! (v mod length ?m) \<in> set ?m" by (intro nth_mem) simp
    then have "Suc (length (del_key (fst (?m ! (v mod length ?m))) ?m)) = length ?m"
      using d(1) by (intro length_del_key) auto
    with True d(2) show ?thesis by (simp add: makeRoom_def Let_def)
  next
    case False
    then show ?thesis by (simp add: makeRoom_def Let_def)
  qed
qed

text \<open>The map never outgrows its cap.\<close>

lemma allowAttempt_ok:
  assumes "limiter_ok m"
  shows "limiter_ok (snd (allowAttempt v now k limit window m))"
proof (cases "k \<notin> fst ` set m \<and> length m \<ge> attemptsCap")
  case True
  with makeRoom_ok [OF assms, of v now] show ?thesis
    by (simp add: allowAttempt_def Let_def limiter_ok_def map_fst_set_key length_set_key)
next
  case False
  with assms show ?thesis
    by (auto simp: allowAttempt_def Let_def limiter_ok_def map_fst_set_key length_set_key)
qed

section \<open>Counting\<close>

text \<open>A key without a window is always let in: filling the map locks nobody out.\<close>

lemma makeRoom_fresh: "k \<notin> fst ` set m \<Longrightarrow> k \<notin> fst ` set (makeRoom v now m)"
  by (auto simp: makeRoom_def Let_def del_key_def)

lemma bumpWindow_zero: "zero_time < now \<Longrightarrow> bumpWindow zero_window now window = \<lparr>awCount = 1, awReset = now + window\<rparr>"
  by (simp add: bumpWindow_def zero_window_def)

lemma allowAttempt_fresh:
  assumes "k \<notin> fst ` set m" "1 \<le> limit" "zero_time < now"
  shows "fst (allowAttempt v now k limit window m)"
proof -
  let ?m = "if k \<notin> fst ` set m \<and> length m \<ge> attemptsCap then makeRoom v now m else m"
  have "map_of ?m k = None"
    using assms(1) makeRoom_fresh [OF assms(1), of v now] by (auto simp: map_of_eq_None_iff)
  with assms(2,3) show ?thesis
    by (simp add: allowAttempt_def Let_def bumpWindow_zero del: split_paired_Ex)
qed

lemma allowAttempt_known:
  assumes "map_of m k = Some e"
  shows "allowAttempt v now k limit window m =
    (awCount (bumpWindow e now window) \<le> limit, set_key k (bumpWindow e now window) m)"
proof -
  have "k \<in> fst ` set m" using assms by (simp add: key_map_of)
  with assms show ?thesis by (simp add: allowAttempt_def Let_def)
qed

lemma allowAttempt_room:
  assumes "length m < attemptsCap"
  shows "length (snd (allowAttempt v now k limit window m)) \<le> Suc (length m)"
    and "k' \<noteq> k \<Longrightarrow> map_of (snd (allowAttempt v now k limit window m)) k' = map_of m k'"
  using assms by (simp_all add: allowAttempt_def Let_def length_set_key map_of_set_key)

text \<open>
  A sequence of attempts on any keys, as the handlers make them: what the limiter answered
  to those on one key.
\<close>

record attempt =
  atVictim :: nat
  atNow :: time
  atKey :: string
  atLimit :: int
  atWindow :: duration

fun answers :: "string \<Rightarrow> attempt list \<Rightarrow> attempts \<Rightarrow> bool list" where
  "answers k [] m = []"
| "answers k (a # as) m =
     (case allowAttempt (atVictim a) (atNow a) (atKey a) (atLimit a) (atWindow a) m of
        (ok, m) \<Rightarrow> if atKey a = k then ok # answers k as m else answers k as m)"

text \<open>
  While a window is open and the map has room, the n-th further attempt on its key is let in
  exactly when the count stays within the limit.
\<close>

lemma answers_window:
  assumes "map_of m k = Some e" "length m + length as \<le> attemptsCap"
    and "\<forall>a \<in> set as. atKey a = k \<longrightarrow> atLimit a = limit \<and> atNow a \<le> awReset e"
  shows "answers k as m = map (\<lambda>j. awCount e + int j < limit) [0..<length (filter (\<lambda>a. atKey a = k) as)]"
  using assms
proof (induction as arbitrary: m e)
  case Nil
  then show ?case by simp
next
  case (Cons a as)
  obtain ok m' where step: "allowAttempt (atVictim a) (atNow a) (atKey a) (atLimit a) (atWindow a) m = (ok, m')"
    by fastforce
  show ?case
  proof (cases "atKey a = k")
    case True
    then have now: "atLimit a = limit" "atNow a \<le> awReset e" using Cons.prems(3) by auto
    then have b: "bumpWindow e (atNow a) (atWindow a) = e\<lparr>awCount := awCount e + 1\<rparr>"
      by (simp add: bumpWindow_def)
    have s: "ok = (awCount e < limit)" "m' = set_key k (e\<lparr>awCount := awCount e + 1\<rparr>) m"
      using step allowAttempt_known [OF Cons.prems(1)] True now b by auto
    have "k \<in> fst ` set m" using Cons.prems(1) by (simp add: key_map_of)
    then have "answers k as m' = map (\<lambda>j. awCount e + 1 + int j < limit) [0..<length (filter (\<lambda>a. atKey a = k) as)]"
      using Cons.IH [of m' "e\<lparr>awCount := awCount e + 1\<rparr>"] Cons.prems(2,3) s
      by (simp add: map_of_set_key length_set_key)
    with True step s show ?thesis
      by (simp add: upt_conv_Cons map_Suc_upt [symmetric] comp_def ac_simps del: upt_Suc)
  next
    case False
    have room: "length m < attemptsCap" using Cons.prems(2) by simp
    have "map_of m' k = Some e" "length m' \<le> Suc (length m)"
      using allowAttempt_room [OF room, where v = "atVictim a" and now = "atNow a" and k = "atKey a"
          and limit = "atLimit a" and window = "atWindow a"] step
        False Cons.prems(1) by (metis snd_conv)+
    with Cons.IH [of m' e] Cons.prems(2,3) step False show ?thesis by simp
  qed
qed

lemma length_filter_upt_less:
  "length (filter (\<lambda>j. c + int j < limit) [0..<n]) \<le> nat (limit - c)"
proof -
  have "length (filter (\<lambda>j. c + int j < limit) [0..<n]) = card {j. j < n \<and> c + int j < limit}"
    by (subst length_filter_conv_card) (auto intro!: arg_cong [where f = card])
  also have "\<dots> \<le> card {j. j < nat (limit - c)}" by (rule card_mono) auto
  finally show ?thesis by simp
qed

end
