(* ===== verification/Go_Strconv.thy ===== *)
theory Go_Strconv
  imports Go_Netip Ky_Prelude
begin

text \<open>
  \<^verbatim>\<open>strconv.Atoi\<close>, \<^verbatim>\<open>time.ParseDuration\<close> and the lexical part of \<^verbatim>\<open>path/filepath\<close>, as far as the
  configuration and the backup code use them.
\<close>

section \<open>Integers\<close>

text \<open>\<^verbatim>\<open>strconv.Atoi\<close> on a 64-bit platform: an optional sign and decimal digits, in range.\<close>

definition Atoi :: "string \<Rightarrow> int option" where
  "Atoi s =
     (let neg = (s \<noteq> [] \<and> hd s = CHR ''-'');
          body = (if s \<noteq> [] \<and> (hd s = CHR ''+'' \<or> hd s = CHR ''-'') then tl s else s);
          n = (if neg then - dec_val body else dec_val body)
      in if body \<noteq> [] \<and> list_all dec_digit body \<and> - (2 ^ 63) \<le> n \<and> n < 2 ^ 63 then Some n else None)"

section \<open>Durations\<close>

definition unit_map :: "string \<Rightarrow> int option" where
  "unit_map u = map_of
     [(''ns'', 1), (''us'', 1000), ([CHR 0xC2, CHR 0xB5, CHR ''s''], 1000), ([CHR 0xCE, CHR 0xBC, CHR ''s''], 1000),
      (''ms'', 1000000), (''s'', 1000000000), (''m'', 60 * 1000000000), (''h'', 3600 * 1000000000)] u"

text \<open>The digits a text starts with; an integer that exceeds \<^verbatim>\<open>1<<63\<close> is an error.\<close>

definition leadingInt :: "string \<Rightarrow> (int \<times> string) option" where
  "leadingInt s = (let v = dec_val (takeWhile dec_digit s)
     in if v \<le> 2 ^ 63 then Some (v, dropWhile dec_digit s) else None)"

text \<open>
  The digits of a fraction and the power of ten they are to be divided by; digits that would
  overflow are dropped.
\<close>

fun leadingFraction :: "int \<Rightarrow> int \<Rightarrow> bool \<Rightarrow> string \<Rightarrow> int \<times> int \<times> string" where
  "leadingFraction x scale overflow [] = (x, scale, [])"
| "leadingFraction x scale overflow (c # s) =
     (if \<not> dec_digit c then (x, scale, c # s)
      else if overflow \<or> (2 ^ 63 - 1) div 10 < x then leadingFraction x scale True s
      else let y = 10 * x + (of_char c - 48)
           in if 2 ^ 63 < y then leadingFraction x scale True s
              else leadingFraction y (10 * scale) False s)"

text \<open>
  One number with its unit. The contribution of a fraction is a product in floating point,
  \<^verbatim>\<open>uint64(float64(f) * (float64(unit) / scale))\<close>; \<open>fl\<close> is that product.
\<close>

definition duration_term :: "(int \<Rightarrow> int \<Rightarrow> int \<Rightarrow> int) \<Rightarrow> string \<Rightarrow> (int \<times> string) option" where
  "duration_term fl s =
     (if s = [] \<or> \<not> (hd s = CHR ''.'' \<or> dec_digit (hd s)) then None
      else case leadingInt s of
        None \<Rightarrow> None
      | Some (v, s1) \<Rightarrow>
          (let pre = (s1 \<noteq> s);
               dot = (s1 \<noteq> [] \<and> hd s1 = CHR ''.'')
           in case (if dot then leadingFraction 0 1 False (tl s1) else (0, 1, s1)) of (f, scale, s2) \<Rightarrow>
             (let post = (dot \<and> s2 \<noteq> tl s1);
                  u = takeWhile (\<lambda>c. \<not> (c = CHR ''.'' \<or> dec_digit c)) s2;
                  s3 = dropWhile (\<lambda>c. \<not> (c = CHR ''.'' \<or> dec_digit c)) s2
              in if \<not> pre \<and> \<not> post then None
                 else if u = [] then None
                 else case unit_map u of
                   None \<Rightarrow> None
                 | Some unit \<Rightarrow>
                     if 2 ^ 63 div unit < v then None
                     else let v = v * unit + (if 0 < f then fl f unit scale else 0)
                          in if 0 < f \<and> 2 ^ 63 < v then None else Some (v, s3))))"

lemma length_leadingFraction: "leadingFraction x scale ov s = (f, sc, s') \<Longrightarrow> length s' \<le> length s"
proof (induction x scale ov s rule: leadingFraction.induct)
  case (1 x scale overflow)
  then show ?case by simp
next
  case (2 x scale overflow c s)
  then show ?case by (fastforce simp: Let_def split: if_splits)
qed

lemma duration_term_shorter:
  assumes "duration_term fl s = Some (v, s')" shows "length s' < length s"
proof -
  from assms obtain v1 s1 f sc s2 where
    1: "leadingInt s = Some (v1, s1)" and
    2: "(if s1 \<noteq> [] \<and> hd s1 = CHR ''.'' then leadingFraction 0 1 False (tl s1) else (0, 1, s1)) = (f, sc, s2)" and
    3: "s' = dropWhile (\<lambda>c. \<not> (c = CHR ''.'' \<or> dec_digit c)) s2"
      "takeWhile (\<lambda>c. \<not> (c = CHR ''.'' \<or> dec_digit c)) s2 \<noteq> []"
    by (auto simp: duration_term_def Let_def split: if_splits option.splits prod.splits)
  have "length s1 \<le> length s" using 1 by (auto simp: leadingInt_def Let_def length_dropWhile_le split: if_splits)
  moreover have "length s2 \<le> length s1"
    using 2 length_leadingFraction [of 0 1 False "tl s1" f sc s2] by (auto split: if_splits)
  moreover have "length s' < length s2"
  proof -
    have "length s2 = length (takeWhile (\<lambda>c. \<not> (c = CHR ''.'' \<or> dec_digit c)) s2) + length s'"
      unfolding 3(1) by (metis length_append takeWhile_dropWhile_id)
    with 3(2) show ?thesis by simp
  qed
  ultimately show ?thesis by linarith
qed

text \<open>The sum of the terms, in a \<^verbatim>\<open>uint64\<close>.\<close>

function duration_terms :: "(int \<Rightarrow> int \<Rightarrow> int \<Rightarrow> int) \<Rightarrow> int \<Rightarrow> string \<Rightarrow> int option" where
  "duration_terms fl d s =
     (if s = [] then Some d
      else case duration_term fl s of
        None \<Rightarrow> None
      | Some (v, s') \<Rightarrow>
          (let d = (d + v) mod 2 ^ 64 in if 2 ^ 63 < d then None else duration_terms fl d s'))"
  by pat_completeness auto
termination
  by (relation "measure (\<lambda>(fl, d, s). length s)") (auto dest: duration_term_shorter)

declare duration_terms.simps [simp del]

definition ParseDuration :: "(int \<Rightarrow> int \<Rightarrow> int \<Rightarrow> int) \<Rightarrow> string \<Rightarrow> duration option" where
  "ParseDuration fl s =
     (let neg = (s \<noteq> [] \<and> hd s = CHR ''-'');
          body = (if s \<noteq> [] \<and> (hd s = CHR ''-'' \<or> hd s = CHR ''+'') then tl s else s)
      in if body = ''0'' then Some 0
         else if body = [] then None
         else case duration_terms fl 0 body of
           None \<Rightarrow> None
         | Some d \<Rightarrow> if neg then Some (- d) else if 2 ^ 63 - 1 < d then None else Some d)"

section \<open>Trimming\<close>

text \<open>\<^verbatim>\<open>strings.TrimRight\<close> with one character.\<close>

definition TrimRight :: "string \<Rightarrow> char \<Rightarrow> string" where
  "TrimRight s c = rev (dropWhile (\<lambda>d. d = c) (rev s))"

lemma last_TrimRight: "TrimRight s c \<noteq> [] \<Longrightarrow> last (TrimRight s c) \<noteq> c"
  using hd_dropWhile [of "\<lambda>d. d = c" "rev s"] by (auto simp: TrimRight_def last_rev)

section \<open>Paths\<close>

text \<open>The elements of a cleaned path, from the last to the first.\<close>

fun clean_elements :: "bool \<Rightarrow> string list \<Rightarrow> string list \<Rightarrow> string list" where
  "clean_elements rooted out [] = out"
| "clean_elements rooted out (e # es) =
     (if e = [] \<or> e = ''.'' then clean_elements rooted out es
      else if e = ''..'' then
        (case out of
           [] \<Rightarrow> clean_elements rooted (if rooted then [] else [''..'']) es
         | o' # os \<Rightarrow> clean_elements rooted (if o' = ''..'' then ''..'' # out else os) es)
      else clean_elements rooted (e # out) es)"

text \<open>\<^verbatim>\<open>filepath.Clean\<close>, \<^verbatim>\<open>Join\<close> and \<^verbatim>\<open>IsLocal\<close> on Unix.\<close>

definition IsAbs :: "string \<Rightarrow> bool" where
  "IsAbs p = HasPrefix p ''/''"

definition Clean :: "string \<Rightarrow> string" where
  "Clean p =
     (let out = Join (rev (clean_elements (IsAbs p) [] (Split (CHR ''/'') p))) ''/''
      in if IsAbs p then ''/'' @ out else if out = [] then ''.'' else out)"

definition filepath_Join :: "string list \<Rightarrow> string" where
  "filepath_Join es = (let es = dropWhile (\<lambda>e. e = []) es in if es = [] then [] else Clean (Join es ''/''))"

definition IsLocal :: "string \<Rightarrow> bool" where
  "IsLocal p \<longleftrightarrow> p \<noteq> [] \<and> \<not> IsAbs p \<and> Clean p \<noteq> ''..'' \<and> \<not> HasPrefix (Clean p) ''../''"

section \<open>Laws\<close>

lemma dec_digit_digit_char: "n < 10 \<Longrightarrow> dec_digit (digit_char n)"
  by (simp add: dec_digit_def of_char_digit_char)

lemma digit_char_value: "n < 10 \<Longrightarrow> (of_char (digit_char n) :: int) - 48 = int n"
proof -
  assume "n < 10"
  then have "int (of_char (digit_char n)) = 48 + int n" by (simp add: of_char_digit_char)
  then have "(of_char (digit_char n) :: int) = 48 + int n" by (metis of_nat_of_char)
  then show ?thesis by simp
qed

lemma nat_digits_dec: "list_all dec_digit (nat_digits n) \<and> dec_val (nat_digits n) = int n"
proof (induction n rule: nat_digits.induct)
  case (1 n)
  show ?case
  proof (cases "n < 10")
    case True
    then show ?thesis
      by (subst (1 2) nat_digits.simps) (simp add: dec_digit_digit_char dec_val_def digit_char_value)
  next
    case False
    with 1 show ?thesis
      by (subst (1 2) nat_digits.simps)
        (simp add: dec_digit_digit_char dec_val_def digit_char_value zdiv_int zmod_int)
  qed
qed

text \<open>What \<^verbatim>\<open>Itoa\<close> prints \<^verbatim>\<open>Atoi\<close> reads back.\<close>

lemma Atoi_Itoa:
  assumes "- (2 ^ 63) \<le> i" "i < 2 ^ 63" shows "Atoi (Itoa i) = Some i"
proof (cases "i < 0")
  case True
  with assms nat_digits_dec [of "nat (- i)"] show ?thesis
    by (simp add: Atoi_def Itoa_def nat_digits_nonempty)
next
  case False
  have "hd (nat_digits (nat i)) \<noteq> CHR ''+'' \<and> hd (nat_digits (nat i)) \<noteq> CHR ''-''"
    using nat_digits_dec [of "nat i"] nat_digits_nonempty [of "nat i"]
    by (cases "nat_digits (nat i)") (auto simp: dec_digit_def)
  with False assms nat_digits_dec [of "nat i"] show ?thesis
    by (simp add: Atoi_def Itoa_def nat_digits_nonempty)
qed

lemma duration_terms_bounds:
  "duration_terms fl d s = Some r \<Longrightarrow> 0 \<le> d \<Longrightarrow> d \<le> 2 ^ 63 \<Longrightarrow> 0 \<le> r \<and> r \<le> 2 ^ 63"
proof (induction fl d s rule: duration_terms.induct)
  case (1 fl d s)
  then show ?case by (subst (asm) (2) duration_terms.simps) (auto simp: Let_def split: if_splits option.splits)
qed

lemma ParseDuration_bounds: "ParseDuration fl s = Some d \<Longrightarrow> - (2 ^ 63) \<le> d \<and> d < 2 ^ 63"
  by (auto simp: ParseDuration_def Let_def split: if_splits option.splits dest: duration_terms_bounds)

text \<open>A clean local path has no empty, dot or dot-dot element, so it stays below the directory it is joined to.\<close>

lemma clean_elements_nonempty:
  "e \<in> set (clean_elements rooted out es) \<Longrightarrow> e \<in> set out \<or> e = ''..'' \<or> e \<in> set es \<and> e \<noteq> [] \<and> e \<noteq> ''.''"
proof (induction es arbitrary: out)
  case (Cons e' es)
  consider "e' = [] \<or> e' = ''.''" | "e' = ''..''" "out = []" | o' os where "e' = ''..''" "out = o' # os"
    | "e' \<noteq> []" "e' \<noteq> ''.''" "e' \<noteq> ''..''" by (cases out) auto
  then show ?case
  proof cases
    case 1
    with Cons.prems Cons.IH [of out] show ?thesis by auto
  next
    case 2
    with Cons.prems Cons.IH [of "if rooted then [] else [''..'']"] show ?thesis by (auto split: if_splits)
  next
    case 3
    with Cons.prems Cons.IH [of "if o' = ''..'' then ''..'' # out else os"] show ?thesis by (auto split: if_splits)
  next
    case 4
    with Cons.prems Cons.IH [of "e' # out"] show ?thesis by auto
  qed
qed simp

text \<open>Dot-dot elements come first, that is, last in the reversed list.\<close>

definition dots_last :: "string list \<Rightarrow> bool" where
  "dots_last out \<longleftrightarrow> (\<exists>ps n. out = ps @ replicate n ''..'' \<and> ''..'' \<notin> set ps)"

lemma dots_last_push: "dots_last out \<Longrightarrow> e \<noteq> ''..'' \<Longrightarrow> dots_last (e # out)"
  unfolding dots_last_def by (metis append_Cons set_ConsD)

lemma dots_last_Cons: "dots_last (e # os) \<longleftrightarrow> (if e = ''..'' then set os \<subseteq> {''..''} else dots_last os)"
proof (cases "e = ''..''")
  case True
  have "os = replicate (length os) ''..''" if "set os \<subseteq> {''..''}" using that by (induction os) auto
  then have "dots_last (e # os)" if "set os \<subseteq> {''..''}"
    unfolding dots_last_def using that True by (intro exI [of _ "[]"] exI [of _ "Suc (length os)"]) simp
  moreover have "set os \<subseteq> {''..''}" if d: "dots_last (e # os)"
  proof -
    obtain ps n where o': "e # os = ps @ replicate n ''..''" "''..'' \<notin> set ps" using d unfolding dots_last_def by blast
    with True have "ps = []" by (cases ps) auto
    with o'(1) show ?thesis by (cases n) auto
  qed
  ultimately show ?thesis using True by auto
next
  case False
  have "dots_last os" if d: "dots_last (e # os)"
  proof -
    obtain ps n where o': "e # os = ps @ replicate n ''..''" "''..'' \<notin> set ps" using d unfolding dots_last_def by blast
    with False obtain qs where "ps = e # qs" by (cases ps; cases n) auto
    with o' show ?thesis by (auto simp: dots_last_def)
  qed
  with False dots_last_push show ?thesis by auto
qed

lemma clean_elements_dots: "dots_last out \<Longrightarrow> dots_last (clean_elements False out es)"
proof (induction es arbitrary: out)
  case (Cons e es)
  have "dots_last [''..'']" unfolding dots_last_def by (rule exI [of _ "[]"], rule exI [of _ 1]) simp
  consider "e = [] \<or> e = ''.''" | "e = ''..''" "out = []" | o' os where "e = ''..''" "out = o' # os"
    | "e \<noteq> []" "e \<noteq> ''.''" "e \<noteq> ''..''" by (cases out) auto
  then show ?case
  proof cases
    case 1
    with Cons show ?thesis by auto
  next
    case 2
    with Cons.IH \<open>dots_last [''..'']\<close> show ?thesis by simp
  next
    case 3
    with Cons.prems have "dots_last (if o' = ''..'' then ''..'' # out else os)" by (auto simp: dots_last_Cons split: if_splits)
    from Cons.IH [OF this] 3 show ?thesis by (cases "o' = ''..''") simp_all
  next
    case 4
    with Cons.prems Cons.IH dots_last_push show ?thesis by simp
  qed
qed simp

lemma Split_Join:
  "es \<noteq> [] \<Longrightarrow> \<forall>e \<in> set es. c \<notin> set e \<Longrightarrow> Split c (Join es [c]) = es"
proof (induction es)
  case (Cons e es)
  then show ?case by (cases es) (simp_all add: Split_no_sep Split_append_sep)
qed simp

theorem clean_local_elements:
  assumes "Clean p = p" "IsLocal p" "p \<noteq> ''.''" "e \<in> set (Split (CHR ''/'') p)"
  shows "e \<noteq> [] \<and> e \<noteq> ''.'' \<and> e \<noteq> ''..''"
proof -
  let ?out = "clean_elements False [] (Split (CHR ''/'') p)"
  have rel: "\<not> IsAbs p" and up: "p \<noteq> ''..''" "\<not> HasPrefix p ''../''"
    using assms(1,2) by (simp_all add: IsLocal_def)
  have j: "Join (rev ?out) ''/'' = p"
    using assms(1,3) rel by (auto simp: Clean_def Let_def split: if_splits)
  have el: "e \<noteq> [] \<and> e \<noteq> ''.'' \<and> CHR ''/'' \<notin> set e" if "e \<in> set ?out" for e
    using clean_elements_nonempty [OF that] Split_parts [of e "CHR ''/''" p] by auto
  have ne: "?out \<noteq> []" using j assms(2) by (auto simp: IsLocal_def)
  have split: "Split (CHR ''/'') p = rev ?out"
    using Split_Join [of "rev ?out" "CHR ''/''"] j ne el by auto
  have "''..'' \<notin> set ?out"
  proof
    assume dot: "''..'' \<in> set ?out"
    have "dots_last []" unfolding dots_last_def by (rule exI [of _ "[]"], rule exI [of _ 0]) simp
    then obtain ps n where out: "?out = ps @ replicate n ''..''" "''..'' \<notin> set ps"
      using clean_elements_dots [of "[]"] unfolding dots_last_def by blast
    with dot have "n \<noteq> 0" by (cases n) auto
    then obtain m where "n = Suc m" by (cases n) auto
    then have "rev ?out = ''..'' # replicate m ''..'' @ rev ps" using out(1) by (simp flip: replicate_append_same)
    with j have "p = Join (''..'' # replicate m ''..'' @ rev ps) ''/''" by simp
    with up show False by (cases "replicate m ''..'' @ rev ps") (auto simp: HasPrefix_def)
  qed
  moreover have "e \<in> set ?out" using assms(4) split by (metis set_rev)
  ultimately show ?thesis using el by blast
qed

end
