(* ===== verification/Sso_OAuth.thy ===== *)
theory Sso_OAuth
  imports Go_Json Ky_Config Go_Strconv
begin

text \<open>
  \<^verbatim>\<open>internal/sso\<close> without its webhook: the OAuth code flow (\<^verbatim>\<open>oauth.go\<close>), the KySignOn and the
  generic OIDC client built on it (\<^verbatim>\<open>kysignon.go\<close>, \<^verbatim>\<open>oidc.go\<close>) and the SAML metadata
  (\<^verbatim>\<open>saml.go\<close>). The libraries \<^verbatim>\<open>go-oidc\<close> and \<^verbatim>\<open>oauth2\<close> are the functions of the record
  \<open>provider\<close>; what discovery answers is an argument. An error is its text.
\<close>

section \<open>The flow\<close>

record oauth_config =
  ocClientID :: string
  ocClientSecret :: string
  ocRedirectURL :: string
  ocScopes :: "string list"

text \<open>
  A discovered provider: the URL of an authorization request for a state, a PKCE verifier and
  a nonce; the exchange of a code, whose token may carry an \<^verbatim>\<open>id_token\<close>; the verification of
  one for a client, which gives its nonce and its payload.
\<close>

record provider =
  vAuthCodeURL :: "oauth_config \<Rightarrow> string \<Rightarrow> string \<Rightarrow> string \<Rightarrow> string"
  vExchange :: "oauth_config \<Rightarrow> string \<Rightarrow> string \<Rightarrow> string + json option"
  vVerify :: "string \<Rightarrow> string \<Rightarrow> (string \<times> string) option"

record oauthFlow =
  flIssuer :: string
  flClientID :: string
  flClientSecret :: string
  flProvider :: "provider option"

record IdentityClaims =
  icSubject :: string
  icEmail :: string
  icName :: string
  icPreferredUsername :: string
  icRole :: string
  icProvider :: string

definition newOAuthFlow :: "string \<Rightarrow> string \<Rightarrow> string \<Rightarrow> oauthFlow" where
  "newOAuthFlow issuer clientID clientSecret = \<lparr>flIssuer = TrimRight issuer (CHR ''/''), flClientID = clientID,
     flClientSecret = clientSecret, flProvider = None\<rparr>"

text \<open>The first discovery that succeeds is kept; a failed one is tried again.\<close>

definition getProvider :: "(string \<Rightarrow> string + provider) \<Rightarrow> oauthFlow \<Rightarrow> (string + provider) \<times> oauthFlow" where
  "getProvider discover f =
     (case flProvider f of
        Some p \<Rightarrow> (Inr p, f)
      | None \<Rightarrow> (case discover (flIssuer f) of
            Inl e \<Rightarrow> (Inl e, f)
          | Inr p \<Rightarrow> (Inr p, f\<lparr>flProvider := Some p\<rparr>)))"

definition ErrProviderDisabled :: string where "ErrProviderDisabled = ''SSO provider is not enabled''"
definition ErrInvalidIDToken :: string where "ErrInvalidIDToken = ''invalid ID token''"

definition flow_config ::
    "(string \<Rightarrow> string + provider) \<Rightarrow> string \<Rightarrow> oauthFlow \<Rightarrow> (string + oauth_config \<times> provider) \<times> oauthFlow" where
  "flow_config discover redirectURI f =
     (if flIssuer f = [] \<or> flClientID f = [] then (Inl ErrProviderDisabled, f)
      else case getProvider discover f of
        (Inl e, f) \<Rightarrow> (Inl e, f)
      | (Inr p, f) \<Rightarrow> (Inr (\<lparr>ocClientID = flClientID f, ocClientSecret = flClientSecret f,
           ocRedirectURL = redirectURI, ocScopes = [''openid'', ''profile'', ''email'']\<rparr>, p), f))"

definition authCodeURL ::
    "(string \<Rightarrow> string + provider) \<Rightarrow> string \<Rightarrow> string \<Rightarrow> string \<Rightarrow> string \<Rightarrow> oauthFlow \<Rightarrow> (string + string) \<times> oauthFlow" where
  "authCodeURL discover redirectURI state verifier nonce f =
     (case flow_config discover redirectURI f of
        (Inl e, f) \<Rightarrow> (Inl e, f)
      | (Inr (c, p), f) \<Rightarrow> (Inr (vAuthCodeURL p c state verifier nonce), f))"

definition claims_fields :: fields where
  "claims_fields = [(''sub'', VStr []), (''email'', VStr []), (''name'', VStr []),
     (''preferred_username'', VStr []), (''role'', VStr [])]"

text \<open>The user name falls back to the e-mail address, then to the subject.\<close>

definition claimsFromIDToken :: "string \<Rightarrow> string + IdentityClaims" where
  "claimsFromIDToken payload =
     (case Unmarshal claims_fields payload of
        None \<Rightarrow> Inl ErrInvalidIDToken
      | Some raw \<Rightarrow>
          if str_field raw ''sub'' = [] then Inl ErrInvalidIDToken
          else (let username = str_field raw ''preferred_username'';
                    username = (if username = [] then str_field raw ''email'' else username);
                    username = (if username = [] then str_field raw ''sub'' else username)
                in Inr \<lparr>icSubject = str_field raw ''sub'', icEmail = str_field raw ''email'',
                        icName = str_field raw ''name'', icPreferredUsername = username,
                        icRole = str_field raw ''role'', icProvider = []\<rparr>))"

definition exchange ::
    "(string \<Rightarrow> string + provider) \<Rightarrow> string \<Rightarrow> string \<Rightarrow> string \<Rightarrow> string \<Rightarrow> oauthFlow \<Rightarrow>
     (string + IdentityClaims) \<times> oauthFlow" where
  "exchange discover code verifier redirectURI expectedNonce f =
     (case flow_config discover redirectURI f of
        (Inl e, f) \<Rightarrow> (Inl e, f)
      | (Inr (c, p), f) \<Rightarrow>
          ((case vExchange p c code verifier of
              Inl e \<Rightarrow> Inl e
            | Inr extra \<Rightarrow>
                (case extra of
                   Some (JStr rawIDToken) \<Rightarrow>
                     if rawIDToken = [] then Inl ''missing id_token in token response''
                     else (case vVerify p (flClientID f) rawIDToken of
                             None \<Rightarrow> Inl ErrInvalidIDToken
                           | Some (nonce, payload) \<Rightarrow>
                               if expectedNonce = [] \<or> nonce \<noteq> expectedNonce then Inl ErrInvalidIDToken
                               else claimsFromIDToken payload)
                 | _ \<Rightarrow> Inl ''missing id_token in token response'')), f))"

definition ExchangeCode ::
    "string \<Rightarrow> (string \<Rightarrow> string + provider) \<Rightarrow> string \<Rightarrow> string \<Rightarrow> string \<Rightarrow> string \<Rightarrow> oauthFlow \<Rightarrow>
     (string + IdentityClaims) \<times> oauthFlow" where
  "ExchangeCode providerName discover code verifier redirectURI expectedNonce f =
     (case exchange discover code verifier redirectURI expectedNonce f of
        (Inl e, f) \<Rightarrow> (Inl e, f)
      | (Inr claims, f) \<Rightarrow> (Inr (claims\<lparr>icProvider := providerName\<rparr>), f))"

definition KySignOn_ExchangeCode where "KySignOn_ExchangeCode = ExchangeCode ''kysignon''"
definition GenericOIDC_ExchangeCode where "GenericOIDC_ExchangeCode = ExchangeCode ''oidc''"

definition NewKySignOnClient :: "SSOConfig \<Rightarrow> oauthFlow" where
  "NewKySignOnClient cfg = newOAuthFlow (ssKySignOnIssuer cfg) (ssKySignOnClientID cfg) (ssKySignOnSecret cfg)"

definition NewGenericOIDCClient :: "SSOConfig \<Rightarrow> oauthFlow" where
  "NewGenericOIDCClient cfg =
     newOAuthFlow (ssGenericOIDCIssuer cfg) (ssGenericOIDCClientID cfg) (ssGenericOIDCSecret cfg)"

section \<open>SAML metadata\<close>

text \<open>\<^verbatim>\<open>xml.EscapeText\<close> on a byte string: markup and the three white-space controls by reference.\<close>

definition xml_escape_char :: "char \<Rightarrow> string" where
  "xml_escape_char c = (case map_of [(CHR 0x22, ''&#34;''), (CHR 0x27, ''&#39;''), (CHR ''&'', ''&amp;''),
     (CHR ''<'', ''&lt;''), (CHR ''>'', ''&gt;''), (CHR 0x09, ''&#x9;''), (CHR 0x0A, ''&#xA;''),
     (CHR 0x0D, ''&#xD;'')] c of Some e \<Rightarrow> e
   | None \<Rightarrow> if of_char c < (32 :: int) then replacement else [c])"

function xml_escape :: "string \<Rightarrow> string" where
  "xml_escape s = (if s = [] then []
     else if rune_len s = 0 then replacement @ xml_escape (tl s)
     else if rune_len s = 1 then xml_escape_char (hd s) @ xml_escape (tl s)
     else take (rune_len s) s @ xml_escape (drop (rune_len s) s))"
  by pat_completeness auto
termination by (relation "measure length") (auto simp: neq_Nil_conv)

definition xml_attr :: "string \<Rightarrow> string \<Rightarrow> string" where
  "xml_attr name v = '' '' @ name @ ''='' @ [CHR 0x22] @ xml_escape v @ [CHR 0x22]"

definition xml_element :: "string \<Rightarrow> (string \<times> string) list \<Rightarrow> string \<Rightarrow> string" where
  "xml_element name attrs content =
     ''<'' @ name @ concat (map (\<lambda>(k, v). xml_attr k v) attrs) @ ''>'' @ content @ ''</'' @ name @ ''>''"

definition GenerateMetadata :: "string \<Rightarrow> string \<Rightarrow> string" where
  "GenerateMetadata entityID acsURL =
     ''<?xml version='' @ [CHR 0x22] @ ''1.0'' @ [CHR 0x22] @ '' encoding='' @ [CHR 0x22] @ ''UTF-8'' @ [CHR 0x22] @
     ''?>'' @ [CHR 0x0A] @
     xml_element ''md:EntityDescriptor''
       [(''xmlns:md'', ''urn:oasis:names:tc:SAML:2.0:metadata''), (''entityID'', entityID)]
       (xml_element ''md:SPSSODescriptor'' [(''protocolSupportEnumeration'', ''urn:oasis:names:tc:SAML:2.0:protocol'')]
         (xml_element ''md:NameIDFormat'' []
            (xml_escape ''urn:oasis:names:tc:SAML:1.1:nameid-format:emailAddress'') @
          xml_element ''md:AssertionConsumerService''
            [(''Binding'', ''urn:oasis:names:tc:SAML:2.0:bindings:HTTP-POST''), (''Location'', acsURL),
             (''index'', ''1''), (''isDefault'', ''true'')] []))"

end
