(* ===== verification/Sso_Sync.thy ===== *)
theory Sso_Sync
  imports Auth_Session
begin

text \<open>
  The sync webhook of \<^verbatim>\<open>internal/sso/kysignon.go\<close>: a signed, fresh event creates, updates,
  deactivates or deletes the account of a KySignOn subject.
\<close>

section \<open>The sync webhook\<close>

definition KySignOnSyncPayload :: fields where
  "KySignOnSyncPayload = [(''event'', VStr []), (''id'', VStr []), (''username'', VStr []), (''email'', VStr []),
     (''display_name'', VStr []), (''role'', VStr []), (''status'', VStr []), (''timestamp'', VInt 0)]"

datatype sync_err = SyncNoSecret | SyncBadSignature | SyncBadPayload | SyncStale | SyncStore err

definition or_default :: "string \<Rightarrow> string \<Rightarrow> string" where
  "or_default d v = (if v = [] then d else v)"

definition store_result :: "(err + 'a) \<times> world \<Rightarrow> (sync_err + unit) \<times> world" where
  "store_result m = (case m of (Inl e, w) \<Rightarrow> (Inl (SyncStore e), w) | (Inr _, w) \<Rightarrow> (Inr (), w))"

definition sync_upsert :: "time \<Rightarrow> string \<Rightarrow> interference \<Rightarrow> fields \<Rightarrow> world \<Rightarrow> (sync_err + unit) \<times> world" where
  "sync_upsert now idBytes others payload w =
     (case GetUserBySSO ''kysignon'' (str_field payload ''id'') (run_ops (others 0) w) of (res, w) \<Rightarrow>
      (let role = or_default ''user'' (str_field payload ''role'');
           status = or_default ''active'' (str_field payload ''status'')
       in case res of
            Inr existing \<Rightarrow>
              (let privilegesChanged = (uRole existing \<noteq> role \<or> uStatus existing \<noteq> status);
                   u = existing\<lparr>uUsername := str_field payload ''username'', uEmail := str_field payload ''email'',
                     uDisplayName := str_field payload ''display_name'', uRole := role, uStatus := status\<rparr>
               in case UpdateUser now u (run_ops (others 1) w) of
                    (Inl e, w) \<Rightarrow> (Inl (SyncStore e), w)
                  | (Inr _, w) \<Rightarrow>
                      if privilegesChanged
                      then store_result (DeleteUserSessions (uID existing) (run_ops (others 2) w))
                      else (Inr (), w))
          | Inl e \<Rightarrow>
              if e \<noteq> ErrNotFound then (Inl (SyncStore e), w)
              else store_result (CreateUser now (zero_user\<lparr>uID := ''usr_'' @ RandomHex idBytes,
                     uUsername := str_field payload ''username'', uEmail := str_field payload ''email'',
                     uDisplayName := str_field payload ''display_name'', uRole := role, uStatus := status,
                     uSSOProvider := ''kysignon'', uSSOSubject := str_field payload ''id''\<rparr>)
                     (run_ops (others 1) w))))"

definition sync_deactivate :: "time \<Rightarrow> interference \<Rightarrow> fields \<Rightarrow> world \<Rightarrow> (sync_err + unit) \<times> world" where
  "sync_deactivate now others payload w =
     (case GetUserBySSO ''kysignon'' (str_field payload ''id'') (run_ops (others 0) w) of
        (Inl _, w) \<Rightarrow> (Inr (), w)
      | (Inr existing, w) \<Rightarrow>
          (case UpdateUser now (existing\<lparr>uStatus := ''inactive''\<rparr>) (run_ops (others 1) w) of
             (Inl e, w) \<Rightarrow> (Inl (SyncStore e), w)
           | (Inr _, w) \<Rightarrow> store_result (DeleteUserSessions (uID existing) (run_ops (others 2) w))))"

definition sync_delete :: "interference \<Rightarrow> fields \<Rightarrow> world \<Rightarrow> (sync_err + unit) \<times> world" where
  "sync_delete others payload w =
     (case GetUserBySSO ''kysignon'' (str_field payload ''id'') (run_ops (others 0) w) of
        (Inl _, w) \<Rightarrow> (Inr (), w)
      | (Inr existing, w) \<Rightarrow> store_result (DeleteUser (uID existing) (run_ops (others 1) w)))"

text \<open>\<^verbatim>\<open>time.Since(time.Unix(ts, 0)).Abs() > 5*time.Minute\<close>, or no timestamp at all.\<close>

definition stale :: "time \<Rightarrow> int \<Rightarrow> bool" where
  "stale now timestamp \<longleftrightarrow> timestamp = 0 \<or> \<bar>now - timestamp * Second\<bar> > 5 * Minute"

definition HandleSyncWebhook ::
    "prims \<Rightarrow> SSOConfig \<Rightarrow> time \<Rightarrow> time \<Rightarrow> string \<Rightarrow> interference \<Rightarrow> string \<Rightarrow> string \<Rightarrow> world \<Rightarrow>
     (sync_err + unit) \<times> world" where
  "HandleSyncWebhook pr cfg now1 now2 idBytes others body sig w =
     (if ssKySignOnHMACSecret cfg = [] then (Inl SyncNoSecret, w)
      else if \<not> VerifyHMACSHA256 pr body (ssKySignOnHMACSecret cfg) sig then (Inl SyncBadSignature, w)
      else case Unmarshal KySignOnSyncPayload body of
        None \<Rightarrow> (Inl SyncBadPayload, w)
      | Some payload \<Rightarrow>
          if stale now1 (int_field payload ''timestamp'') then (Inl SyncStale, w)
          else (let event = str_field payload ''event''
                in if event = ''user.created'' \<or> event = ''user.updated''
                   then sync_upsert now2 idBytes others payload w
                   else if event = ''user.deactivated'' then sync_deactivate now2 others payload w
                   else if event = ''user.deleted'' then sync_delete others payload w
                   else (Inr (), w)))"

end
