(* ===== verification/Api_Base.thy ===== *)
theory Api_Base
  imports Device_Pairing Auth_Pow Auth_Recovery Auth_Policy Api_Limiter Go_Time Sso_OAuth Sso_Sync
begin

text \<open>
  What the handlers of \<^verbatim>\<open>internal/api\<close> share: the state of the \<^verbatim>\<open>Server\<close> they change, the
  context a request runs in, the store call and the limiter call inside it, and the JSON form
  of a user.
\<close>

section \<open>State and context\<close>

record server =
  srvWorld :: world
  srvAttempts :: attempts
  srvDetached :: int
  srvKySignOn :: oauthFlow

text \<open>
  A request runs beside others. \<open>xNow k\<close> is its k-th reading of the clock, \<open>xOthers k\<close> what
  other requests do to the store before its k-th store call, \<open>xRivals k\<close> the attempts they
  make before its k-th limiter call, \<open>xVictim k\<close> the entry Go's map iteration yields there,
  \<open>xBytes k\<close> its k-th random buffer, \<open>xSalt\<close> a random buffer whose reading may fail and
  \<open>xInt\<close> \<^verbatim>\<open>rand.Int\<close>. \<open>xHashSalt\<close> is the salt of a password hash and
  \<open>xDriverText\<close> the text of an error that comes from the database driver;
  \<open>xDiscover\<close> is what OIDC discovery answers during the request.
\<close>

record ctx =
  xNow :: "nat \<Rightarrow> time"
  xOthers :: interference
  xRivals :: "nat \<Rightarrow> attempt list"
  xVictim :: "nat \<Rightarrow> nat"
  xBytes :: "nat \<Rightarrow> string"
  xSalt :: "string option"
  xInt :: "int \<Rightarrow> int option"
  xHashSalt :: string
  xDriverText :: string
  xDiscover :: "string \<Rightarrow> string + provider"

type_synonym handler = "ctx \<Rightarrow> request \<Rightarrow> server \<Rightarrow> response \<times> server"

text \<open>The context after \<open>n\<close> readings of the clock and \<open>k\<close> store calls.\<close>

definition later :: "nat \<Rightarrow> nat \<Rightarrow> ctx \<Rightarrow> ctx" where
  "later n k x = x\<lparr>xNow := \<lambda>i. xNow x (i + n), xOthers := \<lambda>i. xOthers x (i + k)\<rparr>"

definition store_call :: "ctx \<Rightarrow> nat \<Rightarrow> (world \<Rightarrow> 'a \<times> world) \<Rightarrow> server \<Rightarrow> 'a \<times> server" where
  "store_call x k f s = (case f (run_ops (xOthers x k) (srvWorld s)) of (r, w) \<Rightarrow> (r, s\<lparr>srvWorld := w\<rparr>))"

text \<open>A part of a request that makes several store calls of its own.\<close>

definition with_world :: "(world \<Rightarrow> 'a \<times> world) \<Rightarrow> server \<Rightarrow> 'a \<times> server" where
  "with_world f s = (case f (srvWorld s) of (r, w) \<Rightarrow> (r, s\<lparr>srvWorld := w\<rparr>))"

fun run_attempts :: "attempt list \<Rightarrow> attempts \<Rightarrow> attempts" where
  "run_attempts [] m = m"
| "run_attempts (a # as) m =
     run_attempts as (snd (allowAttempt (atVictim a) (atNow a) (atKey a) (atLimit a) (atWindow a) m))"

definition allow :: "ctx \<Rightarrow> nat \<Rightarrow> time \<Rightarrow> string \<Rightarrow> int \<Rightarrow> duration \<Rightarrow> server \<Rightarrow> bool \<times> server" where
  "allow x k now key limit window s =
     (case allowAttempt (xVictim x k) now key limit window (run_attempts (xRivals x k) (srvAttempts s)) of
        (ok, m) \<Rightarrow> (ok, s\<lparr>srvAttempts := m\<rparr>))"

text \<open>The session check, whose store calls are those from \<open>k\<close> on and clock readings those from \<open>n\<close> on.\<close>

definition authenticate :: "prims \<Rightarrow> ctx \<Rightarrow> nat \<Rightarrow> nat \<Rightarrow> request \<Rightarrow> server \<Rightarrow> (err + user \<times> session) \<times> server" where
  "authenticate pr x n k r s =
     (case AuthenticateRequest pr (xNow x n) (xNow x (n + 1)) (\<lambda>i. xOthers x (i + k)) r (srvWorld s) of
        (res, w) \<Rightarrow> (res, s\<lparr>srvWorld := w\<rparr>))"

definition requestIP :: "Config \<Rightarrow> request \<Rightarrow> string" where
  "requestIP cfg r = ClientIP r (scTrustedProxies (cfSecurity cfg))"

text \<open>The text of an error: the sentinels have theirs, the rest is the driver's.\<close>

definition err_text :: "ctx \<Rightarrow> err \<Rightarrow> string" where
  "err_text x e = (case e of
     ErrNotFound \<Rightarrow> ''record not found''
   | ErrAlreadyExists \<Rightarrow> ''record already exists''
   | ErrSessionExpired \<Rightarrow> ''session expired''
   | ErrPairingExpired \<Rightarrow> ''pairing session expired''
   | ErrPairingNotFound \<Rightarrow> ''pairing session not found''
   | ErrPairingCodeExpired \<Rightarrow> ''pairing code expired''
   | _ \<Rightarrow> xDriverText x)"

section \<open>The user as JSON\<close>

text \<open>
  The fields \<^verbatim>\<open>models.go\<close> tags with a name, in order; those tagged \<^verbatim>\<open>omitempty\<close> are left out
  when empty, those tagged \<^verbatim>\<open>"-"\<close> always.
\<close>

definition omitempty :: "string \<Rightarrow> string \<Rightarrow> (string \<times> json) list" where
  "omitempty k v = (if v = [] then [] else [(k, JStr v)])"

definition JTime :: "time \<Rightarrow> json" where "JTime t = JStr (FormatRFC3339Nano t)"

definition user_json :: "user \<Rightarrow> json" where
  "user_json u = JObj
     ([(''id'', JStr (uID u)), (''username'', JStr (uUsername u)), (''email'', JStr (uEmail u)),
       (''display_name'', JStr (uDisplayName u)), (''role'', JStr (uRole u)), (''status'', JStr (uStatus u)),
       (''sso_provider'', JStr (uSSOProvider u))] @
      omitempty ''sso_subject'' (uSSOSubject u) @
      [(''totp_enabled'', JBool (uTOTPEnabled u))] @
      omitempty ''push_device_id'' (uPushDeviceID u) @
      [(''must_change_password'', JBool (uMustChangePassword u)), (''created_at'', JTime (uCreatedAt u)),
       (''updated_at'', JTime (uUpdatedAt u))] @
      (case uLastLoginAt u of None \<Rightarrow> [] | Some t \<Rightarrow> [(''last_login_at'', JTime t)]))"

text \<open>The record a client sees: the secrets of an account replaced by constants.\<close>

definition public_part :: "user \<Rightarrow> user" where
  "public_part u = u\<lparr>uPasswordHash := [], uTOTPSecretEnc := [], uTOTPLastCounter := 0, uRecoveryCodesHash := []\<rparr>"

lemma user_json_public: "user_json u = user_json (public_part u)"
  by (simp add: user_json_def public_part_def)

section \<open>The server's invariant\<close>

definition server_ok :: "server \<Rightarrow> bool" where
  "server_ok s \<longleftrightarrow> schema_ok (db (srvWorld s)) \<and> limiter_ok (srvAttempts s)"

text \<open>
  What a piece of a request does to the store and to the server: it keeps the invariant, only
  adds to the audit trail and leaves the count of detached requests alone.
\<close>

definition grows :: "world \<Rightarrow> world \<Rightarrow> bool" where
  "grows w w' \<longleftrightarrow> (schema_ok (db w) \<longrightarrow> schema_ok (db w')) \<and> audit_extends (db w) (db w')"

definition evolves :: "server \<Rightarrow> server \<Rightarrow> bool" where
  "evolves s s' \<longleftrightarrow> grows (srvWorld s) (srvWorld s') \<and>
     (limiter_ok (srvAttempts s) \<longrightarrow> limiter_ok (srvAttempts s')) \<and> srvDetached s' = srvDetached s"

lemma evolves_ok: "evolves s s' \<Longrightarrow> server_ok s \<Longrightarrow> server_ok s'"
  by (simp add: evolves_def grows_def server_ok_def)

lemma grows_same: "db w' = db w \<Longrightarrow> grows w w'"
  by (simp add: grows_def)

lemma grows_trans: "grows w w' \<Longrightarrow> grows w' w'' \<Longrightarrow> grows w w''"
  by (auto simp: grows_def intro: audit_extends_trans)

lemma grows_run_op: "grows w (run_op p w)"
  by (simp add: grows_def run_op_schema run_op_audit del: run_op.simps)

lemma grows_run_ops: "grows w (run_ops ps w)"
  by (simp add: grows_def run_ops_schema run_ops_audit)

lemma evolves_refl [simp, intro]: "evolves s s"
  by (simp add: evolves_def grows_same)

lemma evolves_trans: "evolves s s' \<Longrightarrow> evolves s' s'' \<Longrightarrow> evolves s s''"
  by (auto simp: evolves_def intro: grows_trans)

text \<open>A call on the store that behaves like one of its operations.\<close>

definition store_like :: "(world \<Rightarrow> 'a \<times> world) \<Rightarrow> bool" where
  "store_like f \<longleftrightarrow> (\<forall>w. grows w (snd (f w)))"

named_theorems store_likes

lemma store_like_op: "(\<And>w. snd (f w) = run_op p w) \<Longrightarrow> store_like f"
  by (simp add: store_like_def grows_run_op del: run_op.simps)

lemma store_like_read: "(\<And>w r w'. f w = (r, w') \<Longrightarrow> db w' = db w) \<Longrightarrow> store_like f"
  unfolding store_like_def by (metis grows_same prod.collapse)

lemma store_like_reads [store_likes]:
  "store_like (GetUserByUsername n)" "store_like (GetUserByID i)" "store_like (GetUserBySSO p b)"
  "store_like (GetSetting k)" "store_like GetAllSettings"
  by (rule store_like_read; auto dest: GetUserByUsername_db GetUserByID_db GetUserBySSO_db GetSetting_db
      sql_query_db simp: GetAllSettings_def)+

lemma store_like_writes [store_likes]:
  "store_like (LogAudit now a)" "store_like (SetSetting now k v)" "store_like (DeleteSetting k)"
  "store_like (CreateMFAChallenge c h)" "store_like (ConsumeMFAChallenge now t)"
  "store_like (SpendTOTPCounter now i n)" "store_like (UpdateRecoveryCodes now i old new)"
  "store_like (CompletePasswordChange now i old new ip)" "store_like (CreateSession se h)"
  "store_like (GetSession now t)"
  "store_like (DeleteSession t)" "store_like (DeleteUserSessions i)" "store_like (CreateUser now u)"
  "store_like (UpdateUser now u)" "store_like (DeleteUser i)" "store_like (CreatePairing now p)"
  "store_like (CreateGroup now g)" "store_like (UpdateGroup now g)" "store_like (DeleteGroup i)"
  "store_like (AddGroupMember i j)" "store_like (RemoveGroupMember i j)"
  by (rule store_like_op, rule run_op.simps [symmetric])+

lemma store_like_IssueSession [store_likes]: "store_like (IssueSession pr cfg n1 n2 tb cb r u)"
proof -
  define se where "se = \<lparr>sTokenHash = SHA256Hex pr (RandomHex tb), sUserID = uID u,
    sUserAgent = HeaderGet r ''User-Agent'', sIPAddress = ClientIP r (scTrustedProxies cfg), sCreatedAt = n1,
    sExpiresAt = n2 + (if scSessionTTL cfg \<le> 0 then 7 * 24 * Hour else scSessionTTL cfg)\<rparr>"
  have "snd (IssueSession pr cfg n1 n2 tb cb r u w) = snd (CreateSession se (uPasswordHash u) w)" for w
    unfolding IssueSession_def Let_def se_def [symmetric] by (simp split: prod.split sum.split)
  then show ?thesis by (intro store_like_op [of _ "OpCreateSession se (uPasswordHash u)"]) simp
qed

lemma store_like_RevokeSession [store_likes]: "store_like (RevokeSession pr cfg r)"
  using grows_run_op [of _ "OpDeleteSession (SHA256Hex pr (request_token r))"]
  by (auto simp: store_like_def RevokeSession_token grows_same)

lemma store_likeD: "store_like f \<Longrightarrow> f w = (r, w') \<Longrightarrow> grows w w'"
  by (metis snd_conv store_like_def)

lemma grows_call: "f (run_ops ps w) = (r, w') \<Longrightarrow> store_like f \<Longrightarrow> grows w w'"
  by (rule grows_trans [OF grows_run_ops store_likeD])

lemma session_calls_grow:
  "GetSession n t (run_ops ps w) = (r, w') \<Longrightarrow> grows w w'"
  "GetUserByID i (run_ops ps w) = (ru, w') \<Longrightarrow> grows w w'"
  "DeleteSession t (run_ops ps w) = (rd, w') \<Longrightarrow> grows w w'"
  by (erule grows_call, rule store_likes)+

lemma AuthenticateRequest_grows: "grows w (snd (AuthenticateRequest pr n1 n2 others r w))"
proof -
  let ?t = "SHA256Hex pr (request_token r)"
  obtain r1 w1 where g1: "GetSession n1 ?t (run_ops (others 0) w) = (r1, w1)" by fastforce
  obtain r2 w2 where g2: "GetUserByID (sUserID (projr r1)) (run_ops (others 1) w1) = (r2, w2)" by fastforce
  obtain r3 w3 where g3: "GetSession n2 ?t (run_ops (others 2) w2) = (r3, w3)" by fastforce
  obtain r4 w4 where g4: "DeleteSession ?t (run_ops (others 2) w2) = (r4, w4)" by fastforce
  have w1: "grows w w1" using g1 by (rule session_calls_grow)
  have w2: "grows w w2" using w1 session_calls_grow(2) [OF g2] by (rule grows_trans)
  have w3: "grows w w3" using w2 session_calls_grow(1) [OF g3] by (rule grows_trans)
  have w4: "grows w w4" using w2 session_calls_grow(3) [OF g4] by (rule grows_trans)
  show ?thesis
    using g1 g2 g3 g4 w1 w2 w3 w4
    by (cases r1) (auto simp: AuthenticateRequest_def Let_def grows_same split: sum.split)
qed

lemma run_attempts_ok: "limiter_ok m \<Longrightarrow> limiter_ok (run_attempts as m)"
  by (induction as m rule: run_attempts.induct) (simp_all add: allowAttempt_ok)

lemma store_call_evolves: "store_like f \<Longrightarrow> evolves s (snd (store_call x k f s))"
  by (auto simp: store_call_def evolves_def dest: store_likeD intro: grows_trans [OF grows_run_ops] split: prod.splits)

lemma with_world_evolves: "store_like f \<Longrightarrow> evolves s (snd (with_world f s))"
  by (auto simp: with_world_def evolves_def dest: store_likeD split: prod.splits)

lemma allow_evolves: "evolves s (snd (allow x k now key limit window s))"
  using allowAttempt_ok [OF run_attempts_ok, of "srvAttempts s" "xVictim x k" now key limit window "xRivals x k"]
  by (auto simp: allow_def evolves_def grows_same split: prod.splits)

lemma authenticate_evolves: "evolves s (snd (authenticate pr x n k r s))"
  using AuthenticateRequest_grows [of "srvWorld s" pr "xNow x n" "xNow x (n + 1)" "\<lambda>i. xOthers x (i + k)" r]
  by (auto simp: authenticate_def evolves_def split: prod.splits)

text \<open>
  Rules that follow a handler through its calls: at every point the state reached so far has
  evolved from the one the request started in.
\<close>

lemma keeps_pair:
  assumes "evolves s (snd m)" "evolves s0 s" "\<And>a s'. evolves s0 s' \<Longrightarrow> evolves s0 (snd (f a s'))"
  shows "evolves s0 (snd (case m of (a, s') \<Rightarrow> f a s'))"
proof -
  have "evolves s0 (snd m)" using assms(2,1) by (rule evolves_trans)
  from assms(3) [OF this] show ?thesis by (simp add: split_beta)
qed

lemma keeps_result:
  assumes "evolves s (snd m)" "evolves s0 s"
    and "\<And>e s'. evolves s0 s' \<Longrightarrow> evolves s0 (snd (f e s'))"
    and "\<And>a s'. evolves s0 s' \<Longrightarrow> evolves s0 (snd (g a s'))"
  shows "evolves s0 (snd (case m of (Inl e, s') \<Rightarrow> f e s' | (Inr a, s') \<Rightarrow> g a s'))"
  using assms(1,2) by (rule keeps_pair) (simp add: assms(3,4) split: sum.split)

lemma keeps_result2:
  assumes "evolves s (snd m)" "evolves s0 s"
    and "\<And>e s'. evolves s0 s' \<Longrightarrow> evolves s0 (snd (f e s'))"
    and "\<And>a b s'. evolves s0 s' \<Longrightarrow> evolves s0 (snd (g a b s'))"
  shows "evolves s0 (snd (case m of (Inl e, s') \<Rightarrow> f e s' | (Inr (a, b), s') \<Rightarrow> g a b s'))"
  using assms(1,2) by (rule keeps_pair) (simp add: assms(3,4) split: sum.split prod.split)

lemma keeps_if: "evolves s0 (snd a) \<Longrightarrow> evolves s0 (snd b) \<Longrightarrow> evolves s0 (snd (if c then a else b))"
  by simp

lemma keeps_option:
  "evolves s0 (snd a) \<Longrightarrow> (\<And>v. evolves s0 (snd (f v))) \<Longrightarrow> evolves s0 (snd (case m of None \<Rightarrow> a | Some v \<Rightarrow> f v))"
  by (simp split: option.split)

lemma keeps_sum:
  "(\<And>v. evolves s0 (snd (f v))) \<Longrightarrow> (\<And>v. evolves s0 (snd (g v))) \<Longrightarrow>
   evolves s0 (snd (case m of Inl v \<Rightarrow> f v | Inr v \<Rightarrow> g v))"
  by (simp split: sum.split)

lemma keeps_end: "evolves s0 s \<Longrightarrow> evolves s0 (snd (resp, s))"
  by simp

lemmas keeps_rules =
  keeps_result2 [OF store_call_evolves] keeps_result2 [OF authenticate_evolves]
  keeps_result2 [OF with_world_evolves] keeps_result [OF store_call_evolves] keeps_pair [OF allow_evolves]
  keeps_if keeps_option keeps_sum keeps_end

lemma allow_world: "allow x k now key limit window s = (ok, s') \<Longrightarrow> srvWorld s' = srvWorld s"
  by (auto simp: allow_def split: prod.splits)

lemma store_call_eq:
  "store_call x k f s = (r, s') \<longleftrightarrow>
     f (run_ops (xOthers x k) (srvWorld s)) = (r, srvWorld s') \<and> s' = s\<lparr>srvWorld := srvWorld s'\<rparr>"
  by (auto simp: store_call_def split: prod.splits)

lemma with_world_eq:
  "with_world f s = (r, s') \<longleftrightarrow> f (srvWorld s) = (r, srvWorld s') \<and> s' = s\<lparr>srvWorld := srvWorld s'\<rparr>"
  by (auto simp: with_world_def split: prod.splits)

lemma authenticate_eq:
  "authenticate pr x n k r s = (res, s') \<longleftrightarrow>
     AuthenticateRequest pr (xNow x n) (xNow x (n + 1)) (\<lambda>i. xOthers x (i + k)) r (srvWorld s) = (res, srvWorld s') \<and>
     s' = s\<lparr>srvWorld := srvWorld s'\<rparr>"
  by (auto simp: authenticate_def split: prod.splits)

section \<open>A session handed out\<close>

text \<open>
  The response hands out a session of the account: its token is new to the store, which still
  holds that account with the password hash it was read with.
\<close>

definition session_granted :: "prims \<Rightarrow> user \<Rightarrow> db \<Rightarrow> response \<Rightarrow> bool" where
  "session_granted pr u d resp \<longleftrightarrow> pStatusCode resp = 200 \<and>
     count_where (has_credential (uID u) (uPasswordHash u)) (users d) = 1 \<and>
     (\<exists>c \<in> set (pCookies resp). ckName c = SessionCookieName \<and> ckHttpOnly c \<and>
        SHA256Hex pr (ckValue c) \<notin> sTokenHash ` set (sessions d))"

lemma IssueSession_cookies:
  "IssueSession pr cfg n1 n2 tb cb r u w = (Inr (se, t, cs), w') \<Longrightarrow>
     cs = [session_cookie cfg SessionCookieName t (sExpiresAt se) True,
           session_cookie cfg CSRFCookieName (RandomHex cb) (sExpiresAt se) False]"
  by (auto simp: IssueSession_def Let_def split: prod.splits sum.splits)

lemma IssueSession_granted:
  assumes "IssueSession pr cfg n1 n2 tb cb r u w = (Inr (se, t, cs), w')"
  shows "session_granted pr u (db w) ((writeJSON 200 data)\<lparr>pCookies := cs\<rparr>)"
  using IssueSession_Inr [OF assms] IssueSession_cookies [OF assms]
  by (simp add: session_granted_def session_cookie_def)

end
