(* ===== verification/Api_Auth.thy ===== *)
theory Api_Auth
  imports Api_Base
begin

text \<open>
  \<^verbatim>\<open>internal/api/auth_handlers.go\<close> and \<^verbatim>\<open>password_handlers.go\<close>: the proof-of-work challenge,
  password login, the two second factors, logout, the session probe and the forced password
  change. The first half of the two MFA handlers and the tail of the three login handlers are
  the same code in the source; they are \<open>mfa_account\<close> and \<open>finish_login\<close> here.
\<close>

section \<open>Requests\<close>

definition LoginRequest :: fields where
  "LoginRequest = [(''username'', VStr []), (''password'', VStr []), (''captcha_token'', VStr [])]"

definition MFARequest :: fields where
  "MFARequest = [(''mfa_token'', VStr []), (''code'', VStr [])]"

definition ChangePasswordRequest :: fields where
  "ChangePasswordRequest = [(''current_password'', VStr []), (''new_password'', VStr [])]"

section \<open>Handlers\<close>

definition pow_json :: "pow_challenge \<Rightarrow> json" where
  "pow_json c = JObj [(''algorithm'', JStr (cAlgorithm c)), (''salt'', JStr (cSalt c)),
     (''challenge'', JStr (cChallenge c)), (''maxnumber'', JNum (Itoa (cMaxNumber c))),
     (''expires_at'', JNum (Itoa (cExpiresAt c))), (''signature'', JStr (cSignature c))]"

definition handlePoWChallenge :: "prims \<Rightarrow> Config \<Rightarrow> handler" where
  "handlePoWChallenge pr cfg x r s =
     (if rMethod r \<noteq> ''GET'' then (writeError 405 ''Method not allowed'', s)
      else case GeneratePoWChallenge pr (xNow x 0) (xSalt x) (xInt x)
                  (cpDifficultyPoW (cfCaptcha cfg)) (scSessionSecret (cfSecurity cfg)) of
             None \<Rightarrow> (writeError 500 ''Failed to generate PoW challenge'', s)
           | Some c \<Rightarrow> (writeJSON 200 (pow_json c), s))"

definition authenticated_json :: "user \<Rightarrow> json" where
  "authenticated_json u = JObj [(''authenticated'', JBool True), (''user'', user_json u)]"

text \<open>
  Issue the session (two readings of the clock and one store call from \<open>n\<close> and \<open>k\<close> on), record
  it, answer.
\<close>

definition finish_login ::
    "prims \<Rightarrow> Config \<Rightarrow> string \<Rightarrow> ctx \<Rightarrow> nat \<Rightarrow> nat \<Rightarrow> request \<Rightarrow> user \<Rightarrow> server \<Rightarrow> response \<times> server" where
  "finish_login pr cfg action x n k r user s =
     (case store_call x k (IssueSession pr (cfSecurity cfg) (xNow x n) (xNow x (n + 1))
             (xBytes x 0) (xBytes x 1) r user) s of
        (Inl _, s) \<Rightarrow> (writeError 500 ''Failed to issue session'', s)
      | (Inr (_, _, cookies), s) \<Rightarrow>
          (case store_call x (k + 1) (LogAudit (xNow x (n + 2)) (audit (uID user) action ''session'' [] [])) s of
             (_, s) \<Rightarrow> ((writeJSON 200 (authenticated_json user))\<lparr>pCookies := cookies\<rparr>, s)))"

definition captcha_ok :: "prims \<Rightarrow> Config \<Rightarrow> time \<Rightarrow> string \<Rightarrow> bool" where
  "captcha_ok pr cfg now token \<longleftrightarrow> cpProvider (cfCaptcha cfg) = ''pow'' \<longrightarrow>
     \<not> (token = [] \<or> \<not> VerifyPoWSolution pr now token (scSessionSecret (cfSecurity cfg)))"

definition start_mfa :: "prims \<Rightarrow> ctx \<Rightarrow> nat \<Rightarrow> nat \<Rightarrow> user \<Rightarrow> server \<Rightarrow> response \<times> server" where
  "start_mfa pr x n k user s =
     (let rawChallenge = RandomHex (xBytes x 0)
      in case store_call x k (CreateMFAChallenge
                \<lparr>mTokenHash = SHA256Hex pr rawChallenge, mUserID = uID user,
                 mExpiresAt = xNow x n + 5 * Minute\<rparr> (uPasswordHash user)) s of
           (Inl _, s) \<Rightarrow> (writeError 500 ''Failed to start MFA verification'', s)
         | (Inr _, s) \<Rightarrow> (writeJSON 200 (JObj [
             (''methods'', JArr [JStr ''totp'', JStr ''recovery_code'']),
             (''mfa_required'', JBool True), (''mfa_token'', JStr rawChallenge)]), s))"

definition handleLogin :: "prims \<Rightarrow> Config \<Rightarrow> handler" where
  "handleLogin pr cfg x r s =
     (if rMethod r \<noteq> ''POST'' then (writeError 405 ''Method not allowed'', s)
      else case allow x 0 (xNow x 0) (''login:'' @ requestIP cfg r) 20 Minute s of (ok, s) \<Rightarrow>
      if \<not> ok then (writeError 429 ''Too many login attempts'', s)
      else case DecodeBody LoginRequest r of
        None \<Rightarrow> (writeError 400 ''Invalid request body'', s)
      | Some req \<Rightarrow>
          (let username = TrimSpace (str_field req ''username''); pass = str_field req ''password''
           in if username = [] \<or> pass = []
              then (writeError 400 ''Username and password are required'', s)
              else if \<not> captcha_ok pr cfg (xNow x 1) (str_field req ''captcha_token'')
              then (writeError 403 ''Security check failed. Please complete the CAPTCHA puzzle.'', s)
              else case store_call x 0 (GetUserByUsername username) s of
                (Inl e, s) \<Rightarrow>
                  if e = ErrNotFound then (writeError 401 ''Invalid credentials'', s)
                  else (writeError 500 ''Authentication error'', s)
              | (Inr user, s) \<Rightarrow>
                  if uStatus user \<noteq> ''active''
                  then (writeError 403 ''Account is disabled or inactive'', s)
                  else if pw_verify pr pass (uPasswordHash user) \<noteq> Some True
                  then (writeError 401 ''Invalid credentials'', s)
                  else if uTOTPEnabled user then start_mfa pr x 2 1 user s
                  else finish_login pr cfg ''auth.login'' x 2 1 r user s))"

text \<open>
  The common half of the MFA handlers: decode, limit by client, consume the challenge, limit
  by account, check that the account is the one the password was verified for.
\<close>

definition mfa_account ::
    "prims \<Rightarrow> Config \<Rightarrow> ctx \<Rightarrow> request \<Rightarrow> server \<Rightarrow> (response + string \<times> user) \<times> server" where
  "mfa_account pr cfg x r s =
     (if rMethod r \<noteq> ''POST'' then (Inl (writeError 405 ''Method not allowed''), s)
      else case DecodeBody MFARequest r of
        None \<Rightarrow> (Inl (writeError 400 ''Invalid request body''), s)
      | Some req \<Rightarrow>
          (case allow x 0 (xNow x 0) (''mfa:'' @ requestIP cfg r) 20 Minute s of (ok, s) \<Rightarrow>
           if \<not> ok then (Inl (writeError 429 ''Too many MFA attempts''), s)
           else case store_call x 0 (ConsumeMFAChallenge (xNow x 1) (SHA256Hex pr (str_field req ''mfa_token''))) s of
             (Inl _, s) \<Rightarrow> (Inl (writeError 401 ''Invalid or expired MFA transaction''), s)
           | (Inr (userID, verifiedHash), s) \<Rightarrow>
               (case allow x 1 (xNow x 2) (''mfa-user:'' @ userID) 5 (5 * Minute) s of (ok, s) \<Rightarrow>
                if \<not> ok then (Inl (writeError 429 ''Too many MFA attempts for this account''), s)
                else case store_call x 1 (GetUserByID userID) s of
                  (Inl _, s) \<Rightarrow> (Inl (writeError 401 ''User not found''), s)
                | (Inr user, s) \<Rightarrow>
                    if uStatus user \<noteq> ''active'' \<or> \<not> uTOTPEnabled user \<or> uPasswordHash user \<noteq> verifiedHash
                    then (Inl (writeError 403 ''Account is not eligible for MFA login''), s)
                    else (Inr (str_field req ''code'', user), s))))"

definition handleMFATOTP :: "prims \<Rightarrow> Config \<Rightarrow> handler" where
  "handleMFATOTP pr cfg x r s =
     (case mfa_account pr cfg x r s of
        (Inl resp, s) \<Rightarrow> (resp, s)
      | (Inr (code, user), s) \<Rightarrow>
          (case DecryptAESGCM pr (uTOTPSecretEnc user) (scEncryptionKey (cfSecurity cfg)) of
             Inl _ \<Rightarrow> (writeError 500 ''Failed to decrypt MFA secret'', s)
           | Inr secretBytes \<Rightarrow>
               (case ValidateTOTP pr (xNow x 3) secretBytes code of
                  None \<Rightarrow> (writeError 401 ''Invalid TOTP verification code'', s)
                | Some counter \<Rightarrow>
                    (case store_call x 2 (SpendTOTPCounter (xNow x 4) (uID user) counter) s of
                       (Inl _, s) \<Rightarrow> (writeError 401 ''TOTP code already used'', s)
                     | (Inr _, s) \<Rightarrow> finish_login pr cfg ''auth.mfa_totp'' x 5 3 r user s))))"

definition handleMFARecovery :: "prims \<Rightarrow> Config \<Rightarrow> handler" where
  "handleMFARecovery pr cfg x r s =
     (case mfa_account pr cfg x r s of
        (Inl resp, s) \<Rightarrow> (resp, s)
      | (Inr (code, user), s) \<Rightarrow>
          (case RedeemRecoveryCode pr code (uRecoveryCodesHash user) of
             None \<Rightarrow> (writeError 401 ''Invalid or already used recovery code'', s)
           | Some updatedHashes \<Rightarrow>
               (case store_call x 2 (UpdateRecoveryCodes (xNow x 3) (uID user) (uRecoveryCodesHash user) updatedHashes) s of
                  (Inl _, s) \<Rightarrow> (writeError 401 ''Recovery code was already used'', s)
                | (Inr _, s) \<Rightarrow> finish_login pr cfg ''auth.mfa_recovery_code'' x 4 3 r user s)))"

definition handleLogout :: "prims \<Rightarrow> Config \<Rightarrow> handler" where
  "handleLogout pr cfg x r s =
     (if rMethod r \<noteq> ''POST'' then (writeError 405 ''Method not allowed'', s)
      else case store_call x 0 (RevokeSession pr (cfSecurity cfg) r) s of
        (cookies, s) \<Rightarrow> ((writeJSON 200 (JObj [(''logged_out'', JBool True)]))\<lparr>pCookies := cookies\<rparr>, s))"

definition handleMe :: "prims \<Rightarrow> Config \<Rightarrow> handler" where
  "handleMe pr cfg x r s =
     (case authenticate pr x 0 0 r s of
        (Inl _, s) \<Rightarrow> (writeJSON 200 (JObj [(''authenticated'', JBool False)]), s)
      | (Inr (user, _), s) \<Rightarrow> (writeJSON 200 (authenticated_json user), s))"

text \<open>The second limiter runs only when the first lets the request through.\<close>

definition change_allowed :: "Config \<Rightarrow> ctx \<Rightarrow> request \<Rightarrow> string \<Rightarrow> server \<Rightarrow> bool \<times> server" where
  "change_allowed cfg x r userID s =
     (case allow x 0 (xNow x 2) (''password-change:'' @ requestIP cfg r) 10 Minute s of (ok, s) \<Rightarrow>
      if \<not> ok then (False, s)
      else allow x 1 (xNow x 3) (''password-change-user:'' @ userID) 5 Minute s)"

definition policy_message :: "policy_err \<Rightarrow> string" where
  "policy_message e = (case e of
     ErrPasswordTooShort \<Rightarrow> ''password must be at least 12 characters''
   | ErrInvalidUsername \<Rightarrow> ''username must be 3-64 alphanumeric characters, underscores, or hyphens''
   | ErrInvalidEmail \<Rightarrow> ''invalid email address format'')"

definition handleChangePassword :: "prims \<Rightarrow> Config \<Rightarrow> handler" where
  "handleChangePassword pr cfg x r s =
     (if rMethod r \<noteq> ''POST'' then (writeError 405 ''Method not allowed'', s)
      else case authenticate pr x 0 0 r s of
        (Inl _, s) \<Rightarrow> (writeError 401 ''Authentication required'', s)
      | (Inr (user, _), s) \<Rightarrow>
          if \<not> uMustChangePassword user \<or> uSSOProvider user \<noteq> ''local''
          then (writeError 409 ''No local password replacement is required'', s)
          else case change_allowed cfg x r (uID user) s of (ok, s) \<Rightarrow>
          if \<not> ok then (writeError 429 ''Too many password change attempts'', s)
          else case DecodeBody ChangePasswordRequest r of
            None \<Rightarrow> (writeError 400 ''Invalid request body'', s)
          | Some req \<Rightarrow>
              (let current = str_field req ''current_password''; new = str_field req ''new_password''
               in if length current > 1024 \<or> length new > 1024
                  then (writeError 400 ''Password is too long'', s)
                  else case ValidatePassword new of
                    Some e \<Rightarrow> (writeError 400 (policy_message e), s)
                  | None \<Rightarrow>
                      if current = new then (writeError 400 ''Choose a different password'', s)
                      else if pw_verify pr current (uPasswordHash user) \<noteq> Some True
                      then (writeError 401 ''Current password is incorrect'', s)
                      else case pw_hash pr (xHashSalt x) new of
                        None \<Rightarrow> (writeError 500 ''Failed to secure password'', s)
                      | Some hash \<Rightarrow>
                          (case store_call x 3 (CompletePasswordChange (xNow x 4) (uID user)
                                  (uPasswordHash user) hash (requestIP cfg r)) s of
                             (Inl e, s) \<Rightarrow>
                               if e = ErrNotFound then (writeError 409 ''Account changed; sign in again'', s)
                               else (writeError 500 ''Failed to change password'', s)
                           | (Inr _, s) \<Rightarrow>
                               (case store_call x 4 (RevokeSession pr (cfSecurity cfg) r) s of
                                  (cookies, s) \<Rightarrow>
                                    ((writeJSON 200 (JObj [(''login_required'', JBool True),
                                       (''password_changed'', JBool True)]))\<lparr>pCookies := cookies\<rparr>, s)))))"

section \<open>The server's invariant\<close>

lemma finish_login_evolves: "evolves s0 s \<Longrightarrow> evolves s0 (snd (finish_login pr cfg act x n k r u s))"
  unfolding finish_login_def
  by (rule keeps_result [OF store_call_evolves], rule store_likes, assumption)
    (auto intro!: keeps_pair [OF store_call_evolves] simp: store_likes)

lemma start_mfa_evolves: "evolves s0 s \<Longrightarrow> evolves s0 (snd (start_mfa pr x n k u s))"
  unfolding start_mfa_def Let_def
  by (rule keeps_result [OF store_call_evolves]) (simp_all add: store_likes)

lemma handleLogin_evolves: "evolves s (snd (handleLogin pr cfg x r s))"
  unfolding handleLogin_def Let_def
  by (intro keeps_rules store_likes start_mfa_evolves finish_login_evolves evolves_refl; assumption?)

lemma mfa_account_evolves: "evolves s (snd (mfa_account pr cfg x r s))"
  unfolding mfa_account_def Let_def
  by (intro keeps_rules store_likes evolves_refl; assumption?)

lemma handleMFATOTP_evolves: "evolves s (snd (handleMFATOTP pr cfg x r s))"
  unfolding handleMFATOTP_def
  by (rule keeps_result2 [OF mfa_account_evolves])
    (intro keeps_rules store_likes finish_login_evolves evolves_refl; assumption?)+

lemma handleMFARecovery_evolves: "evolves s (snd (handleMFARecovery pr cfg x r s))"
  unfolding handleMFARecovery_def
  by (rule keeps_result2 [OF mfa_account_evolves])
    (intro keeps_rules store_likes finish_login_evolves evolves_refl; assumption?)+

lemma handleLogout_evolves: "evolves s (snd (handleLogout pr cfg x r s))"
  unfolding handleLogout_def
  by (intro keeps_rules keeps_pair [OF store_call_evolves] store_likes evolves_refl; assumption?)

lemma handleMe_evolves: "evolves s (snd (handleMe pr cfg x r s))"
  unfolding handleMe_def by (intro keeps_rules evolves_refl; assumption?)

lemma change_allowed_evolves: "evolves s (snd (change_allowed cfg x r i s))"
  unfolding change_allowed_def
  by (rule keeps_pair [OF allow_evolves]) (auto intro: evolves_trans [OF _ allow_evolves])

lemma handleChangePassword_evolves: "evolves s (snd (handleChangePassword pr cfg x r s))"
  unfolding handleChangePassword_def Let_def
  by (intro keeps_rules keeps_pair [OF change_allowed_evolves] keeps_pair [OF store_call_evolves]
      store_likes evolves_refl; assumption?)

lemma handlePoWChallenge_evolves: "evolves s (snd (handlePoWChallenge pr cfg x r s))"
  unfolding handlePoWChallenge_def by (intro keeps_rules evolves_refl)

section \<open>What a session cookie needs\<close>

lemma finish_login_granted:
  assumes "finish_login pr cfg act x n k r u s = (resp, s')" "pCookies resp \<noteq> []"
  shows "session_granted pr u (db (run_ops (xOthers x k) (srvWorld s))) resp"
proof -
  from assms obtain se t cs w1 where i: "IssueSession pr (cfSecurity cfg) (xNow x n) (xNow x (n + 1))
      (xBytes x 0) (xBytes x 1) r u (run_ops (xOthers x k) (srvWorld s)) = (Inr (se, t, cs), w1)"
    and resp: "resp = (writeJSON 200 (authenticated_json u))\<lparr>pCookies := cs\<rparr>"
    by (auto simp: finish_login_def store_call_def split: prod.splits sum.splits)
  show ?thesis unfolding resp by (rule IssueSession_granted [OF i])
qed

lemma start_mfa_no_cookie: "start_mfa pr x n k u s = (resp, s') \<Longrightarrow> pCookies resp = []"
  by (auto simp: start_mfa_def Let_def split: prod.splits sum.splits)

lemma handleLogin_granted:
  assumes "handleLogin pr cfg x r s = (resp, s')" "pCookies resp \<noteq> []"
  obtains req u w where "DecodeBody LoginRequest r = Some req"
    "u \<in> set (users (db (run_ops (xOthers x 0) (srvWorld s))))"
    "ToLower (uUsername u) = ToLower (TrimSpace (str_field req ''username''))"
    "uStatus u = ''active''" "\<not> uTOTPEnabled u"
    "pw_verify pr (str_field req ''password'') (uPasswordHash u) = Some True"
    "captcha_ok pr cfg (xNow x 1) (str_field req ''captcha_token'')"
    "db w = db (run_ops (xOthers x 0) (srvWorld s))"
    "session_granted pr u (db (run_ops (xOthers x 1) w)) resp"
proof -
  from assms obtain s1 s2 req u where
    a: "allow x 0 (xNow x 0) (''login:'' @ requestIP cfg r) 20 Minute s = (True, s1)"
    and req: "DecodeBody LoginRequest r = Some req"
    and cap: "captcha_ok pr cfg (xNow x 1) (str_field req ''captcha_token'')"
    and g: "store_call x 0 (GetUserByUsername (TrimSpace (str_field req ''username''))) s1 = (Inr u, s2)"
    and u: "uStatus u = ''active''" "\<not> uTOTPEnabled u"
      "pw_verify pr (str_field req ''password'') (uPasswordHash u) = Some True"
    and f: "finish_login pr cfg ''auth.login'' x 2 1 r u s2 = (resp, s')"
    by (auto simp: handleLogin_def Let_def dest: start_mfa_no_cookie
        split: prod.splits sum.splits if_splits option.splits)
  have w: "GetUserByUsername (TrimSpace (str_field req ''username'')) (run_ops (xOthers x 0) (srvWorld s)) =
      (Inr u, srvWorld s2)"
    using g allow_world [OF a] by (auto simp: store_call_def split: prod.splits)
  show thesis
    using that [OF req _ _ u cap _ finish_login_granted [OF f assms(2)]] GetUserByUsername_Inr [OF w] by auto
qed

lemma mfa_account_Inr:
  assumes "mfa_account pr cfg x r s = (Inr (code, u), s')"
  obtains req m w1 where "DecodeBody MFARequest r = Some req" "code = str_field req ''code''"
    "m \<in> set (mfa_challenges (db (run_ops (xOthers x 0) (srvWorld s))))"
    "mTokenHash m = SHA256Hex pr (str_field req ''mfa_token'')" "xNow x 1 < mExpiresAt m"
    "mUserID m = uID u" "mPasswordHash m = uPasswordHash u"
    "ConsumeMFAChallenge (xNow x 1) (mTokenHash m) (run_ops (xOthers x 0) (srvWorld s)) =
       (Inr (uID u, uPasswordHash u), w1)"
    "u \<in> set (users (db (run_ops (xOthers x 1) w1)))" "uStatus u = ''active''" "uTOTPEnabled u"
    "db (srvWorld s') = db (run_ops (xOthers x 1) w1)"
proof -
  from assms obtain req s1 i s2 s3 where req: "DecodeBody MFARequest r = Some req" "code = str_field req ''code''"
    and a1: "allow x 0 (xNow x 0) (''mfa:'' @ requestIP cfg r) 20 Minute s = (True, s1)"
    and c: "store_call x 0 (ConsumeMFAChallenge (xNow x 1) (SHA256Hex pr (str_field req ''mfa_token''))) s1 =
      (Inr (i, uPasswordHash u), s2)"
    and a2: "allow x 1 (xNow x 2) (''mfa-user:'' @ i) 5 (5 * Minute) s2 = (True, s3)"
    and g: "store_call x 1 (GetUserByID i) s3 = (Inr u, s')"
    and u: "uStatus u = ''active''" "uTOTPEnabled u"
    by (auto simp: mfa_account_def split: prod.splits sum.splits if_splits option.splits)
  note G = GetUserByID_Inr [OF conjunct1 [OF g [unfolded store_call_eq]], unfolded allow_world [OF a2]]
  have C: "ConsumeMFAChallenge (xNow x 1) (SHA256Hex pr (str_field req ''mfa_token''))
      (run_ops (xOthers x 0) (srvWorld s)) = (Inr (i, uPasswordHash u), srvWorld s2)"
    using c allow_world [OF a1] by (simp add: store_call_eq)
  from C obtain m where "m \<in> set (mfa_challenges (db (run_ops (xOthers x 0) (srvWorld s))))"
    "mTokenHash m = SHA256Hex pr (str_field req ''mfa_token'')" "xNow x 1 < mExpiresAt m"
    "mUserID m = i" "mPasswordHash m = uPasswordHash u"
    by (rule ConsumeMFAChallenge_Inr)
  with that [OF req, of m "srvWorld s2"] C G u show thesis by auto
qed

lemma mfa_account_no_cookie: "mfa_account pr cfg x r s = (Inl resp, s') \<Longrightarrow> pCookies resp = []"
  by (auto simp: mfa_account_def split: prod.splits sum.splits if_splits option.splits)

lemma handleMFATOTP_granted:
  assumes "handleMFATOTP pr cfg x r s = (resp, s')" "pCookies resp \<noteq> []"
  obtains code u s1 secret c w3 where "mfa_account pr cfg x r s = (Inr (code, u), s1)"
    "DecryptAESGCM pr (uTOTPSecretEnc u) (scEncryptionKey (cfSecurity cfg)) = Inr secret"
    "ValidateTOTP pr (xNow x 3) secret code = Some c"
    "SpendTOTPCounter (xNow x 4) (uID u) c (run_ops (xOthers x 2) (srvWorld s1)) = (Inr (), w3)"
    "session_granted pr u (db (run_ops (xOthers x 3) w3)) resp"
proof -
  from assms obtain code u s1 secret c s2 where m: "mfa_account pr cfg x r s = (Inr (code, u), s1)"
    and t: "DecryptAESGCM pr (uTOTPSecretEnc u) (scEncryptionKey (cfSecurity cfg)) = Inr secret"
      "ValidateTOTP pr (xNow x 3) secret code = Some c"
    and sp: "store_call x 2 (SpendTOTPCounter (xNow x 4) (uID u) c) s1 = (Inr (), s2)"
    and f: "finish_login pr cfg ''auth.mfa_totp'' x 5 3 r u s2 = (resp, s')"
    by (auto simp: handleMFATOTP_def dest: mfa_account_no_cookie
        split: prod.splits sum.splits option.splits)
  show thesis
    using that [OF m t conjunct1 [OF sp [unfolded store_call_eq]]] finish_login_granted [OF f assms(2)] by blast
qed

lemma handleMFARecovery_granted:
  assumes "handleMFARecovery pr cfg x r s = (resp, s')" "pCookies resp \<noteq> []"
  obtains code u s1 rest w3 where "mfa_account pr cfg x r s = (Inr (code, u), s1)"
    "RedeemRecoveryCode pr code (uRecoveryCodesHash u) = Some rest"
    "UpdateRecoveryCodes (xNow x 3) (uID u) (uRecoveryCodesHash u) rest
       (run_ops (xOthers x 2) (srvWorld s1)) = (Inr (), w3)"
    "session_granted pr u (db (run_ops (xOthers x 3) w3)) resp"
proof -
  from assms obtain code u s1 rest s2 where m: "mfa_account pr cfg x r s = (Inr (code, u), s1)"
    and t: "RedeemRecoveryCode pr code (uRecoveryCodesHash u) = Some rest"
    and sp: "store_call x 2 (UpdateRecoveryCodes (xNow x 3) (uID u) (uRecoveryCodesHash u) rest) s1 = (Inr (), s2)"
    and f: "finish_login pr cfg ''auth.mfa_recovery_code'' x 4 3 r u s2 = (resp, s')"
    by (auto simp: handleMFARecovery_def dest: mfa_account_no_cookie
        split: prod.splits sum.splits option.splits)
  show thesis
    using that [OF m t conjunct1 [OF sp [unfolded store_call_eq]]] finish_login_granted [OF f assms(2)] by blast
qed

section \<open>The forced password change\<close>

lemma change_allowed_world: "change_allowed cfg x r i s = (ok, s') \<Longrightarrow> srvWorld s' = srvWorld s"
  by (auto simp: change_allowed_def dest!: allow_world split: prod.splits if_splits)

lemma handleChangePassword_200:
  assumes "handleChangePassword pr cfg x r s = (resp, s')" "pStatusCode resp = 200"
  obtains u se s1 req hash w1 where "authenticate pr x 0 0 r s = (Inr (u, se), s1)"
    "uMustChangePassword u" "uSSOProvider u = ''local''"
    "DecodeBody ChangePasswordRequest r = Some req"
    "pw_verify pr (str_field req ''current_password'') (uPasswordHash u) = Some True"
    "ValidatePassword (str_field req ''new_password'') = None"
    "str_field req ''current_password'' \<noteq> str_field req ''new_password''"
    "pw_hash pr (xHashSalt x) (str_field req ''new_password'') = Some hash"
    "CompletePasswordChange (xNow x 4) (uID u) (uPasswordHash u) hash (requestIP cfg r)
       (run_ops (xOthers x 3) (srvWorld s1)) = (Inr (), w1)"
    "srvWorld s' = snd (RevokeSession pr (cfSecurity cfg) r (run_ops (xOthers x 4) w1))"
proof -
  from assms obtain u se s1 s2 req hash s3 cs where a: "authenticate pr x 0 0 r s = (Inr (u, se), s1)"
    and u: "uMustChangePassword u" "uSSOProvider u = ''local''"
    and al: "change_allowed cfg x r (uID u) s1 = (True, s2)"
    and req: "DecodeBody ChangePasswordRequest r = Some req"
    and v: "pw_verify pr (str_field req ''current_password'') (uPasswordHash u) = Some True"
      "ValidatePassword (str_field req ''new_password'') = None"
      "str_field req ''current_password'' \<noteq> str_field req ''new_password''"
      "pw_hash pr (xHashSalt x) (str_field req ''new_password'') = Some hash"
    and c: "store_call x 3 (CompletePasswordChange (xNow x 4) (uID u) (uPasswordHash u) hash (requestIP cfg r)) s2 =
      (Inr (), s3)"
    and rv: "store_call x 4 (RevokeSession pr (cfSecurity cfg) r) s3 = (cs, s')"
    by (auto simp: handleChangePassword_def Let_def split: prod.splits sum.splits if_splits option.splits)
  have C: "CompletePasswordChange (xNow x 4) (uID u) (uPasswordHash u) hash (requestIP cfg r)
       (run_ops (xOthers x 3) (srvWorld s1)) = (Inr (), srvWorld s3)"
    using c change_allowed_world [OF al] by (simp add: store_call_eq)
  have "RevokeSession pr (cfSecurity cfg) r (run_ops (xOthers x 4) (srvWorld s3)) = (cs, srvWorld s')"
    using rv by (simp add: store_call_eq)
  then have "srvWorld s' = snd (RevokeSession pr (cfSecurity cfg) r (run_ops (xOthers x 4) (srvWorld s3)))" by simp
  from that [OF a u req v C this] show thesis .
qed

end
