(* ===== verification/Api_Devices.thy ===== *)
theory Api_Devices
  imports Api_Base
begin

text \<open>
  \<^verbatim>\<open>internal/api/device_handlers.go\<close>: starting a pairing, redeeming its code or secret on the
  new device, and the public poll.
\<close>

section \<open>Handlers\<close>

definition VerifyDeviceRequest :: fields where
  "VerifyDeviceRequest = [(''code_or_secret'', VStr []), (''device_name'', VStr []), (''platform'', VStr []),
     (''push_token'', VStr [])]"

definition pairing_service_of :: "Config \<Rightarrow> pairing_service" where
  "pairing_service_of cfg = \<lparr>psAppName = svAppName (cfServer cfg), psAppURL = svAppURL (cfServer cfg)\<rparr>"

definition init_result_json :: "init_result \<Rightarrow> json" where
  "init_result_json res = JObj [(''code'', JStr (irCode res)), (''secret'', JStr (irSecret res)),
     (''expires_at'', JNum (Itoa (irExpiresAt res))), (''qr_payload'', JStr (irQRPayload res))]"

definition handlePairInit :: "prims \<Rightarrow> Config \<Rightarrow> handler" where
  "handlePairInit pr cfg x r s =
     (if rMethod r \<noteq> ''POST'' then (writeError 405 ''Method not allowed'', s)
      else case authenticate pr x 0 0 r s of
        (Inl _, s) \<Rightarrow> (writeError 401 ''Authentication required'', s)
      | (Inr (user, _), s) \<Rightarrow>
          (case store_call x 3 (InitPairing (pairing_service_of cfg) (xNow x 2) (xInt x) (xBytes x 0) (uID user)) s of
             (Inl _, s) \<Rightarrow> (writeError 500 ''Failed to initialize pairing'', s)
           | (Inr res, s) \<Rightarrow> (writeJSON 200 (init_result_json res), s)))"

definition paired_json :: "string \<Rightarrow> string \<Rightarrow> json" where
  "paired_json deviceName token = JObj [(''device_name'', JStr deviceName), (''paired'', JBool True),
     (''session_token'', JStr token)]"

text \<open>
  A session that cannot be issued leaves the token empty; the pairing is consumed all the same.
\<close>

definition handlePairVerify :: "prims \<Rightarrow> Config \<Rightarrow> handler" where
  "handlePairVerify pr cfg x r s =
     (if rMethod r \<noteq> ''POST'' then (writeError 405 ''Method not allowed'', s)
      else case DecodeBody VerifyDeviceRequest r of
        None \<Rightarrow> (writeError 400 ''Invalid request body'', s)
      | Some req \<Rightarrow>
          (case allow x 0 (xNow x 0) (''pair:'' @ requestIP cfg r) 10 Minute s of (ok, s) \<Rightarrow>
           if \<not> ok then (writeError 429 ''Too many pairing attempts'', s)
           else case with_world (VerifyPairing (xNow x 1) (xNow x 2) (xNow x 3) (xOthers x)
                       (str_field req ''code_or_secret'') (str_field req ''device_name'')
                       (str_field req ''platform'') (str_field req ''push_token'')) s of
             (Inl e, s) \<Rightarrow> (writeError 400 (err_text x e), s)
           | (Inr (pairing, user), s) \<Rightarrow>
               if pUserID pairing \<noteq> []
               then (case store_call x 3 (IssueSession pr (cfSecurity cfg) (xNow x 4) (xNow x 5)
                             (xBytes x 0) (xBytes x 1) r user) s of
                       (Inl _, s) \<Rightarrow> (writeJSON 200 (paired_json (pDeviceName pairing) []), s)
                     | (Inr (_, rawToken, cookies), s) \<Rightarrow>
                         ((writeJSON 200 (paired_json (pDeviceName pairing) rawToken))\<lparr>pCookies := cookies\<rparr>, s))
               else (writeJSON 200 (paired_json (pDeviceName pairing) []), s)))"

definition handlePairPoll :: "prims \<Rightarrow> Config \<Rightarrow> handler" where
  "handlePairPoll pr cfg x r s =
     (let secret = QueryGet r ''secret''
      in if secret = [] then (writeError 400 ''secret query parameter required'', s)
         else case store_call x 0 (PollPairingStatus (xNow x 0) secret) s of
           (Inl _, s) \<Rightarrow> (writeError 404 ''Pairing not found or expired'', s)
         | (Inr pairing, s) \<Rightarrow> (writeJSON 200 (JObj [(''device_name'', JStr (pDeviceName pairing)),
              (''expires_at'', JNum (Itoa (Unix (pExpiresAt pairing)))), (''status'', JStr (pStatus pairing))]), s))"

section \<open>Laws\<close>

lemma store_like_PollPairingStatus [store_likes]: "store_like (PollPairingStatus now secret)"
  by (rule store_like_read)
    (auto simp: PollPairingStatus_def GetPairingBySecret_def scanPairing_def dest!: sql_query_db
      split: prod.splits sum.splits option.splits if_splits)

lemma store_like_InitPairing [store_likes]: "store_like (InitPairing svc now rnd sb i)"
proof -
  have "grows w (snd (InitPairing svc now rnd sb i w))" for w
    using store_like_writes(16) [unfolded store_like_def]
    by (auto simp: InitPairing_def Let_def grows_same split: option.split prod.split sum.split) (metis snd_conv)+
  then show ?thesis by (simp add: store_like_def)
qed

lemma handlePairInit_evolves: "evolves s (snd (handlePairInit pr cfg x r s))"
  unfolding handlePairInit_def by (intro keeps_rules store_likes evolves_refl; assumption?)

lemma handlePairPoll_evolves: "evolves s (snd (handlePairPoll pr cfg x r s))"
  unfolding handlePairPoll_def Let_def by (intro keeps_rules store_likes evolves_refl; assumption?)

lemma VerifyPairing_grows: "grows w (snd (VerifyPairing n1 n2 n3 others c dn pf pt w))"
proof -
  obtain r1 w1 where g1: "(if length c = 6 then GetPairingByCode n1 c (run_ops (others 0) w)
      else GetPairingBySecret n1 c (run_ops (others 0) w)) = (r1, w1)" by fastforce
  obtain r2 w2 where g2: "GetUserByID (pUserID (projr r1)) (run_ops (others 1) w1) = (r2, w2)" by fastforce
  obtain r3 w3 where g3: "ConsumePairing n3 (pSecret (projr r1)) dn pf pt (run_ops (others 2) w2) = (r3, w3)"
    by fastforce
  have "db w1 = db (run_ops (others 0) w)"
    using g1 by (auto simp: GetPairingByCode_def GetPairingBySecret_def dest: scanPairing_db split: if_splits)
  then have w1: "grows w w1" using grows_run_ops grows_same grows_trans by blast
  have w2: "grows w w2" using w1 session_calls_grow(2) [OF g2] by (rule grows_trans)
  have "store_like (ConsumePairing n3 (pSecret (projr r1)) dn pf pt)"
    by (rule store_like_op [of _ "OpConsumePairing n3 (pSecret (projr r1)) dn pf pt"]) simp
  from grows_call [OF g3 this] have w3: "grows w w3" by (rule grows_trans [OF w2])
  show ?thesis
    using g1 g2 g3 w1 w2 w3 by (cases r1) (auto simp: VerifyPairing_def split: sum.split)
qed

lemma store_like_VerifyPairing [store_likes]: "store_like (VerifyPairing n1 n2 n3 others c dn pf pt)"
  by (simp add: store_like_def VerifyPairing_grows)

lemma handlePairVerify_evolves: "evolves s (snd (handlePairVerify pr cfg x r s))"
  unfolding handlePairVerify_def
  by (intro keeps_rules store_likes evolves_refl; (assumption | simp add: split_beta)?)

lemma handlePairVerify_granted:
  assumes "handlePairVerify pr cfg x r s = (resp, s')" "pCookies resp \<noteq> []"
  obtains req p u w where "DecodeBody VerifyDeviceRequest r = Some req"
    "VerifyPairing (xNow x 1) (xNow x 2) (xNow x 3) (xOthers x) (str_field req ''code_or_secret'')
       (str_field req ''device_name'') (str_field req ''platform'') (str_field req ''push_token'')
       (srvWorld s) = (Inr (p, u), w)"
    "session_granted pr u (db (run_ops (xOthers x 3) w)) resp"
proof -
  from assms obtain req s1 p u s2 se t cs where req: "DecodeBody VerifyDeviceRequest r = Some req"
    and a: "allow x 0 (xNow x 0) (''pair:'' @ requestIP cfg r) 10 Minute s = (True, s1)"
    and v: "with_world (VerifyPairing (xNow x 1) (xNow x 2) (xNow x 3) (xOthers x) (str_field req ''code_or_secret'')
       (str_field req ''device_name'') (str_field req ''platform'') (str_field req ''push_token'')) s1 =
       (Inr (p, u), s2)"
    and i: "store_call x 3 (IssueSession pr (cfSecurity cfg) (xNow x 4) (xNow x 5) (xBytes x 0) (xBytes x 1) r u) s2 =
       (Inr (se, t, cs), s')"
    and resp: "resp = (writeJSON 200 (paired_json (pDeviceName p) t))\<lparr>pCookies := cs\<rparr>"
    by (auto simp: handlePairVerify_def split: prod.splits sum.splits if_splits option.splits)
  from v allow_world [OF a] have "VerifyPairing (xNow x 1) (xNow x 2) (xNow x 3) (xOthers x)
      (str_field req ''code_or_secret'') (str_field req ''device_name'') (str_field req ''platform'')
      (str_field req ''push_token'') (srvWorld s) = (Inr (p, u), srvWorld s2)"
    by (simp add: with_world_eq)
  moreover from i have "session_granted pr u (db (run_ops (xOthers x 3) (srvWorld s2))) resp"
    unfolding resp store_call_eq by (auto intro: IssueSession_granted)
  ultimately show thesis by (rule that [OF req])
qed

end
