(* ===== verification/Api_Settings.thy ===== *)
theory Api_Settings
  imports Api_Base "HOL-Library.List_Lexorder" "HOL-Library.Char_ord"
begin

text \<open>
  \<^verbatim>\<open>internal/api/settings_handlers.go\<close>: the settings a caller may see, by role, and the theme.
  Go prints a map with its keys in byte order.
\<close>

definition ThemeUpdateRequest :: fields where
  "ThemeUpdateRequest = [(''theme'', VStr [])]"

definition settings_map :: "(string \<times> string) list \<Rightarrow> json" where
  "settings_map kvs = JObj (map (\<lambda>(k, v). (k, JStr v)) (sort_key fst kvs))"

text \<open>The payload: the public part, what any session adds, what an administrator sees.\<close>

definition settings_json ::
    "Config \<Rightarrow> string \<Rightarrow> bool \<Rightarrow> (string \<times> string) list option \<Rightarrow> json" where
  "settings_json cfg theme session extra = JObj
     ([(''app_name'', JStr (svAppName (cfServer cfg))), (''app_url'', JStr (svAppURL (cfServer cfg))),
       (''captcha_provider'', JStr (cpProvider (cfCaptcha cfg)))] @
      (if session then [(''db_driver'', JStr (dbDriver (cfDatabase cfg)))] else []) @
      (case extra of None \<Rightarrow> [] | Some kvs \<Rightarrow> [(''extra_settings'', settings_map kvs)]) @
      (if session then [(''scim_enabled'', JBool (smEnabled (cfSCIM cfg)))] else []) @
      [(''sso_enabled'', JBool (ssEnabled (cfSSO cfg))), (''theme'', JStr theme)])"

definition visible_settings :: "(string \<times> string) list \<Rightarrow> (string \<times> string) list" where
  "visible_settings kvs = filter (\<lambda>(k, v). \<not> HasPrefix k ''kyrecovery_token'') kvs"

definition handleGetSettings :: "prims \<Rightarrow> Config \<Rightarrow> handler" where
  "handleGetSettings pr cfg x r s =
     (case store_call x 0 (GetSetting ''site_theme'') s of (theme, s) \<Rightarrow>
      (let theme = (case theme of Inl _ \<Rightarrow> [] | Inr v \<Rightarrow> v);
           theme = (if theme = [] then ''patina'' else theme)
       in case authenticate pr x 0 1 r s of
            (Inl _, s) \<Rightarrow> (writeJSON 200 (settings_json cfg theme False None), s)
          | (Inr (user, _), s) \<Rightarrow>
              if uRole user = ''admin''
              then (case store_call x 4 GetAllSettings s of
                      (Inl _, s) \<Rightarrow> (writeError 500 ''Failed to load settings'', s)
                    | (Inr settings, s) \<Rightarrow>
                        (writeJSON 200 (settings_json cfg theme True (Some (visible_settings settings))), s))
              else (writeJSON 200 (settings_json cfg theme True None), s)))"

definition handleSetTheme :: "prims \<Rightarrow> Config \<Rightarrow> handler" where
  "handleSetTheme pr cfg x r s =
     (if rMethod r \<noteq> ''POST'' then (writeError 405 ''Method not allowed'', s)
      else case DecodeBody ThemeUpdateRequest r of
        None \<Rightarrow> (writeError 400 ''Invalid theme'', s)
      | Some req \<Rightarrow>
          if str_field req ''theme'' = [] then (writeError 400 ''Invalid theme'', s)
          else (case store_call x 0 (SetSetting (xNow x 0) ''site_theme'' (str_field req ''theme'')) s of
                  (Inl _, s) \<Rightarrow> (writeError 500 ''Failed to save theme'', s)
                | (Inr _, s) \<Rightarrow> (writeJSON 200 (JObj [(''theme'', JStr (str_field req ''theme''))]), s)))"

section \<open>Laws\<close>

lemma handleGetSettings_evolves: "evolves s (snd (handleGetSettings pr cfg x r s))"
  unfolding handleGetSettings_def Let_def
  by (intro keeps_pair [OF store_call_evolves] keeps_rules store_likes evolves_refl; assumption?)

lemma handleSetTheme_evolves: "evolves s (snd (handleSetTheme pr cfg x r s))"
  unfolding handleSetTheme_def by (intro keeps_rules store_likes evolves_refl; assumption?)

section \<open>What the response may depend on\<close>

text \<open>
  Two stores that differ in the value (or the presence) of the recovery token's settings alone.
  The calls that check a session read no setting, so they run alike on both.
\<close>

definition with_settings :: "setting list \<Rightarrow> world \<Rightarrow> world" where
  "with_settings ss w = w\<lparr>db := (db w)\<lparr>server_settings := ss\<rparr>\<rparr>"

definition open_settings :: "setting list \<Rightarrow> setting list" where
  "open_settings ss = filter (\<lambda>k. \<not> HasPrefix (kKey k) ''kyrecovery_token'') ss"

lemma with_settings_simps [simp]:
  "sessions (db (with_settings ss w)) = sessions (db w)" "users (db (with_settings ss w)) = users (db w)"
  "server_settings (db (with_settings ss w)) = ss" "faults (with_settings ss w) = faults w"
  by (simp_all add: with_settings_def)

lemma driver_call_settings:
  "driver_call (with_settings ss w) = (fst (driver_call w), with_settings ss (snd (driver_call w)))"
  by (simp add: driver_call_def with_settings_def split: list.split)

lemma sql_query_settings:
  assumes "\<And>w. q (db (with_settings ss w)) = q (db w)"
  shows "sql_query q (with_settings ss w) = (fst (sql_query q w), with_settings ss (snd (sql_query q w)))"
  using assms by (simp add: sql_query_def driver_call_settings split: prod.split)

lemma DeleteSession_settings:
  "DeleteSession t (with_settings ss w) = (fst (DeleteSession t w), with_settings ss (snd (DeleteSession t w)))"
  by (simp add: DeleteSession_def exec_def del_sessions_def driver_call_settings split: prod.split)
    (simp add: with_settings_def)

lemma GetSession_settings:
  "GetSession n t (with_settings ss w) = (fst (GetSession n t w), with_settings ss (snd (GetSession n t w)))"
  by (simp add: GetSession_def sql_query_settings DeleteSession_settings split: prod.split sum.split option.split)

lemma GetUserByID_settings:
  "GetUserByID i (with_settings ss w) = (fst (GetUserByID i w), with_settings ss (snd (GetUserByID i w)))"
  by (simp add: GetUserByID_def scanUser_def sql_query_settings split: prod.split sum.split option.split)

lemma AuthenticateRequest_settings:
  "AuthenticateRequest pr n1 n2 (\<lambda>_. []) r (with_settings ss w) =
     (fst (AuthenticateRequest pr n1 n2 (\<lambda>_. []) r w), with_settings ss (snd (AuthenticateRequest pr n1 n2 (\<lambda>_. []) r w)))"
  by (auto simp: AuthenticateRequest_def Let_def GetSession_settings GetUserByID_settings DeleteSession_settings
      split: prod.split sum.split)

lemma find_open:
  "open_settings ss = open_settings ss' \<Longrightarrow> \<not> HasPrefix k ''kyrecovery_token'' \<Longrightarrow>
     find (\<lambda>s. kKey s = k) ss = find (\<lambda>s. kKey s = k) ss'"
proof -
  assume k: "\<not> HasPrefix k ''kyrecovery_token''" and e: "open_settings ss = open_settings ss'"
  have "find (\<lambda>s. kKey s = k) ss = find (\<lambda>s. kKey s = k) (open_settings ss)" for ss
    using k by (induction ss) (auto simp: open_settings_def)
  with e show ?thesis by metis
qed

lemma visible_open:
  "visible_settings (map (\<lambda>s. (kKey s, kValue s)) ss) = map (\<lambda>s. (kKey s, kValue s)) (open_settings ss)"
  by (simp add: visible_settings_def open_settings_def filter_map comp_def)

lemma GetSetting_settings:
  assumes "open_settings ss = open_settings (server_settings (db w))" "\<not> HasPrefix k ''kyrecovery_token''"
  shows "GetSetting k (with_settings ss w) = (fst (GetSetting k w), with_settings ss (snd (GetSetting k w)))"
  using find_open [OF assms]
  by (auto simp: GetSetting_def sql_query_def driver_call_settings setting_of_def driver_call_db
      split: prod.split sum.split option.split dest: driver_callD)

lemma GetAllSettings_settings:
  assumes "open_settings ss = open_settings (server_settings (db w))"
  shows "map_sum id visible_settings (fst (GetAllSettings (with_settings ss w))) =
    map_sum id visible_settings (fst (GetAllSettings w))"
  using assms
  by (auto simp: GetAllSettings_def sql_query_def driver_call_settings visible_open split: prod.split dest: driver_callD)

lemma handleGetSettings_open:
  assumes "xOthers x = (\<lambda>_. [])" "open_settings ss = open_settings (server_settings (db (srvWorld s)))"
  shows "fst (handleGetSettings pr cfg x r (s\<lparr>srvWorld := with_settings ss (srvWorld s)\<rparr>)) =
    fst (handleGetSettings pr cfg x r s)"
proof -
  let ?w = "srvWorld s"
  obtain t w1 where g: "GetSetting ''site_theme'' ?w = (t, w1)" by fastforce
  obtain a w2 where a: "AuthenticateRequest pr (xNow x 0) (xNow x 1) (\<lambda>_. []) r w1 = (a, w2)" by fastforce
  have w1: "server_settings (db w1) = server_settings (db ?w)" using GetSetting_db [OF g] by simp
  have "with_settings (server_settings (db w1)) w1 = w1" by (simp add: with_settings_def)
  then have "w2 = with_settings (server_settings (db w1)) w2"
    using AuthenticateRequest_settings [of pr "xNow x 0" "xNow x 1" r "server_settings (db w1)" w1] a by simp
  then have w2: "server_settings (db w2) = server_settings (db ?w)"
    using w1 with_settings_simps(3) by metis
  have g': "GetSetting ''site_theme'' (with_settings ss ?w) = (t, with_settings ss w1)"
    using GetSetting_settings [OF assms(2), of "''site_theme''"] g by (simp add: HasPrefix_def)
  have a': "AuthenticateRequest pr (xNow x 0) (xNow x 1) (\<lambda>_. []) r (with_settings ss w1) = (a, with_settings ss w2)"
    using AuthenticateRequest_settings [of pr "xNow x 0" "xNow x 1" r ss w1] a by simp
  obtain q w3 where q: "GetAllSettings w2 = (q, w3)" by fastforce
  obtain q' w3' where q': "GetAllSettings (with_settings ss w2) = (q', w3')" by fastforce
  have "map_sum id visible_settings q' = map_sum id visible_settings q"
    using GetAllSettings_settings [of ss w2] assms(2) w2 q q' by simp
  then have "(case q' of Inl _ \<Rightarrow> None | Inr k \<Rightarrow> Some (visible_settings k)) =
      (case q of Inl _ \<Rightarrow> None | Inr k \<Rightarrow> Some (visible_settings k))"
    by (cases q; cases q') auto
  then show ?thesis
    using g a g' a' q q'
    by (auto simp: handleGetSettings_def store_call_def authenticate_def assms(1) Let_def split: sum.splits)
qed

end
