(* ===== verification/Api_Sso.thy ===== *)
theory Api_Sso
  imports Api_Base
begin

text \<open>
  \<^verbatim>\<open>internal/api/sso_handlers.go\<close>: the redirect to KySignOn with its state, nonce and PKCE
  cookies, the callback that turns verified claims into a session, the signed sync webhook and
  the SAML metadata.
\<close>

section \<open>Handlers\<close>

definition callback_uri :: "Config \<Rightarrow> string" where
  "callback_uri cfg = svAppURL (cfServer cfg) @ ''/api/sso/kysignon/callback''"

definition flow_cookie :: "Config \<Rightarrow> string \<Rightarrow> string \<Rightarrow> string \<Rightarrow> cookie" where
  "flow_cookie cfg name val path = \<lparr>ckName = name, ckValue = val, ckPath = path, ckExpires = zero_time,
     ckMaxAge = 300, ckHttpOnly = True, ckSecure = scCookieSecure (cfSecurity cfg), ckSameSite = ''Lax'',
     ckDomain = []\<rparr>"

text \<open>\<^verbatim>\<open>oauth2.GenerateVerifier\<close> encodes 32 random bytes.\<close>

definition handleKySignOnLogin :: "prims \<Rightarrow> Config \<Rightarrow> handler" where
  "handleKySignOnLogin pr cfg x r s =
     (let state = RandomHex (xBytes x 0); nonce = RandomHex (xBytes x 1);
          verifier = RawEncode URLAlphabet (xBytes x 2)
      in case authCodeURL (xDiscover x) (callback_uri cfg) state verifier nonce (srvKySignOn s) of
           (Inl e, f) \<Rightarrow> (writeError 400 e, s\<lparr>srvKySignOn := f\<rparr>)
         | (Inr authURL, f) \<Rightarrow>
             ((http_Redirect authURL 302)\<lparr>pCookies :=
                [flow_cookie cfg (''ky_pkce_'' @ state) verifier ''/'',
                 flow_cookie cfg (''ky_nonce_'' @ state) nonce ''/api/sso/kysignon/callback'']\<rparr>,
              s\<lparr>srvKySignOn := f\<rparr>))"

definition cookie_value :: "request \<Rightarrow> string \<Rightarrow> string" where
  "cookie_value r name = (case Cookie r name of None \<Rightarrow> [] | Some v \<Rightarrow> v)"

definition provisioned_user :: "string \<Rightarrow> IdentityClaims \<Rightarrow> user" where
  "provisioned_user idBytes claims = zero_user\<lparr>uID := ''usr_'' @ RandomHex idBytes,
     uUsername := icPreferredUsername claims, uEmail := icEmail claims, uDisplayName := icName claims,
     uRole := ''user'', uStatus := ''active'', uSSOProvider := ''kysignon'', uSSOSubject := icSubject claims\<rparr>"

text \<open>The account of the claims: found, or provisioned when the configuration says so.\<close>

definition sso_account ::
    "Config \<Rightarrow> ctx \<Rightarrow> IdentityClaims \<Rightarrow> server \<Rightarrow> (response + user) \<times> server" where
  "sso_account cfg x claims s =
     (case store_call x 0 (GetUserBySSO ''kysignon'' (icSubject claims)) s of
        (Inr user, s) \<Rightarrow> (Inr user, s)
      | (Inl _, s) \<Rightarrow>
          if ssAutoProvision (cfSSO cfg)
          then (case store_call x 1 (CreateUser (xNow x 0) (provisioned_user (xBytes x 2) claims)) s of
                  (Inl _, s) \<Rightarrow> (Inl (writeError 500 ''Failed to provision SSO user''), s)
                | (Inr user, s) \<Rightarrow> (Inr user, s))
          else (Inl (writeError 403 ''User account not provisioned''), s))"

definition handleKySignOnCallback :: "prims \<Rightarrow> Config \<Rightarrow> handler" where
  "handleKySignOnCallback pr cfg x r s =
     (let code = QueryGet r ''code''; state = QueryGet r ''state'';
          verifier = cookie_value r (''ky_pkce_'' @ state); nonce = cookie_value r (''ky_nonce_'' @ state)
      in if verifier = [] then (writeError 400 ''Invalid or expired SSO state'', s)
         else if nonce = [] then (writeError 400 ''Invalid or expired SSO nonce'', s)
         else case KySignOn_ExchangeCode (xDiscover x) code verifier (callback_uri cfg) nonce (srvKySignOn s) of
           (Inl e, f) \<Rightarrow> (writeError 401 (''SSO exchange failed: '' @ e), s\<lparr>srvKySignOn := f\<rparr>)
         | (Inr claims, f) \<Rightarrow>
             (case sso_account cfg x claims (s\<lparr>srvKySignOn := f\<rparr>) of
                (Inl resp, s) \<Rightarrow> (resp, s)
              | (Inr user, s) \<Rightarrow>
                  (case store_call x 2 (IssueSession pr (cfSecurity cfg) (xNow x 1) (xNow x 2)
                          (xBytes x 0) (xBytes x 1) r user) s of
                     (Inl _, s) \<Rightarrow> (writeError 500 ''Session creation failed'', s)
                   | (Inr (_, _, cookies), s) \<Rightarrow> ((http_Redirect ''/'' 302)\<lparr>pCookies := cookies\<rparr>, s))))"

definition sync_text :: "ctx \<Rightarrow> sync_err \<Rightarrow> string" where
  "sync_text x e = (case e of
     SyncNoSecret \<Rightarrow> ''webhook HMAC secret is not configured''
   | SyncBadSignature \<Rightarrow> ''invalid webhook signature''
   | SyncBadPayload \<Rightarrow> ''invalid json payload: '' @ xDriverText x
   | SyncStale \<Rightarrow> ''webhook timestamp is missing or expired''
   | SyncStore e \<Rightarrow> err_text x e)"

definition handleKySignOnSyncWebhook :: "prims \<Rightarrow> Config \<Rightarrow> handler" where
  "handleKySignOnSyncWebhook pr cfg x r s =
     (if rMethod r \<noteq> ''POST'' then (writeError 405 ''Method not allowed'', s)
      else (let sig = HeaderGet r ''X-Kysignon-Signature'';
                sig = (if sig = [] then HeaderGet r ''X-Signature-Sha256'' else sig)
            in case rBody r of
                 None \<Rightarrow> (writeError 400 ''Failed to read request body'', s)
               | Some body \<Rightarrow>
                   (case with_world (HandleSyncWebhook pr (cfSSO cfg) (xNow x 0) (xNow x 1) (xBytes x 0)
                           (xOthers x) body sig) s of
                      (Inl e, s) \<Rightarrow> (writeError 401 (sync_text x e), s)
                    | (Inr _, s) \<Rightarrow> (writeJSON 200 (JObj [(''synced'', JBool True)]), s))))"

definition handleSAMLMetadata :: "prims \<Rightarrow> Config \<Rightarrow> handler" where
  "handleSAMLMetadata pr cfg x r s =
     (\<lparr>pStatusCode = 200, pHeaders = [(''Content-Type'', ''application/xml'')],
       pBody = BodyText (GenerateMetadata (ssSAMLEntityID (cfSSO cfg)) (svAppURL (cfServer cfg) @ ''/saml/acs'')),
       pCookies = []\<rparr>, s)"

section \<open>Laws\<close>

lemma evolves_flow [simp]: "evolves s0 (s\<lparr>srvKySignOn := f\<rparr>) = evolves s0 s"
  by (simp add: evolves_def)

lemma handleKySignOnLogin_evolves: "evolves s (snd (handleKySignOnLogin pr cfg x r s))"
  by (auto simp: handleKySignOnLogin_def Let_def split: prod.split sum.split)

lemma sso_account_evolves: "evolves s (snd (sso_account cfg x claims s))"
  unfolding sso_account_def
  by (intro keeps_rules store_likes evolves_refl; assumption?)

lemma handleKySignOnCallback_evolves: "evolves s (snd (handleKySignOnCallback pr cfg x r s))"
proof -
  have issue: "evolves s (snd (case store_call x 2 (IssueSession pr (cfSecurity cfg) (xNow x 1) (xNow x 2)
      (xBytes x 0) (xBytes x 1) r u) s' of
        (Inl _, s) \<Rightarrow> (writeError 500 ''Session creation failed'', s)
      | (Inr (_, _, cookies), s) \<Rightarrow> ((http_Redirect ''/'' 302)\<lparr>pCookies := cookies\<rparr>, s)))"
    if "evolves s s'" for u s'
    using that by (intro keeps_result [OF store_call_evolves]) (auto simp: store_likes split: prod.split)
  have account: "evolves s (snd (case sso_account cfg x claims (s\<lparr>srvKySignOn := f\<rparr>) of
      (Inl resp, s) \<Rightarrow> (resp, s)
    | (Inr user, s) \<Rightarrow> (case store_call x 2 (IssueSession pr (cfSecurity cfg) (xNow x 1) (xNow x 2)
          (xBytes x 0) (xBytes x 1) r user) s of
        (Inl _, s) \<Rightarrow> (writeError 500 ''Session creation failed'', s)
      | (Inr (_, _, cookies), s) \<Rightarrow> ((http_Redirect ''/'' 302)\<lparr>pCookies := cookies\<rparr>, s))))" for claims f
    by (rule keeps_result [OF sso_account_evolves]) (auto intro: issue simp del: One_nat_def)
  show ?thesis
    using account by (auto simp: handleKySignOnCallback_def Let_def split: prod.split sum.split)
qed

lemma store_result_world: "snd (store_result m) = snd m"
  by (simp add: store_result_def split: prod.split sum.split)

lemma sync_delete_grows: "grows w (snd (sync_delete others payload w))"
proof -
  obtain r1 w1 where g1: "GetUserBySSO ''kysignon'' (str_field payload ''id'') (run_ops (others 0) w) = (r1, w1)"
    by fastforce
  have w1: "grows w w1" by (rule grows_call, rule g1, rule store_likes)
  obtain r2 w2 where g2: "DeleteUser (uID (projr r1)) (run_ops (others 1) w1) = (r2, w2)" by fastforce
  have w2: "grows w1 w2" by (rule grows_call, rule g2, rule store_likes)
  show ?thesis
    using g1 g2 w1 grows_trans [OF w1 w2] by (cases r1) (simp_all add: sync_delete_def store_result_world)
qed

text \<open>Two calls that follow one another, the second on what the first found.\<close>

lemma update_then_revoke_grows:
  assumes "grows w w1"
  shows "grows w (snd (case UpdateUser now u (run_ops ps w1) of
      (Inl e, w) \<Rightarrow> (Inl (SyncStore e), w)
    | (Inr _, w) \<Rightarrow> if c then store_result (DeleteUserSessions i (run_ops qs w)) else (Inr (), w)))"
proof -
  obtain r2 w2 where g2: "UpdateUser now u (run_ops ps w1) = (r2, w2)" by fastforce
  have w2: "grows w w2" by (rule grows_trans [OF assms], rule grows_call, rule g2, rule store_likes)
  obtain r3 w3 where g3: "DeleteUserSessions i (run_ops qs w2) = (r3, w3)" by fastforce
  have w3: "grows w w3" by (rule grows_trans [OF w2], rule grows_call, rule g3, rule store_likes)
  show ?thesis using g2 g3 w2 w3 by (cases r2) (simp_all add: store_result_world)
qed

lemma sync_deactivate_grows: "grows w (snd (sync_deactivate now others payload w))"
proof -
  obtain r1 w1 where g1: "GetUserBySSO ''kysignon'' (str_field payload ''id'') (run_ops (others 0) w) = (r1, w1)"
    by fastforce
  have w1: "grows w w1" by (rule grows_call, rule g1, rule store_likes)
  show ?thesis
    using update_then_revoke_grows [OF w1, where c = True, unfolded if_True] g1 w1
    by (cases r1) (simp_all add: sync_deactivate_def del: One_nat_def)
qed

lemma sync_upsert_grows: "grows w (snd (sync_upsert now ib others payload w))"
proof -
  obtain r1 w1 where g1: "GetUserBySSO ''kysignon'' (str_field payload ''id'') (run_ops (others 0) w) = (r1, w1)"
    by fastforce
  have w1: "grows w w1" by (rule grows_call, rule g1, rule store_likes)
  have create: "grows w (snd (CreateUser now u (run_ops ps w1)))" for u ps
    using grows_trans [OF w1 grows_call [where f = "CreateUser now u" and ps = ps]] store_likes by (metis prod.collapse)
  show ?thesis
    using g1 w1 create update_then_revoke_grows [OF w1]
    by (cases r1) (simp_all add: sync_upsert_def Let_def store_result_world)
qed

lemma store_like_HandleSyncWebhook [store_likes]: "store_like (HandleSyncWebhook pr cfg n1 n2 ib others body sig)"
  by (simp add: store_like_def HandleSyncWebhook_def Let_def grows_same sync_upsert_grows sync_deactivate_grows
      sync_delete_grows split: option.split)

lemma handleKySignOnSyncWebhook_evolves: "evolves s (snd (handleKySignOnSyncWebhook pr cfg x r s))"
  unfolding handleKySignOnSyncWebhook_def Let_def
  by (intro keeps_rules keeps_result [OF with_world_evolves] store_likes evolves_refl; assumption?)

lemma handleSAMLMetadata_evolves: "evolves s (snd (handleSAMLMetadata pr cfg x r s))"
  by (simp add: handleSAMLMetadata_def)

section \<open>What a session of the callback needs\<close>

lemma exchange_Inr:
  assumes "exchange discover code verifier uri nonce f = (Inr claims, f')"
  obtains p c tok payload where "flow_config discover uri f = (Inr (c, p), f')"
    "vExchange p c code verifier = Inr (Some (JStr tok))" "vVerify p (flClientID f') tok = Some (nonce, payload)"
    "nonce \<noteq> []" "claimsFromIDToken payload = Inr claims"
  using assms by (auto simp: exchange_def split: prod.splits sum.splits option.splits json.splits if_splits)

lemma handleKySignOnCallback_granted:
  assumes "handleKySignOnCallback pr cfg x r s = (resp, s')" "pCookies resp \<noteq> []"
  obtains claims f u s1 where
    "cookie_value r (''ky_pkce_'' @ QueryGet r ''state'') \<noteq> []"
    "cookie_value r (''ky_nonce_'' @ QueryGet r ''state'') \<noteq> []"
    "KySignOn_ExchangeCode (xDiscover x) (QueryGet r ''code'')
       (cookie_value r (''ky_pkce_'' @ QueryGet r ''state'')) (callback_uri cfg)
       (cookie_value r (''ky_nonce_'' @ QueryGet r ''state'')) (srvKySignOn s) = (Inr claims, f)"
    "sso_account cfg x claims (s\<lparr>srvKySignOn := f\<rparr>) = (Inr u, s1)"
    "count_where (has_credential (uID u) (uPasswordHash u))
       (users (db (run_ops (xOthers x 2) (srvWorld s1)))) = 1"
proof -
  have no: "sso_account cfg x claims s0 = (Inl resp, s1) \<Longrightarrow> pCookies resp = []" for claims s0 s1 resp
    by (auto simp: sso_account_def split: prod.splits sum.splits if_splits)
  from assms obtain claims f u s1 se t cs where
    c: "cookie_value r (''ky_pkce_'' @ QueryGet r ''state'') \<noteq> []"
      "cookie_value r (''ky_nonce_'' @ QueryGet r ''state'') \<noteq> []"
    and e: "KySignOn_ExchangeCode (xDiscover x) (QueryGet r ''code'')
       (cookie_value r (''ky_pkce_'' @ QueryGet r ''state'')) (callback_uri cfg)
       (cookie_value r (''ky_nonce_'' @ QueryGet r ''state'')) (srvKySignOn s) = (Inr claims, f)"
    and a: "sso_account cfg x claims (s\<lparr>srvKySignOn := f\<rparr>) = (Inr u, s1)"
    and i: "store_call x 2 (IssueSession pr (cfSecurity cfg) (xNow x 1) (xNow x 2) (xBytes x 0) (xBytes x 1) r u) s1 =
       (Inr (se, t, cs), s')"
    by (auto simp: handleKySignOnCallback_def Let_def dest: no split: prod.splits sum.splits if_splits)
  from i have "IssueSession pr (cfSecurity cfg) (xNow x 1) (xNow x 2) (xBytes x 0) (xBytes x 1) r u
      (run_ops (xOthers x 2) (srvWorld s1)) = (Inr (se, t, cs), srvWorld s')"
    by (simp add: store_call_eq)
  from IssueSession_Inr(1) [OF this] that [OF c e a] show thesis by blast
qed

text \<open>The account is the one of the subject, or a new one without privileges.\<close>

lemma sso_account_Inr:
  assumes "sso_account cfg x claims s = (Inr u, s')"
  shows "uSSOProvider u = ''kysignon'' \<and> uSSOSubject u = icSubject claims \<and>
    (u \<in> set (users (db (run_ops (xOthers x 0) (srvWorld s)))) \<or>
     ssAutoProvision (cfSSO cfg) \<and> uRole u = ''user'' \<and> uStatus u = ''active'')"
  using assms
  by (auto simp: sso_account_def store_call_eq provisioned_user_def CreateUser_def Let_def
      dest!: GetUserBySSO_Inr split: prod.splits sum.splits if_splits)

end
