(* ===== verification/Scim_Handler.thy ===== *)
theory Scim_Handler
  imports Api_Base
begin

text \<open>
  \<^verbatim>\<open>internal/scim/handler.go\<close>: the bearer-token middleware and the resource handlers for users
  and groups. The protocol library \<^verbatim>\<open>elimity-com/scim\<close> turns a request into calls of these
  handlers and their results into a response; it is the record \<open>scim_lib\<close>. An attribute map
  (\<^verbatim>\<open>map[string]interface{}\<close>) is a list of entries with JSON values.
\<close>

section \<open>Values\<close>

type_synonym attrs = "(string \<times> json) list"

definition as_string :: "json option \<Rightarrow> string" where
  "as_string v = (case v of Some (JStr s) \<Rightarrow> s | _ \<Rightarrow> [])"

definition interfaceSlice :: "json option \<Rightarrow> json list" where
  "interfaceSlice v = (case v of Some (JArr vs) \<Rightarrow> vs | _ \<Rightarrow> [])"

fun primary_item :: "json list \<Rightarrow> string option" where
  "primary_item [] = None"
| "primary_item (item # items) =
     (case item of
        JObj m \<Rightarrow> (case map_of m ''value'' of Some (JStr v) \<Rightarrow> Some v | _ \<Rightarrow> primary_item items)
      | JStr v \<Rightarrow> Some v
      | _ \<Rightarrow> primary_item items)"

definition primaryValue :: "json option \<Rightarrow> string" where
  "primaryValue v = (case primary_item (interfaceSlice v) of Some s \<Rightarrow> s | None \<Rightarrow> as_string v)"

definition stringValue :: "attrs \<Rightarrow> string \<Rightarrow> string \<Rightarrow> string" where
  "stringValue attrs key fallback = (let v = as_string (map_of attrs key) in if v \<noteq> [] then v else fallback)"

definition statusFromActive :: "attrs \<Rightarrow> string" where
  "statusFromActive attrs = (if map_of attrs ''active'' = Some (JBool False) then ''inactive'' else ''active'')"

definition member_value :: "json \<Rightarrow> string list" where
  "member_value item = (case item of
     JObj m \<Rightarrow> (case map_of m ''value'' of Some (JStr v) \<Rightarrow> if v \<noteq> [] then [v] else [] | _ \<Rightarrow> [])
   | _ \<Rightarrow> [])"

definition memberValues :: "json option \<Rightarrow> string list" where
  "memberValues v = concat (map member_value (interfaceSlice v))"

definition memberMaps :: "string list \<Rightarrow> json" where
  "memberMaps ids = JArr (map (\<lambda>i. JObj [(''value'', JStr i)]) ids)"

section \<open>Resources and errors\<close>

datatype scim_err = ScimNotFound string | ScimUniqueness | ScimInvalidFilter | ScimStore err

definition scimStoreError :: "err \<Rightarrow> string \<Rightarrow> scim_err" where
  "scimStoreError e i = (if e = ErrNotFound then ScimNotFound i
     else if e = ErrAlreadyExists then ScimUniqueness else ScimStore e)"

record resource =
  reID :: string
  reExternalID :: string
  reAttributes :: attrs
  reCreated :: time
  reLastModified :: time

definition userResource :: "user \<Rightarrow> resource" where
  "userResource u = \<lparr>reID = uID u, reExternalID = uSSOSubject u,
     reAttributes = [(''userName'', JStr (uUsername u)), (''displayName'', JStr (uDisplayName u)),
         (''active'', JBool (uStatus u = ''active''))] @
       (if uEmail u \<noteq> [] then [(''emails'', JArr [JObj [(''value'', JStr (uEmail u)), (''type'', JStr ''work''),
           (''primary'', JBool True)]])] else []) @
       (if uRole u \<noteq> [] then [(''roles'', JArr [JObj [(''value'', JStr (uRole u)), (''primary'', JBool True)]])]
        else []),
     reCreated = uCreatedAt u, reLastModified = uUpdatedAt u\<rparr>"

definition groupResource :: "group \<Rightarrow> resource" where
  "groupResource g = \<lparr>reID = gID g, reExternalID = gExternalID g,
     reAttributes = [(''displayName'', JStr (gDisplayName g)), (''members'', memberMaps (gMembers g))],
     reCreated = gCreatedAt g, reLastModified = gUpdatedAt g\<rparr>"

type_synonym 'a scim_outcome = "(scim_err + 'a) \<times> world"

section \<open>Users\<close>

text \<open>\<open>ids\<close> are the random bytes of a new id, \<open>others k\<close> the interference before the k-th store call.\<close>

definition scim_user_Create ::
    "time \<Rightarrow> string \<Rightarrow> interference \<Rightarrow> attrs \<Rightarrow> world \<Rightarrow> resource scim_outcome" where
  "scim_user_Create now ids others attrs w =
     (let username = as_string (map_of attrs ''userName'');
          user = zero_user\<lparr>uID := ''usr_'' @ RandomHex ids, uUsername := username,
            uEmail := primaryValue (map_of attrs ''emails''),
            uDisplayName := stringValue attrs ''displayName'' username,
            uRole := primaryValue (map_of attrs ''roles''), uStatus := statusFromActive attrs,
            uSSOProvider := ''scim'', uSSOSubject := stringValue attrs ''externalId'' []\<rparr>;
          user = (if uRole user = [] then user\<lparr>uRole := ''user''\<rparr> else user)
      in case CreateUser now user (run_ops (others 0) w) of
           (Inl e, w) \<Rightarrow> (Inl (scimStoreError e (uID user)), w)
         | (Inr user, w) \<Rightarrow>
             (case LogAudit now (audit (uID user) ''scim.user.create'' (uUsername user) [] []) (run_ops (others 1) w) of
                (_, w) \<Rightarrow> (Inr (userResource user), w)))"

definition scim_user_Get :: "interference \<Rightarrow> string \<Rightarrow> world \<Rightarrow> resource scim_outcome" where
  "scim_user_Get others i w =
     (case GetUserByID i (run_ops (others 0) w) of
        (Inl e, w) \<Rightarrow> (Inl (scimStoreError e i), w)
      | (Inr user, w) \<Rightarrow> (Inr (userResource user), w))"

text \<open>
  The filter \<^verbatim>\<open>(?i)(?:userName|email|displayName)\s+eq\s+"([^"]+)"\<close>. Case folding lets the long
  s (U+017F) stand for an s.
\<close>

fun fold_word :: "string \<Rightarrow> string \<Rightarrow> string option" where
  "fold_word [] s = Some s"
| "fold_word (p # ps) s =
     (case s of [] \<Rightarrow> None | c # cs \<Rightarrow>
        if lower_char c = p then fold_word ps cs
        else if p = CHR ''s'' \<and> HasPrefix s [CHR 0xC5, CHR 0xBF] then fold_word ps (drop 2 s)
        else None)"

definition re_space :: "char \<Rightarrow> bool" where
  "re_space c \<longleftrightarrow> c \<in> set [CHR 0x09, CHR 0x0A, CHR 0x0C, CHR 0x0D, CHR 0x20]"

definition skip_spaces :: "string \<Rightarrow> string option" where
  "skip_spaces s = (if s \<noteq> [] \<and> re_space (hd s) then Some (dropWhile re_space s) else None)"

definition quoted_part :: "string \<Rightarrow> string option" where
  "quoted_part s = (if HasPrefix s [CHR 0x22]
     then (let v = takeWhile (\<lambda>c. c \<noteq> CHR 0x22) (tl s)
           in if v \<noteq> [] \<and> length v < length (tl s) then Some v else None)
     else None)"

definition filter_at :: "string \<Rightarrow> string \<Rightarrow> string option" where
  "filter_at field s =
     Option.bind (fold_word field s) (\<lambda>s. Option.bind (skip_spaces s) (\<lambda>s.
       Option.bind (fold_word ''eq'' s) (\<lambda>s. Option.bind (skip_spaces s) quoted_part)))"

definition filter_here :: "string \<Rightarrow> string option" where
  "filter_here s = (case filter_at ''username'' s of Some v \<Rightarrow> Some v
     | None \<Rightarrow> (case filter_at ''email'' s of Some v \<Rightarrow> Some v | None \<Rightarrow> filter_at ''displayname'' s))"

fun equalityFilter :: "string \<Rightarrow> string option" where
  "equalityFilter [] = None"
| "equalityFilter (c # s) = (case filter_here (c # s) of Some v \<Rightarrow> Some v | None \<Rightarrow> equalityFilter s)"

definition scim_user_GetAll ::
    "interference \<Rightarrow> string \<Rightarrow> int \<Rightarrow> int \<Rightarrow> world \<Rightarrow> (resource list \<times> nat) scim_outcome" where
  "scim_user_GetAll others raw startIndex cnt w =
     (case (if raw \<noteq> [] then equalityFilter raw else Some []) of
        None \<Rightarrow> (Inl ScimInvalidFilter, w)
      | Some search \<Rightarrow>
          (case ListUsers (startIndex - 1) cnt search (run_ops (others 0) w) of
             (Inl e, w) \<Rightarrow> (Inl (ScimStore e), w)
           | (Inr (us, cntAll), w) \<Rightarrow> (Inr (map userResource us, cntAll), w)))"

definition revokeIfPrivilegesChanged ::
    "interference \<Rightarrow> user \<Rightarrow> string \<Rightarrow> string \<Rightarrow> world \<Rightarrow> world" where
  "revokeIfPrivilegesChanged others user oldRole oldStatus w =
     (if uRole user \<noteq> oldRole \<or> uStatus user \<noteq> oldStatus
      then snd (DeleteUserSessions (uID user) (run_ops (others 2) w)) else w)"

text \<open>The second half of \<^verbatim>\<open>Replace\<close> and \<^verbatim>\<open>Patch\<close>: write the account, revoke, answer.\<close>

definition scim_save_user ::
    "time \<Rightarrow> interference \<Rightarrow> user \<Rightarrow> user \<Rightarrow> world \<Rightarrow> resource scim_outcome" where
  "scim_save_user now others old user w =
     (case UpdateUser now user (run_ops (others 1) w) of
        (Inl e, w) \<Rightarrow> (Inl (scimStoreError e (uID old)), w)
      | (Inr user, w) \<Rightarrow> (Inr (userResource user), revokeIfPrivilegesChanged others user (uRole old) (uStatus old) w))"

definition replaced_user :: "attrs \<Rightarrow> user \<Rightarrow> user" where
  "replaced_user attrs u =
     (let username = as_string (map_of attrs ''userName''); role = primaryValue (map_of attrs ''roles'')
      in u\<lparr>uUsername := username, uEmail := primaryValue (map_of attrs ''emails''),
           uDisplayName := stringValue attrs ''displayName'' username,
           uRole := (if role \<noteq> [] then role else uRole u), uStatus := statusFromActive attrs\<rparr>)"

definition scim_user_Replace ::
    "time \<Rightarrow> interference \<Rightarrow> string \<Rightarrow> attrs \<Rightarrow> world \<Rightarrow> resource scim_outcome" where
  "scim_user_Replace now others i attrs w =
     (case GetUserByID i (run_ops (others 0) w) of
        (Inl e, w) \<Rightarrow> (Inl (scimStoreError e i), w)
      | (Inr user, w) \<Rightarrow> scim_save_user now others user (replaced_user attrs user) w)"

definition scim_user_Delete :: "interference \<Rightarrow> string \<Rightarrow> world \<Rightarrow> unit scim_outcome" where
  "scim_user_Delete others i w =
     (case DeleteUser i (run_ops (others 0) w) of
        (Inl e, w) \<Rightarrow> (Inl (scimStoreError e i), w) | (Inr _, w) \<Rightarrow> (Inr (), w))"

record patch_op =
  opKind :: string
  opPath :: "string option"
  opValue :: json

definition applyUserValue :: "string \<Rightarrow> json \<Rightarrow> user \<Rightarrow> user" where
  "applyUserValue path v u =
     (if path = ''active'' then (case v of JBool b \<Rightarrow> u\<lparr>uStatus := if b then ''active'' else ''inactive''\<rparr> | _ \<Rightarrow> u)
      else if path = ''displayname'' then (case v of JStr t \<Rightarrow> u\<lparr>uDisplayName := t\<rparr> | _ \<Rightarrow> u)
      else if path = ''username'' then (case v of JStr t \<Rightarrow> u\<lparr>uUsername := t\<rparr> | _ \<Rightarrow> u)
      else if path = ''roles'' \<or> path = ''role'' then
        (let r = primaryValue (Some v) in if r \<noteq> [] then u\<lparr>uRole := r\<rparr> else u)
      else if path = ''emails'' then u\<lparr>uEmail := primaryValue (Some v)\<rparr>
      else u)"

text \<open>Go visits the entries of the value map in any order; the list is in the order it does.\<close>

definition applyUserValues :: "attrs \<Rightarrow> user \<Rightarrow> user" where
  "applyUserValues values u = fold (\<lambda>(k, v). applyUserValue (ToLower k) v) values u"

definition apply_op :: "patch_op \<Rightarrow> user \<Rightarrow> user" where
  "apply_op p u =
     (if opKind p = ''remove'' then u
      else case opPath p of
        None \<Rightarrow> (case opValue p of JObj values \<Rightarrow> applyUserValues values u | _ \<Rightarrow> u)
      | Some path \<Rightarrow> applyUserValue (ToLower path) (opValue p) u)"

definition scim_user_Patch ::
    "time \<Rightarrow> interference \<Rightarrow> string \<Rightarrow> patch_op list \<Rightarrow> world \<Rightarrow> resource scim_outcome" where
  "scim_user_Patch now others i operations w =
     (case GetUserByID i (run_ops (others 0) w) of
        (Inl e, w) \<Rightarrow> (Inl (scimStoreError e i), w)
      | (Inr user, w) \<Rightarrow> scim_save_user now others user (fold apply_op operations user) w)"

section \<open>Groups\<close>

text \<open>Here \<open>others\<close> is consumed call by call: \<open>k\<close> is the number of the next one.\<close>

fun remove_members :: "interference \<Rightarrow> nat \<Rightarrow> string \<Rightarrow> string list \<Rightarrow> world \<Rightarrow> (err + unit) \<times> world" where
  "remove_members others k g [] w = (Inr (), w)"
| "remove_members others k g (i # is) w =
     (case RemoveGroupMember g i (run_ops (others k) w) of
        (Inl e, w) \<Rightarrow> (Inl e, w) | (Inr _, w) \<Rightarrow> remove_members others (Suc k) g is w)"

fun add_members :: "interference \<Rightarrow> nat \<Rightarrow> string \<Rightarrow> string list \<Rightarrow> world \<Rightarrow> (err + unit) \<times> world" where
  "add_members others k g [] w = (Inr (), w)"
| "add_members others k g (i # is) w =
     (case AddGroupMember g i (run_ops (others k) w) of
        (Inl e, w) \<Rightarrow> (Inl e, w) | (Inr _, w) \<Rightarrow> add_members others (Suc k) g is w)"

definition replaceMembers ::
    "interference \<Rightarrow> nat \<Rightarrow> string \<Rightarrow> string list \<Rightarrow> string list \<Rightarrow> world \<Rightarrow> (err + unit) \<times> world" where
  "replaceMembers others k g old next_ids w =
     (case remove_members others k g old w of
        (Inl e, w) \<Rightarrow> (Inl e, w)
      | (Inr _, w) \<Rightarrow> add_members others (k + length old) g next_ids w)"

definition zero_group :: group where
  "zero_group = \<lparr>gID = [], gDisplayName = [], gExternalID = [], gCreatedAt = zero_time, gUpdatedAt = zero_time,
     gMembers = []\<rparr>"

definition scim_group_Create ::
    "time \<Rightarrow> string \<Rightarrow> interference \<Rightarrow> attrs \<Rightarrow> world \<Rightarrow> resource scim_outcome" where
  "scim_group_Create now ids others attrs w =
     (let g = zero_group\<lparr>gID := ''grp_'' @ RandomHex ids, gDisplayName := stringValue attrs ''displayName'' [],
            gExternalID := stringValue attrs ''externalId'' []\<rparr>;
          members = memberValues (map_of attrs ''members'')
      in case CreateGroup now g (run_ops (others 0) w) of
           (Inl e, w) \<Rightarrow> (Inl (scimStoreError e (gID g)), w)
         | (Inr g, w) \<Rightarrow>
             (case replaceMembers others 1 (gID g) [] members w of
                (Inl e, w) \<Rightarrow> (Inl (ScimStore e), w)
              | (Inr _, w) \<Rightarrow> (Inr (groupResource (g\<lparr>gMembers := members\<rparr>)), w)))"

definition scim_group_Get :: "interference \<Rightarrow> string \<Rightarrow> world \<Rightarrow> resource scim_outcome" where
  "scim_group_Get others i w =
     (case GetGroupByID i (run_ops (others 0) w) of
        (Inl e, w) \<Rightarrow> (Inl (scimStoreError e i), w)
      | (Inr g, w) \<Rightarrow> (Inr (groupResource g), w))"

definition scim_group_GetAll ::
    "interference \<Rightarrow> int \<Rightarrow> int \<Rightarrow> world \<Rightarrow> (resource list \<times> nat) scim_outcome" where
  "scim_group_GetAll others startIndex cnt w =
     (case ListGroups (startIndex - 1) cnt (run_ops (others 0) w) of
        (Inl e, w) \<Rightarrow> (Inl (ScimStore e), w)
      | (Inr (gs, cntAll), w) \<Rightarrow> (Inr (map groupResource gs, cntAll), w))"

definition scim_group_Replace ::
    "time \<Rightarrow> interference \<Rightarrow> string \<Rightarrow> attrs \<Rightarrow> world \<Rightarrow> resource scim_outcome" where
  "scim_group_Replace now others i attrs w =
     (case GetGroupByID i (run_ops (others 0) w) of
        (Inl e, w) \<Rightarrow> (Inl (scimStoreError e i), w)
      | (Inr old, w) \<Rightarrow>
          (let g = old\<lparr>gDisplayName := stringValue attrs ''displayName'' (gDisplayName old),
                 gExternalID := stringValue attrs ''externalId'' (gExternalID old),
                 gMembers := memberValues (map_of attrs ''members'')\<rparr>
           in case UpdateGroup now g (run_ops (others 1) w) of
                (Inl e, w) \<Rightarrow> (Inl (scimStoreError e i), w)
              | (Inr g, w) \<Rightarrow>
                  (case replaceMembers others 2 i (gMembers old) (gMembers g) w of
                     (Inl e, w) \<Rightarrow> (Inl (ScimStore e), w)
                   | (Inr _, w) \<Rightarrow> (Inr (groupResource g), w))))"

definition scim_group_Delete :: "interference \<Rightarrow> string \<Rightarrow> world \<Rightarrow> unit scim_outcome" where
  "scim_group_Delete others i w =
     (case DeleteGroup i (run_ops (others 0) w) of
        (Inl e, w) \<Rightarrow> (Inl (scimStoreError e i), w) | (Inr _, w) \<Rightarrow> (Inr (), w))"

definition patched_attrs :: "patch_op list \<Rightarrow> group \<Rightarrow> attrs" where
  "patched_attrs operations g =
     fold (\<lambda>p attrs. case opPath p of None \<Rightarrow> attrs | Some path \<Rightarrow> (path, opValue p) # attrs) operations
       [(''displayName'', JStr (gDisplayName g)), (''members'', memberMaps (gMembers g))]"

definition scim_group_Patch ::
    "time \<Rightarrow> interference \<Rightarrow> string \<Rightarrow> patch_op list \<Rightarrow> world \<Rightarrow> resource scim_outcome" where
  "scim_group_Patch now others i operations w =
     (case GetGroupByID i (run_ops (others 0) w) of
        (Inl e, w) \<Rightarrow> (Inl (scimStoreError e i), w)
      | (Inr g, w) \<Rightarrow> scim_group_Replace now (\<lambda>k. others (Suc k)) i (patched_attrs operations g) w)"

section \<open>The protocol server and its gate\<close>

datatype scim_call =
    UserCreate attrs | UserGet string | UserGetAll string int int | UserReplace string attrs
  | UserDelete string | UserPatch string "patch_op list"
  | GroupCreate attrs | GroupGet string | GroupGetAll int int | GroupReplace string attrs
  | GroupDelete string | GroupPatch string "patch_op list"

datatype scim_result = OneResource resource | ManyResources "resource list" nat | NoResource

definition one :: "resource scim_outcome \<Rightarrow> scim_result scim_outcome" where
  "one m = (case m of (Inl e, w) \<Rightarrow> (Inl e, w) | (Inr r, w) \<Rightarrow> (Inr (OneResource r), w))"
definition many :: "(resource list \<times> nat) scim_outcome \<Rightarrow> scim_result scim_outcome" where
  "many m = (case m of (Inl e, w) \<Rightarrow> (Inl e, w) | (Inr (rs, n), w) \<Rightarrow> (Inr (ManyResources rs n), w))"
definition none :: "unit scim_outcome \<Rightarrow> scim_result scim_outcome" where
  "none m = (case m of (Inl e, w) \<Rightarrow> (Inl e, w) | (Inr _, w) \<Rightarrow> (Inr NoResource, w))"

primrec scim_run :: "scim_call \<Rightarrow> time \<Rightarrow> string \<Rightarrow> interference \<Rightarrow> world \<Rightarrow> scim_result scim_outcome" where
  "scim_run (UserCreate a) now ids others w = one (scim_user_Create now ids others a w)"
| "scim_run (UserGet i) now ids others w = one (scim_user_Get others i w)"
| "scim_run (UserGetAll f k n) now ids others w = many (scim_user_GetAll others f k n w)"
| "scim_run (UserReplace i a) now ids others w = one (scim_user_Replace now others i a w)"
| "scim_run (UserDelete i) now ids others w = none (scim_user_Delete others i w)"
| "scim_run (UserPatch i ps) now ids others w = one (scim_user_Patch now others i ps w)"
| "scim_run (GroupCreate a) now ids others w = one (scim_group_Create now ids others a w)"
| "scim_run (GroupGet i) now ids others w = one (scim_group_Get others i w)"
| "scim_run (GroupGetAll k n) now ids others w = many (scim_group_GetAll others k n w)"
| "scim_run (GroupReplace i a) now ids others w = one (scim_group_Replace now others i a w)"
| "scim_run (GroupDelete i) now ids others w = none (scim_group_Delete others i w)"
| "scim_run (GroupPatch i ps) now ids others w = one (scim_group_Patch now others i ps w)"

text \<open>
  The library: the call a request makes, if any (one per request; the discovery endpoints and
  malformed requests make none), and the response it writes from the result.
\<close>

record scim_lib =
  slCall :: "request \<Rightarrow> scim_call option"
  slRender :: "request \<Rightarrow> (scim_err + scim_result) option \<Rightarrow> response"

definition scim_protocol :: "scim_lib \<Rightarrow> handler" where
  "scim_protocol lib x r s =
     (let r = r\<lparr>rPath := TrimPrefix (rPath r) ''/scim''\<rparr>
      in case slCall lib r of
           None \<Rightarrow> (slRender lib r None, s)
         | Some c \<Rightarrow> (case with_world (scim_run c (xNow x 0) (xBytes x 0) (xOthers x)) s of
             (res, s) \<Rightarrow> (slRender lib r (Some res), s)))"

function Fields_from :: "string \<Rightarrow> string \<Rightarrow> string list" where
  "Fields_from cur s =
     (if s = [] then (if cur = [] then [] else [rev cur])
      else case leading space_encodings s of
        None \<Rightarrow> Fields_from (hd s # cur) (tl s)
      | Some p \<Rightarrow> (if cur = [] then id else (#) (rev cur)) (Fields_from [] (drop (length p) s)))"
  by pat_completeness auto
termination
proof (relation "measure (\<lambda>(cur, s). length s)", goal_cases)
  case (3 cur s p)
  then have "p \<noteq> []" by (auto simp: leading_def dest: find_SomeD)
  with 3 show ?case by (cases s; cases p) auto
qed auto

declare Fields_from.simps [simp del]

definition Fields :: "string \<Rightarrow> string list" where "Fields s = Fields_from [] s"

text \<open>\<^verbatim>\<open>strings.EqualFold\<close> with an ASCII word none of whose letters folds outside ASCII.\<close>

definition EqualFold :: "string \<Rightarrow> string \<Rightarrow> bool" where
  "EqualFold a b \<longleftrightarrow> ToLower a = ToLower b"

definition constantTimeEqual :: "string \<Rightarrow> string \<Rightarrow> bool" where
  "constantTimeEqual a b \<longleftrightarrow> length a = length b \<and> a = b"

definition writeAuthError :: "nat \<Rightarrow> string \<Rightarrow> response" where
  "writeAuthError status detail = \<lparr>pStatusCode = status, pHeaders = [(''Content-Type'', ''application/scim+json'')],
     pBody = BodyScimError status detail, pCookies = []\<rparr>"

definition bearer_ok :: "SCIMConfig \<Rightarrow> request \<Rightarrow> bool" where
  "bearer_ok cfg r = (case Fields (HeaderGet r ''Authorization'') of
     [scheme, token] \<Rightarrow> EqualFold scheme ''Bearer'' \<and> constantTimeEqual token (smBearerToken cfg)
   | _ \<Rightarrow> False)"

definition AuthMiddleware :: "SCIMConfig \<Rightarrow> handler \<Rightarrow> handler" where
  "AuthMiddleware cfg nextHandler x r s =
     (if \<not> HasPrefix (rPath r) ''/scim/v2'' then nextHandler x r s
      else if \<not> smEnabled cfg then (writeAuthError 403 ''SCIM provisioning is disabled'', s)
      else if \<not> bearer_ok cfg r
      then (let resp = writeAuthError 401 ''Invalid or missing bearer token''
            in (resp\<lparr>pHeaders := (''WWW-Authenticate'', ''Bearer error='' @ [CHR 0x22] @ ''invalid_token'' @ [CHR 0x22])
                  # pHeaders resp\<rparr>, s))
      else nextHandler x r s)"

section \<open>The server's invariant\<close>

lemma call_grows: "store_like f \<Longrightarrow> grows w (snd (f (run_ops ps w)))"
  by (metis grows_run_ops grows_trans store_like_def)

lemma store_like_lists [store_likes]:
  "store_like (ListUsers a b c)" "store_like (GetGroupByID i)" "store_like (ListGroups a b)"
proof -
  show "store_like (ListUsers a b c)"
    by (rule store_like_read)
      (auto simp: ListUsers_def Let_def dest!: sql_query_db split: prod.splits sum.splits)
  have members: "getMembers i w = (r, w') \<Longrightarrow> db w' = db w" for i w r w'
    by (auto simp: getMembers_def dest: sql_query_db)
  have fill: "fill_members gs w = (full, w') \<Longrightarrow> db w' = db w" for gs w full w'
    by (induction gs arbitrary: w full w') (auto dest!: members split: prod.splits sum.splits)
  show "store_like (GetGroupByID i)"
    by (rule store_like_read)
      (auto simp: GetGroupByID_def scanGroup_def dest!: sql_query_db members split: prod.splits sum.splits option.splits)
  show "store_like (ListGroups a b)"
    by (rule store_like_read)
      (auto simp: ListGroups_def dest!: sql_query_db fill split: prod.splits sum.splits)
qed

lemmas calls_grow = store_likes [THEN call_grows]

lemma wkeeps_pair:
  assumes "grows w (snd m)" "grows w0 w" "\<And>a w'. grows w0 w' \<Longrightarrow> grows w0 (snd (f a w'))"
  shows "grows w0 (snd (case m of (a, w') \<Rightarrow> f a w'))"
proof -
  have "grows w0 (snd m)" using assms(2,1) by (rule grows_trans)
  from assms(3) [OF this] show ?thesis by (simp add: split_beta)
qed

lemma wkeeps_result:
  assumes "grows w (snd m)" "grows w0 w"
    and "\<And>e w'. grows w0 w' \<Longrightarrow> grows w0 (snd (f e w'))"
    and "\<And>a w'. grows w0 w' \<Longrightarrow> grows w0 (snd (g a w'))"
  shows "grows w0 (snd (case m of (Inl e, w') \<Rightarrow> f e w' | (Inr a, w') \<Rightarrow> g a w'))"
  using assms(1,2) by (rule wkeeps_pair) (simp add: assms(3,4) split: sum.split)

lemma wkeeps_end: "grows w0 w \<Longrightarrow> grows w0 (snd (r, w))"
  by simp

lemmas wkeeps_calls = store_like_reads [THEN call_grows, THEN wkeeps_result]
  store_like_writes [THEN call_grows, THEN wkeeps_result] store_like_lists [THEN call_grows, THEN wkeeps_result]

lemma revoke_grows: "grows w0 w \<Longrightarrow> grows w0 (snd (DeleteUserSessions i (run_ops ps w)))"
  by (erule grows_trans) (rule calls_grow)

lemma grows_refl [simp, intro]: "grows w w"
  by (simp add: grows_same)

lemma remove_members_grows: "grows w0 w \<Longrightarrow> grows w0 (snd (remove_members others k g is w))"
proof (induction "is" arbitrary: k w)
  case (Cons i "is")
  show ?case
    unfolding remove_members.simps
    by (rule wkeeps_result, rule calls_grow, rule Cons.prems, simp, rule Cons.IH)
qed simp

lemma add_members_grows: "grows w0 w \<Longrightarrow> grows w0 (snd (add_members others k g is w))"
proof (induction "is" arbitrary: k w)
  case (Cons i "is")
  show ?case
    unfolding add_members.simps
    by (rule wkeeps_result, rule calls_grow, rule Cons.prems, simp, rule Cons.IH)
qed simp

lemma replaceMembers_grows: "grows w (snd (replaceMembers others k g old nxt w))"
  unfolding replaceMembers_def
  by (rule wkeeps_result [OF remove_members_grows [OF grows_refl]]) (simp_all add: add_members_grows)

lemma scim_save_user_grows: "grows w0 w \<Longrightarrow> grows w0 (snd (scim_save_user now others old u w))"
  unfolding scim_save_user_def revokeIfPrivilegesChanged_def
  by (rule wkeeps_result, rule calls_grow, assumption, simp) (auto intro: revoke_grows)

lemma scim_group_Replace_grows: "grows w0 w \<Longrightarrow> grows w0 (snd (scim_group_Replace now others i a w))"
  unfolding scim_group_Replace_def Let_def
  by (intro wkeeps_result [OF replaceMembers_grows] wkeeps_calls wkeeps_end; assumption?)

lemma one_world [simp]: "snd (one m) = snd m"
  by (simp add: one_def split: prod.split sum.split)
lemma many_world [simp]: "snd (many m) = snd m"
  by (simp add: many_def split: prod.split sum.split)
lemma none_world [simp]: "snd (none m) = snd m"
  by (simp add: none_def split: prod.split sum.split)

lemma scim_users_grow:
  "grows w (snd (scim_user_Create now ids others a w))" "grows w (snd (scim_user_Get others i w))"
  "grows w (snd (scim_user_Replace now others i a w))" "grows w (snd (scim_user_Delete others i w))"
  "grows w (snd (scim_user_Patch now others i ps w))"
  unfolding scim_user_Create_def scim_user_Get_def scim_user_Replace_def scim_user_Delete_def
    scim_user_Patch_def Let_def
  by (intro wkeeps_calls store_like_writes(1) [THEN call_grows, THEN wkeeps_pair] scim_save_user_grows wkeeps_end grows_refl; assumption?)+

lemma scim_groups_grow:
  "grows w (snd (scim_group_Create now ids others a w))" "grows w (snd (scim_group_Get others i w))"
  "grows w (snd (scim_group_Delete others i w))" "grows w (snd (scim_group_Patch now others i ps w))"
  unfolding scim_group_Create_def scim_group_Get_def scim_group_Delete_def scim_group_Patch_def Let_def
  by (intro wkeeps_result [OF replaceMembers_grows] wkeeps_calls scim_group_Replace_grows
      wkeeps_end grows_refl; assumption?)+

lemma list_calls_grow:
  "ListUsers a b c (run_ops ps w) = (r, w') \<Longrightarrow> grows w w'"
  "ListGroups a b (run_ops ps w) = (r', w') \<Longrightarrow> grows w w'"
  by (erule grows_call, rule store_likes)+

lemma scim_lists_grow:
  "grows w (snd (scim_user_GetAll others f k n w))" "grows w (snd (scim_group_GetAll others k n w))"
  by (auto simp: scim_user_GetAll_def scim_group_GetAll_def dest: list_calls_grow
      split: option.split prod.split sum.split)

lemma store_like_scim_run [store_likes]: "store_like (scim_run c now ids others)"
  by (cases c) (simp_all add: store_like_def scim_users_grow scim_groups_grow scim_lists_grow
      scim_group_Replace_grows)

lemma scim_protocol_evolves: "evolves s (snd (scim_protocol lib x r s))"
  unfolding scim_protocol_def Let_def
  by (intro keeps_option keeps_pair [OF with_world_evolves] keeps_end store_likes evolves_refl; assumption?)

section \<open>Laws\<close>

text \<open>
  A change of role or status through SCIM ends the sessions of the account, whatever else runs
  before the revocation, unless the store refuses the deletion.
\<close>

lemma revoke_ok:
  assumes "revokeIfPrivilegesChanged others u r st w = w'" "uRole u \<noteq> r \<or> uStatus u \<noteq> st"
    and "fst (DeleteUserSessions (uID u) (run_ops (others 2) w)) = Inr ()"
  shows "\<forall>se \<in> set (sessions (db w')). sUserID se \<noteq> uID u"
proof -
  have "DeleteUserSessions (uID u) (run_ops (others 2) w) = (Inr (), w')"
    using assms by (auto simp: revokeIfPrivilegesChanged_def prod_eq_iff)
  from DeleteUserSessions_Inr [OF this] show ?thesis by (simp add: ball_rows)
qed

lemma faults_UpdateUser: "faults w = [] \<Longrightarrow> UpdateUser now u w = (r, w') \<Longrightarrow> faults w' = []"
  by (auto simp: UpdateUser_def Let_def upd_user_row_def upd_users_def split: prod.splits sum.splits if_splits)

lemma DeleteUserSessions_ok: "faults w = [] \<Longrightarrow> fst (DeleteUserSessions i w) = Inr ()"
  by (auto simp: DeleteUserSessions_def del_sessions_def)

lemma scim_save_user_revokes:
  assumes "scim_save_user now (\<lambda>_. []) old u w = (Inr res, w')" "faults w = []"
    and "uRole u \<noteq> uRole old \<or> uStatus u \<noteq> uStatus old"
  shows "\<forall>se \<in> set (sessions (db w')). sUserID se \<noteq> uID u"
proof -
  from assms(1) obtain v w1 where u: "UpdateUser now u w = (Inr v, w1)"
    and r: "revokeIfPrivilegesChanged (\<lambda>_. []) v (uRole old) (uStatus old) w1 = w'"
    by (auto simp: scim_save_user_def split: prod.splits sum.splits)
  have v: "v = u\<lparr>uUpdatedAt := now\<rparr>"
    using u by (auto simp: UpdateUser_def Let_def split: prod.splits sum.splits if_splits)
  have "fst (DeleteUserSessions (uID v) (run_ops [] w1)) = Inr ()"
    using DeleteUserSessions_ok [OF faults_UpdateUser [OF assms(2) u]] by simp
  with revoke_ok [OF r] assms(3) v show ?thesis by simp
qed

lemma RemoveGroupMember_Inr:
  "RemoveGroupMember g u w = (Inr (), w') \<Longrightarrow>
     set (group_members (db w')) = set (group_members (db w)) - {(g, u)}"
  by (auto simp: RemoveGroupMember_def del_member_def del_where_def dest!: exec_Inr split: prod.splits sum.splits)

lemma AddGroupMember_Inr:
  "AddGroupMember g u w = (Inr (), w') \<Longrightarrow>
     set (group_members (db w')) = insert (g, u) (set (group_members (db w)))"
  by (auto simp: AddGroupMember_def ins_member_def dest!: exec_Inr split: prod.splits sum.splits if_splits)

lemma remove_members_Inr:
  "remove_members (\<lambda>_. []) k g is w = (Inr (), w') \<Longrightarrow>
     set (group_members (db w')) = set (group_members (db w)) - Pair g ` set is"
  by (induction "is" arbitrary: k w) (auto dest!: RemoveGroupMember_Inr split: prod.splits sum.splits)

lemma add_members_Inr:
  "add_members (\<lambda>_. []) k g is w = (Inr (), w') \<Longrightarrow>
     set (group_members (db w')) = set (group_members (db w)) \<union> Pair g ` set is"
  by (induction "is" arbitrary: k w) (auto dest!: AddGroupMember_Inr split: prod.splits sum.splits)

lemma set_members_of: "set (members_of g d) = {u. (g, u) \<in> set (group_members d)}"
  by (force simp: members_of_def)

lemma replaceMembers_Inr:
  assumes "replaceMembers (\<lambda>_. []) k g old nxt w = (Inr (), w')" "set (members_of g (db w)) \<subseteq> set old"
  shows "set (members_of g (db w')) = set nxt"
proof -
  from assms(1) obtain w1 where r: "remove_members (\<lambda>_. []) k g old w = (Inr (), w1)"
    and a: "add_members (\<lambda>_. []) (k + length old) g nxt w1 = (Inr (), w')"
    by (auto simp: replaceMembers_def split: prod.splits sum.splits)
  from remove_members_Inr [OF r] add_members_Inr [OF a] assms(2) show ?thesis
    by (auto simp: set_members_of)
qed

lemma GetGroupByID_Inr:
  "GetGroupByID i w = (Inr g, w') \<Longrightarrow> gMembers g = members_of i (db w) \<and> gID g = i \<and> db w' = db w"
  by (auto simp: GetGroupByID_def scanGroup_def getMembers_def with_members_def
      dest!: sql_query_Inr find_SomeD split: prod.splits sum.splits option.splits)

lemma UpdateGroup_members: "UpdateGroup now g w = (r, w') \<Longrightarrow> group_members (db w') = group_members (db w)"
  using UpdateGroup_cases [of now g w r w'] by (auto simp: group_written_def)

lemma scim_group_Replace_members:
  assumes "scim_group_Replace now (\<lambda>_. []) i attrs w = (Inr res, w')"
  shows "set (members_of i (db w')) = set (memberValues (map_of attrs ''members''))"
proof -
  from assms obtain old w1 g w2 where G: "GetGroupByID i w = (Inr old, w1)"
    and U: "UpdateGroup now (old\<lparr>gDisplayName := stringValue attrs ''displayName'' (gDisplayName old),
                 gExternalID := stringValue attrs ''externalId'' (gExternalID old),
                 gMembers := memberValues (map_of attrs ''members'')\<rparr>) w1 = (Inr g, w2)"
    and R: "replaceMembers (\<lambda>_. []) 2 i (gMembers old) (gMembers g) w2 = (Inr (), w')"
    by (auto simp: scim_group_Replace_def Let_def split: prod.splits sum.splits)
  have "gMembers g = memberValues (map_of attrs ''members'')"
    using U by (auto simp: UpdateGroup_def Let_def split: prod.splits sum.splits if_splits)
  moreover have "members_of i (db w2) = gMembers old"
    using GetGroupByID_Inr [OF G] UpdateGroup_members [OF U] by (simp add: members_of_def)
  ultimately show ?thesis using replaceMembers_Inr [OF R] by simp
qed

lemma memberValues_memberMaps: "[] \<notin> set ids \<Longrightarrow> memberValues (Some (memberMaps ids)) = ids"
  by (induction ids) (auto simp: memberValues_def memberMaps_def interfaceSlice_def member_value_def)

text \<open>Whatever its kind, an operation on the members of a group puts its value in their place.\<close>

lemma scim_group_Patch_members:
  assumes "scim_group_Patch now (\<lambda>_. []) i [\<lparr>opKind = kind, opPath = Some ''members'', opValue = memberMaps ids\<rparr>] w =
      (Inr res, w')" "[] \<notin> set ids"
  shows "set (members_of i (db w')) = set ids"
proof -
  from assms(1) obtain g w1 where "scim_group_Replace now (\<lambda>_. []) i
      (patched_attrs [\<lparr>opKind = kind, opPath = Some ''members'', opValue = memberMaps ids\<rparr>] g) w1 = (Inr res, w')"
    by (auto simp: scim_group_Patch_def split: prod.splits sum.splits)
  from scim_group_Replace_members [OF this] assms(2) show ?thesis
    by (simp add: patched_attrs_def memberValues_memberMaps)
qed

lemma AuthMiddleware_passes:
  assumes "HasPrefix (rPath r) ''/scim/v2''" "\<not> (smEnabled cfg \<and> bearer_ok cfg r)"
  shows "snd (AuthMiddleware cfg h x r s) = s" "pStatusCode (fst (AuthMiddleware cfg h x r s)) \<in> {401, 403}"
  using assms by (auto simp: AuthMiddleware_def Let_def writeAuthError_def)

end
