(* ===== verification/Go_Url.thy ===== *)
theory Go_Url
  imports Go_Json Go_Netip
begin

text \<open>
  What the program uses of \<^verbatim>\<open>net/url\<close>: the scheme and the host of a URL as \<^verbatim>\<open>url.Parse\<close> gives
  them, \<open>None\<close> for its errors.
\<close>

section \<open>Percent-encoding\<close>

datatype url_part = InHost | InZone | Elsewhere

definition url_alnum :: "char \<Rightarrow> bool" where
  "url_alnum c \<longleftrightarrow> between 48 57 c \<or> between 65 90 c \<or> between 97 122 c"

text \<open>The bytes that may stand for themselves in a host.\<close>

definition host_byte :: "char \<Rightarrow> bool" where
  "host_byte c \<longleftrightarrow> url_alnum c \<or> of_char c \<ge> (128 :: int) \<or>
     c \<in> set (''!$&()*+,;=:[]<>-_.~'' @ [CHR 0x22, CHR 0x27])"

text \<open>In a host only bytes outside ASCII, and the percent sign itself, may be escaped.\<close>

definition escape_ok :: "url_part \<Rightarrow> int \<Rightarrow> bool" where
  "escape_ok part v \<longleftrightarrow> (case part of
     InHost \<Rightarrow> v \<ge> 128 \<or> v = 0x25
   | InZone \<Rightarrow> v = 0x25 \<or> v = 0x20 \<or> host_byte (char_of v)
   | Elsewhere \<Rightarrow> True)"

fun url_unescape :: "url_part \<Rightarrow> string \<Rightarrow> string option" where
  "url_unescape part [] = Some []"
| "url_unescape part (c # s) =
     (if c = CHR ''%'' then
        (case s of
           a # b # s' \<Rightarrow> (case (hex_val a, hex_val b) of
               (Some x, Some y) \<Rightarrow>
                 if escape_ok part (x * 16 + y) then map_option ((#) (char_of (x * 16 + y))) (url_unescape part s')
                 else None
             | _ \<Rightarrow> None)
         | _ \<Rightarrow> None)
      else if part \<noteq> Elsewhere \<and> \<not> host_byte c then None
      else map_option ((#) c) (url_unescape part s))"

section \<open>The parts of a URL\<close>

definition Cut :: "char \<Rightarrow> string \<Rightarrow> string \<times> string" where
  "Cut c s = (takeWhile (\<lambda>d. d \<noteq> c) s, drop 1 (dropWhile (\<lambda>d. d \<noteq> c) s))"

definition url_letter :: "char \<Rightarrow> bool" where
  "url_letter c \<longleftrightarrow> between 65 90 c \<or> between 97 122 c"

text \<open>\<^verbatim>\<open>getScheme\<close>: the letters, digits, plus, minus and dots before a colon, if there are any.\<close>

definition getScheme :: "string \<Rightarrow> (string \<times> string) option" where
  "getScheme s =
     (let p = takeWhile (\<lambda>c. url_alnum c \<or> c \<in> set ''+-.'') s; rest = drop (length p) s
      in if HasPrefix rest '':'' then
           (if p = [] then None
            else if url_letter (hd p) then Some (p, tl rest) else Some ([], s))
         else Some ([], s))"

definition validOptionalPort :: "string \<Rightarrow> bool" where
  "validOptionalPort p \<longleftrightarrow> p = [] \<or> hd p = CHR '':'' \<and> list_all (between 48 57) (tl p)"

definition last_index :: "char \<Rightarrow> string \<Rightarrow> nat option" where
  "last_index c s = (if c \<in> set s then Some (length s - 1 - length (takeWhile (\<lambda>d. d \<noteq> c) (rev s))) else None)"

text \<open>A scoped literal has its zone after \<^verbatim>\<open>%25\<close>.\<close>

fun zone_split :: "string \<Rightarrow> string \<times> string" where
  "zone_split [] = ([], [])"
| "zone_split (c # s) = (if HasPrefix (c # s) ''%25'' then ([], c # s)
     else (case zone_split s of (a, b) \<Rightarrow> (c # a, b)))"

definition is_ipv6 :: "string \<Rightarrow> bool" where
  "is_ipv6 s = (case ParseAddr s of Some (V6 _ _) \<Rightarrow> True | _ \<Rightarrow> False)"

definition parseHost :: "string \<Rightarrow> string option" where
  "parseHost host =
     (case last_index (CHR ''['') host of
        Some i \<Rightarrow>
          (case last_index (CHR '']'') host of
             None \<Rightarrow> None
           | Some j \<Rightarrow>
               (case zone_split (drop 1 (take j host)) of (a, z) \<Rightarrow>
                if i \<noteq> 0 \<or> \<not> validOptionalPort (drop (j + 1) host) then None
                else (case (url_unescape InHost a, url_unescape InZone z) of
                        (Some a, Some z) \<Rightarrow>
                          if is_ipv6 (a @ z) then Some (''['' @ a @ z @ '']'' @ drop (j + 1) host) else None
                      | _ \<Rightarrow> None)))
      | None \<Rightarrow>
          (case Cut (CHR '':'') host of (name, port) \<Rightarrow>
           if CHR '':'' \<in> set host \<and> \<not> list_all (between 48 57) port then None
           else url_unescape InHost host))"

definition userinfo_byte :: "char \<Rightarrow> bool" where
  "userinfo_byte c \<longleftrightarrow> url_alnum c \<or> c \<in> set (''-._:~!$&()*+,;=%@'' @ [CHR 0x27])"

definition parseAuthority :: "string \<Rightarrow> string option" where
  "parseAuthority authority =
     (case last_index (CHR ''@'') authority of
        None \<Rightarrow> parseHost authority
      | Some i \<Rightarrow>
          (case parseHost (drop (i + 1) authority) of
             None \<Rightarrow> None
           | Some host \<Rightarrow>
               if list_all userinfo_byte (take i authority) \<and> url_unescape Elsewhere (take i authority) \<noteq> None
               then Some host else None))"

definition ctl_byte :: "char \<Rightarrow> bool" where
  "ctl_byte c \<longleftrightarrow> of_char c < (32 :: int) \<or> of_char c = (127 :: int)"

definition url_parse :: "string \<Rightarrow> (string \<times> string) option" where
  "url_parse rawURL =
     (case Cut (CHR ''#'') rawURL of (u, frag) \<Rightarrow>
      if url_unescape Elsewhere frag = None \<or> list_ex ctl_byte u then None
      else if u = ''*'' then Some ([], [])
      else case getScheme u of
        None \<Rightarrow> None
      | Some (scheme, rest) \<Rightarrow>
          (let rest = fst (Cut (CHR ''?'') rest)
           in if \<not> HasPrefix rest ''/'' then
                (if scheme \<noteq> [] then Some (ToLower scheme, [])
                 else if CHR '':'' \<in> set (fst (Cut (CHR ''/'') rest)) \<or> url_unescape Elsewhere rest = None then None
                 else Some ([], []))
              else if HasPrefix rest ''//'' \<and> (scheme \<noteq> [] \<or> \<not> HasPrefix rest ''///'') then
                (let authority = fst (Cut (CHR ''/'') (drop 2 rest)); path = drop (2 + length authority) rest
                 in case parseAuthority authority of
                      None \<Rightarrow> None
                    | Some host \<Rightarrow> if url_unescape Elsewhere path = None then None else Some (ToLower scheme, host))
              else if url_unescape Elsewhere rest = None then None
              else Some (ToLower scheme, [])))"

end
