(* ===== verification/Api_Server.thy ===== *)
theory Api_Server
  imports Api_Auth Api_Devices Api_Settings Api_Sso Scim_Handler Go_Url
begin

text \<open>
  \<^verbatim>\<open>internal/api/server.go\<close>: the count of detached requests, the two authentication wrappers,
  the route table and the entry point with its security headers, CORS answer, CSRF check and
  SCIM gate. The theorems about routing hold for any handlers; \<open>dispatch\<close> gives the bare
  handler of an endpoint.
\<close>

section \<open>Detached requests\<close>

definition detached_add :: "server \<Rightarrow> server" where
  "detached_add s = s\<lparr>srvDetached := srvDetached s + 1\<rparr>"

definition detached_done :: "server \<Rightarrow> server" where
  "detached_done s = s\<lparr>srvDetached := srvDetached s - 1\<rparr>"

definition tracked :: "handler \<Rightarrow> handler" where
  "tracked h x r s = (case h x r (detached_add s) of (resp, s) \<Rightarrow> (resp, detached_done s))"

text \<open>\<^verbatim>\<open>WaitDetached\<close> returns in the states where its loop condition fails.\<close>

definition WaitDetached_returns :: "server \<Rightarrow> bool" where
  "WaitDetached_returns s \<longleftrightarrow> \<not> srvDetached s > 0"

section \<open>Wrappers\<close>

definition refuse_unauthenticated :: "err \<Rightarrow> response" where
  "refuse_unauthenticated e =
     (if e = ErrPasswordChangeRequired
      then writeJSON 403 (JObj [(''code'', JStr ''password_change_required''),
             (''error'', JStr ''Change your password before continuing'')])
      else writeError 401 ''Authentication required'')"

definition requireAdmin :: "prims \<Rightarrow> handler \<Rightarrow> handler" where
  "requireAdmin pr h x r s =
     (case authenticate pr x 0 0 r s of
        (Inl e, s) \<Rightarrow> (refuse_unauthenticated e, s)
      | (Inr (user, _), s) \<Rightarrow>
          if uRole user \<noteq> ''admin'' then (writeError 403 ''Administrator role required'', s)
          else h (later 2 3 x) r s)"

definition requireAuthenticated :: "prims \<Rightarrow> handler \<Rightarrow> handler" where
  "requireAuthenticated pr h x r s =
     (case authenticate pr x 0 0 r s of
        (Inl e, s) \<Rightarrow> (refuse_unauthenticated e, s)
      | (Inr _, s) \<Rightarrow> h (later 2 3 x) r s)"

section \<open>Routes\<close>

datatype endpoint =
    EPoWChallenge | ELogin | EMFATOTP | EMFARecovery | ELogout | EMe | EChangePassword
  | EKySignOnLogin | EKySignOnCallback | EKySignOnSync | ESAMLMetadata
  | EPairInit | EPairVerify | EPairPoll
  | EBackupDrill | EExportCapsule | EPairRemote | ERunBackup | EUnpair | EPinKey | ESetSchedule | EBackupStatus
  | EGetSettings | ESetTheme
  | EScim | EWeb

datatype guard = Open | Authenticated | Admin | TrackedAdmin

text \<open>
  The patterns of \<^verbatim>\<open>routes\<close> and \<^verbatim>\<open>RegisterRoutes\<close>: an optional method, a path, and whether the
  path ends in a slash and matches everything below it.
\<close>

definition route_table :: "(string \<times> string \<times> guard \<times> endpoint) list" where
  "route_table =
    [([], ''/api/auth/pow-challenge'', Open, EPoWChallenge), ([], ''/api/auth/login'', Open, ELogin),
     ([], ''/api/auth/mfa/totp'', Open, EMFATOTP), ([], ''/api/auth/mfa/recovery-code'', Open, EMFARecovery),
     ([], ''/api/auth/logout'', Open, ELogout), ([], ''/api/auth/me'', Open, EMe),
     ([], ''/api/auth/change-password'', Open, EChangePassword),
     ([], ''/api/sso/kysignon/login'', Open, EKySignOnLogin),
     ([], ''/api/sso/kysignon/callback'', Open, EKySignOnCallback),
     ([], ''/api/sso/kysignon/sync'', Open, EKySignOnSync), ([], ''/saml/metadata'', Open, ESAMLMetadata),
     ([], ''/api/devices/pair/init'', Authenticated, EPairInit),
     ([], ''/api/devices/pair/verify'', Open, EPairVerify), ([], ''/api/devices/pair/poll'', Open, EPairPoll),
     (''POST'', ''/api/backup/drill'', Admin, EBackupDrill),
     (''POST'', ''/api/backup/export-capsule'', Admin, EExportCapsule),
     (''POST'', ''/api/backup/pair-remote'', TrackedAdmin, EPairRemote),
     (''POST'', ''/api/backup/deposit'', TrackedAdmin, ERunBackup),
     (''DELETE'', ''/api/backup/pairing'', Admin, EUnpair),
     (''POST'', ''/api/backup/pin-key'', TrackedAdmin, EPinKey),
     (''PUT'', ''/api/backup/schedule'', Admin, ESetSchedule),
     (''GET'', ''/api/backup/status'', Admin, EBackupStatus),
     ([], ''/api/settings'', Open, EGetSettings), ([], ''/api/settings/theme'', Admin, ESetTheme),
     ([], ''/scim/v2'', Open, EScim), ([], ''/scim/v2/'', Open, EScim), ([], ''/'', Open, EWeb)]"

definition method_matches :: "string \<Rightarrow> string \<Rightarrow> bool" where
  "method_matches pat m \<longleftrightarrow> pat = [] \<or> pat = m \<or> pat = ''GET'' \<and> m = ''HEAD''"

definition path_matches :: "string \<Rightarrow> string \<Rightarrow> bool" where
  "path_matches pat p \<longleftrightarrow> pat = p \<or> pat \<noteq> [] \<and> last pat = CHR ''/'' \<and> HasPrefix p pat"

text \<open>
  \<^verbatim>\<open>http.ServeMux\<close> prefers the most specific of the matching patterns. Of two that match one
  request here the longer path is the more specific, and no two of the same path differ in method.
\<close>

definition more_specific :: "(string \<times> string \<times> guard \<times> endpoint) \<Rightarrow> (string \<times> string \<times> guard \<times> endpoint) option \<Rightarrow>
    (string \<times> string \<times> guard \<times> endpoint) option" where
  "more_specific t best = (case best of None \<Rightarrow> Some t
     | Some b \<Rightarrow> if length (fst (snd t)) > length (fst (snd b)) then Some t else Some b)"

definition mux_match :: "string \<Rightarrow> string \<Rightarrow> (guard \<times> endpoint) option" where
  "mux_match m p = map_option (\<lambda>(_, _, g, e). (g, e))
     (fold more_specific (filter (\<lambda>(pm, pp, _). method_matches pm m \<and> path_matches pp p) route_table) None)"

text \<open>
  \<^verbatim>\<open>cleanPath\<close>: dot segments and empty segments resolved, a leading slash forced, a trailing
  one kept.
\<close>

fun clean_segments :: "string list \<Rightarrow> string list \<Rightarrow> string list" where
  "clean_segments acc [] = rev acc"
| "clean_segments acc (g # gs) =
     (if g = [] \<or> g = ''.'' then clean_segments acc gs
      else if g = ''..'' then clean_segments (drop 1 acc) gs
      else clean_segments (g # acc) gs)"

definition cleanPath :: "string \<Rightarrow> string" where
  "cleanPath p =
     (if p = [] then ''/''
      else (let np = CHR ''/'' # Join (clean_segments [] (Split (CHR ''/'') p)) ''/''
            in if last p = CHR ''/'' \<and> np \<noteq> ''/'' then np @ ''/'' else np))"

text \<open>
  The handlers behind the routes, and what the mux does with a request: a path that is not clean
  is redirected to its clean form; a \<^verbatim>\<open>CONNECT\<close> request is matched as it is.
\<close>

definition guarded :: "prims \<Rightarrow> guard \<Rightarrow> handler \<Rightarrow> handler" where
  "guarded pr g h = (case g of
     Open \<Rightarrow> h | Authenticated \<Rightarrow> requireAuthenticated pr h | Admin \<Rightarrow> requireAdmin pr h
   | TrackedAdmin \<Rightarrow> tracked (requireAdmin pr h))"

definition mux_ServeHTTP :: "prims \<Rightarrow> (endpoint \<Rightarrow> handler) \<Rightarrow> handler" where
  "mux_ServeHTTP pr dispatch x r s =
     (if rMethod r \<noteq> ''CONNECT'' \<and> cleanPath (rPath r) \<noteq> rPath r
      then (http_Redirect (cleanPath (rPath r)) 301, s)
      else case mux_match (rMethod r) (rPath r) of
        None \<Rightarrow> (http_Error ''404 page not found'' 404, s)
      | Some (g, e) \<Rightarrow> guarded pr g (dispatch e) x r s)"

section \<open>The entry point\<close>

definition isUnsafeMethod :: "string \<Rightarrow> bool" where
  "isUnsafeMethod m \<longleftrightarrow> m \<noteq> ''GET'' \<and> m \<noteq> ''HEAD'' \<and> m \<noteq> ''OPTIONS''"

definition hasSessionCookie :: "request \<Rightarrow> bool" where
  "hasSessionCookie r \<longleftrightarrow> (case Cookie r SessionCookieName of None \<Rightarrow> False | Some v \<Rightarrow> v \<noteq> [])"

definition csrfExempt :: "string \<Rightarrow> bool" where
  "csrfExempt path \<longleftrightarrow> path = ''/api/auth/login'' \<or> HasPrefix path ''/api/auth/mfa/'' \<or> path = ''/api/sso/kysignon/sync''"

definition sameOrigin :: "string \<Rightarrow> string \<Rightarrow> bool" where
  "sameOrigin origin appURL =
     (case url_parse appURL of
        None \<Rightarrow> False
      | Some (scheme, host) \<Rightarrow>
          if scheme = [] \<or> host = [] then False
          else (case url_parse origin of None \<Rightarrow> False | Some (s', h') \<Rightarrow> s' = scheme \<and> h' = host))"

definition quote1 :: "string \<Rightarrow> string" where
  "quote1 v = [CHR 0x27] @ v @ [CHR 0x27]"

definition csp :: string where
  "csp = ''default-src '' @ quote1 ''self'' @ ''; script-src '' @ quote1 ''self'' @ ''; style-src '' @
     quote1 ''self'' @ '' '' @ quote1 ''unsafe-inline'' @ ''; img-src '' @ quote1 ''self'' @
     '' data:; font-src '' @ quote1 ''self'' @ ''; connect-src '' @ quote1 ''self'' @
     ''; frame-ancestors '' @ quote1 ''none'' @ ''; base-uri '' @ quote1 ''self'' @ ''; form-action '' @
     quote1 ''self''"

definition security_headers :: "Config \<Rightarrow> (string \<times> string) list" where
  "security_headers cfg =
     [(''X-Content-Type-Options'', ''nosniff''), (''X-Frame-Options'', ''DENY''),
      (''Referrer-Policy'', ''strict-origin-when-cross-origin''),
      (''Content-Security-Policy'', csp)] @
     (if scCookieSecure (cfSecurity cfg)
      then [(''Strict-Transport-Security'', ''max-age=31536000; includeSubDomains'')] else [])"

definition cors_headers :: "Config \<Rightarrow> string \<Rightarrow> (string \<times> string) list" where
  "cors_headers cfg origin =
     (if origin \<noteq> [] \<and> sameOrigin origin (svAppURL (cfServer cfg))
      then [(''Access-Control-Allow-Origin'', origin), (''Access-Control-Allow-Credentials'', ''true''),
            (''Vary'', ''Origin'')] else []) @
     [(''Access-Control-Allow-Methods'', ''GET, POST, PUT, PATCH, DELETE, OPTIONS''),
      (''Access-Control-Allow-Headers'', ''Content-Type, Authorization, X-CSRF-Token, X-KySignOn-Signature'')]"

text \<open>\<^verbatim>\<open>w.Header().Set\<close>: a later value replaces an earlier one.\<close>

definition set_header :: "string \<times> string \<Rightarrow> (string \<times> string) list \<Rightarrow> (string \<times> string) list" where
  "set_header h hs = filter (\<lambda>h'. fst h' \<noteq> fst h) hs @ [h]"

definition with_headers :: "(string \<times> string) list \<Rightarrow> response \<Rightarrow> response" where
  "with_headers hs resp = resp\<lparr>pHeaders := fold set_header (pHeaders resp) hs\<rparr>"

definition empty_response :: "nat \<Rightarrow> response" where
  "empty_response c = \<lparr>pStatusCode = c, pHeaders = [], pBody = BodyEmpty, pCookies = []\<rparr>"

text \<open>\<^verbatim>\<open>MaxBytesReader\<close>: a body over one megabyte cannot be read to its end.\<close>

definition limit_body :: "nat \<Rightarrow> request \<Rightarrow> request" where
  "limit_body n r = r\<lparr>rBody := (case rBody r of None \<Rightarrow> None | Some b \<Rightarrow> if length b > n then None else Some b)\<rparr>"

definition ServeHTTP :: "prims \<Rightarrow> Config \<Rightarrow> (endpoint \<Rightarrow> handler) \<Rightarrow> handler" where
  "ServeHTTP pr cfg dispatch x r s =
     (let origin = HeaderGet r ''Origin'';
          headers = security_headers cfg @ cors_headers cfg origin
      in case
          (if rMethod r = ''OPTIONS''
           then (if origin \<noteq> [] \<and> \<not> sameOrigin origin (svAppURL (cfServer cfg))
                 then (http_Error ''Origin not allowed'' 403, s) else (empty_response 200, s))
           else if isUnsafeMethod (rMethod r) \<and> hasSessionCookie r \<and> \<not> csrfExempt (rPath r) \<and> \<not> ValidateCSRF r
           then (writeError 403 ''Invalid CSRF token'', s)
           else (let r = limit_body 1048576 r
                 in if HasPrefix (rPath r) ''/scim/v2''
                    then AuthMiddleware (cfSCIM cfg) (mux_ServeHTTP pr dispatch) x r s
                    else mux_ServeHTTP pr dispatch x r s))
         of (resp, s) \<Rightarrow> (with_headers headers resp, s))"

section \<open>Routing laws\<close>

lemma evolves_detached:
  assumes "evolves (detached_add s) s'"
  shows "evolves s (detached_done s')"
  using assms by (simp add: evolves_def detached_add_def detached_done_def)

lemma requireAdmin_evolves:
  assumes "\<And>x s. evolves s (snd (h x r s))"
  shows "evolves s (snd (requireAdmin pr h x r s))"
  unfolding requireAdmin_def
  by (intro keeps_rules evolves_refl; assumption?) (rule evolves_trans, assumption, rule assms)

lemma requireAuthenticated_evolves:
  assumes "\<And>x s. evolves s (snd (h x r s))"
  shows "evolves s (snd (requireAuthenticated pr h x r s))"
  unfolding requireAuthenticated_def
  by (rule keeps_result [OF authenticate_evolves]) (auto intro: evolves_trans [OF _ assms])

lemma tracked_evolves:
  assumes "\<And>s. evolves s (snd (h x r s))"
  shows "evolves s (snd (tracked h x r s))"
  using assms [of "detached_add s"] by (auto simp: tracked_def intro: evolves_detached split: prod.splits)

lemma guarded_evolves:
  assumes "\<And>x s. evolves s (snd (h x r s))"
  shows "evolves s (snd (guarded pr g h x r s))"
  using assms
  by (cases g) (simp_all add: guarded_def requireAdmin_evolves requireAuthenticated_evolves tracked_evolves)

lemma mux_evolves:
  assumes "\<And>e x s. evolves s (snd (dispatch e x r s))"
  shows "evolves s (snd (mux_ServeHTTP pr dispatch x r s))"
  using guarded_evolves [of "dispatch e" for e, OF assms]
  by (auto simp: mux_ServeHTTP_def split: option.split)

lemma ServeHTTP_evolves:
  assumes "\<And>e x r s. evolves s (snd (dispatch e x r s))"
  shows "evolves s (snd (ServeHTTP pr cfg dispatch x r s))"
  using mux_evolves [of dispatch, OF assms]
  by (simp add: ServeHTTP_def AuthMiddleware_def Let_def split_beta)

text \<open>The endpoint a request is routed to, with its guard: a row of the table that matches it.\<close>

lemma fold_more_specific:
  "fold more_specific ts best = Some t \<Longrightarrow> t \<in> set ts \<or> best = Some t"
  by (induction ts arbitrary: best)
    (fastforce simp: more_specific_def split: option.splits if_splits)+

lemma mux_match_row:
  assumes "mux_match m p = Some (g, e)"
  obtains pm pp where "(pm, pp, g, e) \<in> set route_table" "method_matches pm m" "path_matches pp p"
  using assms by (auto simp: mux_match_def dest!: fold_more_specific)

definition admin_endpoint :: "endpoint \<Rightarrow> bool" where
  "admin_endpoint e \<longleftrightarrow> e \<in> set [EBackupDrill, EExportCapsule, EPairRemote, ERunBackup, EUnpair, EPinKey, ESetSchedule,
     EBackupStatus, ESetTheme]"

lemma admin_guard: "mux_match m p = Some (g, e) \<Longrightarrow> admin_endpoint e \<Longrightarrow> g = Admin \<or> g = TrackedAdmin"
  by (erule mux_match_row) (auto simp: route_table_def admin_endpoint_def)

lemma pair_init_guard: "mux_match m p = Some (g, EPairInit) \<Longrightarrow> g = Authenticated"
  by (erule mux_match_row) (auto simp: route_table_def)

lemma HasPrefix_appendD: "HasPrefix s (p @ q) \<Longrightarrow> HasPrefix s p"
  unfolding HasPrefix_def by (drule arg_cong [where f = "take (length p)"]) simp

lemma scim_path:
  assumes "mux_match m p = Some (g, EScim)"
  shows "HasPrefix p ''/scim/v2''"
proof -
  from assms obtain pm pp where "(pm, pp, g, EScim) \<in> set route_table" "path_matches pp p"
    by (rule mux_match_row)
  then have "p = ''/scim/v2'' \<or> HasPrefix p (''/scim/v2'' @ ''/'')"
    by (auto simp: route_table_def path_matches_def HasPrefix_def)
  then show ?thesis by (elim disjE) (simp add: HasPrefix_def, rule HasPrefix_appendD)
qed

text \<open>What reaches a handler: a change of one handler shows only in requests routed to it.\<close>

lemma limit_body_simps [simp]:
  "rPath (limit_body n r) = rPath r" "rMethod (limit_body n r) = rMethod r" "rHeaders (limit_body n r) = rHeaders r"
  "rCookies (limit_body n r) = rCookies r"
  by (simp_all add: limit_body_def)

lemma request_limit [simp]:
  "HeaderGet (limit_body n r) k = HeaderGet r k" "Cookie (limit_body n r) k = Cookie r k"
  "restricted_route (limit_body n r) = restricted_route r"
  by (simp_all add: HeaderGet_def HeaderValues_def Cookie_def restricted_route_def)

lemma bearer_ok_limit [simp]: "bearer_ok cfg (limit_body n r) = bearer_ok cfg r"
  by (simp add: bearer_ok_def)

lemma request_token_limit [simp]: "request_token (limit_body n r) = request_token r"
  by (simp add: request_token_def bearer_token_def Let_def)

lemma authenticate_limit [simp]: "authenticate pr x n k (limit_body m r) s = authenticate pr x n k r s"
  by (simp only: authenticate_def AuthenticateRequest_def request_token_limit request_limit)

lemma mux_other:
  assumes "\<And>g. mux_match (rMethod r) (rPath r) = Some (g, e) \<Longrightarrow> guarded pr g h x r s = guarded pr g (dispatch e) x r s"
  shows "mux_ServeHTTP pr (dispatch(e := h)) x r s = mux_ServeHTTP pr dispatch x r s"
  using assms by (auto simp: mux_ServeHTTP_def split: option.split)

lemma ServeHTTP_other:
  assumes "\<not> HasPrefix (rPath r) ''/scim/v2'' \<or> smEnabled (cfSCIM cfg) \<and> bearer_ok (cfSCIM cfg) r \<Longrightarrow>
      mux_ServeHTTP pr (dispatch(e := h)) x (limit_body 1048576 r) s =
      mux_ServeHTTP pr dispatch x (limit_body 1048576 r) s"
  shows "ServeHTTP pr cfg (dispatch(e := h)) x r s = ServeHTTP pr cfg dispatch x r s"
  using assms by (auto simp: ServeHTTP_def AuthMiddleware_def Let_def)

text \<open>An administrator's handler shows only in requests of an administrator's session.\<close>

definition admin_session :: "prims \<Rightarrow> ctx \<Rightarrow> request \<Rightarrow> server \<Rightarrow> bool" where
  "admin_session pr x r s \<longleftrightarrow> (case fst (authenticate pr x 0 0 r s) of
     Inr (u, _) \<Rightarrow> uRole u = ''admin'' | Inl _ \<Rightarrow> False)"

lemma requireAdmin_other:
  "\<not> admin_session pr x r s \<Longrightarrow> requireAdmin pr h x r s = requireAdmin pr h' x r s"
  by (auto simp: requireAdmin_def admin_session_def split: prod.splits sum.splits)

lemma admin_session_detached: "admin_session pr x r (detached_add s) = admin_session pr x r s"
  by (auto simp: admin_session_def authenticate_def detached_add_def split: prod.splits)

lemma ServeHTTP_admin:
  assumes "admin_endpoint e" "\<not> admin_session pr x r s"
  shows "ServeHTTP pr cfg (dispatch(e := h)) x r s = ServeHTTP pr cfg dispatch x r s"
proof (rule ServeHTTP_other, rule mux_other)
  fix g
  assume "mux_match (rMethod (limit_body 1048576 r)) (rPath (limit_body 1048576 r)) = Some (g, e)"
  then have g: "g = Admin \<or> g = TrackedAdmin" using assms(1) admin_guard by blast
  have no: "\<not> admin_session pr x (limit_body 1048576 r) s" "\<not> admin_session pr x (limit_body 1048576 r) (detached_add s)"
    using assms(2) unfolding admin_session_detached by (simp_all add: admin_session_def)
  from g show "guarded pr g h x (limit_body 1048576 r) s = guarded pr g (dispatch e) x (limit_body 1048576 r) s"
    using requireAdmin_other [OF no(1), of h "dispatch e"] requireAdmin_other [OF no(2), of h "dispatch e"]
    by (auto simp: guarded_def tracked_def)
qed

text \<open>The SCIM server runs only behind the bearer token.\<close>

lemma ServeHTTP_scim:
  assumes "\<not> (smEnabled (cfSCIM cfg) \<and> bearer_ok (cfSCIM cfg) r)"
  shows "ServeHTTP pr cfg (dispatch(EScim := h)) x r s = ServeHTTP pr cfg dispatch x r s"
  by (rule ServeHTTP_other, rule mux_other) (use assms scim_path in auto)

text \<open>A forged request: it changes nothing and reaches no handler.\<close>

lemma ServeHTTP_csrf:
  assumes "isUnsafeMethod (rMethod r)" "hasSessionCookie r" "\<not> csrfExempt (rPath r)" "\<not> ValidateCSRF r"
  shows "snd (ServeHTTP pr cfg dispatch x r s) = s" "pStatusCode (fst (ServeHTTP pr cfg dispatch x r s)) = 403"
    "pCookies (fst (ServeHTTP pr cfg dispatch x r s)) = []"
  using assms by (simp_all add: ServeHTTP_def Let_def isUnsafeMethod_def with_headers_def)

end
