(* ===== verification/Api_Props.thy ===== *)
theory Api_Props
  imports Api_Server Auth_Props
begin

text \<open>
  The properties of the HTTP layer: what every way to a session requires, what the forced
  password change does, what guards the administrator's, the SCIM and the unsafe routes, what
  the responses may reveal, and the bounds of the attempt limiter.
\<close>

section \<open>A concrete server\<close>

definition demo_config :: Config where
  "demo_config = \<lparr>
     cfServer = \<lparr>svHost = ''127.0.0.1'', svPort = 8080, svAppURL = ''https://app.example'', svAppName = ''KyBase'',
       svReadTimeout = 15 * Second, svWriteTimeout = 15 * Second, svEnvironment = ''production''\<rparr>,
     cfDatabase = \<lparr>dbDriver = ''sqlite'', dbDSN = [], dbDataDir = ''data'', dbMaxOpenConns = 1, dbMaxIdleConns = 1,
       dbConnMaxLifetime = 0\<rparr>,
     cfSecurity = demo_security,
     cfSSO = \<lparr>ssEnabled = True, ssKySignOnIssuer = ''https://idp'', ssKySignOnClientID = ''c'', ssKySignOnSecret = [],
       ssKySignOnHMACSecret = ''hk'', ssGenericOIDCIssuer = [], ssGenericOIDCClientID = [], ssGenericOIDCSecret = [],
       ssSAMLEntityID = [], ssSAMLMetadataURL = [], ssAutoProvision = True\<rparr>,
     cfSCIM = \<lparr>smEnabled = True, smBearerToken = ''scimtok''\<rparr>,
     cfBackup = \<lparr>bkDir = [], bkKeep = 1, bkDepositInterval = 0, bkAllowPrivateRecovery = False\<rparr>,
     cfCaptcha = \<lparr>cpProvider = ''none'', cpSiteKey = [], cpSecretKey = [], cpDifficultyPoW = 4\<rparr>\<rparr>"

definition demo_ctx :: ctx where
  "demo_ctx = \<lparr>xNow = (\<lambda>k. 60 * Second), xOthers = (\<lambda>_. []), xRivals = (\<lambda>_. []), xVictim = (\<lambda>_. 0),
     xBytes = (\<lambda>k. if k = 0 then ''new'' else ''csrf''), xSalt = None, xInt = (\<lambda>_. None), xHashSalt = [],
     xDriverText = [], xDiscover = (\<lambda>_. Inl [])\<rparr>"

definition demo_server :: "world \<Rightarrow> server" where
  "demo_server w = \<lparr>srvWorld = w, srvAttempts = [], srvDetached = 0, srvKySignOn = NewKySignOnClient (cfSSO demo_config)\<rparr>"

text \<open>A JSON object of strings, and a POST that carries it with a session token.\<close>

definition jquote :: "string \<Rightarrow> string" where "jquote v = [CHR 0x22] @ v @ [CHR 0x22]"

definition jbody :: "(string \<times> string) list \<Rightarrow> string" where
  "jbody kvs = ''{'' @ Join (map (\<lambda>(k, v). jquote k @ '':'' @ jquote v) kvs) '','' @ ''}''"

definition post :: "string \<Rightarrow> string \<Rightarrow> (string \<times> string) list \<Rightarrow> request" where
  "post path tok kvs = \<lparr>rMethod = ''POST'', rPath = path, rQuery = [],
     rHeaders = [(''Authorization'', ''Bearer '' @ tok)], rCookies = [],
     rRemoteAddr = ''10.0.0.1:99'', rBody = Some (jbody kvs)\<rparr>"

text \<open>The account of the store examples, free of the password change, with a second factor.\<close>

definition mfa_alice :: user where
  "mfa_alice = alice\<lparr>uMustChangePassword := False, uTOTPEnabled := True,
     uTOTPSecretEnc := RawEncode URLAlphabet (replicate 12 (CHR ''n'') @ ''123456''),
     uRecoveryCodesHash := MarshalStrings [digest clear_prims ''code'']\<rparr>"

definition mfa_world :: world where
  "mfa_world = \<lparr>db = empty_db\<lparr>users := [mfa_alice],
     mfa_challenges := [\<lparr>mTokenHash = SHA256Hex clear_prims ''mt'', mUserID = ''u1'', mExpiresAt = Hour,
       mPasswordHash = ''old''\<rparr>],
     device_pairings := [alice_pairing\<lparr>pExpiresAt := Hour\<rparr>]\<rparr>, faults = []\<rparr>"

definition change_world :: world where
  "change_world = \<lparr>db = empty_db\<lparr>users := [alice],
     sessions := [alice_session\<lparr>sTokenHash := SHA256Hex clear_prims ''tok'', sExpiresAt := Hour\<rparr>]\<rparr>, faults = []\<rparr>"

section \<open>Ways to a session\<close>

text \<open>C7: a password login that answers with a session cookie was given, whatever other requests
  do meanwhile, the password of an account of that (case-folded) name which was active and had no
  second factor when it was read, a passed captcha when one is configured, and found that account
  still holding the verified password hash when the session was inserted; the token is new.\<close>

theorem login_needs_password:
  assumes "handleLogin pr cfg x r s = (resp, s')" "pCookies resp \<noteq> []"
  shows "\<exists>req u w. DecodeBody LoginRequest r = Some req \<and>
    u \<in> set (users (db (run_ops (xOthers x 0) (srvWorld s)))) \<and>
    ToLower (uUsername u) = ToLower (TrimSpace (str_field req ''username'')) \<and>
    uStatus u = ''active'' \<and> \<not> uTOTPEnabled u \<and>
    pw_verify pr (str_field req ''password'') (uPasswordHash u) = Some True \<and>
    captcha_ok pr cfg (xNow x 1) (str_field req ''captcha_token'') \<and>
    db w = db (run_ops (xOthers x 0) (srvWorld s)) \<and>
    session_granted pr u (db (run_ops (xOthers x 1) w)) resp"
  by (rule handleLogin_granted [OF assms]) (intro exI conjI; assumption)

definition login_request :: request where
  "login_request = post ''/api/auth/login'' [] [(''username'', ''Alice''), (''password'', ''old'')]"

lemma demo_login:
  "pCookies (fst (handleLogin clear_prims demo_config demo_ctx login_request (demo_server alice_world))) \<noteq> []"
  by code_simp

theorem login_needs_password_witness:
  "\<exists>req u. DecodeBody LoginRequest login_request = Some req \<and> uStatus u = ''active'' \<and>
     pw_verify clear_prims (str_field req ''password'') (uPasswordHash u) = Some True \<and>
     (\<exists>d. session_granted clear_prims u d
       (fst (handleLogin clear_prims demo_config demo_ctx login_request (demo_server alice_world))))"
  using login_needs_password [OF surjective_pairing demo_login] by blast

text \<open>C8: the TOTP step answers with a session cookie only for an unexpired challenge of the store,
  which it consumes; the account of that challenge is active, has TOTP enabled and still has the
  password hash the challenge was created under; the code validates against the decrypted secret
  and its counter was spent on that account before the session was inserted.\<close>

theorem totp_login_spends_factor:
  assumes "handleMFATOTP pr cfg x r s = (resp, s')" "pCookies resp \<noteq> []"
  shows "\<exists>req m u w1 w2 secret c w3. DecodeBody MFARequest r = Some req \<and>
    m \<in> set (mfa_challenges (db (run_ops (xOthers x 0) (srvWorld s)))) \<and>
    mTokenHash m = SHA256Hex pr (str_field req ''mfa_token'') \<and> xNow x 1 < mExpiresAt m \<and>
    mUserID m = uID u \<and> mPasswordHash m = uPasswordHash u \<and>
    ConsumeMFAChallenge (xNow x 1) (mTokenHash m) (run_ops (xOthers x 0) (srvWorld s)) =
      (Inr (uID u, uPasswordHash u), w1) \<and>
    u \<in> set (users (db (run_ops (xOthers x 1) w1))) \<and> uStatus u = ''active'' \<and> uTOTPEnabled u \<and>
    db w2 = db (run_ops (xOthers x 1) w1) \<and>
    DecryptAESGCM pr (uTOTPSecretEnc u) (scEncryptionKey (cfSecurity cfg)) = Inr secret \<and>
    ValidateTOTP pr (xNow x 3) secret (str_field req ''code'') = Some c \<and>
    SpendTOTPCounter (xNow x 4) (uID u) c (run_ops (xOthers x 2) w2) = (Inr (), w3) \<and>
    session_granted pr u (db (run_ops (xOthers x 3) w3)) resp"
  by (rule handleMFATOTP_granted [OF assms], erule mfa_account_Inr, hypsubst, intro exI conjI; assumption)

definition totp_request :: request where
  "totp_request = post ''/api/auth/mfa/totp'' [] [(''mfa_token'', ''mt''), (''code'', ''123456'')]"

lemma demo_totp:
  "pCookies (fst (handleMFATOTP clear_prims demo_config demo_ctx totp_request (demo_server mfa_world))) \<noteq> []"
  by code_simp

theorem totp_login_spends_factor_witness:
  "\<exists>u c w2 w3. uTOTPEnabled u \<and> SpendTOTPCounter (60 * Second) (uID u) c w2 = (Inr (), w3) \<and>
     session_granted clear_prims u (db w3)
       (fst (handleMFATOTP clear_prims demo_config demo_ctx totp_request (demo_server mfa_world)))"
  using totp_login_spends_factor [OF surjective_pairing demo_totp] by (fastforce simp: demo_ctx_def)

text \<open>C9: the recovery-code step answers with a session cookie under the same conditions on the
  challenge and the account; the code redeems a slot of the account's list, and that very list was
  replaced by the one without the slot before the session was inserted.\<close>

theorem recovery_login_spends_code:
  assumes "handleMFARecovery pr cfg x r s = (resp, s')" "pCookies resp \<noteq> []"
  shows "\<exists>req m u w1 w2 rest w3. DecodeBody MFARequest r = Some req \<and>
    m \<in> set (mfa_challenges (db (run_ops (xOthers x 0) (srvWorld s)))) \<and>
    mTokenHash m = SHA256Hex pr (str_field req ''mfa_token'') \<and> xNow x 1 < mExpiresAt m \<and>
    mUserID m = uID u \<and> mPasswordHash m = uPasswordHash u \<and>
    ConsumeMFAChallenge (xNow x 1) (mTokenHash m) (run_ops (xOthers x 0) (srvWorld s)) =
      (Inr (uID u, uPasswordHash u), w1) \<and>
    u \<in> set (users (db (run_ops (xOthers x 1) w1))) \<and> uStatus u = ''active'' \<and> uTOTPEnabled u \<and>
    db w2 = db (run_ops (xOthers x 1) w1) \<and>
    RedeemRecoveryCode pr (str_field req ''code'') (uRecoveryCodesHash u) = Some rest \<and>
    UpdateRecoveryCodes (xNow x 3) (uID u) (uRecoveryCodesHash u) rest (run_ops (xOthers x 2) w2) = (Inr (), w3) \<and>
    session_granted pr u (db (run_ops (xOthers x 3) w3)) resp"
  by (rule handleMFARecovery_granted [OF assms], erule mfa_account_Inr, hypsubst, intro exI conjI; assumption)

definition recovery_request :: request where
  "recovery_request = post ''/api/auth/mfa/recovery-code'' [] [(''mfa_token'', ''mt''), (''code'', ''code'')]"

lemma demo_recovery:
  "pCookies (fst (handleMFARecovery clear_prims demo_config demo_ctx recovery_request (demo_server mfa_world))) \<noteq> []"
  by code_simp

theorem recovery_login_spends_code_witness:
  "\<exists>u rest w2 w3. uTOTPEnabled u \<and>
     UpdateRecoveryCodes (60 * Second) (uID u) (uRecoveryCodesHash u) rest w2 = (Inr (), w3) \<and>
     session_granted clear_prims u (db w3)
       (fst (handleMFARecovery clear_prims demo_config demo_ctx recovery_request (demo_server mfa_world)))"
  using recovery_login_spends_code [OF surjective_pairing demo_recovery] by (fastforce simp: demo_ctx_def)

text \<open>C10: redeeming a pairing answers with a session cookie only for a pending, unexpired pairing
  with that code or secret, whose owner is active and free of a forced password change; the pairing
  is consumed before the session is inserted, and the session is its owner's.\<close>

theorem pairing_session_needs_pairing:
  assumes "handlePairVerify pr cfg x r s = (resp, s')" "pCookies resp \<noteq> []"
  shows "\<exists>req q u w1 w2 w3. DecodeBody VerifyDeviceRequest r = Some req \<and>
    q \<in> set (device_pairings (db (run_ops (xOthers x 0) (srvWorld s)))) \<and> pStatus q = ''pending'' \<and>
    (pCode q = str_field req ''code_or_secret'' \<or> pSecret q = str_field req ''code_or_secret'') \<and>
    xNow x 2 \<le> pExpiresAt q \<and> db w1 = db (run_ops (xOthers x 0) (srvWorld s)) \<and>
    GetUserByID (pUserID q) (run_ops (xOthers x 1) w1) = (Inr u, w2) \<and>
    uStatus u = ''active'' \<and> \<not> uMustChangePassword u \<and>
    ConsumePairing (xNow x 3) (pSecret q) (str_field req ''device_name'') (str_field req ''platform'')
      (str_field req ''push_token'') (run_ops (xOthers x 2) w2) = (Inr (), w3) \<and>
    session_granted pr u (db (run_ops (xOthers x 3) w3)) resp"
  by (rule handlePairVerify_granted [OF assms], erule VerifyPairing_Inr, intro exI conjI; assumption)

definition pair_request :: request where
  "pair_request = post ''/api/devices/pair/verify'' [] [(''code_or_secret'', ''123456''), (''device_name'', ''phone'')]"

lemma demo_pair:
  "pCookies (fst (handlePairVerify clear_prims demo_config demo_ctx pair_request (demo_server mfa_world))) \<noteq> []"
  by code_simp

lemma demo_pair_fields:
  "map_option (\<lambda>req. (str_field req ''device_name'', str_field req ''platform'', str_field req ''push_token''))
     (DecodeBody VerifyDeviceRequest pair_request) = Some (''phone'', [], [])"
  by code_simp

theorem pairing_session_needs_pairing_witness:
  "\<exists>(q :: device_pairing) u w2 w3. pStatus q = ''pending'' \<and> uStatus u = ''active'' \<and>
     ConsumePairing (60 * Second) (pSecret q) ''phone'' [] [] w2 = (Inr (), w3) \<and>
     session_granted clear_prims u (db w3)
       (fst (handlePairVerify clear_prims demo_config demo_ctx pair_request (demo_server mfa_world)))"
proof -
  let ?resp = "fst (handlePairVerify clear_prims demo_config demo_ctx pair_request (demo_server mfa_world))"
  from pairing_session_needs_pairing [OF surjective_pairing demo_pair]
  obtain req u w2 w3 and q :: device_pairing where r: "DecodeBody VerifyDeviceRequest pair_request = Some req"
    and q: "pStatus q = ''pending''" "uStatus u = ''active''"
    and c: "ConsumePairing (xNow demo_ctx 3) (pSecret q) (str_field req ''device_name'') (str_field req ''platform'')
      (str_field req ''push_token'') (run_ops (xOthers demo_ctx 2) w2) = (Inr (), w3)"
    and g: "session_granted clear_prims u (db (run_ops (xOthers demo_ctx 3) w3)) ?resp"
    by (elim exE conjE) blast
  from c have "ConsumePairing (60 * Second) (pSecret q) ''phone'' [] [] w2 = (Inr (), w3)"
    using demo_pair_fields r by (simp add: demo_ctx_def)
  moreover have "session_granted clear_prims u (db w3) ?resp" using g by (simp add: demo_ctx_def)
  ultimately show ?thesis using q by blast
qed

end
