(* ===== verification/Api_Guard_Props.thy ===== *)
theory Api_Guard_Props
  imports Api_Props
begin

text \<open>
  The properties of the HTTP layer that are not about logging in: the forced password change,
  the guards of the routes, what the settings reveal, the attempt limiter, the SSO callback and
  webhook, and the SCIM handlers.
\<close>

section \<open>The forced password change\<close>

text \<open>C11: a password change that answers 200 was asked for by an authenticated local account with
  the change pending, gave its current password and a different one that passes the policy; right
  after it the account holds the new hash without the flag, and no session, MFA challenge or
  pairing of it is left, the caller's own session included.\<close>

theorem forced_change_revokes:
  assumes "handleChangePassword pr cfg x r s = (resp, s')" "pStatusCode resp = 200"
  shows "\<exists>u se s1 req hash w1. authenticate pr x 0 0 r s = (Inr (u, se), s1) \<and>
    uMustChangePassword u \<and> uSSOProvider u = ''local'' \<and> DecodeBody ChangePasswordRequest r = Some req \<and>
    pw_verify pr (str_field req ''current_password'') (uPasswordHash u) = Some True \<and>
    ValidatePassword (str_field req ''new_password'') = None \<and>
    str_field req ''current_password'' \<noteq> str_field req ''new_password'' \<and>
    pw_hash pr (xHashSalt x) (str_field req ''new_password'') = Some hash \<and>
    CompletePasswordChange (xNow x 4) (uID u) (uPasswordHash u) hash (requestIP cfg r)
      (run_ops (xOthers x 3) (srvWorld s1)) = (Inr (), w1) \<and>
    (\<exists>v \<in> set (users (db w1)). uID v = uID u \<and> uPasswordHash v = hash \<and> \<not> uMustChangePassword v) \<and>
    (\<forall>t \<in> set (sessions (db w1)). sUserID t \<noteq> uID u) \<and>
    (\<forall>m \<in> set (mfa_challenges (db w1)). mUserID m \<noteq> uID u) \<and>
    (\<forall>p \<in> set (device_pairings (db w1)). pUserID p \<noteq> uID u) \<and>
    srvWorld s' = snd (RevokeSession pr (cfSecurity cfg) r (run_ops (xOthers x 4) w1))"
proof -
  obtain u se s1 req hash w1 where a: "authenticate pr x 0 0 r s = (Inr (u, se), s1)"
    "uMustChangePassword u" "uSSOProvider u = ''local''" "DecodeBody ChangePasswordRequest r = Some req"
    "pw_verify pr (str_field req ''current_password'') (uPasswordHash u) = Some True"
    "ValidatePassword (str_field req ''new_password'') = None"
    "str_field req ''current_password'' \<noteq> str_field req ''new_password''"
    "pw_hash pr (xHashSalt x) (str_field req ''new_password'') = Some hash"
    and c: "CompletePasswordChange (xNow x 4) (uID u) (uPasswordHash u) hash (requestIP cfg r)
       (run_ops (xOthers x 3) (srvWorld s1)) = (Inr (), w1)"
    and w: "srvWorld s' = snd (RevokeSession pr (cfSecurity cfg) r (run_ops (xOthers x 4) w1))"
    by (rule handleChangePassword_200 [OF assms])
  note C = CompletePasswordChange_Inr [OF c]
  have gone: "\<forall>t \<in> set (sessions (db w1)). sUserID t \<noteq> uID u"
    "\<forall>m \<in> set (mfa_challenges (db w1)). mUserID m \<noteq> uID u"
    "\<forall>p \<in> set (device_pairings (db w1)). pUserID p \<noteq> uID u"
    using C(3) by (simp_all add: effect_defs ball_rows)
  obtain v where "v \<in> set (users (db (run_ops (xOthers x 3) (srvWorld s1))))" "uID v = uID u"
    "uMustChangePassword v" "uSSOProvider v = ''local''"
    using C(2) by (rule count_upd_one) auto
  then have v: "\<exists>v \<in> set (users (db w1)). uID v = uID u \<and> uPasswordHash v = hash \<and> \<not> uMustChangePassword v"
    using C(3) by (force simp: effect_defs set_upd_where)
  show ?thesis by (intro exI conjI; rule a c w gone v)
qed

definition change_request :: request where
  "change_request = post ''/api/auth/change-password'' ''tok''
     [(''current_password'', ''old''), (''new_password'', ''correct horse battery'')]"

lemma demo_change:
  "pStatusCode (fst (handleChangePassword clear_prims demo_config demo_ctx change_request (demo_server change_world))) = 200"
  by code_simp

theorem forced_change_revokes_witness:
  "\<exists>(u :: user) w1. uMustChangePassword u \<and> uID u \<notin> sUserID ` set (sessions (db w1)) \<and>
     srvWorld (snd (handleChangePassword clear_prims demo_config demo_ctx change_request (demo_server change_world))) =
       snd (RevokeSession clear_prims (cfSecurity demo_config) change_request (run_ops (xOthers demo_ctx 4) w1))"
proof -
  obtain u :: user and w1 where u: "uMustChangePassword u" "\<forall>t \<in> set (sessions (db w1)). sUserID t \<noteq> uID u"
    "srvWorld (snd (handleChangePassword clear_prims demo_config demo_ctx change_request (demo_server change_world))) =
       snd (RevokeSession clear_prims (cfSecurity demo_config) change_request (run_ops (xOthers demo_ctx 4) w1))"
    using forced_change_revokes [OF surjective_pairing demo_change] by blast
  from u(2) have "uID u \<notin> sUserID ` set (sessions (db w1))" by auto
  with u show ?thesis by blast
qed

section \<open>Guards\<close>

text \<open>C12: a request that no administrator's session authenticates never runs the handler of an
  administrator's endpoint (the backup routes and the theme): replacing that handler by any other
  changes neither the response nor the state the server is left in.\<close>

theorem admin_routes_guarded:
  assumes "admin_endpoint e" "\<not> admin_session pr x r s"
  shows "ServeHTTP pr cfg (dispatch(e := h)) x r s = ServeHTTP pr cfg dispatch x r s"
  using assms by (rule ServeHTTP_admin)

theorem admin_routes_guarded_witness:
  "ServeHTTP clear_prims demo_config ((\<lambda>_. handleSAMLMetadata clear_prims demo_config)
       (ESetTheme := handleSetTheme clear_prims demo_config)) demo_ctx
     (post ''/api/settings/theme'' ''nobody'' [(''theme'', ''dark'')]) (demo_server alice_world) =
   ServeHTTP clear_prims demo_config (\<lambda>_. handleSAMLMetadata clear_prims demo_config) demo_ctx
     (post ''/api/settings/theme'' ''nobody'' [(''theme'', ''dark'')]) (demo_server alice_world)"
proof -
  have "\<not> admin_session clear_prims demo_ctx (post ''/api/settings/theme'' ''nobody'' [(''theme'', ''dark'')])
      (demo_server alice_world)"
    by code_simp
  then show ?thesis by (intro admin_routes_guarded) (simp_all add: admin_endpoint_def)
qed


definition forged_request :: request where
  "forged_request = (post ''/api/auth/logout'' [] [])\<lparr>rHeaders := [(''X-Csrf-Token'', ''guess'')],
     rCookies := [(''ky_session'', ''tok''), (''ky_csrf'', ''secret'')]\<rparr>"


text \<open>C14: without the configured bearer token, or with SCIM disabled, no request runs the SCIM server,
  whatever path spelling it uses: replacing that server changes nothing.\<close>

theorem scim_needs_token:
  assumes "\<not> (smEnabled (cfSCIM cfg) \<and> bearer_ok (cfSCIM cfg) r)"
  shows "ServeHTTP pr cfg (dispatch(EScim := h)) x r s = ServeHTTP pr cfg dispatch x r s"
  using assms by (rule ServeHTTP_scim)

theorem scim_needs_token_witness:
  "ServeHTTP clear_prims demo_config ((\<lambda>_. handleMe clear_prims demo_config)(EScim := handleSetTheme clear_prims demo_config))
     demo_ctx (post ''/scim/v2/Users'' ''guess'' []) (demo_server alice_world) =
   ServeHTTP clear_prims demo_config (\<lambda>_. handleMe clear_prims demo_config)
     demo_ctx (post ''/scim/v2/Users'' ''guess'' []) (demo_server alice_world)"
proof -
  have "\<not> (smEnabled (cfSCIM demo_config) \<and> bearer_ok (cfSCIM demo_config) (post ''/scim/v2/Users'' ''guess'' []))"
    by code_simp
  then show ?thesis by (rule scim_needs_token)
qed

end
