(* ===== verification/Api_Data_Props.thy ===== *)
theory Api_Data_Props
  imports Api_Props
begin

text \<open>
  The properties of the HTTP layer about data: what the settings reveal, the bounds of the
  attempt limiter, single sign-on and its webhook, and the SCIM handlers.
\<close>

section \<open>Settings\<close>

text \<open>C20: the answer of the settings endpoint does not depend on the KyRecovery token: two stores
  that differ only in settings whose name starts with the token's prefix give the same response to
  every caller, administrators included.\<close>

theorem settings_hide_recovery_token:
  assumes "xOthers x = (\<lambda>_. [])" "open_settings ss = open_settings (server_settings (db (srvWorld s)))"
  shows "fst (handleGetSettings pr cfg x r (s\<lparr>srvWorld := with_settings ss (srvWorld s)\<rparr>)) =
    fst (handleGetSettings pr cfg x r s)"
  using assms by (rule handleGetSettings_open)

definition token_setting :: setting where
  "token_setting = \<lparr>kKey = ''kyrecovery_token_v2'', kValue = ''secret'', kUpdatedAt = 0\<rparr>"

theorem settings_hide_recovery_token_witness:
  "fst (handleGetSettings clear_prims demo_config demo_ctx me_request
      ((demo_server tok_world)\<lparr>srvWorld := with_settings [token_setting] tok_world\<rparr>)) =
   fst (handleGetSettings clear_prims demo_config demo_ctx me_request (demo_server tok_world))"
  using settings_hide_recovery_token [of demo_ctx "[token_setting]" "demo_server tok_world"]
  by (simp add: demo_ctx_def demo_server_def open_settings_def token_setting_def tok_world_def alice_defs HasPrefix_def)

section \<open>The attempt limiter\<close>

text \<open>C26: whatever attempts are made, the limiter's map stays within its cap with one window per
  key, and a client without a window is let in: filling the map locks nobody out.\<close>

theorem limiter_bounded_never_locks_out:
  assumes "limiter_ok m" "1 \<le> limit" "zero_time < now"
  shows "limiter_ok (run_attempts as m) \<and> length (run_attempts as m) \<le> 10000 \<and>
    (k \<notin> fst ` set (run_attempts as m) \<longrightarrow> fst (allowAttempt v now k limit window (run_attempts as m)))"
  using run_attempts_ok [OF assms(1), of as] assms(2,3) allowAttempt_fresh
  by (auto simp: limiter_ok_def attemptsCap_def)

definition one_attempt :: attempt where
  "one_attempt = \<lparr>atVictim = 0, atNow = 5, atKey = ''login:a'', atLimit = 20, atWindow = Minute\<rparr>"

theorem limiter_bounded_never_locks_out_witness:
  "limiter_ok (run_attempts [one_attempt] []) \<and> fst (allowAttempt 0 6 ''login:b'' 20 Minute (run_attempts [one_attempt] []))"
proof -
  have "limiter_ok []" "(1 :: int) \<le> 20" "zero_time < 6"
    by (simp_all add: limiter_ok_def zero_time_def Second_def)
  moreover have "''login:b'' \<notin> fst ` set (run_attempts [one_attempt] [])"
    by (simp add: one_attempt_def allowAttempt_def set_key_def attemptsCap_def Let_def)
  ultimately show ?thesis using limiter_bounded_never_locks_out by blast
qed



section \<open>Single sign-on\<close>

text \<open>C15: the SSO callback sets cookies only when the browser brings the verifier and the nonce of a
  login it started, the provider exchanges the code for an ID token that verifies for this client
  and carries that very nonce, and the account is the KySignOn account of the token's subject: one
  the store holds, or, when auto-provisioning is on, a new one with the plain role.\<close>

theorem sso_session_needs_identity:
  assumes "handleKySignOnCallback pr cfg x r s = (resp, s')" "pCookies resp \<noteq> []"
  shows "\<exists>verifier nonce c p f tok payload claims u.
    Cookie r (''ky_pkce_'' @ QueryGet r ''state'') = Some verifier \<and> verifier \<noteq> [] \<and>
    Cookie r (''ky_nonce_'' @ QueryGet r ''state'') = Some nonce \<and> nonce \<noteq> [] \<and>
    flow_config (xDiscover x) (callback_uri cfg) (srvKySignOn s) = (Inr (c, p), f) \<and>
    vExchange p c (QueryGet r ''code'') verifier = Inr (Some (JStr tok)) \<and>
    vVerify p (flClientID f) tok = Some (nonce, payload) \<and> claimsFromIDToken payload = Inr claims \<and>
    uSSOProvider u = ''kysignon'' \<and> uSSOSubject u = icSubject claims \<and>
    (u \<in> set (users (db (run_ops (xOthers x 0) (srvWorld s)))) \<or>
     ssAutoProvision (cfSSO cfg) \<and> uRole u = ''user'' \<and> uStatus u = ''active'')"
proof -
  let ?v = "cookie_value r (''ky_pkce_'' @ QueryGet r ''state'')"
  let ?n = "cookie_value r (''ky_nonce_'' @ QueryGet r ''state'')"
  obtain claims f u s1 where v: "?v \<noteq> []" "?n \<noteq> []"
    and e: "KySignOn_ExchangeCode (xDiscover x) (QueryGet r ''code'') ?v (callback_uri cfg) ?n (srvKySignOn s) =
      (Inr claims, f)"
    and a: "sso_account cfg x claims (s\<lparr>srvKySignOn := f\<rparr>) = (Inr u, s1)"
    by (rule handleKySignOnCallback_granted [OF assms])
  obtain claims0 where ex: "exchange (xDiscover x) (QueryGet r ''code'') ?v (callback_uri cfg) ?n (srvKySignOn s) =
      (Inr claims0, f)" and same: "icSubject claims0 = icSubject claims"
    using e by (auto simp: KySignOn_ExchangeCode_def ExchangeCode_def split: prod.splits sum.splits)
  have c: "Cookie r (''ky_pkce_'' @ QueryGet r ''state'') = Some ?v"
    "Cookie r (''ky_nonce_'' @ QueryGet r ''state'') = Some ?n"
    using v by (simp_all add: cookie_value_def split: option.splits)
  have u: "uSSOProvider u = ''kysignon''" "uSSOSubject u = icSubject claims0"
    "u \<in> set (users (db (run_ops (xOthers x 0) (srvWorld s)))) \<or>
     ssAutoProvision (cfSSO cfg) \<and> uRole u = ''user'' \<and> uStatus u = ''active''"
    using sso_account_Inr [OF a] same by simp_all
  show ?thesis
    by (rule exchange_Inr [OF ex], intro exI conjI; (assumption | rule c v u))
qed

definition demo_provider :: provider where
  "demo_provider = \<lparr>vAuthCodeURL = (\<lambda>_ _ _ _. []), vExchange = (\<lambda>c code v. Inr (Some (JStr ''idtok''))),
     vVerify = (\<lambda>client tok. Some (''nn'', jbody [(''sub'', ''ext1''), (''preferred_username'', ''bob'')]))\<rparr>"

definition callback_request :: request where
  "callback_request = \<lparr>rMethod = ''GET'', rPath = ''/api/sso/kysignon/callback'',
     rQuery = [(''code'', ''c1''), (''state'', ''st'')], rHeaders = [],
     rCookies = [(''ky_pkce_st'', ''vv''), (''ky_nonce_st'', ''nn'')], rRemoteAddr = ''10.0.0.1:99'', rBody = Some []\<rparr>"

definition sso_ctx :: ctx where "sso_ctx = demo_ctx\<lparr>xDiscover := \<lambda>_. Inr demo_provider\<rparr>"

lemma demo_callback:
  "pCookies (fst (handleKySignOnCallback clear_prims demo_config sso_ctx callback_request (demo_server alice_world))) \<noteq> []"
  by code_simp

theorem sso_session_needs_identity_witness:
  "\<exists>(p :: provider) (f :: oauthFlow) tok payload nonce. vVerify p (flClientID f) tok = Some (nonce, payload) \<and>
     Cookie callback_request (''ky_nonce_'' @ QueryGet callback_request ''state'') = Some nonce"
  using sso_session_needs_identity [OF surjective_pairing demo_callback] by blast

text \<open>C16: the sync webhook refuses, and leaves the store untouched by itself, every body that is not
  signed with the configured secret or whose timestamp is missing or more than five minutes off.\<close>

theorem webhook_needs_signature:
  assumes "ssKySignOnHMACSecret cfg = [] \<or> sig \<noteq> ComputeHMACSHA256 pr body (ssKySignOnHMACSecret cfg) \<or>
    (\<forall>payload. Unmarshal KySignOnSyncPayload body = Some payload \<longrightarrow>
       int_field payload ''timestamp'' = 0 \<or> \<bar>now - int_field payload ''timestamp'' * Second\<bar> > 300 * Second)"
  shows "snd (HandleSyncWebhook pr cfg now now2 ids others body sig w) = w \<and>
    (\<exists>e. fst (HandleSyncWebhook pr cfg now now2 ids others body sig w) = Inl e)"
  using assms
  by (auto simp: HandleSyncWebhook_def VerifyHMACSHA256_def stale_def Minute_def split: option.split)

theorem webhook_needs_signature_witness:
  "snd (HandleSyncWebhook clear_prims (cfSSO demo_config) 0 0 [] (\<lambda>_. []) ''{}'' ''forged'' alice_world) = alice_world"
  using webhook_needs_signature [of "cfSSO demo_config" "''forged''" clear_prims "''{}''" 0 0 "[]" "\<lambda>_. []" alice_world]
  by (simp add: demo_config_def ComputeHMACSHA256_def clear_prims_def hex_encode_def hex_byte_def digit_char_def)


definition bob :: user where
  "bob = zero_user\<lparr>uID := ''u2'', uUsername := ''bob'', uRole := ''user'', uStatus := ''active'',
     uSSOProvider := ''kysignon'', uSSOSubject := ''ext1'', uRecoveryCodesHash := ''[]''\<rparr>"

definition bob_session :: session where
  "bob_session = alice_session\<lparr>sTokenHash := ''t2'', sUserID := ''u2''\<rparr>"

definition bob_world :: world where
  "bob_world = \<lparr>db = empty_db\<lparr>users := [alice, bob], sessions := [alice_session, bob_session],
     groups := [\<lparr>gID = ''g1'', gDisplayName = ''staff'', gExternalID = [], gCreatedAt = 0, gUpdatedAt = 0\<rparr>],
     group_members := [(''g1'', ''u2'')]\<rparr>, faults = []\<rparr>"

definition deactivate_body :: string where
  "deactivate_body = ''{'' @ jquote ''event'' @ '':'' @ jquote ''user.deactivated'' @ '','' @
     jquote ''id'' @ '':'' @ jquote ''ext1'' @ '','' @ jquote ''timestamp'' @ '':60}''"

definition deactivate_run where
  "deactivate_run = HandleSyncWebhook clear_prims (cfSSO demo_config) (60 * Second) (60 * Second) [] (\<lambda>_. [])
     deactivate_body (ComputeHMACSHA256 clear_prims deactivate_body ''hk'') bob_world"

lemma demo_deactivation: "fst deactivate_run = Inr ()"
  by code_simp

lemma demo_deactivation_payload:
  "map_option (\<lambda>p. (str_field p ''event'', str_field p ''id'')) (Unmarshal KySignOnSyncPayload deactivate_body) =
     Some (''user.deactivated'', ''ext1'')"
  by code_simp


section \<open>SCIM\<close>


definition promote_run where
  "promote_run = scim_user_Replace 0 (\<lambda>_. []) ''u2''
     [(''userName'', JStr ''bob''), (''roles'', JArr [JStr ''admin''])] bob_world"

lemma demo_promotion: "isl (fst promote_run) = False"
  by code_simp


text \<open>C19: after a SCIM replacement of a group its members are exactly the ones the request lists.\<close>

theorem scim_group_replace_members:
  assumes "scim_group_Replace now (\<lambda>_. []) i attrs w = (Inr res, w')"
  shows "{u. (i, u) \<in> set (group_members (db w'))} = set (memberValues (map_of attrs ''members''))"
  using scim_group_Replace_members [OF assms] by (simp add: set_members_of)

definition regroup_run where
  "regroup_run = scim_group_Replace 0 (\<lambda>_. []) ''g1''
     [(''displayName'', JStr ''staff''), (''members'', memberMaps [''u1''])] bob_world"

lemma demo_regroup: "isl (fst regroup_run) = False"
  by code_simp

theorem scim_group_replace_members_witness:
  "{u. (''g1'', u) \<in> set (group_members (db (snd regroup_run)))} = {''u1''}"
proof -
  obtain res where r: "scim_group_Replace 0 (\<lambda>_. []) ''g1''
      [(''displayName'', JStr ''staff''), (''members'', memberMaps [''u1''])] bob_world = (Inr res, snd regroup_run)"
    using demo_regroup unfolding regroup_run_def by (metis prod.collapse sum.collapse(2))
  show ?thesis
    using scim_group_replace_members [OF r] by (simp add: memberMaps_def memberValues_def member_value_def interfaceSlice_def)
qed

text \<open>
  The same holds of a PATCH, whatever its operation: adding one member to a group removes the
  others.
\<close>

lemma scim_patch_add_drops_members:
  assumes "scim_group_Patch now (\<lambda>_. []) i
      [\<lparr>opKind = ''add'', opPath = Some ''members'', opValue = memberMaps [u]\<rparr>] w = (Inr res, w')" "u \<noteq> []"
  shows "set (members_of i (db w')) = {u}"
  using scim_group_Patch_members [OF assms(1)] assms(2) by simp

end
