(* ===== verification/Api_Detached.thy ===== *)
theory Api_Detached
  imports Ky_Prelude
begin

text \<open>
  The counter of detached requests (\<^verbatim>\<open>detachedCounter\<close> and \<^verbatim>\<open>WaitDetached\<close> of
  \<^verbatim>\<open>internal/api/server.go\<close>) at the level of its lock and condition variable: any number of tracked
  requests and the one waiter of the shutdown, step by step. \<^verbatim>\<open>cond.Wait\<close> registers the waiter
  before it gives up the lock and wakes only by a broadcast, as \<^verbatim>\<open>sync.Cond\<close> documents.
\<close>

section \<open>Steps\<close>

text \<open>
  A request before \<^verbatim>\<open>add\<close>, inside it, running, inside \<^verbatim>\<open>done\<close>, between the unlock of \<^verbatim>\<open>done\<close> and
  its broadcast, and gone.
\<close>

datatype request_pc = Idle | AddLocked | Running | DoneLocked | MustBroadcast | Gone

text \<open>The waiter before the lock, at the loop's test, in \<^verbatim>\<open>cond.Wait\<close>, woken from it, returned.\<close>

datatype waiter_pc = Before | Testing | Parked | Woken | Returned

datatype holder = Free | ByRequest nat | ByWaiter

record detached =
  dtN :: int
  dtLock :: holder
  dtPcs :: "request_pc list"
  dtWaiter :: waiter_pc

datatype det_action = Arrive nat | Increment nat | Finish nat | Decrement nat | Broadcast nat | Lock | Wait | Return

abbreviation pc_at :: "detached \<Rightarrow> nat \<Rightarrow> request_pc \<Rightarrow> bool" where
  "pc_at s h p \<equiv> h < length (dtPcs s) \<and> dtPcs s ! h = p"

inductive det_step :: "detached \<Rightarrow> det_action \<Rightarrow> detached \<Rightarrow> bool" where
  arrive: "pc_at s h Idle \<Longrightarrow> dtLock s = Free \<Longrightarrow>
     det_step s (Arrive h) (s\<lparr>dtLock := ByRequest h, dtPcs := (dtPcs s)[h := AddLocked]\<rparr>)"
| increment: "pc_at s h AddLocked \<Longrightarrow>
     det_step s (Increment h) (s\<lparr>dtN := dtN s + 1, dtLock := Free, dtPcs := (dtPcs s)[h := Running]\<rparr>)"
| finish: "pc_at s h Running \<Longrightarrow> dtLock s = Free \<Longrightarrow>
     det_step s (Finish h) (s\<lparr>dtLock := ByRequest h, dtPcs := (dtPcs s)[h := DoneLocked]\<rparr>)"
| decrement: "pc_at s h DoneLocked \<Longrightarrow>
     det_step s (Decrement h) (s\<lparr>dtN := dtN s - 1, dtLock := Free, dtPcs := (dtPcs s)[h := MustBroadcast]\<rparr>)"
| broadcast: "pc_at s h MustBroadcast \<Longrightarrow>
     det_step s (Broadcast h) (s\<lparr>dtPcs := (dtPcs s)[h := Gone],
       dtWaiter := (if dtWaiter s = Parked then Woken else dtWaiter s)\<rparr>)"
| lock: "dtWaiter s \<in> {Before, Woken} \<Longrightarrow> dtLock s = Free \<Longrightarrow>
     det_step s Lock (s\<lparr>dtLock := ByWaiter, dtWaiter := Testing\<rparr>)"
| wait: "dtWaiter s = Testing \<Longrightarrow> dtN s > 0 \<Longrightarrow>
     det_step s Wait (s\<lparr>dtLock := Free, dtWaiter := Parked\<rparr>)"
| return: "dtWaiter s = Testing \<Longrightarrow> \<not> dtN s > 0 \<Longrightarrow>
     det_step s Return (s\<lparr>dtLock := Free, dtWaiter := Returned\<rparr>)"

inductive_cases det_stepE: "det_step s a s'"

text \<open>The zero value of the counter, \<open>k\<close> requests that may come, a waiter that may start.\<close>

definition det_start :: "nat \<Rightarrow> detached" where
  "det_start k = \<lparr>dtN = 0, dtLock = Free, dtPcs = replicate k Idle, dtWaiter = Before\<rparr>"

inductive det_reachable :: "detached \<Rightarrow> bool" where
  start: "det_reachable (det_start k)"
| step: "det_reachable s \<Longrightarrow> det_step s a s' \<Longrightarrow> det_reachable s'"

section \<open>The invariant\<close>

definition sum_pcs :: "(request_pc \<Rightarrow> int) \<Rightarrow> request_pc list \<Rightarrow> int" where
  "sum_pcs f ps = sum_list (map f ps)"

lemma sum_pcs_update: "h < length ps \<Longrightarrow> sum_pcs f (ps[h := p]) = sum_pcs f ps + f p - f (ps ! h)"
proof (induction ps arbitrary: h)
  case (Cons q ps)
  then show ?case by (cases h) (simp_all add: sum_pcs_def)
qed simp

lemma sum_pcs_nonneg: "(\<And>p. 0 \<le> f p) \<Longrightarrow> 0 \<le> sum_pcs f ps"
  by (induction ps) (simp_all add: sum_pcs_def)

lemma sum_pcs_pos: "(\<And>p. 0 \<le> f p) \<Longrightarrow> 0 < sum_pcs f ps \<longleftrightarrow> (\<exists>p \<in> set ps. 0 < f p)"
proof (induction ps)
  case (Cons q ps)
  have "0 \<le> f q" "0 \<le> sum_pcs f ps" using Cons.prems sum_pcs_nonneg by blast+
  then have "0 < f q + sum_pcs f ps \<longleftrightarrow> 0 < f q \<or> 0 < sum_pcs f ps" by linarith
  with Cons.IH [OF Cons.prems] show ?case by (simp add: sum_pcs_def)
qed (simp add: sum_pcs_def)

text \<open>The requests that \<open>n\<close> counts: those that are past \<^verbatim>\<open>add\<close> and have not yet decremented.\<close>

fun counted :: "request_pc \<Rightarrow> int" where
  "counted Running = 1"
| "counted DoneLocked = 1"
| "counted _ = 0"

text \<open>
  The lock is held by whoever is inside it, and a parked waiter is not forgotten: there is
  still a request to count down, or one whose broadcast is to come.
\<close>

definition det_ok :: "detached \<Rightarrow> bool" where
  "det_ok s \<longleftrightarrow> dtN s = sum_pcs counted (dtPcs s) \<and>
     (\<forall>h < length (dtPcs s). dtPcs s ! h \<in> {AddLocked, DoneLocked} \<longleftrightarrow> dtLock s = ByRequest h) \<and>
     (\<forall>h. dtLock s = ByRequest h \<longrightarrow> h < length (dtPcs s)) \<and>
     (dtWaiter s = Testing \<longleftrightarrow> dtLock s = ByWaiter) \<and>
     (dtWaiter s = Parked \<longrightarrow> dtN s > 0 \<or> MustBroadcast \<in> set (dtPcs s))"

lemma counted_nonneg: "0 \<le> counted p" by (cases p) simp_all

lemma in_set_update: "h < length ps \<Longrightarrow> p \<in> set ps \<Longrightarrow> ps ! h \<noteq> p \<Longrightarrow> p \<in> set (ps[h := q])"
  by (metis in_set_conv_nth length_list_update nth_list_update_neq)

lemma det_ok_start: "det_ok (det_start k)"
  by (simp add: det_ok_def det_start_def sum_pcs_def sum_list_replicate)

lemma det_ok_step:
  assumes "det_step s a s'" "det_ok s"
  shows "det_ok s'"
  using assms(1)
proof cases
  case (arrive h)
  with assms(2) show ?thesis
    by (auto simp: det_ok_def sum_pcs_update nth_list_update intro: in_set_update)
next
  case (increment h)
  with assms(2) have "dtLock s = ByRequest h" "0 \<le> dtN s"
    using sum_pcs_nonneg [OF counted_nonneg] by (auto simp: det_ok_def)
  with increment assms(2) show ?thesis
    by (auto simp: det_ok_def sum_pcs_update nth_list_update)
next
  case (finish h)
  with assms(2) show ?thesis
    by (auto simp: det_ok_def sum_pcs_update nth_list_update intro: in_set_update)
next
  case (decrement h)
  with assms(2) have "dtLock s = ByRequest h" by (auto simp: det_ok_def)
  with decrement assms(2) show ?thesis
    by (auto simp: det_ok_def sum_pcs_update nth_list_update set_update_memI)
next
  case (broadcast h)
  with assms(2) show ?thesis
    by (auto simp: det_ok_def sum_pcs_update nth_list_update)
qed (use assms(2) in \<open>auto simp: det_ok_def\<close>)

lemma reachable_det_ok: "det_reachable s \<Longrightarrow> det_ok s"
  by (induction rule: det_reachable.induct) (auto intro: det_ok_start det_ok_step)

section \<open>Progress\<close>

fun request_weight :: "request_pc \<Rightarrow> int" where
  "request_weight AddLocked = 6"
| "request_weight Running = 5"
| "request_weight DoneLocked = 4"
| "request_weight MustBroadcast = 3"
| "request_weight _ = 0"

fun waiter_weight :: "waiter_pc \<Rightarrow> int" where
  "waiter_weight Before = 2"
| "waiter_weight Woken = 2"
| "waiter_weight Testing = 1"
| "waiter_weight _ = 0"

text \<open>How many steps other than arrivals are left at most.\<close>

definition det_left :: "detached \<Rightarrow> int" where
  "det_left s = sum_pcs request_weight (dtPcs s) + waiter_weight (dtWaiter s)"

lemma det_left_nonneg: "0 \<le> det_left s"
proof -
  have "0 \<le> request_weight p" for p by (cases p) simp_all
  then have "0 \<le> sum_pcs request_weight (dtPcs s)" by (rule sum_pcs_nonneg)
  moreover have "0 \<le> waiter_weight (dtWaiter s)" by (cases "dtWaiter s") simp_all
  ultimately show ?thesis by (simp add: det_left_def)
qed

lemma det_left_step:
  assumes "det_step s a s'" "\<forall>h. a \<noteq> Arrive h"
  shows "det_left s' < det_left s"
  using assms by cases (auto simp: det_left_def sum_pcs_update)

text \<open>Until the waiter has returned, some step other than an arrival can be made.\<close>

lemma det_progress:
  assumes "det_ok s" "dtWaiter s \<noteq> Returned"
  shows "\<exists>a s'. det_step s a s' \<and> (\<forall>h. a \<noteq> Arrive h)"
proof (cases "dtLock s")
  case (ByRequest h)
  with assms(1) have "pc_at s h AddLocked \<or> pc_at s h DoneLocked" by (auto simp: det_ok_def)
  then show ?thesis by (blast intro: det_step.increment det_step.decrement)
next
  case ByWaiter
  with assms(1) have "dtWaiter s = Testing" by (simp add: det_ok_def)
  then show ?thesis by (cases "dtN s > 0") (blast intro: det_step.wait det_step.return)+
next
  case Free
  show ?thesis
  proof (cases "dtWaiter s")
    case Parked
    have "0 < dtN s \<or> MustBroadcast \<in> set (dtPcs s)" using assms(1) Parked unfolding det_ok_def by blast
    then show ?thesis
    proof
      assume "0 < dtN s"
      then have "\<exists>p \<in> set (dtPcs s). 0 < counted p"
        using assms(1) sum_pcs_pos [OF counted_nonneg] by (simp add: det_ok_def)
      then obtain h where h: "h < length (dtPcs s)" "0 < counted (dtPcs s ! h)" by (metis in_set_conv_nth)
      with assms(1) Free have "pc_at s h Running" by (cases "dtPcs s ! h") (auto simp: det_ok_def)
      with Free show ?thesis by (blast intro: det_step.finish)
    next
      assume "MustBroadcast \<in> set (dtPcs s)"
      then obtain h where "pc_at s h MustBroadcast" by (metis in_set_conv_nth)
      then show ?thesis by (blast intro: det_step.broadcast)
    qed
  next
    case Testing
    with assms(1) Free show ?thesis by (simp add: det_ok_def)
  qed (use assms(2) Free in \<open>blast intro: det_step.lock\<close>)+
qed

text \<open>Steps other than arrivals.\<close>

inductive det_drains :: "nat \<Rightarrow> detached \<Rightarrow> detached \<Rightarrow> bool" where
  stop: "det_drains 0 s s"
| more: "det_step s a s' \<Longrightarrow> \<forall>h. a \<noteq> Arrive h \<Longrightarrow> det_drains n s' s'' \<Longrightarrow> det_drains (Suc n) s s''"

lemma det_drains_left: "det_drains n s s' \<Longrightarrow> int n + det_left s' \<le> det_left s"
  by (induction rule: det_drains.induct) (auto dest: det_left_step)

lemma det_drains_ok: "det_drains n s s' \<Longrightarrow> det_ok s \<Longrightarrow> det_ok s'"
  by (induction rule: det_drains.induct) (auto intro: det_ok_step)

lemma det_drains_snoc:
  "det_drains n s s' \<Longrightarrow> det_step s' a s'' \<Longrightarrow> \<forall>h. a \<noteq> Arrive h \<Longrightarrow> det_drains (Suc n) s s''"
  by (induction rule: det_drains.induct) (auto intro: det_drains.intros)

section \<open>Properties\<close>

text \<open>C21: \<^verbatim>\<open>WaitDetached\<close> does not return early: however any number of tracked requests and the waiter
  interleave, at the step where the waiter returns no request is between its \<^verbatim>\<open>add\<close> and its \<^verbatim>\<open>done\<close>,
  and the count is zero.\<close>

theorem wait_returns_after_all:
  assumes "det_reachable s" "det_step s a s'" "dtWaiter s \<noteq> Returned" "dtWaiter s' = Returned"
  shows "dtN s' = 0 \<and> set (dtPcs s') \<subseteq> {Idle, MustBroadcast, Gone}"
proof -
  have ok: "det_ok s" using reachable_det_ok assms(1) .
  from assms(2-4) have r: "dtWaiter s = Testing" "\<not> dtN s > 0" "s' = s\<lparr>dtLock := Free, dtWaiter := Returned\<rparr>"
    by (auto elim: det_stepE split: if_splits)
  have "0 \<le> dtN s" "\<not> (\<exists>p \<in> set (dtPcs s). 0 < counted p)"
    using ok r(2) sum_pcs_nonneg [of counted] sum_pcs_pos [of counted] counted_nonneg by (simp_all add: det_ok_def)
  moreover have "p \<noteq> AddLocked" if "p \<in> set (dtPcs s)" for p
    using that ok r(1) by (auto simp: det_ok_def in_set_conv_nth)
  ultimately have "p \<in> {Idle, MustBroadcast, Gone}" if "p \<in> set (dtPcs s)" for p
    using that by (cases p) auto
  with r \<open>0 \<le> dtN s\<close> show ?thesis by auto
qed

text \<open>C22: and it does return: once no more requests arrive, no wake-up is lost and there is no
  deadlock, so every run is finite, bounded by six steps a request and two for the waiter, and
  can only end with the waiter returned.\<close>

theorem wait_returns_eventually:
  assumes "det_reachable s" "det_drains n s s'"
  shows "int n \<le> 6 * int (length (dtPcs s)) + 2 \<and>
    (dtWaiter s' = Returned \<or> (\<exists>s''. det_drains (Suc n) s s''))"
proof -
  have "sum_pcs request_weight ps \<le> 6 * int (length ps)" for ps
  proof (induction ps)
    case (Cons p ps)
    then show ?case by (cases p) (simp_all add: sum_pcs_def)
  qed (simp add: sum_pcs_def)
  moreover have "waiter_weight (dtWaiter s) \<le> 2" by (cases "dtWaiter s") simp_all
  ultimately have "det_left s \<le> 6 * int (length (dtPcs s)) + 2" unfolding det_left_def by (meson add_mono)
  moreover have "int n \<le> det_left s" using det_drains_left [OF assms(2)] det_left_nonneg [of s'] by linarith
  moreover have "\<exists>s''. det_drains (Suc n) s s''" if "dtWaiter s' \<noteq> Returned"
    using det_progress [OF det_drains_ok [OF assms(2) reachable_det_ok [OF assms(1)]] that]
      det_drains_snoc [OF assms(2)] by blast
  ultimately show ?thesis by force
qed

text \<open>One request that arrives, and a waiter that parks behind it.\<close>

definition parked_state :: detached where
  "parked_state = \<lparr>dtN = 1, dtLock = Free, dtPcs = [Running], dtWaiter = Parked\<rparr>"

definition woken_state :: detached where
  "woken_state = \<lparr>dtN = 0, dtLock = ByWaiter, dtPcs = [Gone], dtWaiter = Testing\<rparr>"

lemma parked_reachable: "det_reachable parked_state"
proof -
  have 1: "det_step (det_start 1) (Arrive 0) \<lparr>dtN = 0, dtLock = ByRequest 0, dtPcs = [AddLocked], dtWaiter = Before\<rparr>"
    using det_step.arrive [of 0 "det_start 1"] by (simp add: det_start_def)
  have 2: "det_step \<lparr>dtN = 0, dtLock = ByRequest 0, dtPcs = [AddLocked], dtWaiter = Before\<rparr> (Increment 0)
      \<lparr>dtN = 1, dtLock = Free, dtPcs = [Running], dtWaiter = Before\<rparr>"
    using det_step.increment [of 0 "\<lparr>dtN = 0, dtLock = ByRequest 0, dtPcs = [AddLocked], dtWaiter = Before\<rparr>"] by simp
  have 3: "det_step \<lparr>dtN = 1, dtLock = Free, dtPcs = [Running], dtWaiter = Before\<rparr> Lock
      \<lparr>dtN = 1, dtLock = ByWaiter, dtPcs = [Running], dtWaiter = Testing\<rparr>"
    using det_step.lock [of "\<lparr>dtN = 1, dtLock = Free, dtPcs = [Running], dtWaiter = Before\<rparr>"] by simp
  have 4: "det_step \<lparr>dtN = 1, dtLock = ByWaiter, dtPcs = [Running], dtWaiter = Testing\<rparr> Wait parked_state"
    using det_step.wait [of "\<lparr>dtN = 1, dtLock = ByWaiter, dtPcs = [Running], dtWaiter = Testing\<rparr>"]
    by (simp add: parked_state_def)
  show ?thesis by (rule det_reachable.step [OF det_reachable.step [OF det_reachable.step [OF det_reachable.step
    [OF det_reachable.start 1] 2] 3] 4])
qed

lemma parked_drains: "det_drains 4 parked_state woken_state"
proof -
  let ?a = "\<lparr>dtN = 1, dtLock = ByRequest 0, dtPcs = [DoneLocked], dtWaiter = Parked\<rparr>"
  let ?b = "\<lparr>dtN = 0, dtLock = Free, dtPcs = [MustBroadcast], dtWaiter = Parked\<rparr>"
  let ?c = "\<lparr>dtN = 0, dtLock = Free, dtPcs = [Gone], dtWaiter = Woken\<rparr>"
  have "det_step parked_state (Finish 0) ?a" "det_step ?a (Decrement 0) ?b" "det_step ?b (Broadcast 0) ?c"
    "det_step ?c Lock woken_state"
    using det_step.finish [of 0 parked_state] det_step.decrement [of 0 ?a] det_step.broadcast [of 0 ?b] det_step.lock [of ?c]
    by (simp_all add: parked_state_def woken_state_def)
  then show ?thesis by (auto simp: numeral_eq_Suc intro!: det_drains.intros)
qed

lemma drains_reachable: "det_drains n s s' \<Longrightarrow> det_reachable s \<Longrightarrow> det_reachable s'"
  by (induction rule: det_drains.induct) (auto intro: det_reachable.step)

theorem wait_returns_after_all_witness:
  "set (dtPcs (woken_state\<lparr>dtLock := Free, dtWaiter := Returned\<rparr>)) \<subseteq> {Idle, MustBroadcast, Gone}"
proof -
  have "det_step woken_state Return (woken_state\<lparr>dtLock := Free, dtWaiter := Returned\<rparr>)"
    by (rule det_step.return) (simp_all add: woken_state_def)
  from wait_returns_after_all [OF drains_reachable [OF parked_drains parked_reachable] this] show ?thesis
    by (simp add: woken_state_def)
qed

theorem wait_returns_eventually_witness: "\<exists>s''. det_drains 5 parked_state s''"
proof -
  have "dtWaiter woken_state = Returned \<or> (\<exists>s''. det_drains (Suc 4) parked_state s'')"
    using wait_returns_eventually [OF parked_reachable parked_drains] by blast
  then show ?thesis by (simp add: woken_state_def eval_nat_numeral)
qed

end
