(* ===== verification/Backup_Core.thy ===== *)
theory Backup_Core
  imports Ky_Config Go_Strconv Go_Json "HOL-Library.List_Lexorder" "HOL-Library.Char_ord"
begin

text \<open>
  \<^verbatim>\<open>internal/backup\<close>: what a capsule carries (\<^verbatim>\<open>payload.go\<close>), the checks of a restore drill
  (\<^verbatim>\<open>drill.go\<close>) and the lock around a drill (\<^verbatim>\<open>run_drill.go\<close>). The file system is a record of
  functions, and so is the library \<^verbatim>\<open>recoveryclient\<close> where the code calls it.
\<close>

section \<open>Errors and values of the library\<close>

text \<open>An error is its text and the sentinels that \<^verbatim>\<open>errors.Is\<close> finds in it.\<close>

datatype sentinel =
    RcErrNotFound | RcErrNotPaired | RcErrKeyMismatch | RcErrKeyPinMissing | RcErrNoDestination
  | RcErrInProgress | RcErrPrivateDestination | RcErrRemote | RcErrReceiptUnrecorded | RcErrBadInterval
  | ErrCapsuleTooLarge | FsErrExist | ErrNoDatabaseSnapshot | ErrDrillBusy

record lib_error =
  leText :: string
  leIs :: "sentinel list"

definition Is :: "lib_error \<Rightarrow> sentinel \<Rightarrow> bool" where
  "Is e s \<longleftrightarrow> s \<in> set (leIs e)"

definition plain_error :: "string \<Rightarrow> lib_error" where
  "plain_error t = \<lparr>leText = t, leIs = []\<rparr>"

record bk_file =
  bfPath :: string
  bfData :: string
  bfMode :: int

record payload =
  plServiceName :: string
  plAppVersion :: string
  plFiles :: "bk_file list"
  plDependencies :: json
  plVerificationRecipe :: json

text \<open>What an opened capsule's manifest says: its recipe and the paths of its members.\<close>

record opened =
  opRecipe :: json
  opFiles :: "string list"

record check =
  chName :: string
  chPassed :: bool
  chMessage :: string

section \<open>The file system and what is read through it\<close>

datatype flock = FlockHeld | FlockWouldBlock | FlockFailed string

text \<open>
  \<open>dkLstat\<close> answers whether a file is regular and its size, \<open>dkIntegrity\<close> what
  \<^verbatim>\<open>PRAGMA integrity_check\<close> answers on the database at an absolute path.
\<close>

record disk =
  dkOpenDB :: "string \<Rightarrow> string option"
  dkMkdirTemp :: "string \<Rightarrow> string \<Rightarrow> string + string"
  dkSQLiteSnapshot :: "string \<Rightarrow> string \<Rightarrow> string option"
  dkReadFile :: "string \<Rightarrow> string + string"
  dkStat :: "string \<Rightarrow> bool"
  dkLstat :: "string \<Rightarrow> (bool \<times> int) option"
  dkAbs :: "string \<Rightarrow> string option"
  dkOpenReadOnly :: "string \<Rightarrow> bool"
  dkIntegrity :: "string \<Rightarrow> string option"
  dkLookupEnv :: "string \<Rightarrow> bool"
  dkOpenLock :: "string \<Rightarrow> string option"
  dkFlock :: "string \<Rightarrow> flock"
  dkMkdirAll :: "string \<Rightarrow> string option"
  dkChmod :: "string \<Rightarrow> string option"
  dkRecoveryKeyPath :: "string \<Rightarrow> string"

section \<open>Payload\<close>

definition encryptionKeyPath :: string where "encryptionKeyPath = ''data/encryption.key''"
definition recoveryPubPath :: string where "recoveryPubPath = ''data/recovery.pub''"
definition dbPath :: string where "dbPath = ''data/ky_server.db''"

text \<open>\<^verbatim>\<open>json.MarshalIndent(_, "", "  ")\<close> of an object in the order of its members.\<close>

definition newline :: "nat \<Rightarrow> string" where
  "newline depth = CHR 0x0A # concat (replicate depth ''  '')"

fun MarshalIndent :: "nat \<Rightarrow> json \<Rightarrow> string" where
  "MarshalIndent d (JArr js) = (if js = [] then ''[]''
     else ''['' @ newline (d + 1) @ Join (map (MarshalIndent (d + 1)) js) ('','' @ newline (d + 1)) @ newline d @ '']'')"
| "MarshalIndent d (JObj ms) = (if ms = [] then ''{}''
     else ''{'' @ newline (d + 1) @
       Join (map (\<lambda>(k, j). quoted k @ '': '' @ MarshalIndent (d + 1) j) ms) ('','' @ newline (d + 1)) @ newline d @ ''}'')"
| "MarshalIndent d j = Marshal j"

definition server_config_json :: "ServerConfig \<Rightarrow> json" where
  "server_config_json c = JObj
     [(''host'', JStr (svHost c)), (''port'', JNum (Itoa (svPort c))), (''app_url'', JStr (svAppURL c)),
      (''app_name'', JStr (svAppName c)), (''read_timeout'', JNum (Itoa (svReadTimeout c))),
      (''write_timeout'', JNum (Itoa (svWriteTimeout c))), (''environment'', JStr (svEnvironment c))]"

definition settings_file :: "Config \<Rightarrow> string" where
  "settings_file cfg = MarshalIndent 0 (JObj
     [(''database'', JObj [(''driver'', JStr (dbDriver (cfDatabase cfg)))]),
      (''server'', server_config_json (cfServer cfg))])"

text \<open>
  A copy of the live database in a temporary directory. The text of a failed snapshot starts with
  that of the sentinel.
\<close>

definition no_snapshot_text :: string where
  "no_snapshot_text = ''backup: no consistent database snapshot for this driver''"

definition snapshotSQLite :: "disk \<Rightarrow> string \<Rightarrow> string \<Rightarrow> lib_error + string" where
  "snapshotSQLite dk dsn dataDir =
     (case dkOpenDB dk dsn of
        Some e \<Rightarrow> Inl (plain_error e)
      | None \<Rightarrow>
          (case dkMkdirTemp dk dataDir ''snapshot-*'' of
             Inl e \<Rightarrow> Inl (plain_error e)
           | Inr dir \<Rightarrow>
               (let path = filepath_Join [dir, ''ky_server.db'']
                in case dkSQLiteSnapshot dk dsn path of
                     Some e \<Rightarrow> Inl \<lparr>leText = no_snapshot_text @ '': '' @ e, leIs = [ErrNoDatabaseSnapshot]\<rparr>
                   | None \<Rightarrow> map_sum plain_error id (dkReadFile dk path))))"

definition requiredFiles :: "bk_file list \<Rightarrow> string list" where
  "requiredFiles files = map bfPath files"

definition string_array :: "string list \<Rightarrow> json" where
  "string_array ss = JArr (map JStr ss)"

definition required_env :: "string list" where "required_env = [''KY_PORT'', ''KY_DB_DRIVER'']"

definition recipe_json :: "Config \<Rightarrow> bk_file list \<Rightarrow> json" where
  "recipe_json cfg files = JObj
     [(''check_sqlite_integrity'', JBool True), (''expected_env'', string_array required_env),
      (''expected_ports'', JArr [JNum (Itoa (svPort (cfServer cfg)))]),
      (''required_files'', string_array (requiredFiles files)), (''sqlite_paths'', string_array [dbPath])]"

definition CollectPayload :: "disk \<Rightarrow> Config \<Rightarrow> string \<Rightarrow> lib_error + payload" where
  "CollectPayload dk cfg appVersion =
     (if ToLower (dbDriver (cfDatabase cfg)) \<noteq> ''sqlite''
      then Inl \<lparr>leText = no_snapshot_text @ '': '' @ dbDriver (cfDatabase cfg), leIs = [ErrNoDatabaseSnapshot]\<rparr>
      else case snapshotSQLite dk (dbDSN (cfDatabase cfg)) (dbDataDir (cfDatabase cfg)) of
        Inl e \<Rightarrow> Inl e
      | Inr dbBytes \<Rightarrow>
          (let key = scEncryptionKey (cfSecurity cfg)
           in if length key \<noteq> 32
              then Inl (plain_error (''backup: encryption key is '' @ Itoa (int (length key)) @
                '' bytes, want 32; refusing to seal a capsule that cannot decrypt what it restores''))
              else (let files =
                  [\<lparr>bfPath = dbPath, bfData = dbBytes, bfMode = 384\<rparr>,
                   \<lparr>bfPath = ''config/settings.json'', bfData = settings_file cfg, bfMode = 384\<rparr>,
                   \<lparr>bfPath = encryptionKeyPath, bfData = hex_encode key @ [CHR 0x0A], bfMode = 384\<rparr>] @
                  (case dkReadFile dk (dkRecoveryKeyPath dk (dbDataDir (cfDatabase cfg))) of
                     Inl _ \<Rightarrow> []
                   | Inr pub \<Rightarrow> [\<lparr>bfPath = recoveryPubPath, bfData = pub, bfMode = 384\<rparr>])
                in Inr \<lparr>plServiceName = svAppName (cfServer cfg), plAppVersion = appVersion, plFiles = files,
                     plDependencies = JObj [(''env'', string_array required_env),
                       (''ports'', JArr [JNum (Itoa (svPort (cfServer cfg)))])],
                     plVerificationRecipe = recipe_json cfg files\<rparr>)))"

definition Members :: "disk \<Rightarrow> Config \<Rightarrow> string list" where
  "Members dk cfg = [dbPath, ''config/settings.json'', encryptionKeyPath] @
     (if dkStat dk (dkRecoveryKeyPath dk (dbDataDir (cfDatabase cfg))) then [recoveryPubPath] else [])"

section \<open>Drill\<close>

definition recipeFailure :: "string \<Rightarrow> check list" where
  "recipeFailure message = [\<lparr>chName = ''Verification Recipe'', chPassed = False, chMessage = message\<rparr>]"

fun all_strings :: "json list \<Rightarrow> (string list) option" where
  "all_strings [] = Some []"
| "all_strings (JStr s # js) = map_option ((#) s) (all_strings js)"
| "all_strings (_ # js) = None"

definition recipeStrings :: "json option \<Rightarrow> string + string list" where
  "recipeStrings v = (case v of
     Some (JArr js) \<Rightarrow>
       (case all_strings js of
          None \<Rightarrow> Inl ''expected strings''
        | Some ss \<Rightarrow>
            if ss = [] then Inl ''expected a nonempty string list''
            else if \<exists>s \<in> set ss. TrimSpace s = [] \<or> CHR 0x00 \<in> set s
            then Inl ''invalid empty or NUL-containing member''
            else Inr ss)
   | _ \<Rightarrow> Inl ''expected a nonempty string list'')"

text \<open>The path of a capsule member below the drill's directory, for clean local names only.\<close>

definition drillPath :: "string \<Rightarrow> string \<Rightarrow> string option" where
  "drillPath root name =
     (if Clean name \<noteq> name \<or> Clean name = ''.'' \<or> \<not> IsLocal name \<or> CHR 0x5C \<in> set name \<or> CHR 0x00 \<in> set name
      then None else Some (filepath_Join [root, name]))"

definition regular_file :: "disk \<Rightarrow> string \<Rightarrow> bool" where
  "regular_file dk path \<longleftrightarrow> (case dkLstat dk path of Some (regular, sz) \<Rightarrow> regular \<and> sz \<noteq> 0 | None \<Rightarrow> False)"

definition sqliteIntegrityCheck :: "disk \<Rightarrow> string \<Rightarrow> string \<Rightarrow> check" where
  "sqliteIntegrityCheck dk name path =
     (let fail = (\<lambda>message. \<lparr>chName = ''SQLite Integrity: '' @ name, chPassed = False, chMessage = message\<rparr>)
      in if \<not> regular_file dk path then fail ''Database missing, empty or not regular''
         else case dkAbs dk path of
           None \<Rightarrow> fail ''Invalid database path''
         | Some absolute \<Rightarrow>
             if \<not> dkOpenReadOnly dk absolute then fail ''Failed to open database''
             else if dkIntegrity dk absolute \<noteq> Some ''ok'' then fail ''PRAGMA integrity_check failed''
             else \<lparr>chName = ''SQLite Integrity: '' @ name, chPassed = True,
                    chMessage = ''PRAGMA integrity_check passed ok''\<rparr>)"

text \<open>The first of the names that a list does not contain.\<close>

definition omitted :: "string list \<Rightarrow> string list \<Rightarrow> string option" where
  "omitted names have_names = find (\<lambda>n. n \<notin> set have_names) names"

definition file_checks :: "disk \<Rightarrow> string \<Rightarrow> string list \<Rightarrow> check list" where
  "file_checks dk dir required =
     (let bad = filter (\<lambda>n. \<not> regular_file dk (the (drillPath dir n))) required
      in map (\<lambda>n. \<lparr>chName = ''Required File: '' @ n, chPassed = False, chMessage = ''File missing, empty or not regular''\<rparr>) bad @
         (if bad = [] then [\<lparr>chName = ''Required Files'', chPassed = True,
            chMessage = ''All '' @ Itoa (int (length required)) @ '' required files verified''\<rparr>] else []))"

definition env_check :: "disk \<Rightarrow> string \<Rightarrow> check" where
  "env_check dk name = \<lparr>chName = ''Environment: '' @ name, chPassed = dkLookupEnv dk name,
     chMessage = (if dkLookupEnv dk name then ''Configured'' else ''Missing'')\<rparr>"

definition Checks :: "disk \<Rightarrow> string \<Rightarrow> opened \<Rightarrow> check list" where
  "Checks dk dir op =
     (case opRecipe op of
        JObj recipe \<Rightarrow>
          (case recipeStrings (map_of recipe ''required_files'') of
             Inl e \<Rightarrow> recipeFailure (''required_files: '' @ e)
           | Inr required \<Rightarrow>
           (case recipeStrings (map_of recipe ''sqlite_paths'') of
             Inl e \<Rightarrow> recipeFailure (''sqlite_paths: '' @ e)
           | Inr sqlitePaths \<Rightarrow>
           (case recipeStrings (map_of recipe ''expected_env'') of
             Inl e \<Rightarrow> recipeFailure (''expected_env: '' @ e)
           | Inr env \<Rightarrow>
             if map_of recipe ''check_sqlite_integrity'' \<noteq> Some (JBool True)
             then recipeFailure ''check_sqlite_integrity must be true''
             else (case omitted [dbPath, ''config/settings.json'', encryptionKeyPath] required of
               Some n \<Rightarrow> recipeFailure (''required_files omits '' @ n)
             | None \<Rightarrow>
               if dbPath \<notin> set sqlitePaths then recipeFailure ''sqlite_paths omits the database''
               else (case omitted required_env env of
                 Some n \<Rightarrow> recipeFailure (''expected_env omits '' @ n)
               | None \<Rightarrow>
                 if omitted (opFiles op) required \<noteq> None
                 then recipeFailure ''required_files omits a capsule member''
                 else if \<exists>n \<in> set (required @ sqlitePaths). drillPath dir n = None \<or> n \<notin> set (opFiles op)
                 then recipeFailure ''File check must name a clean relative capsule member''
                 else file_checks dk dir required @
                   map (\<lambda>n. sqliteIntegrityCheck dk n (the (drillPath dir n))) sqlitePaths @
                   map (env_check dk) env)))))
      | _ \<Rightarrow> recipeFailure ''Expected a recipe object'')"

definition DrillRoot :: "Config \<Rightarrow> string" where
  "DrillRoot cfg = filepath_Join [dbDataDir (cfDatabase cfg), ''drill'']"

text \<open>The lock file serialises the drills of one data directory; \<open>drill\<close> is the library's drill.\<close>

definition RunDrill :: "disk \<Rightarrow> (string \<Rightarrow> payload \<Rightarrow> lib_error + json) \<Rightarrow> Config \<Rightarrow> payload \<Rightarrow> lib_error + json" where
  "RunDrill dk drill cfg pl =
     (let lock = filepath_Join [dbDataDir (cfDatabase cfg), ''drill.lock'']; root = DrillRoot cfg
      in case dkOpenLock dk lock of
           Some e \<Rightarrow> Inl (plain_error e)
         | None \<Rightarrow> (case dkFlock dk lock of
             FlockWouldBlock \<Rightarrow> Inl \<lparr>leText = ''backup: a restore drill is already running'', leIs = [ErrDrillBusy]\<rparr>
           | FlockFailed e \<Rightarrow> Inl (plain_error e)
           | FlockHeld \<Rightarrow> (case dkMkdirAll dk root of
               Some e \<Rightarrow> Inl (plain_error e)
             | None \<Rightarrow> (case dkChmod dk root of
                 Some e \<Rightarrow> Inl (plain_error e)
               | None \<Rightarrow> drill root pl))))"

section \<open>Laws\<close>

lemma all_strings_JStr: "all_strings (map JStr ss) = Some ss"
  by (induction ss) simp_all

lemma recipeStrings_array:
  assumes "ss \<noteq> []" "\<forall>s \<in> set ss. TrimSpace s \<noteq> [] \<and> CHR 0x00 \<notin> set s"
  shows "recipeStrings (Some (string_array ss)) = Inr ss"
  using assms by (auto simp: recipeStrings_def string_array_def all_strings_JStr)

definition capsule_paths :: "string list" where
  "capsule_paths = [dbPath, ''config/settings.json'', encryptionKeyPath, recoveryPubPath]"

lemma capsule_paths_fine:
  "\<forall>s \<in> set (capsule_paths @ required_env). TrimSpace s \<noteq> [] \<and> CHR 0x00 \<notin> set s"
  "\<forall>p \<in> set capsule_paths. Clean p = p \<and> p \<noteq> ''.'' \<and> IsLocal p \<and> CHR 0x5C \<notin> set p \<and> CHR 0x00 \<notin> set p"
  by code_simp+

lemma CollectPayload_files:
  assumes "CollectPayload dk cfg v = Inr pl"
  shows "\<exists>db more. plFiles pl =
      [\<lparr>bfPath = dbPath, bfData = db, bfMode = 384\<rparr>,
       \<lparr>bfPath = ''config/settings.json'', bfData = settings_file cfg, bfMode = 384\<rparr>,
       \<lparr>bfPath = encryptionKeyPath, bfData = hex_encode (scEncryptionKey (cfSecurity cfg)) @ [CHR 0x0A], bfMode = 384\<rparr>] @ more \<and>
     snapshotSQLite dk (dbDSN (cfDatabase cfg)) (dbDataDir (cfDatabase cfg)) = Inr db \<and>
     more = (case dkReadFile dk (dkRecoveryKeyPath dk (dbDataDir (cfDatabase cfg))) of
       Inl _ \<Rightarrow> [] | Inr pub \<Rightarrow> [\<lparr>bfPath = recoveryPubPath, bfData = pub, bfMode = 384\<rparr>]) \<and>
     length (scEncryptionKey (cfSecurity cfg)) = 32 \<and> ToLower (dbDriver (cfDatabase cfg)) = ''sqlite'' \<and>
     plVerificationRecipe pl = recipe_json cfg (plFiles pl)"
  using assms by (auto simp: CollectPayload_def Let_def split: if_splits sum.splits)

lemma drillPath_capsule: "p \<in> set capsule_paths \<Longrightarrow> drillPath dir p = Some (filepath_Join [dir, p])"
  using capsule_paths_fine(2) by (auto simp: drillPath_def)

text \<open>The members the screen lists are those \<^verbatim>\<open>Collect\<close> would seal.\<close>

lemma Members_CollectPayload:
  assumes "CollectPayload dk cfg v = Inr pl"
    and "dkStat dk (dkRecoveryKeyPath dk (dbDataDir (cfDatabase cfg))) \<longleftrightarrow>
      \<not> isl (dkReadFile dk (dkRecoveryKeyPath dk (dbDataDir (cfDatabase cfg))))"
  shows "map bfPath (plFiles pl) = Members dk cfg"
  using CollectPayload_files [OF assms(1)] assms(2) by (auto simp: Members_def split: sum.splits)

end
