(* ===== verification/Api_Backup.thy ===== *)
theory Api_Backup
  imports Api_Server Backup_Core
begin

text \<open>
  \<^verbatim>\<open>internal/api/backup_handlers.go\<close>: the backup endpoints over the library \<^verbatim>\<open>recoveryclient\<close>, with
  the settings adapter, the sealer and the run configuration of \<^verbatim>\<open>internal/backup/settings.go\<close>.
\<close>

section \<open>The library\<close>

text \<open>
  A library function reads and writes settings through the adapter it is handed: it is a tree
  of those calls that ends in its result.
\<close>

datatype 'a prog =
    Done 'a
  | SGet string "lib_error + string \<Rightarrow> 'a prog"
  | SSet string string "lib_error option \<Rightarrow> 'a prog"
  | SDelete string "lib_error option \<Rightarrow> 'a prog"

text \<open>\<^verbatim>\<open>settingsAdapter\<close>: a missing row is the library's own error, any other error is passed on.\<close>

definition lib_err :: "ctx \<Rightarrow> err \<Rightarrow> lib_error" where
  "lib_err x e = plain_error (err_text x e)"

definition adapter_Get :: "ctx \<Rightarrow> nat \<Rightarrow> string \<Rightarrow> server \<Rightarrow> (lib_error + string) \<times> server" where
  "adapter_Get x k key s = (case store_call x k (GetSetting key) s of
     (Inl e, s) \<Rightarrow> (Inl (if e = ErrNotFound then \<lparr>leText = ''setting not found'', leIs = [RcErrNotFound]\<rparr> else lib_err x e), s)
   | (Inr v, s) \<Rightarrow> (Inr v, s))"

definition adapter_Set :: "ctx \<Rightarrow> nat \<Rightarrow> string \<Rightarrow> string \<Rightarrow> server \<Rightarrow> lib_error option \<times> server" where
  "adapter_Set x k key val s = (case store_call x k (SetSetting (xNow x k) key val) s of
     (Inl e, s) \<Rightarrow> (Some (lib_err x e), s) | (Inr _, s) \<Rightarrow> (None, s))"

definition adapter_Delete :: "ctx \<Rightarrow> nat \<Rightarrow> string \<Rightarrow> server \<Rightarrow> lib_error option \<times> server" where
  "adapter_Delete x k key s = (case store_call x k (DeleteSetting key) s of
     (Inl e, s) \<Rightarrow> (Some (lib_err x e), s) | (Inr _, s) \<Rightarrow> (None, s))"

text \<open>The calls from the \<open>k\<close>-th on; the number of the next one is part of the result.\<close>

primrec run_prog :: "'a prog \<Rightarrow> ctx \<Rightarrow> nat \<Rightarrow> server \<Rightarrow> 'a \<times> nat \<times> server" where
  "run_prog (Done a) x k s = (a, k, s)"
| "run_prog (SGet key f) x k s = (case adapter_Get x k key s of (r, s) \<Rightarrow> run_prog (f r) x (Suc k) s)"
| "run_prog (SSet key v f) x k s = (case adapter_Set x k key v s of (r, s) \<Rightarrow> run_prog (f r) x (Suc k) s)"
| "run_prog (SDelete key f) x k s = (case adapter_Delete x k key s of (r, s) \<Rightarrow> run_prog (f r) x (Suc k) s)"

record recovery_key =
  rkID :: string
  rkThreshold :: int
  rkTotalShares :: int
  rkPublic :: string

record manifest =
  mfCapsuleID :: string
  mfRecoveryKeyID :: string

record pair_result =
  prKey :: recovery_key
  prAPIToken :: string

record run_result =
  rsManifest :: manifest
  rsLocalPath :: string
  rsLocalError :: string
  rsFields :: "(string \<times> json) list"

record run_config =
  rcDataDir :: string
  rcAppName :: string
  rcAppVersion :: string
  rcBackupDir :: string
  rcKeep :: int
  rcSealer :: string

text \<open>Details of a run: keys and what \<^verbatim>\<open>fmt.Sprint\<close> prints of their values, in the order of a Go map.\<close>

type_synonym details = "(string \<times> string) list"

record recovery_lib =
  rlLoadRecoveryKey :: "string \<Rightarrow> (lib_error + recovery_key) prog"
  rlStoreRecoveryKey :: "string \<Rightarrow> recovery_key \<Rightarrow> lib_error option prog"
  rlStorePairing :: "string \<Rightarrow> string \<Rightarrow> string \<Rightarrow> lib_error option prog"
  rlClearPairing :: "lib_error option prog"
  rlSetInterval :: "int \<Rightarrow> lib_error option prog"
  rlInterval :: "duration \<Rightarrow> (lib_error + duration) prog"
  rlNextRun :: "duration \<Rightarrow> (lib_error + time option) prog"
  rlHasPairing :: "bool prog"
  rlLastDeposit :: "(lib_error + json option) prog"
  rlRun :: "run_config \<Rightarrow> (lib_error + payload) \<Rightarrow> (run_result \<times> lib_error option) prog"
  rlOutcome :: "run_result \<Rightarrow> lib_error option \<Rightarrow> string \<times> string \<times> details"
  rlSeal :: "payload \<Rightarrow> recovery_key \<Rightarrow> lib_error + string \<times> manifest"
  rlDrillResult :: "string \<Rightarrow> check list \<Rightarrow> json"
  rlDrill :: "string \<Rightarrow> payload \<Rightarrow> lib_error + json"
  rlValidateURL :: "string \<Rightarrow> bool \<Rightarrow> lib_error option"
  rlClaimPairing :: "string \<Rightarrow> string \<Rightarrow> string \<Rightarrow> string \<Rightarrow> lib_error + pair_result"
  rlParsePinRequest :: "string \<Rightarrow> int \<Rightarrow> int \<Rightarrow> lib_error + recovery_key"
  rlNewAESGCMSealer :: "string \<Rightarrow> string \<Rightarrow> lib_error + string"
  rlListLocalCopies :: "string \<Rightarrow> string \<Rightarrow> lib_error + json"
  rlAuditSafe :: "string \<Rightarrow> string"
  rlFilenameSafe :: "string \<Rightarrow> string"
  rlTooLargeMessage :: string
  rlMinInterval :: duration
  rlIsPrint :: "int \<Rightarrow> bool"

definition recoveryTokenLabel :: string where
  "recoveryTokenLabel = ''ky_server_base:setting:kyrecovery_token''"

definition NewSealer :: "recovery_lib \<Rightarrow> Config \<Rightarrow> lib_error + string" where
  "NewSealer rl cfg = rlNewAESGCMSealer rl (scEncryptionKey (cfSecurity cfg)) recoveryTokenLabel"

definition RunConfig :: "recovery_lib \<Rightarrow> Config \<Rightarrow> string \<Rightarrow> lib_error + run_config" where
  "RunConfig rl cfg appVersion = map_sum id (\<lambda>sealer.
     \<lparr>rcDataDir = dbDataDir (cfDatabase cfg), rcAppName = svAppName (cfServer cfg), rcAppVersion = appVersion,
      rcBackupDir = bkDir (cfBackup cfg), rcKeep = bkKeep (cfBackup cfg), rcSealer = sealer\<rparr>) (NewSealer rl cfg)"

definition appVersion :: string where "appVersion = ''1.0.0''"

section \<open>Audit\<close>

text \<open>\<^verbatim>\<open>strconv.Quote\<close>: the code point of the encoding a text starts with decides how it is printed.\<close>

definition rune_val :: "string \<Rightarrow> int" where
  "rune_val s = (case map of_char (take (rune_len s) s) of
     [a] \<Rightarrow> a
   | [a, b] \<Rightarrow> (a - 0xC0) * 64 + (b - 0x80)
   | [a, b, c] \<Rightarrow> (a - 0xE0) * 4096 + (b - 0x80) * 64 + (c - 0x80)
   | [a, b, c, d] \<Rightarrow> (a - 0xF0) * 262144 + (b - 0x80) * 4096 + (c - 0x80) * 64 + (d - 0x80)
   | _ \<Rightarrow> 0xFFFD)"

definition hex_pad :: "nat \<Rightarrow> int \<Rightarrow> string" where
  "hex_pad width r = map (\<lambda>i. digit_char (nat (r div 16 ^ i mod 16))) (rev [0..<width])"

definition quote_rune :: "(int \<Rightarrow> bool) \<Rightarrow> string \<Rightarrow> int \<Rightarrow> string" where
  "quote_rune isPrint enc r =
     (if r = 0x22 \<or> r = 0x5C then CHR 0x5C # enc
      else if isPrint r then enc
      else if r = 7 then [CHR 0x5C, CHR ''a''] else if r = 8 then [CHR 0x5C, CHR ''b'']
      else if r = 12 then [CHR 0x5C, CHR ''f''] else if r = 10 then [CHR 0x5C, CHR ''n'']
      else if r = 13 then [CHR 0x5C, CHR ''r''] else if r = 9 then [CHR 0x5C, CHR ''t'']
      else if r = 11 then [CHR 0x5C, CHR ''v'']
      else if r < 32 \<or> r = 127 then [CHR 0x5C, CHR ''x''] @ hex_pad 2 r
      else if r < 0x10000 then [CHR 0x5C, CHR ''u''] @ hex_pad 4 r
      else [CHR 0x5C, CHR ''U''] @ hex_pad 8 r)"

function quote_body :: "(int \<Rightarrow> bool) \<Rightarrow> string \<Rightarrow> string" where
  "quote_body isPrint s =
     (if s = [] then []
      else if rune_len s = 0 then [CHR 0x5C, CHR ''x''] @ hex_pad 2 (of_char (hd s)) @ quote_body isPrint (tl s)
      else quote_rune isPrint (take (rune_len s) s) (rune_val s) @ quote_body isPrint (drop (rune_len s) s))"
  by pat_completeness auto
termination by (relation "measure (\<lambda>(p, s). length s)") (auto simp: neq_Nil_conv)

declare quote_body.simps [simp del]

text \<open>\<^verbatim>\<open>strings.ReplaceAll(_, "=", `\x3d`)\<close> after quoting.\<close>

definition auditValue :: "(int \<Rightarrow> bool) \<Rightarrow> string \<Rightarrow> string" where
  "auditValue isPrint v = concat (map (\<lambda>c. if c = CHR ''='' then [CHR 0x5C] @ ''x3d'' else [c])
     ([CHR 0x22] @ quote_body isPrint v @ [CHR 0x22]))"

definition local_keys :: "string list" where
  "local_keys = [''outcome'', ''capsule_id'', ''local_path'', ''local_error'', ''deposited'', ''digest'', ''size_bytes'']"

definition remote_keys :: "string list" where
  "remote_keys = [''error'', ''receipt_unrecorded'']"

definition detail_keys :: "details \<Rightarrow> string list" where
  "detail_keys m = local_keys @ sort (filter (\<lambda>k. k \<notin> set local_keys \<and> k \<notin> set remote_keys) (map fst m)) @
     sort (filter (\<lambda>k. k \<in> set remote_keys) (map fst m))"

text \<open>The loop over the keys, with the keys already written.\<close>

fun detail_items :: "(int \<Rightarrow> bool) \<Rightarrow> details \<Rightarrow> string list \<Rightarrow> string list \<Rightarrow> string list" where
  "detail_items isPrint m seen [] = []"
| "detail_items isPrint m seen (k # ks) = (case map_of m k of
     Some v \<Rightarrow> if k \<in> set seen then detail_items isPrint m seen ks
       else (k @ ''='' @ auditValue isPrint v) # detail_items isPrint m (k # seen) ks
   | None \<Rightarrow> detail_items isPrint m seen ks)"

definition AuditDetails :: "recovery_lib \<Rightarrow> details \<Rightarrow> string" where
  "AuditDetails rl m = rlAuditSafe rl (Join (detail_items (rlIsPrint rl) m [] (detail_keys m)) '' '')"

text \<open>A failure to record is only logged.\<close>

definition auditBackup ::
    "recovery_lib \<Rightarrow> Config \<Rightarrow> ctx \<Rightarrow> nat \<Rightarrow> string \<Rightarrow> request \<Rightarrow> string \<Rightarrow> string \<Rightarrow> string \<Rightarrow> server \<Rightarrow> (err + unit) \<times> server" where
  "auditBackup rl cfg x k userID r action resource details s =
     store_call x k (LogAudit (xNow x k)
       (audit userID action (rlAuditSafe rl resource) (rlAuditSafe rl details) (requestIP cfg r))) s"

text \<open>The session user, whose check makes the store calls \<open>k\<close> to \<open>k + 2\<close>.\<close>

definition actorID :: "prims \<Rightarrow> ctx \<Rightarrow> nat \<Rightarrow> request \<Rightarrow> server \<Rightarrow> string \<times> server" where
  "actorID pr x k r s = (case authenticate pr x k k r s of
     (Inl _, s) \<Rightarrow> ([], s) | (Inr (user, _), s) \<Rightarrow> (uID user, s))"

section \<open>Drill and export\<close>

text \<open>\<open>rlDrillResult\<close> is the JSON of a failed result with its error message and checks.\<close>

definition handleBackupDrill :: "recovery_lib \<Rightarrow> disk \<Rightarrow> Config \<Rightarrow> handler" where
  "handleBackupDrill rl dk cfg x r s =
     (if rMethod r \<noteq> ''POST'' then (writeError 405 ''Method not allowed'', s)
      else case CollectPayload dk cfg appVersion of
        Inl e \<Rightarrow>
          if Is e ErrNoDatabaseSnapshot
          then (writeJSON 200 (rlDrillResult rl (leText e) [\<lparr>chName = ''Database'', chPassed = False, chMessage = leText e\<rparr>]), s)
          else (writeError 500 ''Failed to collect backup files'', s)
      | Inr payload \<Rightarrow>
          (case RunDrill dk (rlDrill rl) cfg payload of
             Inl e \<Rightarrow> if Is e ErrDrillBusy then (writeError 409 ''A restore drill is already running'', s)
               else (writeError 500 ''Failed to execute restore drill'', s)
           | Inr result \<Rightarrow> (writeJSON 200 result, s)))"

definition errRecoveryKeyMismatch :: string where
  "errRecoveryKeyMismatch = ''Recovery key file does not match the pinned key ID; refusing to seal''"

definition capsule_response :: "recovery_lib \<Rightarrow> string \<Rightarrow> manifest \<Rightarrow> response" where
  "capsule_response rl raw m = \<lparr>pStatusCode = 200,
     pHeaders = [(''Content-Type'', ''application/octet-stream''),
       (''Content-Disposition'', ''attachment; filename='' @ [CHR 0x22] @ rlFilenameSafe rl (mfCapsuleID m) @ ''.kycap'' @ [CHR 0x22]),
       (''X-Recovery-Key-ID'', mfRecoveryKeyID m)],
     pBody = BodyBytes raw, pCookies = []\<rparr>"

definition handleExportCapsule :: "prims \<Rightarrow> recovery_lib \<Rightarrow> disk \<Rightarrow> Config \<Rightarrow> handler" where
  "handleExportCapsule pr rl dk cfg x r s =
     (if rMethod r \<noteq> ''POST'' then (writeError 405 ''Method not allowed'', s)
      else case actorID pr x 0 r s of (actor, s) \<Rightarrow>
      case run_prog (rlLoadRecoveryKey rl (dbDataDir (cfDatabase cfg))) x 3 s of (res, k, s) \<Rightarrow>
      case res of
        Inl e \<Rightarrow>
          if Is e RcErrNotPaired then (writeError 412 ''No recovery key; pair or pin one'', s)
          else if Is e RcErrKeyMismatch then (writeError 409 errRecoveryKeyMismatch, s)
          else (writeError 500 ''Failed to load recovery key'', s)
      | Inr key \<Rightarrow>
      case CollectPayload dk cfg appVersion of
        Inl e \<Rightarrow>
          if Is e ErrNoDatabaseSnapshot then (writeError 412 (leText e), s)
          else (writeError 500 ''Failed to collect backup files'', s)
      | Inr payload \<Rightarrow>
      case rlSeal rl payload key of
        Inl e \<Rightarrow>
          if Is e ErrCapsuleTooLarge then (writeError 413 (rlTooLargeMessage rl), s)
          else (writeError 500 ''Failed to seal capsule'', s)
      | Inr (raw, m) \<Rightarrow>
      case auditBackup rl cfg x k actor r ''admin.backup_export'' (mfCapsuleID m)
          (AuditDetails rl [(''size_bytes'', Itoa (int (length raw)))]) s of
        (_, s) \<Rightarrow> (capsule_response rl raw m, s))"

section \<open>Pairing and pinning\<close>

definition RemotePairRequest :: fields where
  "RemotePairRequest = [(''recovery_url'', VStr []), (''pairing_code'', VStr [])]"

definition privateRecoveryHint :: string where
  "privateRecoveryHint = '' (set KY_BACKUP_ALLOW_PRIVATE_RECOVERY=true for a KyRecovery on your own network)''"

definition pair_url_message :: "lib_error \<Rightarrow> string" where
  "pair_url_message e = leText e @ (if Is e RcErrPrivateDestination then privateRecoveryHint else [])"

definition key_json :: "recovery_key \<Rightarrow> json" where
  "key_json key = JObj [(''recovery_key_id'', JStr (rkID key)), (''threshold'', JNum (Itoa (rkThreshold key))),
     (''total_shares'', JNum (Itoa (rkTotalShares key)))]"

text \<open>After the claim: the key is pinned, then the pairing stored, each outcome audited.\<close>

definition store_claimed ::
    "recovery_lib \<Rightarrow> Config \<Rightarrow> string \<Rightarrow> string \<Rightarrow> string \<Rightarrow> pair_result \<Rightarrow> nat \<Rightarrow> handler" where
  "store_claimed rl cfg actor url target result k x r s =
     (case run_prog (rlStoreRecoveryKey rl (dbDataDir (cfDatabase cfg)) (prKey result)) x k s of (res, k, s) \<Rightarrow>
      case res of
        Some e \<Rightarrow>
          if Is e FsErrExist
          then (case auditBackup rl cfg x k actor r ''backup.pair_failed'' target ''error=already paired to a different recovery key'' s of
                  (_, s) \<Rightarrow> (writeError 409 ''Already paired to a different recovery key'', s))
          else (writeError 500 ''Failed to save recovery key'', s)
      | None \<Rightarrow>
      case NewSealer rl cfg of
        Inl _ \<Rightarrow> (writeError 500 ''Failed to prepare the pairing seal'', s)
      | Inr sealer \<Rightarrow>
      case run_prog (rlStorePairing rl sealer url (prAPIToken result)) x k s of (res, k, s) \<Rightarrow>
      case res of
        Some e \<Rightarrow>
          (case auditBackup rl cfg x k actor r ''backup.pair_failed'' target
              (''error=key pinned but the pairing was not stored: '' @ leText e) s of
             (_, s) \<Rightarrow> (writeError 500 ''Failed to save recovery pairing'', s))
      | None \<Rightarrow>
          (case auditBackup rl cfg x k actor r ''backup.paired'' target
              (''recovery_key_id='' @ rkID (prKey result) @ '' allow_private='' @
                (if bkAllowPrivateRecovery (cfBackup cfg) then ''true'' else ''false'')) s of
             (_, s) \<Rightarrow> (writeJSON 200 (key_json (prKey result)), s)))"

definition handlePairRemoteRecovery :: "prims \<Rightarrow> recovery_lib \<Rightarrow> Config \<Rightarrow> handler" where
  "handlePairRemoteRecovery pr rl cfg x r s =
     (if rMethod r \<noteq> ''POST'' then (writeError 405 ''Method not allowed'', s)
      else case DecodeBody RemotePairRequest r of
        None \<Rightarrow> (writeError 400 ''Invalid request body'', s)
      | Some req \<Rightarrow>
      let url = str_field req ''recovery_url''; code = str_field req ''pairing_code''
      in if url = [] \<or> code = [] then (writeError 400 ''Both recovery_url and pairing_code are required'', s)
         else case rlValidateURL rl url (bkAllowPrivateRecovery (cfBackup cfg)) of
           Some e \<Rightarrow> (writeError 400 (pair_url_message e), s)
         | None \<Rightarrow>
         case actorID pr x 0 r s of (actor, s) \<Rightarrow>
         let target = rlAuditSafe rl url; name = svAppName (cfServer cfg)
         in case rlClaimPairing rl url code name name of
              Inl e \<Rightarrow> (case auditBackup rl cfg x 3 actor r ''backup.pair_failed'' target (''error='' @ leText e) s of
                (_, s) \<Rightarrow> (writeError 400 ''Recovery pairing failed'', s))
            | Inr result \<Rightarrow> store_claimed rl cfg actor url target result 3 x r s)"

definition handleUnpair :: "prims \<Rightarrow> recovery_lib \<Rightarrow> Config \<Rightarrow> handler" where
  "handleUnpair pr rl cfg x r s =
     (if rMethod r \<noteq> ''DELETE'' then (writeError 405 ''Method not allowed'', s)
      else case actorID pr x 0 r s of (actor, s) \<Rightarrow>
      case store_call x 3 (GetSetting ''kyrecovery_url'') s of (url, s) \<Rightarrow>
      let target = rlAuditSafe rl (case url of Inl _ \<Rightarrow> [] | Inr v \<Rightarrow> v)
      in case run_prog (rlClearPairing rl) x 4 s of (res, k, s) \<Rightarrow>
         case res of
           Some e \<Rightarrow>
             if Is e RcErrNotPaired then (writeError 412 ''Not paired with KyRecovery'', s)
             else (case auditBackup rl cfg x k actor r ''admin.backup_unpair'' target (''error='' @ leText e) s of
               (_, s) \<Rightarrow> (writeError 500 ''Failed to remove the pairing'', s))
         | None \<Rightarrow> (case auditBackup rl cfg x k actor r ''admin.backup_unpair'' target ''success'' s of
             (_, s) \<Rightarrow> (writeJSON 200 (JObj [(''paired'', JBool False)]), s)))"

definition PinKeyRequest :: fields where
  "PinKeyRequest = [(''public_key'', VStr []), (''threshold'', VInt 0), (''total_shares'', VInt 0)]"

definition handlePinKey :: "prims \<Rightarrow> recovery_lib \<Rightarrow> Config \<Rightarrow> handler" where
  "handlePinKey pr rl cfg x r s =
     (if rMethod r \<noteq> ''POST'' then (writeError 405 ''Method not allowed'', s)
      else case DecodeBody PinKeyRequest (limit_body 8192 r) of
        None \<Rightarrow> (writeError 400 ''Invalid JSON request body'', s)
      | Some req \<Rightarrow>
      case rlParsePinRequest rl (str_field req ''public_key'') (int_field req ''threshold'') (int_field req ''total_shares'') of
        Inl e \<Rightarrow> (writeError 400 (leText e), s)
      | Inr key \<Rightarrow>
      case actorID pr x 0 r s of (actor, s) \<Rightarrow>
      case run_prog (rlStoreRecoveryKey rl (dbDataDir (cfDatabase cfg)) key) x 3 s of (res, k, s) \<Rightarrow>
      case res of
        Some e \<Rightarrow>
          if Is e FsErrExist
          then (case auditBackup rl cfg x k actor r ''admin.backup_key_pin'' (rkID key) ''error=already pinned to a different recovery key'' s of
                  (_, s) \<Rightarrow> (writeError 409 ''Already pinned to a different recovery key'', s))
          else (writeError 500 ''Failed to save recovery key'', s)
      | None \<Rightarrow>
          (case auditBackup rl cfg x k actor r ''admin.backup_key_pin'' (rkID key)
              (''threshold='' @ Itoa (rkThreshold key) @ '' total_shares='' @ Itoa (rkTotalShares key)) s of
             (_, s) \<Rightarrow> (writeJSON 200 (key_json key), s)))"

section \<open>Runs\<close>

text \<open>What the browser is told of a failed run, in the order the code tests the sentinels.\<close>

definition run_failure :: "recovery_lib \<Rightarrow> run_result \<Rightarrow> lib_error \<Rightarrow> response" where
  "run_failure rl res e =
     (if Is e RcErrKeyPinMissing then writeError 412 ''Paired, but recovery.pub is missing or does not match the pin''
      else if Is e RcErrNotPaired then writeError 412 ''No recovery key''
      else if Is e ErrNoDatabaseSnapshot then writeError 412 (leText e)
      else if Is e RcErrNoDestination then writeError 412 ''Nowhere to put a capsule: pair with KyRecovery or set KY_BACKUP_DIR''
      else if Is e RcErrInProgress then writeError 409 ''A backup is already in progress''
      else if Is e RcErrKeyMismatch then writeError 409 errRecoveryKeyMismatch
      else if Is e RcErrPrivateDestination
      then writeError 412 (''The recovery host resolves to a private address'' @ privateRecoveryHint)
      else if Is e ErrCapsuleTooLarge then writeError 413 (rlTooLargeMessage rl)
      else if Is e RcErrRemote
      then writeError 502 (''KyRecovery did not accept the deposit'' @
        (if rsLocalPath res \<noteq> [] then ''; the local copy was written'' else []) @
        (if rsLocalError res \<noteq> [] then ''; '' @ rsLocalError res else []))
      else writeError 500 ''Backup failed before reaching KyRecovery'')"

definition with_outcome :: "string \<Rightarrow> details \<Rightarrow> details" where
  "with_outcome outcome details = (''outcome'', outcome) # filter (\<lambda>(k, v). k \<noteq> ''outcome'') details"

definition handleRunBackup :: "prims \<Rightarrow> recovery_lib \<Rightarrow> disk \<Rightarrow> Config \<Rightarrow> handler" where
  "handleRunBackup pr rl dk cfg x r s =
     (if rMethod r \<noteq> ''POST'' then (writeError 405 ''Method not allowed'', s)
      else case actorID pr x 0 r s of (actor, s) \<Rightarrow>
      case RunConfig rl cfg appVersion of
        Inl _ \<Rightarrow> (writeError 500 ''Failed to prepare backup configuration'', s)
      | Inr rc \<Rightarrow>
      case run_prog (rlRun rl rc (CollectPayload dk cfg appVersion)) x 3 s of (out, k, s) \<Rightarrow>
      case out of (res, failure) \<Rightarrow>
      case rlOutcome rl res failure of (action, outcome, details) \<Rightarrow>
      case auditBackup rl cfg x k actor r action (mfCapsuleID (rsManifest res)) (AuditDetails rl (with_outcome outcome details)) s of
        (_, s) \<Rightarrow>
          (case failure of
             None \<Rightarrow> (writeJSON 200 (JObj (rsFields res)), s)
           | Some e \<Rightarrow>
               if Is e RcErrReceiptUnrecorded
               then (writeJSON 200 (JObj (rsFields res @ [(''receipt_unrecorded'', JBool True)])), s)
               else (run_failure rl res e, s)))"

section \<open>Schedule and status\<close>

definition ScheduleRequest :: fields where
  "ScheduleRequest = [(''interval_sec'', VInt 0)]"

text \<open>\<^verbatim>\<open>int64(d / time.Second)\<close> truncates towards zero.\<close>

definition whole_seconds :: "duration \<Rightarrow> int" where
  "whole_seconds d = (if d < 0 then - (- d div Second) else d div Second)"

definition handleSetSchedule :: "prims \<Rightarrow> recovery_lib \<Rightarrow> Config \<Rightarrow> handler" where
  "handleSetSchedule pr rl cfg x r s =
     (if rMethod r \<noteq> ''PUT'' then (writeError 405 ''Method not allowed'', s)
      else case DecodeBody ScheduleRequest (limit_body 1024 r) of
        None \<Rightarrow> (writeError 400 ''Invalid JSON request body'', s)
      | Some req \<Rightarrow>
      case actorID pr x 0 r s of (actor, s) \<Rightarrow>
      case run_prog (rlSetInterval rl (int_field req ''interval_sec'')) x 3 s of (res, k, s) \<Rightarrow>
      case res of
        Some e \<Rightarrow> if Is e RcErrBadInterval then (writeError 400 (leText e), s)
          else (writeError 500 ''Failed to save the schedule'', s)
      | None \<Rightarrow>
      case run_prog (rlInterval rl (bkDepositInterval (cfBackup cfg))) x k s of (stored, k, s) \<Rightarrow>
      case stored of
        Inl _ \<Rightarrow> (writeError 500 ''Failed to read the schedule back'', s)
      | Inr d \<Rightarrow>
          (case auditBackup rl cfg x k actor r ''admin.backup_schedule'' [] (''interval_sec='' @ Itoa (whole_seconds d)) s of
             (_, s) \<Rightarrow> (writeJSON 200 (JObj [(''interval_sec'', JNum (Itoa (whole_seconds d)))]), s)))"

text \<open>The seconds of a time in RFC 3339, in UTC.\<close>

definition FormatRFC3339 :: "time \<Rightarrow> string" where
  "FormatRFC3339 t = FormatRFC3339Nano (t div Second * Second)"

definition key_status ::
    "recovery_lib \<Rightarrow> ctx \<Rightarrow> nat \<Rightarrow> lib_error + recovery_key \<Rightarrow> server \<Rightarrow> (string \<times> json) list \<times> nat \<times> server" where
  "key_status rl x k res s =
     (case res of
        Inr key \<Rightarrow> (case run_prog (rlHasPairing rl) x k s of (paired, k, s) \<Rightarrow>
          ([(''key_pinned'', JBool True), (''paired'', JBool paired), (''recovery_key_id'', JStr (rkID key)),
            (''threshold'', JNum (Itoa (rkThreshold key))), (''total_shares'', JNum (Itoa (rkTotalShares key)))], k, s))
      | Inl e \<Rightarrow>
          let off = [(''key_pinned'', JBool False), (''paired'', JBool False)]
          in if Is e RcErrKeyMismatch
             then (off @ [(''recovery_key_error'', JStr ''recovery.pub does not match the pinned key ID'')], k, s)
             else (case run_prog (rlHasPairing rl) x k s of (paired, k, s) \<Rightarrow>
               (off @ (if paired then [(''recovery_key_error'',
                  JStr ''paired, but recovery.pub is missing; restore it or re-pair'')] else []), k, s)))"

definition local_status :: "recovery_lib \<Rightarrow> Config \<Rightarrow> (string \<times> json) list" where
  "local_status rl cfg =
     (if bkDir (cfBackup cfg) = [] then []
      else [(''local_dir'', JStr (bkDir (cfBackup cfg))), (''local_keep'', JNum (Itoa (bkKeep (cfBackup cfg))))] @
        (case rlListLocalCopies rl (bkDir (cfBackup cfg)) (svAppName (cfServer cfg)) of
           Inr copies \<Rightarrow> [(''local_copies'', copies)]
         | Inl e \<Rightarrow> [(''local_error'', JStr (rlAuditSafe rl (leText e)))]))"

definition schedule_status :: "recovery_lib \<Rightarrow> Config \<Rightarrow> ctx \<Rightarrow> nat \<Rightarrow> server \<Rightarrow> (string \<times> json) list \<times> server" where
  "schedule_status rl cfg x k s =
     (case run_prog (rlInterval rl (bkDepositInterval (cfBackup cfg))) x k s of (interval, k, s) \<Rightarrow>
      case interval of
        Inl _ \<Rightarrow> ([], s)
      | Inr d \<Rightarrow>
          (case run_prog (rlNextRun rl (bkDepositInterval (cfBackup cfg))) x k s of (nextRun, k, s) \<Rightarrow>
           ([(''interval_sec'', JNum (Itoa (whole_seconds d))),
             (''min_interval_sec'', JNum (Itoa (whole_seconds (rlMinInterval rl))))] @
            (case nextRun of Inr (Some t) \<Rightarrow> [(''next_run_at'', JStr (FormatRFC3339 t))] | _ \<Rightarrow> []), s)))"

text \<open>The members of the answer in the order they are set; Go prints them sorted by key.\<close>

definition handleBackupStatus :: "recovery_lib \<Rightarrow> disk \<Rightarrow> Config \<Rightarrow> handler" where
  "handleBackupStatus rl dk cfg x r s =
     (if rMethod r \<noteq> ''GET'' then (writeError 405 ''Method not allowed'', s)
      else case store_call x 0 (GetSetting ''kyrecovery_url'') s of (url, s) \<Rightarrow>
      case run_prog (rlLoadRecoveryKey rl (dbDataDir (cfDatabase cfg))) x 1 s of (key, k, s) \<Rightarrow>
      case key_status rl x k key s of (key_fields, k, s) \<Rightarrow>
      case run_prog (rlLastDeposit rl) x k s of (last_deposit, k, s) \<Rightarrow>
      case schedule_status rl cfg x k s of (schedule_fields, s) \<Rightarrow>
        (writeJSON 200 (JObj (sort_key fst
          ([(''app_name'', JStr (svAppName (cfServer cfg))), (''app_version'', JStr appVersion),
            (''allow_private_recovery'', JBool (bkAllowPrivateRecovery (cfBackup cfg))),
            (''database_driver'', JStr (dbDriver (cfDatabase cfg))), (''members'', string_array (Members dk cfg))] @
           (case url of Inr u \<Rightarrow> [(''recovery_url'', JStr u)] | Inl _ \<Rightarrow> []) @ key_fields @
           (case last_deposit of Inr (Some d) \<Rightarrow> [(''last_deposit'', d)] | _ \<Rightarrow> []) @
           local_status rl cfg @ schedule_fields))), s))"

section \<open>Laws\<close>

lemma adapter_evolves:
  "evolves s (snd (adapter_Get x k key s))" "evolves s (snd (adapter_Set x k key v s))"
  "evolves s (snd (adapter_Delete x k key s))"
  unfolding adapter_Get_def adapter_Set_def adapter_Delete_def
  by (intro keeps_rules store_likes evolves_refl; assumption?)+

lemma run_prog_evolves: "evolves s (snd (snd (run_prog p x k s)))"
proof (induction p arbitrary: k s)
  case (SGet key f)
  then show ?case using adapter_evolves(1) [of s x k key] by (auto simp: split_beta intro: evolves_trans)
next
  case (SSet key v f)
  then show ?case using adapter_evolves(2) [of s x k key v] by (auto simp: split_beta intro: evolves_trans)
next
  case (SDelete key f)
  then show ?case using adapter_evolves(3) [of s x k key] by (auto simp: split_beta intro: evolves_trans)
qed simp

lemma auditBackup_evolves: "evolves s (snd (auditBackup rl cfg x k i r a t d s))"
  unfolding auditBackup_def by (rule store_call_evolves) (rule store_likes)

lemma actorID_evolves: "evolves s (snd (actorID pr x k r s))"
  unfolding actorID_def by (intro keeps_rules evolves_refl; assumption?)

lemma keeps_prog:
  assumes "evolves s0 s" "\<And>a k' s'. evolves s0 s' \<Longrightarrow> evolves s0 (snd (f a k' s'))"
  shows "evolves s0 (snd (case run_prog p x k s of (a, k', s') \<Rightarrow> f a k' s'))"
  using evolves_trans [OF assms(1) run_prog_evolves, of p x k] assms(2) by (simp add: split_beta)

lemma keeps_call:
  "evolves s0 s \<Longrightarrow> (\<And>a s'. evolves s0 s' \<Longrightarrow> evolves s0 (snd (f a s'))) \<Longrightarrow> store_like g \<Longrightarrow>
   evolves s0 (snd (case store_call x k g s of (a, s') \<Rightarrow> f a s'))"
  by (rule keeps_pair [OF store_call_evolves])

lemma keeps_split: "(\<And>a b. evolves s0 (snd (f a b))) \<Longrightarrow> evolves s0 (snd (case p of (a, b) \<Rightarrow> f a b))"
  by (cases p) simp

lemmas backup_rules =
  keeps_prog keeps_pair [OF auditBackup_evolves] keeps_pair [OF actorID_evolves] keeps_call
  keeps_if keeps_option keeps_sum keeps_end

lemma backup_evolves:
  "evolves s (snd (handleBackupDrill rl dk cfg x r s))"
  "evolves s (snd (handleExportCapsule pr rl dk cfg x r s))"
  "evolves s (snd (handleUnpair pr rl cfg x r s))"
  "evolves s (snd (handlePinKey pr rl cfg x r s))"
  "evolves s (snd (handleSetSchedule pr rl cfg x r s))"
  unfolding handleBackupDrill_def handleExportCapsule_def handleUnpair_def handlePinKey_def handleSetSchedule_def Let_def
  by (intro backup_rules store_likes keeps_split evolves_refl; assumption?)+

lemma store_claimed_evolves: "evolves s0 s \<Longrightarrow> evolves s0 (snd (store_claimed rl cfg i u t res k x r s))"
  unfolding store_claimed_def by (intro backup_rules; assumption?)

lemma handlePairRemoteRecovery_evolves: "evolves s (snd (handlePairRemoteRecovery pr rl cfg x r s))"
  unfolding handlePairRemoteRecovery_def Let_def
  by (intro backup_rules store_claimed_evolves evolves_refl; assumption?)

lemma handleRunBackup_evolves: "evolves s (snd (handleRunBackup pr rl dk cfg x r s))"
  unfolding handleRunBackup_def by (intro backup_rules keeps_split evolves_refl; assumption?)

lemma key_status_evolves: "evolves s (snd (snd (key_status rl x k res s)))"
  using run_prog_evolves [of s "rlHasPairing rl" x k]
  by (auto simp: key_status_def Let_def split_beta split: sum.split)

lemma schedule_status_evolves: "evolves s (snd (schedule_status rl cfg x k s))"
  unfolding schedule_status_def by (intro backup_rules evolves_refl; assumption?)

lemma handleBackupStatus_evolves: "evolves s (snd (handleBackupStatus rl dk cfg x r s))"
proof -
  have k: "evolves s0 (snd (case key_status rl x k res s1 of (a, k', s') \<Rightarrow> f a k' s'))"
    if "evolves s0 s1" "\<And>a k' s'. evolves s0 s' \<Longrightarrow> evolves s0 (snd (f a k' s'))"
    for s0 s1 k res and f :: "(string \<times> json) list \<Rightarrow> nat \<Rightarrow> server \<Rightarrow> response \<times> server"
    using evolves_trans [OF that(1) key_status_evolves, of rl x k res] that(2) by (simp add: split_beta)
  show ?thesis
    unfolding handleBackupStatus_def
    by (intro k backup_rules keeps_pair [OF schedule_status_evolves] store_likes evolves_refl; assumption?)
qed

text \<open>The order in which Go visits the details does not show in the audit text.\<close>

lemma sort_perm: "set xs = set ys \<Longrightarrow> distinct xs \<Longrightarrow> distinct ys \<Longrightarrow> sort xs = sort (ys :: 'a :: linorder list)"
  by (intro sorted_distinct_set_unique) simp_all

lemma AuditDetails_order:
  assumes "set m = set m'" "distinct (map fst m)" "distinct (map fst m')"
  shows "AuditDetails rl m = AuditDetails rl m'"
proof -
  have keys: "set (map fst m) = set (map fst m')" using assms(1) by simp
  have "map_of m = map_of m'" using assms by (metis map_of_eqI set_map map_of_inject_set)
  moreover have "detail_keys m = detail_keys m'"
    unfolding detail_keys_def using keys assms(2,3)
    by (intro arg_cong2 [where f = append] refl sort_perm) (auto simp: distinct_filter)
  moreover have "detail_items p m seen ks = detail_items p m' seen ks" if "map_of m = map_of m'" for p seen ks
    by (induction ks arbitrary: seen) (simp_all add: that split: option.split)
  ultimately show ?thesis by (simp add: AuditDetails_def)
qed

end
