(* ===== verification/Ky_Server.thy ===== *)
theory Ky_Server
  imports Api_Backup
begin

text \<open>
  The server with all its handlers: the frontend handler of \<^verbatim>\<open>web/embed.go\<close>, the table from routes
  to handlers that \<^verbatim>\<open>routes\<close> and \<^verbatim>\<open>NewServer\<close> set up, and sequences of requests.
\<close>

section \<open>The frontend\<close>

text \<open>
  The embedded files: which names \<^verbatim>\<open>sub.Open\<close> finds, and what \<^verbatim>\<open>http.FileServer\<close> answers.
\<close>

record frontend =
  feOpens :: "string \<Rightarrow> bool"
  feServe :: "request \<Rightarrow> response"

definition web_Handler :: "frontend \<Rightarrow> handler" where
  "web_Handler fe x r s =
     (let path = TrimPrefix (rPath r) ''/''
      in if path = [] then (feServe fe r, s)
         else if feOpens fe path then (feServe fe r, s)
         else (feServe fe (r\<lparr>rPath := ''/''\<rparr>), s))"

section \<open>Dispatch\<close>

text \<open>The parts a server is made of: what is not under \<^verbatim>\<open>src/\<close>, and its configuration.\<close>

record parts =
  ptPrims :: prims
  ptConfig :: Config
  ptScim :: scim_lib
  ptRecovery :: recovery_lib
  ptDisk :: disk
  ptFrontend :: frontend

definition ky_dispatch :: "parts \<Rightarrow> endpoint \<Rightarrow> handler" where
  "ky_dispatch p e =
     (let pr = ptPrims p; cfg = ptConfig p; rl = ptRecovery p; dk = ptDisk p
      in case e of
        EPoWChallenge \<Rightarrow> handlePoWChallenge pr cfg
      | ELogin \<Rightarrow> handleLogin pr cfg
      | EMFATOTP \<Rightarrow> handleMFATOTP pr cfg
      | EMFARecovery \<Rightarrow> handleMFARecovery pr cfg
      | ELogout \<Rightarrow> handleLogout pr cfg
      | EMe \<Rightarrow> handleMe pr cfg
      | EChangePassword \<Rightarrow> handleChangePassword pr cfg
      | EKySignOnLogin \<Rightarrow> handleKySignOnLogin pr cfg
      | EKySignOnCallback \<Rightarrow> handleKySignOnCallback pr cfg
      | EKySignOnSync \<Rightarrow> handleKySignOnSyncWebhook pr cfg
      | ESAMLMetadata \<Rightarrow> handleSAMLMetadata pr cfg
      | EPairInit \<Rightarrow> handlePairInit pr cfg
      | EPairVerify \<Rightarrow> handlePairVerify pr cfg
      | EPairPoll \<Rightarrow> handlePairPoll pr cfg
      | EBackupDrill \<Rightarrow> handleBackupDrill rl dk cfg
      | EExportCapsule \<Rightarrow> handleExportCapsule pr rl dk cfg
      | EPairRemote \<Rightarrow> handlePairRemoteRecovery pr rl cfg
      | ERunBackup \<Rightarrow> handleRunBackup pr rl dk cfg
      | EUnpair \<Rightarrow> handleUnpair pr rl cfg
      | EPinKey \<Rightarrow> handlePinKey pr rl cfg
      | ESetSchedule \<Rightarrow> handleSetSchedule pr rl cfg
      | EBackupStatus \<Rightarrow> handleBackupStatus rl dk cfg
      | EGetSettings \<Rightarrow> handleGetSettings pr cfg
      | ESetTheme \<Rightarrow> handleSetTheme pr cfg
      | EScim \<Rightarrow> scim_protocol (ptScim p)
      | EWeb \<Rightarrow> web_Handler (ptFrontend p))"

definition ky_ServeHTTP :: "parts \<Rightarrow> handler" where
  "ky_ServeHTTP p = ServeHTTP (ptPrims p) (ptConfig p) (ky_dispatch p)"

text \<open>
  Requests one after the other; what happens between and inside them is in their contexts, and
  the libraries and the disk may answer differently during each.
\<close>

fun serve_all :: "(parts \<times> ctx \<times> request) list \<Rightarrow> server \<Rightarrow> server" where
  "serve_all [] s = s"
| "serve_all ((p, x, r) # rs) s = serve_all rs (snd (ky_ServeHTTP p x r s))"

section \<open>The invariant\<close>

lemma web_Handler_evolves: "evolves s (snd (web_Handler fe x r s))"
  by (simp add: web_Handler_def Let_def)

lemmas handler_evolves =
  handlePoWChallenge_evolves handleLogin_evolves handleMFATOTP_evolves handleMFARecovery_evolves
  handleLogout_evolves handleMe_evolves handleChangePassword_evolves handleKySignOnLogin_evolves
  handleKySignOnCallback_evolves handleKySignOnSyncWebhook_evolves handleSAMLMetadata_evolves
  handlePairInit_evolves handlePairVerify_evolves handlePairPoll_evolves backup_evolves
  handlePairRemoteRecovery_evolves handleRunBackup_evolves handleBackupStatus_evolves
  handleGetSettings_evolves handleSetTheme_evolves scim_protocol_evolves web_Handler_evolves

lemma ky_dispatch_evolves: "evolves s (snd (ky_dispatch p e x r s))"
  by (cases e) (simp_all add: ky_dispatch_def Let_def handler_evolves)

lemma ky_ServeHTTP_evolves: "evolves s (snd (ky_ServeHTTP p x r s))"
  unfolding ky_ServeHTTP_def by (rule ServeHTTP_evolves) (rule ky_dispatch_evolves)

lemma serve_all_evolves: "evolves s (serve_all rs s)"
  by (induction rs s rule: serve_all.induct) (auto intro: evolves_trans [OF ky_ServeHTTP_evolves])

end
