(* ===== verification/Store_Connect.thy ===== *)
theory Store_Connect
  imports Store_Migrations Ky_Config Go_Strconv
begin

text \<open>
  Opening a store: \<^verbatim>\<open>Open\<close>, \<^verbatim>\<open>openSQLite\<close> and \<^verbatim>\<open>openPostgres\<close> of \<^verbatim>\<open>internal/store/factory.go\<close>,
  \<^verbatim>\<open>newSQLStore\<close> and \<^verbatim>\<open>rebind\<close> of \<^verbatim>\<open>sqlstore.go\<close>. The directory, \<^verbatim>\<open>sql.Open\<close> and \<^verbatim>\<open>Ping\<close> answer from
  the record \<open>sql_lib\<close>; the migrations run on the catalog of \<open>Store_Migrations\<close>.
\<close>

section \<open>Placeholders\<close>

fun rebind_from :: "int \<Rightarrow> string \<Rightarrow> string" where
  "rebind_from paramIdx [] = []"
| "rebind_from paramIdx (c # query) =
     (if c = CHR ''?'' then CHR ''$'' # Itoa paramIdx @ rebind_from (paramIdx + 1) query
      else c # rebind_from paramIdx query)"

definition rebind :: "string \<Rightarrow> string \<Rightarrow> string" where
  "rebind driver query = (if driver \<noteq> ''postgres'' then query else rebind_from 1 query)"

section \<open>Opening\<close>

text \<open>\<^verbatim>\<open>strings.Contains\<close> and \<^verbatim>\<open>filepath.Dir\<close>.\<close>

fun strings_Contains :: "string \<Rightarrow> string \<Rightarrow> bool" where
  "strings_Contains [] sub = (sub = [])"
| "strings_Contains (c # s) sub = (HasPrefix (c # s) sub \<or> strings_Contains s sub)"

definition filepath_Dir :: "string \<Rightarrow> string" where
  "filepath_Dir path = Clean (rev (dropWhile (\<lambda>c. c \<noteq> CHR ''/'') (rev path)))"

text \<open>What lies outside: each answers with the text of an error, if any.\<close>

record sql_lib =
  sqMkdirAll :: "string \<Rightarrow> string option"
  sqOpen :: "string \<Rightarrow> string \<Rightarrow> string option"
  sqPing :: "string \<Rightarrow> string \<Rightarrow> string option"

datatype open_err =
    UnsupportedDriver string
  | SQLiteDirectory string string
  | SQLiteOpen string
  | SQLitePing string
  | PostgresOpen string
  | PostgresPing string
  | MigrationFailure string mig_err

text \<open>An open store: its driver, the connection string the driver got and the limits of the pool.\<close>

record sql_store =
  odDriver :: string
  odDSN :: string
  odMaxOpen :: int
  odMaxIdle :: int
  odLifetime :: "duration option"

definition newSQLStore :: "(int \<Rightarrow> time) \<Rightarrow> sql_store \<Rightarrow> mig_world \<Rightarrow> (open_err + sql_store) \<times> mig_world" where
  "newSQLStore now st w =
     (let driver = driver_name (odDriver st)
      in case Run driver now w of
           (Inl e, w) \<Rightarrow> (Inl (MigrationFailure driver e), w)
         | (Inr _, w) \<Rightarrow> (Inr (st\<lparr>odDriver := driver\<rparr>), w))"

definition sqlite_pragmas :: string where
  "sqlite_pragmas = ''_pragma=busy_timeout(5000)&_pragma=journal_mode(WAL)&_pragma=foreign_keys(ON)&_pragma=synchronous(NORMAL)''"

definition sqlite_dsn :: "string \<Rightarrow> string" where
  "sqlite_dsn dsn =
     (if \<not> strings_Contains dsn ''_pragma''
      then dsn @ (if CHR ''?'' \<in> set dsn then ''&'' else ''?'') @ sqlite_pragmas else dsn)"

definition openSQLite :: "sql_lib \<Rightarrow> (int \<Rightarrow> time) \<Rightarrow> string \<Rightarrow> mig_world \<Rightarrow> (open_err + sql_store) \<times> mig_world" where
  "openSQLite sq now dsn w =
     (let dir = filepath_Dir (takeWhile (\<lambda>c. c \<noteq> CHR ''?'') dsn)
      in case (if dir \<noteq> [] \<and> dir \<noteq> ''.'' then sqMkdirAll sq dir else None) of
           Some e \<Rightarrow> (Inl (SQLiteDirectory dir e), w)
         | None \<Rightarrow>
      let dsn = sqlite_dsn dsn
      in case sqOpen sq ''sqlite'' dsn of
           Some e \<Rightarrow> (Inl (SQLiteOpen e), w)
         | None \<Rightarrow> (case sqPing sq ''sqlite'' dsn of
             Some e \<Rightarrow> (Inl (SQLitePing e), w)
           | None \<Rightarrow> newSQLStore now
               \<lparr>odDriver = ''sqlite'', odDSN = dsn, odMaxOpen = 1, odMaxIdle = 1, odLifetime = None\<rparr> w))"

definition openPostgres ::
    "sql_lib \<Rightarrow> (int \<Rightarrow> time) \<Rightarrow> string \<Rightarrow> int \<Rightarrow> int \<Rightarrow> duration \<Rightarrow> mig_world \<Rightarrow> (open_err + sql_store) \<times> mig_world" where
  "openPostgres sq now dsn maxOpen maxIdle maxLifetime w =
     (case sqOpen sq ''pgx'' dsn of
        Some e \<Rightarrow> (Inl (PostgresOpen e), w)
      | None \<Rightarrow>
      let maxOpen = (if maxOpen \<le> 0 then 25 else maxOpen);
          maxIdle = (if maxIdle \<le> 0 then 5 else maxIdle);
          maxLifetime = (if maxLifetime \<le> 0 then 15 * Minute else maxLifetime)
      in case sqPing sq ''pgx'' dsn of
           Some e \<Rightarrow> (Inl (PostgresPing e), w)
         | None \<Rightarrow> newSQLStore now
             \<lparr>odDriver = ''postgres'', odDSN = dsn, odMaxOpen = maxOpen, odMaxIdle = maxIdle,
              odLifetime = Some maxLifetime\<rparr> w)"

definition OpenStore :: "sql_lib \<Rightarrow> (int \<Rightarrow> time) \<Rightarrow> DatabaseConfig \<Rightarrow> mig_world \<Rightarrow> (open_err + sql_store) \<times> mig_world" where
  "OpenStore sq now cfg w =
     (let driver = ToLower (dbDriver cfg)
      in if driver \<in> {''sqlite'', ''sqlite3'', []} then openSQLite sq now (dbDSN cfg) w
         else if driver \<in> {''postgres'', ''postgresql'', ''pgx''}
         then openPostgres sq now (dbDSN cfg) (dbMaxOpenConns cfg) (dbMaxIdleConns cfg) (dbConnMaxLifetime cfg) w
         else (Inl (UnsupportedDriver (dbDriver cfg)), w))"

section \<open>Laws\<close>

lemma strings_Contains_append: "strings_Contains s sub \<Longrightarrow> strings_Contains (t @ s) sub"
  by (induction t) auto

text \<open>The driver that a configuration selects.\<close>

definition config_driver :: "DatabaseConfig \<Rightarrow> string" where
  "config_driver cfg =
     (if ToLower (dbDriver cfg) \<in> {''postgres'', ''postgresql'', ''pgx''} then ''postgres'' else ''sqlite'')"

lemma driver_names: "driver_name ''sqlite'' = ''sqlite''" "driver_name ''postgres'' = ''postgres''"
  by (simp_all add: driver_name_def ToLower_def lower_char_def)

lemma OpenStore_Inr:
  assumes "OpenStore sq now cfg w = (Inr st, w')"
  obtains "Run (config_driver cfg) now w = (Inr (), w')" "odDriver st = config_driver cfg"
    "odDriver st = ''sqlite'' \<longrightarrow> odDSN st = sqlite_dsn (dbDSN cfg) \<and> odMaxOpen st = 1"
    "0 < odMaxOpen st" "0 < odMaxIdle st"
proof -
  define d where "d = ToLower (dbDriver cfg)"
  show ?thesis
  proof (cases "d \<in> {''postgres'', ''postgresql'', ''pgx''}")
    case True
    then have "d \<notin> {''sqlite'', ''sqlite3'', []}" by auto
    with True assms have "openPostgres sq now (dbDSN cfg) (dbMaxOpenConns cfg) (dbMaxIdleConns cfg) (dbConnMaxLifetime cfg) w = (Inr st, w')"
      by (simp add: OpenStore_def d_def [symmetric])
    with True show ?thesis
      by (intro that)
        (auto simp: openPostgres_def newSQLStore_def driver_names config_driver_def d_def [symmetric] Let_def
          split: option.splits prod.splits sum.splits)
  next
    case False
    with assms have "openSQLite sq now (dbDSN cfg) w = (Inr st, w')"
      by (simp add: OpenStore_def d_def [symmetric] split: if_splits)
    with False show ?thesis
      by (intro that)
        (auto simp: openSQLite_def newSQLStore_def driver_names config_driver_def d_def [symmetric] Let_def
          split: option.splits prod.splits sum.splits)
  qed
qed

lemma OpenStore_catalog:
  assumes "OpenStore sq now cfg w = (r, w')"
  shows "w' = w \<or> w' = snd (Run (config_driver cfg) now w)"
proof -
  have new: "newSQLStore now st w = (r, w') \<Longrightarrow> w' = snd (Run (driver_name (odDriver st)) now w)" for st
    by (auto simp: newSQLStore_def Let_def split: prod.splits sum.splits)
  show ?thesis
  proof (cases "ToLower (dbDriver cfg) \<in> {''postgres'', ''postgresql'', ''pgx''}")
    case True
    with assms show ?thesis
      by (auto simp: OpenStore_def openPostgres_def Let_def config_driver_def driver_names
          dest!: new split: option.splits if_splits)
  next
    case False
    with assms show ?thesis
      by (auto simp: OpenStore_def openSQLite_def Let_def config_driver_def driver_names
          dest!: new split: option.splits if_splits)
  qed
qed

text \<open>Migrations keep the constraints of the rows and the audit trail.\<close>

definition rows_keep :: "catalog \<Rightarrow> catalog \<Rightarrow> bool" where
  "rows_keep c c' \<longleftrightarrow> (schema_ok (ctRows c) \<longrightarrow> schema_ok (ctRows c')) \<and>
     audit_records (ctRows c') = audit_records (ctRows c) \<and>
     map (\<lambda>u. u\<lparr>uTOTPLastCounter := 0\<rparr>) (users (ctRows c')) = map (\<lambda>u. u\<lparr>uTOTPLastCounter := 0\<rparr>) (users (ctRows c))"

lemma rows_keep_refl: "ctRows c' = ctRows c \<Longrightarrow> rows_keep c c'"
  by (simp add: rows_keep_def)

lemma rows_keep_trans: "rows_keep a b \<Longrightarrow> rows_keep b c \<Longrightarrow> rows_keep a c"
  by (auto simp: rows_keep_def)

lemma unique_on_map_same: "(\<And>x. k (f x) = k x) \<Longrightarrow> unique_on k (map f xs) \<longleftrightarrow> unique_on k xs"
  by (simp add: unique_on_def comp_def)

lemma fill_column_keeps: "rows_keep c (c\<lparr>ctTables := ts, ctRows := fill_column t col (ctRows c)\<rparr>)"
proof -
  have "schema_ok d \<Longrightarrow> schema_ok (d\<lparr>users := map (\<lambda>u. u\<lparr>uTOTPLastCounter := 0\<rparr>) (users d)\<rparr>)" for d
    by (rule schema_ok_users_same_ids)
      (simp_all add: schema_ok_def users_unique_def unique_on_map_same)
  moreover have "schema_ok d \<Longrightarrow> schema_ok (d\<lparr>mfa_challenges := map (\<lambda>m. m\<lparr>mPasswordHash := []\<rparr>) (mfa_challenges d)\<rparr>)" for d
    by (auto simp: schema_ok_def schema_defs unique_on_map_same)
  ultimately show ?thesis by (simp add: rows_keep_def fill_column_def)
qed

lemma exec_ddl_rows: "exec_ddl s c = Some c' \<Longrightarrow> rows_keep c c'"
proof (cases s)
  case (AddColumn b t col)
  assume "exec_ddl s c = Some c'"
  with AddColumn show ?thesis
    by (auto intro: rows_keep_refl fill_column_keeps split: option.splits if_splits)
next
  case DeleteMFAChallenges
  assume "exec_ddl s c = Some c'"
  with DeleteMFAChallenges have "c' = c\<lparr>ctRows := (ctRows c)\<lparr>mfa_challenges := []\<rparr>\<rparr>" by (simp split: if_splits)
  then show ?thesis by (auto simp: rows_keep_def schema_ok_def schema_defs unique_on_def)
qed (auto intro!: rows_keep_refl split: option.splits if_splits)

lemma exec_ddls_rows: "exec_ddls ss c = Some c' \<Longrightarrow> rows_keep c c'"
proof (induction ss arbitrary: c)
  case (Cons s ss)
  then show ?case by (auto split: option.splits intro: rows_keep_trans exec_ddl_rows)
qed (simp add: rows_keep_refl)

lemma mig_call_catalog: "mig_call w = (b, w') \<Longrightarrow> mwCatalog w' = mwCatalog w"
  by (auto simp: mig_call_def split: list.splits)

lemma rows_keep_applied: "rows_keep c c' \<Longrightarrow> rows_keep c (c'\<lparr>ctApplied := a\<rparr>)"
  by (simp add: rows_keep_def)

lemma apply_migration_rows:
  assumes "apply_migration driver now m w = (r, w')"
  shows "rows_keep (mwCatalog w) (mwCatalog w')"
proof -
  obtain b1 w1 where 1: "mig_call w = (b1, w1)" by fastforce
  obtain b2 w2 where 2: "mig_call w1 = (b2, w2)" by fastforce
  obtain b3 w3 where 3: "mig_call w2 = (b3, w3)" by fastforce
  obtain b4 w4 where 4: "mig_call w3 = (b4, w4)" by fastforce
  have same: "mwCatalog w1 = mwCatalog w" "mwCatalog w2 = mwCatalog w" "mwCatalog w3 = mwCatalog w" "mwCatalog w4 = mwCatalog w"
    using mig_call_catalog [OF 1] mig_call_catalog [OF 2] mig_call_catalog [OF 3] mig_call_catalog [OF 4] by simp_all
  consider "mwCatalog w' = mwCatalog w"
    | c a where "exec_ddls (migration_ddl driver m) (mwCatalog w) = Some c" "mwCatalog w' = c\<lparr>ctApplied := a\<rparr>"
    using assms 1 2 3 4 same by (auto simp: apply_migration_def Let_def split: option.splits if_splits)
  then show ?thesis
  proof cases
    case 1
    then show ?thesis by (simp add: rows_keep_refl)
  next
    case 2
    with exec_ddls_rows [OF 2(1)] show ?thesis by (simp add: rows_keep_applied)
  qed
qed

lemma check_version_catalog: "check_version v w = (r, w') \<Longrightarrow> mwCatalog w' = mwCatalog w"
  using check_version_cases by blast

lemma run_migrations_rows:
  "run_migrations driver now ms w = (r, w') \<Longrightarrow> rows_keep (mwCatalog w) (mwCatalog w')"
proof (induction ms arbitrary: w)
  case (Cons m ms)
  obtain q w1 where c: "check_version (mgVersion m) w = (q, w1)" by fastforce
  obtain q2 w2 where a: "apply_migration driver (now (mgVersion m)) m w1 = (q2, w2)" by fastforce
  have w1: "mwCatalog w1 = mwCatalog w" using check_version_catalog [OF c] .
  have w2: "rows_keep (mwCatalog w) (mwCatalog w2)" using apply_migration_rows [OF a] w1 by simp
  consider "w' = w1" | "w' = w2" | "run_migrations driver now ms w1 = (r, w')" | "run_migrations driver now ms w2 = (r, w')"
    using Cons.prems c a by (auto split: sum.splits bool.splits)
  then show ?case
    using w1 w2 Cons.IH [of w1] rows_keep_trans [OF w2 Cons.IH [of w2]]
    by cases (simp_all add: rows_keep_refl)
qed (simp add: rows_keep_refl)

lemma Run_rows: "Run driver now w = (r, w') \<Longrightarrow> rows_keep (mwCatalog w) (mwCatalog w')"
  using run_migrations_rows [of driver now registry _ r w']
  by (fastforce simp: Run_def rows_keep_def dest: mig_call_catalog split: prod.splits if_splits)

lemma opened_stage:
  assumes "mig_reachable (config_driver cfg) (mwCatalog w)" "OpenStore sq now cfg w = (Inr st, w')"
  shows "at_stage (config_driver cfg) 4 (mwCatalog w') \<and> applied_versions (mwCatalog w') = [1, 2, 3, 4]"
proof -
  have v4: "versions 4 = [1, 2, 3, 4]" by (simp add: versions_def registry_def)
  obtain k where k: "at_stage (config_driver cfg) k (mwCatalog w)" using reachable_stage [OF assms(1)] by blast
  from assms(2) have "Run (config_driver cfg) now w = (Inr (), w')" by (rule OpenStore_Inr)
  from Run_stage [OF k this] have "at_stage (config_driver cfg) 4 (mwCatalog w')" by auto
  with v4 show ?thesis by (simp add: at_stage_def)
qed

section \<open>Properties\<close>

text \<open>C29: a store that opens is ready for use: whatever runs the database has been through, all four
  migrations are recorded and its tables and indexes are those of a fresh database of the
  driver the configuration names, the constraints of its rows and its audit trail have
  survived, the pool is not empty, and an SQLite connection enforces foreign keys unless the
  configured connection string brings its own pragmas.\<close>

theorem opened_store_ready:
  assumes "mig_reachable (config_driver cfg) (mwCatalog w)" "OpenStore sq now cfg w = (Inr st, w')"
  shows "odDriver st = config_driver cfg \<and> applied_versions (mwCatalog w') = [1, 2, 3, 4] \<and>
    Some (skeleton (mwCatalog w')) = map_option skeleton (stage (odDriver st) 4) \<and>
    rows_keep (mwCatalog w) (mwCatalog w') \<and> 0 < odMaxOpen st \<and> 0 < odMaxIdle st \<and>
    (odDriver st = ''sqlite'' \<longrightarrow> strings_Contains (odDSN st) ''foreign_keys(ON)'' \<or> strings_Contains (dbDSN cfg) ''_pragma'')"
proof -
  have "strings_Contains sqlite_pragmas ''foreign_keys(ON)''" by code_simp
  then have "strings_Contains (sqlite_dsn dsn) ''foreign_keys(ON)'' \<or> strings_Contains dsn ''_pragma''" for dsn
    by (simp add: sqlite_dsn_def strings_Contains_append flip: append_assoc)
  note pragmas = this
  from assms(2) show ?thesis
  proof (rule OpenStore_Inr)
    assume run: "Run (config_driver cfg) now w = (Inr (), w')" and d: "odDriver st = config_driver cfg"
      "odDriver st = ''sqlite'' \<longrightarrow> odDSN st = sqlite_dsn (dbDSN cfg) \<and> odMaxOpen st = 1" "0 < odMaxOpen st" "0 < odMaxIdle st"
    have A: "map_option skeleton (stage (config_driver cfg) 4) = Some (skeleton (mwCatalog w'))"
      "applied_versions (mwCatalog w') = [1, 2, 3, 4]"
      using opened_stage [OF assms] unfolding at_stage_def by blast+
    show ?thesis unfolding d(1) A using Run_rows [OF run] d(2) [unfolded d(1)] d(3,4) pragmas by auto
  qed
qed

definition demo_sql :: sql_lib where
  "demo_sql = \<lparr>sqMkdirAll = (\<lambda>_. None), sqOpen = (\<lambda>_ _. None), sqPing = (\<lambda>_ _. None)\<rparr>"

definition demo_db_config :: DatabaseConfig where
  "demo_db_config = \<lparr>dbDriver = ''SQLite'', dbDSN = ''data/ky.db'', dbDataDir = ''data'', dbMaxOpenConns = 25,
     dbMaxIdleConns = 5, dbConnMaxLifetime = 15 * Minute\<rparr>"

lemma demo_config_driver: "config_driver demo_db_config = ''sqlite''"
  by (simp add: config_driver_def demo_db_config_def ToLower_def lower_char_def)

lemma demo_opens: "isl (fst (OpenStore demo_sql (\<lambda>_. 0) demo_db_config \<lparr>mwCatalog = empty_catalog, mwFaults = []\<rparr>)) = False"
  by code_simp

theorem opened_store_ready_witness:
  "\<exists>st. fst (OpenStore demo_sql (\<lambda>_. 0) demo_db_config \<lparr>mwCatalog = empty_catalog, mwFaults = []\<rparr>) = Inr st \<and>
     strings_Contains (odDSN st) ''foreign_keys(ON)''"
proof -
  let ?w = "\<lparr>mwCatalog = empty_catalog, mwFaults = []\<rparr>"
  obtain st w' where o: "OpenStore demo_sql (\<lambda>_. 0) demo_db_config ?w = (Inr st, w')"
    using demo_opens by (metis isl_def prod.collapse sum.exhaust_sel sum.collapse(2))
  have "mig_reachable (config_driver demo_db_config) (mwCatalog ?w)" by (simp add: mig_reachable.fresh)
  from opened_store_ready [OF this o] have "strings_Contains (odDSN st) ''foreign_keys(ON)'' \<or> strings_Contains (dbDSN demo_db_config) ''_pragma''"
    by (simp add: demo_config_driver)
  moreover have "\<not> strings_Contains (dbDSN demo_db_config) ''_pragma''" by code_simp
  ultimately show ?thesis using o by auto
qed

text \<open>
  What \<^verbatim>\<open>rebind\<close> is to compute: the pieces between the question marks, joined by the numbered
  placeholders.
\<close>

fun numbered :: "int \<Rightarrow> string list \<Rightarrow> string" where
  "numbered k [] = []"
| "numbered k [piece] = piece"
| "numbered k (piece # q # ps) = piece @ CHR ''$'' # Itoa k @ numbered (k + 1) (q # ps)"

lemma Split_Cons: "Split c s = hd (Split c s) # tl (Split c s)"
  by (induction s) (auto split: list.split)

lemma numbered_Cons: "numbered k ((c # p) # ps) = c # numbered k (p # ps)"
  by (cases ps) simp_all

lemma rebind_from_numbered: "rebind_from k q = numbered k (Split (CHR ''?'') q)"
proof (induction q arbitrary: k)
  case (Cons c q)
  obtain p ps where "Split (CHR ''?'') q = p # ps" using Split_Cons by metis
  with Cons show ?case by (simp add: numbered_Cons)
qed simp

lemma Itoa_no_mark: "CHR ''?'' \<notin> set (Itoa k)"
proof -
  have "c \<noteq> CHR ''?''" if "c \<in> set (nat_digits n)" for c n
    using that nat_digits_dec [of n] by (auto simp: list_all_iff dec_digit_def)
  then show ?thesis by (auto simp: Itoa_def)
qed

text \<open>\<^verbatim>\<open>rebind\<close> leaves a statement for SQLite alone and, for PostgreSQL, replaces the k-th question
  mark by \<^verbatim>\<open>$k\<close>, whatever the number of digits, and nothing else: the result is the pieces between
  the question marks joined by the numbered placeholders, and no question mark is left.\<close>

theorem rebind_numbers_placeholders:
  "rebind ''sqlite'' q = q \<and> rebind ''postgres'' q = numbered 1 (Split (CHR ''?'') q) \<and>
   CHR ''?'' \<notin> set (rebind ''postgres'' q)"
proof -
  have "CHR ''?'' \<notin> set (rebind_from k q)" for k
    by (induction q arbitrary: k) (auto simp: Itoa_no_mark)
  then show ?thesis by (simp add: rebind_def rebind_from_numbered)
qed

end
