(* ===== verification/Ky_Main.thy ===== *)
theory Ky_Main
  imports Api_Backup Ky_Env Store_Connect
begin

text \<open>
  \<^verbatim>\<open>cmd/server/main.go\<close>: what the subcommands do in the store: the bootstrap of the first administrator, \<^verbatim>\<open>init-admin\<close>, the backup
  scheduler and the one-shot run with their audit, and the wait for backup work at shutdown.
\<close>

section \<open>Administrators\<close>

text \<open>The ways a process ends early: a fatal log line, or an exit with a status of the flag package.\<close>

datatype main_err =
    FatalHash | FatalCreate err | FatalUpdate err | FatalPassword | FatalConfig config_err | FatalOpen open_err
  | FatalCollect lib_error | FatalDrill lib_error | FatalKey lib_error | FatalSeal lib_error | FatalWrite string
  | FatalBackup lib_error | FatalShares string | FatalNoShares | FatalRestore lib_error | ExitStatus int

text \<open>The account that \<^verbatim>\<open>runServer\<close> and \<^verbatim>\<open>init-admin\<close> create.\<close>

definition admin_user :: "string \<Rightarrow> string \<Rightarrow> string \<Rightarrow> user" where
  "admin_user idBytes username hash = zero_user\<lparr>uID := ''usr_'' @ RandomHex idBytes, uUsername := username,
     uDisplayName := ''Administrator'', uPasswordHash := hash, uRole := ''admin'', uStatus := ''active'',
     uSSOProvider := ''local'', uMustChangePassword := True\<rparr>"

text \<open>
  \<^verbatim>\<open>count, _ := CountUsers(ctx)\<close>: an error leaves the count at zero. The password is that of the
  environment, or random bytes in hexadecimal.
\<close>

definition ensure_admin ::
    "prims \<Rightarrow> time \<Rightarrow> string \<Rightarrow> string \<Rightarrow> string \<Rightarrow> string \<Rightarrow> world \<Rightarrow> (main_err + unit) \<times> world" where
  "ensure_admin pr now adminPass passBytes salt idBytes w =
     (case CountUsers w of (res, w) \<Rightarrow>
      (let count = (case res of Inl _ \<Rightarrow> 0 | Inr n \<Rightarrow> n);
           pass = (if adminPass = [] then RandomHex passBytes else adminPass)
       in if count \<noteq> 0 then (Inr (), w)
          else case pw_hash pr salt pass of
            None \<Rightarrow> (Inl FatalHash, w)
          | Some hash \<Rightarrow> (case CreateUser now (admin_user idBytes ''admin'' hash) w of
              (Inl e, w) \<Rightarrow> (Inl (FatalCreate e), w) | (Inr _, w) \<Rightarrow> (Inr (), w))))"

text \<open>What \<^verbatim>\<open>init-admin\<close> does in the store: a lookup that fails for any reason is followed by a creation.\<close>

definition admin_account :: "time \<Rightarrow> string \<Rightarrow> string \<Rightarrow> string \<Rightarrow> world \<Rightarrow> (main_err + unit) \<times> world" where
  "admin_account now username hash idBytes w =
     (case GetUserByUsername username w of (existing, w) \<Rightarrow>
      case existing of
        Inr u \<Rightarrow> (case ResetAdminPassword now (uID u) hash w of
            (Inl e, w) \<Rightarrow> (Inl (FatalUpdate e), w) | (Inr _, w) \<Rightarrow> (Inr (), w))
      | Inl _ \<Rightarrow> (case CreateUser now (admin_user idBytes username hash) w of
            (Inl e, w) \<Rightarrow> (Inl (FatalCreate e), w) | (Inr _, w) \<Rightarrow> (Inr (), w)))"

section \<open>Backup runs\<close>

text \<open>The audit of a run; its error is dropped.\<close>

definition recordRun :: "recovery_lib \<Rightarrow> ctx \<Rightarrow> nat \<Rightarrow> string \<Rightarrow> run_result \<Rightarrow> lib_error option \<Rightarrow> server \<Rightarrow> server" where
  "recordRun rl x k actor res failure s =
     (case rlOutcome rl res failure of (action, outcome, details) \<Rightarrow>
      snd (store_call x k (LogAudit (xNow x k)
        (audit actor action (mfCapsuleID (rsManifest res)) (AuditDetails rl (with_outcome outcome details)) [])) s))"

text \<open>One tick of the scheduler. The clock is read between the schedule and the run.\<close>

definition backup_tick :: "recovery_lib \<Rightarrow> disk \<Rightarrow> Config \<Rightarrow> run_config \<Rightarrow> ctx \<Rightarrow> time \<Rightarrow> server \<Rightarrow> server" where
  "backup_tick rl dk cfg rc x now s =
     (case run_prog (rlNextRun rl (bkDepositInterval (cfBackup cfg))) x 0 s of (schedule, k, s) \<Rightarrow>
      case schedule of
        Inl _ \<Rightarrow> s
      | Inr None \<Rightarrow> s
      | Inr (Some nextRun) \<Rightarrow>
          if now < nextRun then s
          else case run_prog (rlRun rl rc (CollectPayload dk cfg appVersion)) x k s of ((res, failure), k, s) \<Rightarrow>
            (case failure of
               Some e \<Rightarrow> if Is e RcErrNotPaired \<or> Is e RcErrNoDestination then s
                 else recordRun rl x k ''system'' res failure s
             | None \<Rightarrow> recordRun rl x k ''system'' res failure s))"

fun backup_ticks :: "recovery_lib \<Rightarrow> disk \<Rightarrow> Config \<Rightarrow> run_config \<Rightarrow> (ctx \<times> time) list \<Rightarrow> server \<Rightarrow> server" where
  "backup_ticks rl dk cfg rc [] s = s"
| "backup_ticks rl dk cfg rc ((x, now) # ts) s = backup_ticks rl dk cfg rc ts (backup_tick rl dk cfg rc x now s)"

text \<open>The ticks until the context is done; a key that cannot seal disables the scheduler.\<close>

definition backupLoop :: "recovery_lib \<Rightarrow> disk \<Rightarrow> Config \<Rightarrow> (ctx \<times> time) list \<Rightarrow> server \<Rightarrow> server" where
  "backupLoop rl dk cfg ts s = (case RunConfig rl cfg appVersion of Inl _ \<Rightarrow> s | Inr rc \<Rightarrow> backup_ticks rl dk cfg rc ts s)"

text \<open>One run for the command line.\<close>

definition zero_result :: run_result where
  "zero_result = \<lparr>rsManifest = \<lparr>mfCapsuleID = [], mfRecoveryKeyID = []\<rparr>, rsLocalPath = [], rsLocalError = [], rsFields = []\<rparr>"

definition runBackup :: "recovery_lib \<Rightarrow> disk \<Rightarrow> Config \<Rightarrow> ctx \<Rightarrow> server \<Rightarrow> (run_result \<times> lib_error option) \<times> nat \<times> server" where
  "runBackup rl dk cfg x s = (case RunConfig rl cfg appVersion of
     Inl e \<Rightarrow> ((zero_result, Some e), 0, s)
   | Inr rc \<Rightarrow> run_prog (rlRun rl rc (CollectPayload dk cfg appVersion)) x 0 s)"

section \<open>Shutdown\<close>

text \<open>
  One \<^verbatim>\<open>select\<close> between a channel that closes at a time, if ever, and the context's deadline,
  entered at \<open>now\<close>: when it returns and whether by the channel. When both are ready at once Go
  picks either; \<open>pick\<close> is that choice.
\<close>

definition select_done :: "bool \<Rightarrow> time option \<Rightarrow> time \<Rightarrow> time \<Rightarrow> time \<times> bool" where
  "select_done pick closes deadline now =
     (case closes of
        None \<Rightarrow> (max now deadline, False)
      | Some c \<Rightarrow>
          if max now c < max now deadline then (max now c, True)
          else if max now deadline < max now c then (max now deadline, False)
          else (max now c, pick))"

text \<open>
  The scheduler first, without regard to the deadline when it is already done, then the handlers:
  the time the wait returns, and whether each was seen to finish.
\<close>

definition waitForBackupWork ::
    "bool \<Rightarrow> bool \<Rightarrow> time option \<Rightarrow> time option \<Rightarrow> time \<Rightarrow> time \<Rightarrow> time \<times> bool \<times> bool" where
  "waitForBackupWork pick1 pick2 backupDone handlersDone deadline now =
     (case (if \<exists>c. backupDone = Some c \<and> c \<le> now then (now, True) else select_done pick1 backupDone deadline now) of
        (t, loop_seen) \<Rightarrow> (case select_done pick2 handlersDone deadline t of
           (t, handlers_seen) \<Rightarrow> (t, loop_seen, handlers_seen)))"

section \<open>Laws\<close>

lemma recordRun_evolves: "evolves s (recordRun rl x k a res f s)"
  unfolding recordRun_def by (auto simp: split_beta intro!: store_call_evolves store_likes)

lemma backup_tick_evolves: "evolves s (backup_tick rl dk cfg rc x now s)"
proof -
  obtain a k s1 where 1: "run_prog (rlNextRun rl (bkDepositInterval (cfBackup cfg))) x 0 s = (a, k, s1)" by (cases rule: prod_cases3)
  obtain res f k2 s2 where 2: "run_prog (rlRun rl rc (CollectPayload dk cfg appVersion)) x k s1 = ((res, f), k2, s2)"
    by (metis surj_pair)
  have e: "evolves s s1" "evolves s1 s2"
    using run_prog_evolves [of s "rlNextRun rl (bkDepositInterval (cfBackup cfg))" x 0]
      run_prog_evolves [of s1 "rlRun rl rc (CollectPayload dk cfg appVersion)" x k] 1 2 by simp_all
  then have s2: "evolves s s2" by (rule evolves_trans)
  then have "evolves s (recordRun rl x k2 ''system'' res f s2)" by (rule evolves_trans) (rule recordRun_evolves)
  with 1 2 e s2 show ?thesis by (auto simp: backup_tick_def split: sum.split option.split)
qed

lemma backup_ticks_evolves: "evolves s (backup_ticks rl dk cfg rc ts s)"
  by (induction rl dk cfg rc ts s rule: backup_ticks.induct) (auto intro: evolves_trans [OF backup_tick_evolves])

lemma backupLoop_evolves: "evolves s (backupLoop rl dk cfg ts s)"
  by (auto simp: backupLoop_def backup_ticks_evolves split: sum.split)

lemma CreateUser_admin:
  assumes "CreateUser now (admin_user idBytes name hash) w = (r, w')"
  shows "(isl r \<and> db w' = db w) \<or>
    (\<exists>u. db w' = (db w)\<lparr>users := users (db w) @ [u]\<rparr> \<and> uID u = ''usr_'' @ RandomHex idBytes \<and> uID u \<notin> user_ids (db w) \<and>
       uUsername u = name \<and> uPasswordHash u = hash \<and> uRole u = ''admin'' \<and> uStatus u = ''active'' \<and> uMustChangePassword u)"
proof (cases r)
  case (Inl e)
  with assms CreateUser_Inl show ?thesis by auto
next
  case (Inr u)
  with assms have c: "CreateUser now (admin_user idBytes name hash) w = (Inr u, w')" by simp
  then have "uRole u = ''admin'' \<and> uStatus u = ''active'' \<and> uMustChangePassword u"
    by (auto simp: CreateUser_def Let_def admin_user_def split: prod.splits sum.splits)
  with CreateUser_Inr [OF c] show ?thesis
    by (intro disjI2 exI [of _ "u\<lparr>uTOTPLastCounter := 0\<rparr>"]) (simp add: admin_user_def)
qed

end
