(* ===== verification/Ky_Cli.thy ===== *)
theory Ky_Cli
  imports Ky_Server Ky_Main
begin

text \<open>
  The processes of \<^verbatim>\<open>cmd/server/main.go\<close>: the dispatch on the first argument, the flags, opening
  the store, the server's start and its life as a sequence of requests and scheduler ticks, and
  the subcommands. A process reads the database it finds and leaves one behind; what runs beside
  it is in the contexts of its store calls.
\<close>

section \<open>Flags\<close>

text \<open>
  \<^verbatim>\<open>FlagSet.Parse\<close> for string flags with \<^verbatim>\<open>ExitOnError\<close>: the values, defaults first, or the exit
  status, which is 0 for an undefined \<^verbatim>\<open>-help\<close> or \<^verbatim>\<open>-h\<close> and 2 for every other error.
\<close>

definition set_flag :: "string \<Rightarrow> string \<Rightarrow> (string \<times> string) list \<Rightarrow> (string \<times> string) list" where
  "set_flag k v flags = map (\<lambda>(n, old). (n, if n = k then v else old)) flags"

definition flag_value :: "(string \<times> string) list \<Rightarrow> string \<Rightarrow> string" where
  "flag_value flags k = (case map_of flags k of Some v \<Rightarrow> v | None \<Rightarrow> [])"

fun parse_flags :: "(string \<times> string) list \<Rightarrow> string list \<Rightarrow> int + (string \<times> string) list" where
  "parse_flags flags [] = Inr flags"
| "parse_flags flags (s # args) =
     (if length s < 2 \<or> hd s \<noteq> CHR ''-'' \<or> s = ''--'' then Inr flags
      else let name = (if s ! 1 = CHR ''-'' then drop 2 s else drop 1 s);
               key = hd name # takeWhile (\<lambda>c. c \<noteq> CHR ''='') (tl name)
      in if name = [] \<or> hd name = CHR ''-'' \<or> hd name = CHR ''='' then Inl 2
         else if key \<notin> fst ` set flags then Inl (if key = ''help'' \<or> key = ''h'' then 0 else 2)
         else case (drop (length key) name, args) of
             (_ # v, _) \<Rightarrow> parse_flags (set_flag key v flags) args
           | ([], v # rest) \<Rightarrow> parse_flags (set_flag key v flags) rest
           | ([], []) \<Rightarrow> Inl 2)"

section \<open>Processes\<close>

text \<open>
  What a process is given: its environment, the database driver with the outcomes of its calls,
  the libraries, the clock, random bytes, the file it writes and the shares on its standard input.
  The context \<open>hoCtx\<close> is that of the store calls of a one-shot command.
\<close>

record host =
  hoEnv :: environment
  hoSql :: sql_lib
  hoMigNow :: "int \<Rightarrow> time"
  hoMigFaults :: "bool list"
  hoFaults :: "bool list"
  hoLibs :: parts
  hoCtx :: ctx
  hoNow :: time
  hoPassBytes :: string
  hoSalt :: string
  hoIDBytes :: string
  hoWriteFile :: "string \<Rightarrow> string \<Rightarrow> int \<Rightarrow> string option"
  hoShares :: "string + string list"
  hoRestore :: "string \<Rightarrow> string \<Rightarrow> string \<Rightarrow> string list \<Rightarrow> lib_error option"

text \<open>Load the configuration, open the store on the database found, work on it, close it.\<close>

definition with_store ::
    "host \<Rightarrow> (Config \<Rightarrow> world \<Rightarrow> (main_err + 'a) \<times> world) \<Rightarrow> catalog \<Rightarrow> (main_err + 'a) \<times> catalog" where
  "with_store h body c =
     (case LoadFromEnv (hoEnv h) of
        Inl e \<Rightarrow> (Inl (FatalConfig e), c)
      | Inr cfg \<Rightarrow>
      case OpenStore (hoSql h) (hoMigNow h) (cfDatabase cfg) \<lparr>mwCatalog = c, mwFaults = hoMigFaults h\<rparr> of
        (Inl e, mw) \<Rightarrow> (Inl (FatalOpen e), mwCatalog mw)
      | (Inr _, mw) \<Rightarrow>
      case body cfg \<lparr>db = ctRows (mwCatalog mw), faults = hoFaults h\<rparr> of
        (res, w) \<Rightarrow> (res, (mwCatalog mw)\<lparr>ctRows := db w\<rparr>))"

definition NewServer :: "Config \<Rightarrow> world \<Rightarrow> server" where
  "NewServer cfg w = \<lparr>srvWorld = w, srvAttempts = [], srvDetached = 0, srvKySignOn = NewKySignOnClient (cfSSO cfg)\<rparr>"

section \<open>The server\<close>

text \<open>
  A server's life: requests and ticks of the backup scheduler, in the order they start, each
  with what the libraries answer during it.
\<close>

datatype event =
    Request parts ctx request
  | Tick parts ctx time

fun run_event :: "Config \<Rightarrow> event \<Rightarrow> server \<Rightarrow> server" where
  "run_event cfg (Request p x r) s = snd (ky_ServeHTTP (p\<lparr>ptConfig := cfg\<rparr>) x r s)"
| "run_event cfg (Tick p x now) s = backupLoop (ptRecovery p) (ptDisk p) cfg [(x, now)] s"

fun run_events :: "Config \<Rightarrow> event list \<Rightarrow> server \<Rightarrow> server" where
  "run_events cfg [] s = s"
| "run_events cfg (e # es) s = run_events cfg es (run_event cfg e s)"

definition Getenv :: "environment \<Rightarrow> string \<Rightarrow> string" where
  "Getenv env k = (case evLookup env k of Some v \<Rightarrow> v | None \<Rightarrow> [])"

definition runServer :: "host \<Rightarrow> event list \<Rightarrow> catalog \<Rightarrow> (main_err + server) \<times> catalog" where
  "runServer h es = with_store h (\<lambda>cfg w.
     case ensure_admin (ptPrims (hoLibs h)) (hoNow h) (Getenv (hoEnv h) ''KY_ADMIN_PASSWORD'') (hoPassBytes h)
         (hoSalt h) (hoIDBytes h) w of
       (Inl e, w) \<Rightarrow> (Inl e, w)
     | (Inr _, w) \<Rightarrow> (let s = run_events cfg es (NewServer cfg w) in (Inr s, srvWorld s)))"

section \<open>Subcommands\<close>

definition runInitAdmin :: "host \<Rightarrow> string list \<Rightarrow> catalog \<Rightarrow> (main_err + unit) \<times> catalog" where
  "runInitAdmin h args c =
     (case parse_flags [(''username'', ''admin''), (''password'', [])] args of
        Inl status \<Rightarrow> (Inl (ExitStatus status), c)
      | Inr fs \<Rightarrow>
          let pass = flag_value fs ''password''
          in if pass = [] \<or> length pass < 12 then (Inl FatalPassword, c)
             else with_store h (\<lambda>cfg w.
               case pw_hash (ptPrims (hoLibs h)) (hoSalt h) pass of
                 None \<Rightarrow> (Inl FatalHash, w)
               | Some hash \<Rightarrow> admin_account (hoNow h) (flag_value fs ''username'') hash (hoIDBytes h) w) c)"

definition collectFiles :: "disk \<Rightarrow> Config \<Rightarrow> main_err + payload" where
  "collectFiles dk cfg = map_sum FatalCollect id (CollectPayload dk cfg appVersion)"

text \<open>The result is what the summary is printed from.\<close>

definition runBackupDrill :: "host \<Rightarrow> catalog \<Rightarrow> (main_err + json) \<times> catalog" where
  "runBackupDrill h = with_store h (\<lambda>cfg w.
     let dk = ptDisk (hoLibs h)
     in (case collectFiles dk cfg of
           Inl e \<Rightarrow> Inl e
         | Inr payload \<Rightarrow> map_sum FatalDrill id (RunDrill dk (rlDrill (ptRecovery (hoLibs h))) cfg payload), w))"

text \<open>The result is the path and the bytes of the file that was written.\<close>

definition runExportCapsule :: "host \<Rightarrow> string list \<Rightarrow> catalog \<Rightarrow> (main_err + string \<times> string) \<times> catalog" where
  "runExportCapsule h args c =
     (case parse_flags [(''out'', [])] args of
        Inl status \<Rightarrow> (Inl (ExitStatus status), c)
      | Inr fs \<Rightarrow> with_store h (\<lambda>cfg w.
          let rl = ptRecovery (hoLibs h)
          in case run_prog (rlLoadRecoveryKey rl (dbDataDir (cfDatabase cfg))) (hoCtx h) 0 (NewServer cfg w) of
               (Inl e, _, s) \<Rightarrow> (Inl (FatalKey e), srvWorld s)
             | (Inr key, _, s) \<Rightarrow>
                 (case collectFiles (ptDisk (hoLibs h)) cfg of
                    Inl e \<Rightarrow> Inl e
                  | Inr payload \<Rightarrow>
                  case rlSeal rl payload key of
                    Inl e \<Rightarrow> Inl (FatalSeal e)
                  | Inr (raw, m) \<Rightarrow>
                      let out = flag_value fs ''out'';
                          path = (if out = [] then rlFilenameSafe rl (mfCapsuleID m) @ ''.kycap'' else out)
                      in case hoWriteFile h path raw 384 of
                           Some e \<Rightarrow> Inl (FatalWrite e)
                         | None \<Rightarrow> Inr (path, raw), srvWorld s)) c)"

definition runDeposit :: "host \<Rightarrow> catalog \<Rightarrow> (main_err + unit) \<times> catalog" where
  "runDeposit h = with_store h (\<lambda>cfg w.
     let rl = ptRecovery (hoLibs h)
     in case runBackup rl (ptDisk (hoLibs h)) cfg (hoCtx h) (NewServer cfg w) of
          ((res, failure), k, s) \<Rightarrow>
            let s = recordRun rl (hoCtx h) k ''cli'' res failure s
            in (case failure of Some e \<Rightarrow> Inl (FatalBackup e) | None \<Rightarrow> Inr (), srvWorld s))"

text \<open>
  The restore opens no store: the service is the flag, else \<^verbatim>\<open>KY_APP_NAME\<close>, else the default name,
  and the custodians' shares come from the standard input alone.
\<close>

definition restore_service :: "string \<Rightarrow> environment \<Rightarrow> string" where
  "restore_service service env =
     (let service = (if service = [] then Getenv env ''KY_APP_NAME'' else service)
      in if service = [] then DefaultAppName else service)"

definition runRestore :: "host \<Rightarrow> string list \<Rightarrow> main_err + unit" where
  "runRestore h args =
     (case parse_flags [(''capsule'', []), (''to'', []), (''service'', [])] args of
        Inl status \<Rightarrow> Inl (ExitStatus status)
      | Inr fs \<Rightarrow>
          if flag_value fs ''capsule'' = [] \<or> flag_value fs ''to'' = [] then Inl (ExitStatus 2)
          else case hoShares h of
            Inl e \<Rightarrow> Inl (FatalShares e)
          | Inr shares \<Rightarrow>
              if shares = [] then Inl FatalNoShares
              else case hoRestore h (flag_value fs ''capsule'') (flag_value fs ''to'')
                  (restore_service (flag_value fs ''service'') (hoEnv h)) shares of
                Some e \<Rightarrow> Inl (FatalRestore e) | None \<Rightarrow> Inr ())"

section \<open>The binary\<close>

datatype report =
    OutServed server
  | OutAdmin
  | OutDrill json
  | OutCapsule string string
  | OutDeposited
  | OutRestored
  | OutVersion

text \<open>The dispatch on \<^verbatim>\<open>os.Args[1:]\<close>; \<open>es\<close> is the life of the server it starts, if it does.\<close>

definition ky_main :: "host \<Rightarrow> string list \<Rightarrow> event list \<Rightarrow> catalog \<Rightarrow> (main_err + report) \<times> catalog" where
  "ky_main h args es c =
     (let served = map_prod (map_sum id OutServed) id (runServer h es c)
      in case args of
        [] \<Rightarrow> served
      | cmd # args \<Rightarrow>
          if cmd = ''init-admin'' then map_prod (map_sum id (\<lambda>_. OutAdmin)) id (runInitAdmin h args c)
          else if cmd = ''backup-drill'' then map_prod (map_sum id OutDrill) id (runBackupDrill h c)
          else if cmd = ''export-capsule''
          then map_prod (map_sum id (\<lambda>(path, raw). OutCapsule path raw)) id (runExportCapsule h args c)
          else if cmd = ''deposit'' then map_prod (map_sum id (\<lambda>_. OutDeposited)) id (runDeposit h c)
          else if cmd = ''restore'' then (map_sum id (\<lambda>_. OutRestored) (runRestore h args), c)
          else if cmd = ''version'' then (Inr OutVersion, c)
          else served)"

text \<open>Every database that any processes of one driver have led to.\<close>

inductive deployed :: "string \<Rightarrow> catalog \<Rightarrow> bool" for driver :: string where
  fresh: "deployed driver empty_catalog"
| process: "deployed driver c \<Longrightarrow> config_driver (env_database (hoEnv h)) = driver \<Longrightarrow>
     deployed driver (snd (ky_main h args es c))"

section \<open>Laws\<close>

lemma LoadFromEnv_database: "LoadFromEnv env = Inr cfg \<Longrightarrow> cfDatabase cfg = env_database env"
  by (auto simp: LoadFromEnv_def Let_def split: sum.splits if_splits)

text \<open>The connection string of the default configuration enforces foreign keys.\<close>

lemma default_dsn_enforces_keys:
  assumes "evLookup env ''KY_DB_DSN'' = None" "config_driver (env_database env) = ''sqlite''"
  shows "strings_Contains (sqlite_dsn (dbDSN (env_database env))) ''foreign_keys(ON)''"
proof -
  let ?params = "''/ky_server.db?_pragma=busy_timeout(5000)&_pragma=journal_mode(WAL)&_pragma=foreign_keys(ON)''"
  have "ToLower (getEnv env ''KY_DB_DRIVER'' ''sqlite'') \<notin> {''postgres'', ''postgresql''}"
    using assms(2) by (auto simp: config_driver_def env_database_def Let_def ToLower_def lower_char_def)
  then have d: "dbDSN (env_database env) = getEnv env ''KY_DATA_DIR'' ''./data'' @ ?params"
    using assms(1) by (simp add: env_database_def Let_def getEnv_def [of env "''KY_DB_DSN''"])
  have "strings_Contains ?params ''_pragma''" "strings_Contains ?params ''foreign_keys(ON)''" by code_simp+
  then show ?thesis unfolding d sqlite_dsn_def by (simp only: strings_Contains_append not_True_eq_False if_False)
qed

lemma run_event_evolves: "evolves s (run_event cfg e s)"
  by (cases e) (simp_all add: ky_ServeHTTP_evolves backupLoop_evolves)

lemma run_events_evolves: "evolves s (run_events cfg es s)"
  by (induction cfg es s rule: run_events.induct) (auto intro: evolves_trans [OF run_event_evolves])

lemma evolves_grows: "evolves s s' \<Longrightarrow> grows (srvWorld s) (srvWorld s')"
  by (simp add: evolves_def)

lemma store_like_Reset: "store_like (ResetAdminPassword now i hash)"
  by (rule store_like_op [of _ "OpResetAdminPassword now i hash"]) simp

lemma ensure_admin_grows: "grows w (snd (ensure_admin pr now p pb salt ib w))"
proof -
  obtain r w1 where c: "CountUsers w = (r, w1)" by fastforce
  have 1: "grows w w1" using sql_query_db [OF c [unfolded CountUsers_def]] by (simp add: grows_same)
  have "grows w1 (snd (CreateUser now u w1))" for u
    using store_like_writes(13) by (simp add: store_like_def)
  then have "grows w (snd (CreateUser now u w1))" for u using 1 grows_trans by blast
  with 1 c show ?thesis
    by (auto simp: ensure_admin_def Let_def split: prod.splits sum.splits option.splits) (metis snd_conv)+
qed

lemma admin_account_grows: "grows w (snd (admin_account now n hash ib w))"
proof -
  obtain r w1 where g: "GetUserByUsername n w = (r, w1)" by fastforce
  have 1: "grows w w1" using GetUserByUsername_db [OF g] by (simp add: grows_same)
  have "grows w1 (snd (CreateUser now u w1))" "grows w1 (snd (ResetAdminPassword now i hash w1))" for u i
    using store_like_writes(13) store_like_Reset by (simp_all add: store_like_def)
  then have "grows w (snd (CreateUser now u w1))" "grows w (snd (ResetAdminPassword now i hash w1))" for u i
    using 1 grows_trans by blast+
  with g show ?thesis
    by (auto simp: admin_account_def split: prod.splits sum.splits) (metis snd_conv)+
qed

text \<open>What every process keeps of the database.\<close>

definition database_keeps :: "string \<Rightarrow> catalog \<Rightarrow> catalog \<Rightarrow> bool" where
  "database_keeps driver c c' \<longleftrightarrow> (mig_reachable driver c \<longrightarrow> mig_reachable driver c') \<and>
     (schema_ok (ctRows c) \<longrightarrow> schema_ok (ctRows c')) \<and> audit_extends (ctRows c) (ctRows c')"

lemma database_keeps_refl: "database_keeps driver c c"
  by (simp add: database_keeps_def)

lemma OpenStore_keeps:
  assumes "OpenStore sq now cfg \<lparr>mwCatalog = c, mwFaults = fs\<rparr> = (r, mw)"
  shows "database_keeps (config_driver cfg) c (mwCatalog mw)"
  using OpenStore_catalog [OF assms]
proof
  assume "mw = snd (Run (config_driver cfg) now \<lparr>mwCatalog = c, mwFaults = fs\<rparr>)"
  moreover from this obtain r' where "Run (config_driver cfg) now \<lparr>mwCatalog = c, mwFaults = fs\<rparr> = (r', mw)"
    by (metis prod.collapse)
  from Run_rows [OF this] have "rows_keep c (mwCatalog mw)" by simp
  ultimately show ?thesis
    by (auto simp: database_keeps_def rows_keep_def audit_extends_eq intro: mig_reachable.ran)
qed (simp add: database_keeps_refl)

lemma with_store_keeps:
  assumes "config_driver (env_database (hoEnv h)) = driver" "\<And>cfg w. grows w (snd (body cfg w))"
  shows "database_keeps driver c (snd (with_store h body c))"
proof (cases "LoadFromEnv (hoEnv h)")
  case (Inr cfg)
  obtain r mw where o: "OpenStore (hoSql h) (hoMigNow h) (cfDatabase cfg) \<lparr>mwCatalog = c, mwFaults = hoMigFaults h\<rparr> = (r, mw)"
    by fastforce
  have k: "database_keeps driver c (mwCatalog mw)"
    using OpenStore_keeps [OF o] LoadFromEnv_database [OF Inr] assms(1) by simp
  show ?thesis
  proof (cases r)
    case (Inl e)
    with Inr o k show ?thesis by (simp add: with_store_def)
  next
    case r: (Inr st)
    let ?w = "\<lparr>db = ctRows (mwCatalog mw), faults = hoFaults h\<rparr>"
    obtain res w where b: "body cfg ?w = (res, w)" by fastforce
    have "grows ?w w" using assms(2) [of ?w cfg] b by simp
    with k Inr o r b show ?thesis
      by (auto simp: with_store_def database_keeps_def grows_def intro: mig_reachable.rows audit_extends_trans)
  qed
qed (simp add: with_store_def database_keeps_refl)

lemma with_store_Inr:
  assumes "with_store h body c = (Inr a, c')"
  obtains cfg st mw w where "LoadFromEnv (hoEnv h) = Inr cfg"
    "OpenStore (hoSql h) (hoMigNow h) (cfDatabase cfg) \<lparr>mwCatalog = c, mwFaults = hoMigFaults h\<rparr> = (Inr st, mw)"
    "body cfg \<lparr>db = ctRows (mwCatalog mw), faults = hoFaults h\<rparr> = (Inr a, w)"
    "c' = (mwCatalog mw)\<lparr>ctRows := db w\<rparr>"
    "database_keeps (config_driver (env_database (hoEnv h))) c (mwCatalog mw)"
proof -
  from assms obtain cfg st mw w where o: "LoadFromEnv (hoEnv h) = Inr cfg"
    "OpenStore (hoSql h) (hoMigNow h) (cfDatabase cfg) \<lparr>mwCatalog = c, mwFaults = hoMigFaults h\<rparr> = (Inr st, mw)"
    and b: "body cfg \<lparr>db = ctRows (mwCatalog mw), faults = hoFaults h\<rparr> = (Inr a, w)"
    "c' = (mwCatalog mw)\<lparr>ctRows := db w\<rparr>"
    by (auto simp: with_store_def split: sum.splits prod.splits)
  from OpenStore_keeps [OF o(2)] have "database_keeps (config_driver (env_database (hoEnv h))) c (mwCatalog mw)"
    using LoadFromEnv_database [OF o(1)] by simp
  with o b show ?thesis by (rule that)
qed

lemma runServer_keeps:
  assumes "config_driver (env_database (hoEnv h)) = driver"
  shows "database_keeps driver c (snd (runServer h es c))"
  unfolding runServer_def
proof (rule with_store_keeps [OF assms])
  fix cfg w
  obtain r w1 where e: "ensure_admin (ptPrims (hoLibs h)) (hoNow h) (Getenv (hoEnv h) ''KY_ADMIN_PASSWORD'') (hoPassBytes h)
      (hoSalt h) (hoIDBytes h) w = (r, w1)" by fastforce
  have "grows w w1" using ensure_admin_grows e by (metis snd_conv)
  moreover have "grows w1 (srvWorld (run_events cfg es (NewServer cfg w1)))"
    using evolves_grows [OF run_events_evolves, of "NewServer cfg w1" cfg es] by (simp add: NewServer_def)
  ultimately have "grows w1 (srvWorld (run_events cfg es (NewServer cfg w1)))" "grows w w1" by simp_all
  with e grows_trans show "grows w (snd (case ensure_admin (ptPrims (hoLibs h)) (hoNow h) (Getenv (hoEnv h) ''KY_ADMIN_PASSWORD'')
      (hoPassBytes h) (hoSalt h) (hoIDBytes h) w of (Inl e, w) \<Rightarrow> (Inl e, w)
     | (Inr _, w) \<Rightarrow> (let s = run_events cfg es (NewServer cfg w) in (Inr s, srvWorld s))))"
    by (auto simp: Let_def split: sum.split)
qed

lemma read_only_keeps:
  assumes "config_driver (env_database (hoEnv h)) = driver" "\<And>cfg w. db (snd (body cfg w)) = db w"
  shows "database_keeps driver c (snd (with_store h body c))"
  by (rule with_store_keeps [OF assms(1)]) (simp add: grows_same assms(2))

lemma runInitAdmin_keeps:
  assumes "config_driver (env_database (hoEnv h)) = driver"
  shows "database_keeps driver c (snd (runInitAdmin h args c))"
proof -
  have "grows w (snd (case pw_hash pr salt pass of None \<Rightarrow> (Inl FatalHash, w)
      | Some hash \<Rightarrow> admin_account now name hash ib w))" for pr salt pass now name ib w
    using admin_account_grows by (simp add: grows_same split: option.split)
  then have "database_keeps driver c (snd (with_store h (\<lambda>cfg w.
      case pw_hash pr salt pass of None \<Rightarrow> (Inl FatalHash, w)
      | Some hash \<Rightarrow> admin_account now name hash ib w) c))" for pr salt pass now name ib
    by (rule with_store_keeps [OF assms])
  note k = this
  show ?thesis
    unfolding runInitAdmin_def by (auto simp: Let_def database_keeps_refl intro: k split: sum.split)
qed

lemma runBackupDrill_keeps:
  assumes "config_driver (env_database (hoEnv h)) = driver"
  shows "database_keeps driver c (snd (runBackupDrill h c))"
  unfolding runBackupDrill_def by (rule read_only_keeps [OF assms]) (simp add: Let_def)

lemma run_prog_grows:
  assumes "run_prog p x k (NewServer cfg w) = (a, k', s)"
  shows "grows w (srvWorld s)"
  using evolves_grows [OF run_prog_evolves, of "NewServer cfg w" p x k] assms by (simp add: NewServer_def)

lemma runExportCapsule_keeps:
  assumes "config_driver (env_database (hoEnv h)) = driver"
  shows "database_keeps driver c (snd (runExportCapsule h args c))"
proof -
  have "database_keeps driver c (snd (with_store h body c))"
    if "\<And>cfg w. \<exists>a k s. run_prog (rlLoadRecoveryKey (ptRecovery (hoLibs h)) (dbDataDir (cfDatabase cfg))) (hoCtx h) 0
        (NewServer cfg w) = (a, k, s) \<and> snd (body cfg w) = srvWorld s" for body :: "Config \<Rightarrow> world \<Rightarrow> (main_err + string \<times> string) \<times> world"
    by (rule with_store_keeps [OF assms]) (metis that run_prog_grows)
  note k = this
  show ?thesis
  proof (cases "parse_flags [(''out'', [])] args")
    case (Inr fs)
    then show ?thesis
      unfolding runExportCapsule_def
      by (simp, intro k)
        (auto simp: Let_def split: prod.split sum.split)
  qed (simp add: runExportCapsule_def database_keeps_refl)
qed

lemma runDeposit_keeps:
  assumes "config_driver (env_database (hoEnv h)) = driver"
  shows "database_keeps driver c (snd (runDeposit h c))"
  unfolding runDeposit_def
proof (rule with_store_keeps [OF assms])
  fix cfg w
  let ?rl = "ptRecovery (hoLibs h)"
  obtain res failure k s where b: "runBackup ?rl (ptDisk (hoLibs h)) cfg (hoCtx h) (NewServer cfg w) = ((res, failure), k, s)"
    by (metis surj_pair)
  then have "evolves (NewServer cfg w) s"
    using run_prog_evolves [of "NewServer cfg w" _ "hoCtx h" 0]
    by (fastforce simp: runBackup_def dest: arg_cong [where f = "\<lambda>p. snd (snd p)"] split: sum.splits)
  then have "evolves (NewServer cfg w) (recordRun ?rl (hoCtx h) k ''cli'' res failure s)"
    by (rule evolves_trans) (rule recordRun_evolves)
  then have "grows w (srvWorld (recordRun ?rl (hoCtx h) k ''cli'' res failure s))"
    using evolves_grows by (fastforce simp: NewServer_def)
  with b show "grows w (snd (let rl = ?rl in case runBackup rl (ptDisk (hoLibs h)) cfg (hoCtx h) (NewServer cfg w) of
      ((res, failure), k, s) \<Rightarrow> let s = recordRun rl (hoCtx h) k ''cli'' res failure s
        in (case failure of Some e \<Rightarrow> Inl (FatalBackup e) | None \<Rightarrow> Inr (), srvWorld s)))"
    by (simp add: Let_def)
qed

lemmas process_keeps = runServer_keeps runInitAdmin_keeps runBackupDrill_keeps runExportCapsule_keeps
  runDeposit_keeps

lemma ky_main_keeps:
  assumes "config_driver (env_database (hoEnv h)) = driver"
  shows "database_keeps driver c (snd (ky_main h args es c))"
  using process_keeps [OF assms] by (cases args) (simp_all add: ky_main_def Let_def database_keeps_refl)

lemma deployed_ok:
  "deployed driver c \<Longrightarrow> mig_reachable driver c \<and> schema_ok (ctRows c)"
proof (induction rule: deployed.induct)
  case fresh
  have "schema_ok empty_db" using reachable_schema [OF reachable.start [of "\<lparr>db = empty_db, faults = []\<rparr>"]] by simp
  then show ?case by (simp add: mig_reachable.fresh) (simp add: empty_catalog_def)
next
  case (process c h args es)
  with ky_main_keeps [of h driver c args es] show ?case by (simp add: database_keeps_def)
qed

text \<open>A server that ran did so on a fully migrated database and kept its invariant.\<close>

lemma runServer_Inr:
  assumes "runServer h es c = (Inr s, c')" "mig_reachable (config_driver (env_database (hoEnv h))) c" "schema_ok (ctRows c)"
  shows "server_ok s \<and> srvDetached s = 0 \<and> applied_versions c' = [1, 2, 3, 4] \<and> ctRows c' = db (srvWorld s)"
  using assms(1) unfolding runServer_def
proof (rule with_store_Inr)
  fix cfg st mw w
  assume l: "LoadFromEnv (hoEnv h) = Inr cfg"
    and o: "OpenStore (hoSql h) (hoMigNow h) (cfDatabase cfg) \<lparr>mwCatalog = c, mwFaults = hoMigFaults h\<rparr> = (Inr st, mw)"
    and b: "(case ensure_admin (ptPrims (hoLibs h)) (hoNow h) (Getenv (hoEnv h) ''KY_ADMIN_PASSWORD'') (hoPassBytes h) (hoSalt h)
        (hoIDBytes h) \<lparr>db = ctRows (mwCatalog mw), faults = hoFaults h\<rparr> of
        (Inl e, w) \<Rightarrow> (Inl e, w)
      | (Inr _, w) \<Rightarrow> (let s = run_events cfg es (NewServer cfg w) in (Inr s, srvWorld s))) = (Inr s, w)"
    and c': "c' = (mwCatalog mw)\<lparr>ctRows := db w\<rparr>"
    and k: "database_keeps (config_driver (env_database (hoEnv h))) c (mwCatalog mw)"
  let ?w = "\<lparr>db = ctRows (mwCatalog mw), faults = hoFaults h\<rparr>"
  obtain u w1 where e: "ensure_admin (ptPrims (hoLibs h)) (hoNow h) (Getenv (hoEnv h) ''KY_ADMIN_PASSWORD'') (hoPassBytes h) (hoSalt h)
        (hoIDBytes h) ?w = (Inr u, w1)" and s: "s = run_events cfg es (NewServer cfg w1)" "w = srvWorld s"
    using b by (auto simp: Let_def split: sum.splits prod.splits)
  have "grows ?w w1" using ensure_admin_grows e by (metis snd_conv)
  with k assms(3) have "schema_ok (db w1)" by (simp add: database_keeps_def grows_def)
  then have ok: "server_ok (NewServer cfg w1)" by (simp add: NewServer_def server_ok_def limiter_ok_def)
  have ev: "evolves (NewServer cfg w1) s" using run_events_evolves s by simp
  have "srvDetached s = 0" using ev by (simp add: evolves_def NewServer_def)
  moreover have "applied_versions (mwCatalog mw) = [1, 2, 3, 4]"
    using opened_stage [OF _ o] assms(2) LoadFromEnv_database [OF l] by simp
  ultimately show ?thesis
    using evolves_ok [OF ev ok] c' s(2) by (simp add: applied_versions_def)
qed

lemma map_sum_Inr: "map_sum f g a = Inr x \<longleftrightarrow> (\<exists>b. a = Inr b \<and> g b = x)"
  by (cases a) simp_all

lemma map_prod_pair: "map_prod f id p = (a, c) \<longleftrightarrow> f (fst p) = a \<and> snd p = c"
  by (cases p) simp

lemma ky_main_served:
  assumes "ky_main h args es c = (Inr (OutServed s), c')"
  shows "runServer h es c = (Inr s, c')"
proof -
  have "fst (runServer h es c) = Inr s \<and> snd (runServer h es c) = c'"
    using assms
    by (cases args) (simp_all add: ky_main_def Let_def map_prod_pair map_sum_Inr split_beta split: if_split_asm)
  then show ?thesis by (metis prod.collapse)
qed

text \<open>Both spellings of a flag, with one dash or two, set it to the value as it stands.\<close>

lemma parse_flags_set:
  assumes "k \<in> fst ` set flags" "k \<noteq> []" "hd k \<noteq> CHR ''-''" "CHR ''='' \<notin> set k" "dash = ''-'' \<or> dash = ''--''"
  shows "parse_flags flags ((dash @ k @ ''='' @ v) # args) = parse_flags (set_flag k v flags) args"
    and "parse_flags flags ((dash @ k) # v # args) = parse_flags (set_flag k v flags) args"
proof -
  obtain a as where k: "k = a # as" "a \<noteq> CHR ''-''" "a \<noteq> CHR ''=''" "CHR ''='' \<notin> set as"
    using assms(2-4) by (cases k) auto
  have t: "takeWhile (\<lambda>c. c \<noteq> CHR ''='') as = as" "takeWhile (\<lambda>c. c \<noteq> CHR ''='') (as @ CHR ''='' # v) = as"
    using k(4) by (induction as) auto
  have m: "(a # as \<in> fst ` set flags) = True" using assms(1) k(1) by simp
  from assms(5) show "parse_flags flags ((dash @ k @ ''='' @ v) # args) = parse_flags (set_flag k v flags) args"
    by (elim disjE; simp only: k(1)) (simp_all add: m t k(2,3) Let_def)
  from assms(5) show "parse_flags flags ((dash @ k) # v # args) = parse_flags (set_flag k v flags) args"
    by (elim disjE; simp only: k(1)) (simp_all add: m t k(2,3) Let_def)
qed

end
