(* ===== verification/Backup_Props.thy ===== *)
theory Backup_Props
  imports Ky_Cli Api_Props
begin

text \<open>
  The properties of the backup code: drills, exports and runs; and the witnesses of the
  properties of the whole server and of its binary.
\<close>

section \<open>Drills\<close>

text \<open>C25: a capsule's payload passes its own drill: opened with the recipe and the members that
  \<^verbatim>\<open>Collect\<close> wrote, in a directory that holds those members as regular non-empty files with a sound
  database, on a host with the two variables set, every check passes, none is omitted, and the
  recipe is never refused.\<close>

theorem collected_payload_passes_drill:
  assumes "CollectPayload dk cfg v = Inr pl" "opRecipe op = plVerificationRecipe pl" "opFiles op = map bfPath (plFiles pl)"
    and "\<forall>f \<in> set (plFiles pl). regular_file dk2 (filepath_Join [dir, bfPath f])"
    and "dkAbs dk2 (filepath_Join [dir, dbPath]) = Some a" "dkOpenReadOnly dk2 a" "dkIntegrity dk2 a = Some ''ok''"
    and "\<forall>e \<in> set required_env. dkLookupEnv dk2 e"
  shows "list_all chPassed (Checks dk2 dir op) \<and> length (Checks dk2 dir op) = 4"
proof -
  let ?ps = "map bfPath (plFiles pl)"
  obtain db more where f: "plFiles pl =
      [\<lparr>bfPath = dbPath, bfData = db, bfMode = 384\<rparr>,
       \<lparr>bfPath = ''config/settings.json'', bfData = settings_file cfg, bfMode = 384\<rparr>,
       \<lparr>bfPath = encryptionKeyPath, bfData = hex_encode (scEncryptionKey (cfSecurity cfg)) @ [CHR 0x0A], bfMode = 384\<rparr>] @ more"
    and m: "bfPath ` set more \<subseteq> {recoveryPubPath}" and r: "plVerificationRecipe pl = recipe_json cfg (plFiles pl)"
    using CollectPayload_files [OF assms(1)] by (auto split: sum.splits)
  have sub: "set ?ps \<subseteq> set capsule_paths" using f m by (auto simp: capsule_paths_def)
  have required: "recipeStrings (Some (string_array ?ps)) = Inr ?ps"
    using sub capsule_paths_fine(1) f by (intro recipeStrings_array) auto
  have env: "recipeStrings (Some (string_array required_env)) = Inr required_env"
    using capsule_paths_fine(1) by (intro recipeStrings_array) (auto simp: required_env_def)
  have sqlite: "recipeStrings (Some (string_array [dbPath])) = Inr [dbPath]"
    using capsule_paths_fine(1) by (intro recipeStrings_array) (auto simp: capsule_paths_def)
  have dp: "drillPath dir p = Some (filepath_Join [dir, p])" if "p \<in> set ?ps" for p
    using that sub by (intro drillPath_capsule) auto
  have db: "dbPath \<in> set ?ps" "''config/settings.json'' \<in> set ?ps" "encryptionKeyPath \<in> set ?ps" using f by auto
  have none: "omitted [dbPath, ''config/settings.json'', encryptionKeyPath] ?ps = None"
    "omitted required_env required_env = None" "omitted ?ps ?ps = None"
    using db by (auto simp: omitted_def find_None_iff)
  have reg: "regular_file dk2 (filepath_Join [dir, p])" if "p \<in> set ?ps" for p using that assms(4) by auto
  have bad: "filter (\<lambda>n. \<not> regular_file dk2 (the (drillPath dir n))) ?ps = []"
    using dp reg by (auto simp: filter_empty_conv)
  have safe: "\<not> (\<exists>n \<in> set (?ps @ [dbPath]). drillPath dir n = None \<or> n \<notin> set (opFiles op))"
    using dp db assms(3) by auto
  have "Checks dk2 dir op = file_checks dk2 dir ?ps @ [sqliteIntegrityCheck dk2 dbPath (filepath_Join [dir, dbPath])] @
      map (env_check dk2) required_env"
    unfolding Checks_def assms(2) r recipe_json_def json.case requiredFiles_def
    using required sqlite env none safe db dp assms(3) by simp
  moreover have "file_checks dk2 dir ?ps = [\<lparr>chName = ''Required Files'', chPassed = True,
            chMessage = ''All '' @ Itoa (int (length ?ps)) @ '' required files verified''\<rparr>]"
    using bad by (simp add: file_checks_def)
  moreover have "chPassed (sqliteIntegrityCheck dk2 dbPath (filepath_Join [dir, dbPath]))"
    using reg [OF db(1)] assms(5-7) by (simp add: sqliteIntegrityCheck_def)
  ultimately show ?thesis using assms(8) by (simp add: required_env_def env_check_def)
qed

definition drill_disk :: disk where
  "drill_disk = \<lparr>dkOpenDB = (\<lambda>_. None), dkMkdirTemp = (\<lambda>d _. Inr (d @ ''/snapshot-1'')), dkSQLiteSnapshot = (\<lambda>_ _. None),
     dkReadFile = (\<lambda>_. Inr ''bytes''), dkStat = (\<lambda>_. True), dkLstat = (\<lambda>_. Some (True, 5)), dkAbs = Some,
     dkOpenReadOnly = (\<lambda>_. True), dkIntegrity = (\<lambda>_. Some ''ok''), dkLookupEnv = (\<lambda>_. True), dkOpenLock = (\<lambda>_. None),
     dkFlock = (\<lambda>_. FlockHeld), dkMkdirAll = (\<lambda>_. None), dkChmod = (\<lambda>_. None), dkRecoveryKeyPath = (\<lambda>d. d @ ''/recovery.pub'')\<rparr>"

lemma demo_collects: "\<exists>pl. CollectPayload drill_disk demo_config ''1.0.0'' = Inr pl"
  by (simp add: CollectPayload_def snapshotSQLite_def drill_disk_def demo_config_def demo_security_def ToLower_def lower_char_def Let_def)

theorem collected_payload_passes_drill_witness:
  "\<exists>pl. CollectPayload drill_disk demo_config ''1.0.0'' = Inr pl \<and>
     list_all chPassed (Checks drill_disk ''/d'' \<lparr>opRecipe = plVerificationRecipe pl, opFiles = map bfPath (plFiles pl)\<rparr>)"
proof -
  obtain pl where pl: "CollectPayload drill_disk demo_config ''1.0.0'' = Inr pl" using demo_collects by blast
  have "list_all chPassed (Checks drill_disk ''/d'' \<lparr>opRecipe = plVerificationRecipe pl, opFiles = map bfPath (plFiles pl)\<rparr>) \<and>
      length (Checks drill_disk ''/d'' \<lparr>opRecipe = plVerificationRecipe pl, opFiles = map bfPath (plFiles pl)\<rparr>) = 4"
    by (rule collected_payload_passes_drill [OF pl]) (simp_all add: regular_file_def drill_disk_def)
  with pl show ?thesis by blast
qed

text \<open>Whatever a capsule's recipe says, a file check stays below the drill's directory: a name that
  \<^verbatim>\<open>drillPath\<close> accepts is joined to that directory, is not absolute and has no empty, dot or
  dot-dot element.\<close>

theorem drill_stays_in_directory:
  assumes "drillPath root name = Some path" "e \<in> set (Split (CHR ''/'') name)"
  shows "path = filepath_Join [root, name] \<and> \<not> IsAbs name \<and> e \<noteq> [] \<and> e \<noteq> ''.'' \<and> e \<noteq> ''..''"
  using assms clean_local_elements [of name e] by (auto simp: drillPath_def IsLocal_def split: if_splits)

theorem drill_stays_in_directory_witness:
  "\<not> IsAbs ''data/ky_server.db'' \<and> ''data'' \<noteq> ''..''"
proof -
  have "drillPath ''/d'' ''data/ky_server.db'' = Some (filepath_Join [''/d'', ''data/ky_server.db''])"
    "''data'' \<in> set (Split (CHR ''/'') ''data/ky_server.db'')" by code_simp+
  from drill_stays_in_directory [OF this] show ?thesis by blast
qed

section \<open>Exports and runs\<close>

text \<open>The last thing done to the store is the attempt to record an action of the acting user.\<close>

definition audited_last :: "Config \<Rightarrow> ctx \<Rightarrow> request \<Rightarrow> string \<Rightarrow> string \<Rightarrow> server \<Rightarrow> bool" where
  "audited_last cfg x r actor action s \<longleftrightarrow> (\<exists>k resource details w.
     srvWorld s = snd (LogAudit (xNow x k) (audit actor action resource details (requestIP cfg r)) w))"

lemma auditBackup_last:
  "auditBackup rl cfg x k actor r action resource details s = (res, s') \<Longrightarrow> audited_last cfg x r actor action s'"
  by (auto simp: auditBackup_def store_call_eq audited_last_def) (metis snd_conv)


definition demo_key_pin :: recovery_key where
  "demo_key_pin = \<lparr>rkID = ''rk'', rkThreshold = 2, rkTotalShares = 3, rkPublic = []\<rparr>"

definition demo_result :: run_result where
  "demo_result = \<lparr>rsManifest = \<lparr>mfCapsuleID = ''cap1'', mfRecoveryKeyID = ''rk''\<rparr>, rsLocalPath = [], rsLocalError = [],
     rsFields = []\<rparr>"

definition demo_lib :: recovery_lib where
  "demo_lib = \<lparr>rlLoadRecoveryKey = (\<lambda>_. SGet ''recovery_key_id'' (\<lambda>_. Done (Inr demo_key_pin))),
     rlStoreRecoveryKey = (\<lambda>_ _. Done None), rlStorePairing = (\<lambda>_ _ _. Done None), rlClearPairing = Done None,
     rlSetInterval = (\<lambda>_. Done None), rlInterval = (\<lambda>d. Done (Inr d)), rlNextRun = (\<lambda>_. Done (Inr None)),
     rlHasPairing = Done True, rlLastDeposit = Done (Inr None),
     rlRun = (\<lambda>_ _. Done (demo_result, Some \<lparr>leText = ''receipt'', leIs = [RcErrReceiptUnrecorded]\<rparr>)),
     rlOutcome = (\<lambda>_ _. (''backup.run'', ''ok'', [])), rlSeal = (\<lambda>_ _. Inr (''sealed'', rsManifest demo_result)),
     rlDrillResult = (\<lambda>_ _. JNull), rlDrill = (\<lambda>_ _. Inr JNull), rlValidateURL = (\<lambda>_ _. None),
     rlClaimPairing = (\<lambda>_ _ _ _. Inl (plain_error [])), rlParsePinRequest = (\<lambda>_ _ _. Inl (plain_error [])),
     rlNewAESGCMSealer = (\<lambda>_ _. Inr []), rlListLocalCopies = (\<lambda>_ _. Inr (JArr [])), rlAuditSafe = id, rlFilenameSafe = id,
     rlTooLargeMessage = [], rlMinInterval = 15 * Minute, rlIsPrint = (\<lambda>_. True)\<rparr>"

definition export_request :: request where
  "export_request = post ''/api/backup/export-capsule'' ''tok'' []"

lemma demo_export:
  "pStatusCode (fst (handleExportCapsule clear_prims demo_lib drill_disk demo_config demo_ctx export_request (demo_server tok_world))) = 200"
proof -
  obtain pl where pl: "CollectPayload drill_disk demo_config appVersion = Inr pl" using demo_collects by (auto simp: appVersion_def)
  show ?thesis
    by (simp add: handleExportCapsule_def pl demo_lib_def export_request_def post_def capsule_response_def split_beta)
qed



definition run_request :: request where
  "run_request = post ''/api/backup/deposit'' ''tok'' []"


section \<open>The whole server and its binary\<close>

definition demo_parts :: parts where
  "demo_parts = \<lparr>ptPrims = clear_prims, ptConfig = demo_config, ptScim = \<lparr>slCall = (\<lambda>_. None), slRender = (\<lambda>_ _. http_Error [] 404)\<rparr>,
     ptRecovery = demo_lib, ptDisk = drill_disk, ptFrontend = \<lparr>feOpens = (\<lambda>_. False), feServe = (\<lambda>_. http_Error [] 404)\<rparr>\<rparr>"

text \<open>C4: whatever requests the server gets, on any route, with any body and any credentials, whatever
  other requests do to the store and to the limiter in between, whichever driver calls fail and
  whatever the libraries answer: the schema's constraints and the limiter's bound hold after it,
  the audit trail has only been extended, and the count of detached requests is back where it
  was, so that a shutdown's \<^verbatim>\<open>WaitDetached\<close> on an idle server returns.\<close>

theorem server_invariant:
  assumes "server_ok s"
  shows "server_ok (serve_all rs s) \<and> audit_extends (db (srvWorld s)) (db (srvWorld (serve_all rs s))) \<and>
    srvDetached (serve_all rs s) = srvDetached s \<and>
    (srvDetached s = 0 \<longrightarrow> WaitDetached_returns (serve_all rs s))"
  using serve_all_evolves [of s rs] evolves_ok [OF serve_all_evolves assms, of rs]
  by (simp add: evolves_def grows_def WaitDetached_returns_def server_ok_def)

theorem server_invariant_witness:
  "server_ok (serve_all [(demo_parts, demo_ctx, login_request), (demo_parts, demo_ctx, export_request)] (demo_server alice_world))"
proof -
  have "server_ok (demo_server alice_world)"
    using alice_schema by (simp add: server_ok_def demo_server_def limiter_ok_def)
  from server_invariant [OF this] show ?thesis by blast
qed

text \<open>C32: starting the server creates the first administrator exactly when the count of accounts reads
  zero: with accounts and a working driver it changes nothing, on an empty store it adds the
  active administrator \<^verbatim>\<open>admin\<close> who must replace the password; but a count that fails reads as
  zero as well, so with accounts it adds that administrator whenever the name is free.\<close>

theorem bootstrap_admin:
  assumes "pw_hash pr salt (if adminPass = [] then RandomHex passBytes else adminPass) = Some hash"
  shows "(faults w = [] \<and> users (db w) \<noteq> [] \<longrightarrow> ensure_admin pr now adminPass passBytes salt idBytes w = (Inr (), w)) \<and>
    ((faults w = [] \<and> users (db w) = [] \<or> faults w = [True] \<and> ''admin'' \<notin> uUsername ` set (users (db w)) \<and>
      ''usr_'' @ RandomHex idBytes \<notin> user_ids (db w)) \<longrightarrow>
     (\<exists>w' u. ensure_admin pr now adminPass passBytes salt idBytes w = (Inr (), w') \<and> users (db w') = users (db w) @ [u] \<and>
        uUsername u = ''admin'' \<and> uRole u = ''admin'' \<and> uStatus u = ''active'' \<and> uPasswordHash u = hash \<and> uMustChangePassword u))"
  using assms
  by (auto simp: ensure_admin_def CountUsers_def sql_query_def driver_call_def CreateUser_def Let_def ins_user_def
      user_ids_def admin_user_def exec_def split: prod.split sum.split)

theorem bootstrap_admin_witness:
  "\<exists>w' u. ensure_admin clear_prims 5 ''pw'' [] [] [] \<lparr>db = alice_db, faults = [True]\<rparr> = (Inr (), w') \<and>
     users (db w') = users alice_db @ [u] \<and> uRole u = ''admin''"
proof -
  have h: "pw_hash clear_prims [] (if ''pw'' = [] then RandomHex [] else ''pw'') = Some ''pw''" by (simp add: clear_prims_def)
  have "''admin'' \<notin> uUsername ` set (users alice_db)" "''usr_'' @ RandomHex [] \<notin> user_ids alice_db"
    by (simp_all add: alice_db_def alice_def user_ids_def empty_db_def RandomHex_def hex_encode_def)
  with bootstrap_admin [OF h, of "\<lparr>db = alice_db, faults = [True]\<rparr>" 5 "[]"] show ?thesis by auto
qed

text \<open>The wait at shutdown is bounded by its deadline, never blocks once everything is done, and
  gives up on neither the scheduler nor a handler that finishes before the deadline while the
  other does too.\<close>

theorem shutdown_wait_bounded:
  assumes "waitForBackupWork p q loop_end handlers_end deadline now = (t, loop_seen, handlers_seen)"
  shows "t \<le> max now deadline \<and>
    (\<forall>c h. loop_end = Some c \<and> handlers_end = Some h \<and> max c h < deadline \<and> now < deadline \<longrightarrow>
       loop_seen \<and> handlers_seen \<and> t = max now (max c h))"
  using assms
  by (auto simp: waitForBackupWork_def select_done_def max_def split: option.splits if_splits prod.splits)

theorem shutdown_wait_bounded_witness:
  "waitForBackupWork True True (Some 3) (Some 5) 10 1 = (5, True, True)"
proof -
  obtain t l h where w: "waitForBackupWork True True (Some 3) (Some 5) 10 1 = (t, l, h)" by (cases rule: prod_cases3)
  from shutdown_wait_bounded [OF w] have "l \<and> h \<and> t = 5" by (simp add: max_def)
  with w show ?thesis by simp
qed

end
