(* ===== verification/Ky_Props.thy ===== *)
theory Ky_Props
  imports Api_Detached Backup_Props
begin

text \<open>
  The properties of the binary's processes and of the database over a deployment's life.
\<close>

section \<open>Deployments\<close>


definition demo_host :: host where
  "demo_host = \<lparr>hoEnv = demo_env, hoSql = demo_sql, hoMigNow = (\<lambda>_. 0), hoMigFaults = [], hoFaults = [],
     hoLibs = demo_parts, hoCtx = demo_ctx, hoNow = 5, hoPassBytes = ''pppppppppppp'', hoSalt = [], hoIDBytes = ''id'',
     hoWriteFile = (\<lambda>_ _ _. None), hoShares = Inr [], hoRestore = (\<lambda>_ _ _ _. None)\<rparr>"

lemma demo_host_sels:
  "hoEnv demo_host = demo_env" "ptPrims (hoLibs demo_host) = clear_prims" "pw_hash clear_prims salt p = Some p"
  "hoNow demo_host = 5" "hoSalt demo_host = []" "hoIDBytes demo_host = ''id''"
  by (simp_all add: demo_host_def demo_parts_def clear_prims_def)

lemma demo_driver: "config_driver (env_database demo_env) = ''postgres''"
  by code_simp

definition opened_world :: mig_world where
  "opened_world = snd (OpenStore demo_sql (\<lambda>_. 0) (env_database demo_env) \<lparr>mwCatalog = empty_catalog, mwFaults = []\<rparr>)"

lemma demo_opened:
  "isl (fst (OpenStore demo_sql (\<lambda>_. 0) (env_database demo_env) \<lparr>mwCatalog = empty_catalog, mwFaults = []\<rparr>)) = False"
  "users (ctRows (mwCatalog opened_world)) = []"
  by code_simp+

lemma demo_with_store:
  obtains cfg st where "with_store demo_host body empty_catalog =
      (case body cfg \<lparr>db = ctRows (mwCatalog opened_world), faults = []\<rparr> of
         (res, w) \<Rightarrow> (res, (mwCatalog opened_world)\<lparr>ctRows := db w\<rparr>))"
proof -
  obtain cfg where l: "LoadFromEnv demo_env = Inr cfg" using demo_env_loads by blast
  obtain st where "OpenStore demo_sql (\<lambda>_. 0) (env_database demo_env) \<lparr>mwCatalog = empty_catalog, mwFaults = []\<rparr> = (Inr st, opened_world)"
    using demo_opened(1) unfolding opened_world_def by (metis prod.collapse sum.collapse(2))
  then show ?thesis using that l LoadFromEnv_database [OF l] by (simp add: with_store_def demo_host_def)
qed

text \<open>A first start: the bootstrap administrator, then a request.\<close>

lemma demo_first_start:
  "\<exists>s c'. ky_main demo_host [] [Request demo_parts demo_ctx login_request] empty_catalog = (Inr (OutServed s), c')"
proof -
  let ?body = "\<lambda>cfg w. case ensure_admin clear_prims 5 (Getenv demo_env ''KY_ADMIN_PASSWORD'') ''pppppppppppp'' [] ''id'' w of
       (Inl e, w) \<Rightarrow> (Inl e, w)
     | (Inr _, w) \<Rightarrow> (let s = run_events cfg [Request demo_parts demo_ctx login_request] (NewServer cfg w) in (Inr s, srvWorld s))"
  let ?w = "\<lparr>db = ctRows (mwCatalog opened_world), faults = []\<rparr>"
  obtain cfg where w: "with_store demo_host ?body empty_catalog =
      (case ?body cfg ?w of (res, w) \<Rightarrow> (res, (mwCatalog opened_world)\<lparr>ctRows := db w\<rparr>))"
    by (rule demo_with_store)
  have "fst (ensure_admin clear_prims 5 p ''pppppppppppp'' [] ''id'' ?w) = Inr ()" for p
    by (simp add: ensure_admin_def CountUsers_def sql_query_def driver_call_def CreateUser_def Let_def ins_user_def
        demo_opened(2) user_ids_def clear_prims_def exec_def)
  then obtain w1 where "ensure_admin clear_prims 5 (Getenv demo_env ''KY_ADMIN_PASSWORD'') ''pppppppppppp'' [] ''id'' ?w = (Inr (), w1)"
    by (metis prod.collapse)
  with w show ?thesis
    by (simp add: ky_main_def runServer_def Let_def demo_host_def [symmetric])
      (simp add: demo_host_def demo_parts_def Let_def)
qed


section \<open>init-admin\<close>

lemma admin_account_effect:
  assumes "admin_account now username hash idBytes w = (Inr (), w')" "schema_ok (db w)"
  shows "\<exists>u \<in> set (users (db w')). ToLower (uUsername u) = ToLower username \<and>
    uPasswordHash u = hash \<and> uRole u = ''admin'' \<and> uStatus u = ''active'' \<and> uMustChangePassword u \<and>
    uID u \<notin> sUserID ` set (sessions (db w')) \<and> uID u \<notin> mUserID ` set (mfa_challenges (db w'))"
proof -
  obtain ex w1 where g: "GetUserByUsername username w = (ex, w1)"
    and c: "(case ex of Inr u \<Rightarrow> (case ResetAdminPassword now (uID u) hash w1 of
              (Inl e, w) \<Rightarrow> (Inl (FatalUpdate e), w) | (Inr _, w) \<Rightarrow> (Inr (), w))
          | Inl _ \<Rightarrow> (case CreateUser now (admin_user idBytes username hash) w1 of
              (Inl e, w) \<Rightarrow> (Inl (FatalCreate e), w) | (Inr _, w) \<Rightarrow> (Inr (), w))) = (Inr (), w')"
    using assms(1) by (auto simp: admin_account_def split: prod.splits)
  have w1: "db w1 = db w" using GetUserByUsername_db [OF g] .
  show ?thesis
  proof (cases ex)
    case (Inl e)
    with c obtain v where "CreateUser now (admin_user idBytes username hash) w1 = (Inr v, w')"
      by (auto split: prod.splits sum.splits)
    from CreateUser_admin [OF this] obtain u where u: "db w' = (db w)\<lparr>users := users (db w) @ [u]\<rparr>"
      "uID u \<notin> user_ids (db w)" "uUsername u = username" "uPasswordHash u = hash" "uRole u = ''admin''"
      "uStatus u = ''active''" "uMustChangePassword u" unfolding w1 by auto
    moreover have "sUserID ` set (sessions (db w)) \<subseteq> user_ids (db w)" "mUserID ` set (mfa_challenges (db w)) \<subseteq> user_ids (db w)"
      using assms(2) by (auto simp: schema_ok_def sessions_ok_def challenges_ok_def)
    ultimately have "uID u \<notin> sUserID ` set (sessions (db w'))" "uID u \<notin> mUserID ` set (mfa_challenges (db w'))"
      "u \<in> set (users (db w'))" by auto
    with u(3-7) show ?thesis by auto
  next
    case (Inr v)
    with c obtain x where r: "ResetAdminPassword now (uID v) hash w1 = (Inr x, w')"
      by (auto split: prod.splits sum.splits)
    note R = ResetAdminPassword_Inr [OF r [unfolded unit_eq [of x]], unfolded w1]
    have v: "v \<in> set (users (db w))" "ToLower (uUsername v) = ToLower username"
      using GetUserByUsername_Inr [OF g [unfolded Inr]] by auto
    obtain u0 where u0: "u0 \<in> set (users (db w))" "uID u0 = uID v" "uSSOProvider u0 = ''local''"
      using R(1) by (rule count_upd_one) auto
    have "u0 = v" using assms(2) u0(1,2) v(1) by (auto simp: schema_ok_def users_unique_def dest: unique_onD)
    with u0 v R(2) have "\<exists>u \<in> set (users (db w')). uID u = uID v \<and> ToLower (uUsername u) = ToLower username \<and>
        uPasswordHash u = hash \<and> uRole u = ''admin'' \<and> uStatus u = ''active'' \<and> uMustChangePassword u"
      by (force simp: effect_defs reset_def set_upd_where)
    then obtain u where u: "u \<in> set (users (db w'))" "uID u = uID v" "ToLower (uUsername u) = ToLower username"
      "uPasswordHash u = hash" "uRole u = ''admin''" "uStatus u = ''active''" "uMustChangePassword u" by blast
    have "uID v \<notin> sUserID ` set (sessions (db w'))" "uID v \<notin> mUserID ` set (mfa_challenges (db w'))"
      using R(2) by (auto simp: effect_defs reset_def set_del_where)
    with u(2) have "uID u \<notin> sUserID ` set (sessions (db w'))" "uID u \<notin> mUserID ` set (mfa_challenges (db w'))"
      by simp_all
    with u show ?thesis by (intro bexI [of _ u]) simp_all
  qed
qed

text \<open>C31: after \<^verbatim>\<open>init-admin\<close> succeeds on the database of a deployment, whatever its arguments say and
  whether it found the account or created it, the password given as a flag has at least twelve
  bytes, and there is an account of the flag's (case-folded) name that is an active
  administrator with the hash of that password, must replace it at the next sign-in, and has no
  session or MFA challenge left from before.\<close>

theorem init_admin_effect:
  assumes "runInitAdmin h args c = (Inr (), c')" "deployed driver c" "config_driver (env_database (hoEnv h)) = driver"
  shows "\<exists>fs u. parse_flags [(''username'', ''admin''), (''password'', [])] args = Inr fs \<and>
    12 \<le> length (flag_value fs ''password'') \<and> u \<in> set (users (ctRows c')) \<and>
    ToLower (uUsername u) = ToLower (flag_value fs ''username'') \<and>
    pw_hash (ptPrims (hoLibs h)) (hoSalt h) (flag_value fs ''password'') = Some (uPasswordHash u) \<and>
    uRole u = ''admin'' \<and> uStatus u = ''active'' \<and> uMustChangePassword u \<and>
    uID u \<notin> sUserID ` set (sessions (ctRows c')) \<and> uID u \<notin> mUserID ` set (mfa_challenges (ctRows c'))"
proof -
  let ?body = "\<lambda>fs cfg w. case pw_hash (ptPrims (hoLibs h)) (hoSalt h) (flag_value fs ''password'') of
      None \<Rightarrow> (Inl FatalHash, w)
    | Some hash \<Rightarrow> admin_account (hoNow h) (flag_value fs ''username'') hash (hoIDBytes h) w"
  obtain fs where f: "parse_flags [(''username'', ''admin''), (''password'', [])] args = Inr fs"
    "12 \<le> length (flag_value fs ''password'')" "with_store h (?body fs) c = (Inr (), c')"
    using assms(1) by (auto simp: runInitAdmin_def Let_def split: sum.splits if_splits)
  from f(3) show ?thesis
  proof (rule with_store_Inr)
    fix cfg st mw w
    assume b: "?body fs cfg \<lparr>db = ctRows (mwCatalog mw), faults = hoFaults h\<rparr> = (Inr (), w)"
      and c': "c' = (mwCatalog mw)\<lparr>ctRows := db w\<rparr>"
      and k: "database_keeps (config_driver (env_database (hoEnv h))) c (mwCatalog mw)"
    obtain hash where hash: "pw_hash (ptPrims (hoLibs h)) (hoSalt h) (flag_value fs ''password'') = Some hash"
      and a: "admin_account (hoNow h) (flag_value fs ''username'') hash (hoIDBytes h)
        \<lparr>db = ctRows (mwCatalog mw), faults = hoFaults h\<rparr> = (Inr (), w)"
      using b by (auto split: option.splits)
    have "schema_ok (ctRows (mwCatalog mw))" using k deployed_ok [OF assms(2)] by (simp add: database_keeps_def)
    with admin_account_effect [OF a] hash f(1,2) c' show ?thesis by auto
  qed
qed

lemma demo_init_admin:
  "fst (runInitAdmin demo_host [''-password'', ''a long password''] empty_catalog) = Inr ()"
proof -
  have p: "parse_flags [(''username'', ''admin''), (''password'', [])] [''-password'', ''a long password''] =
      Inr [(''username'', ''admin''), (''password'', ''a long password'')]"
    by code_simp
  let ?body = "\<lambda>(cfg :: Config) w. case Some ''a long password'' of None \<Rightarrow> (Inl FatalHash, w)
      | Some hash \<Rightarrow> admin_account 5 ''admin'' hash ''id'' w"
  let ?w = "\<lparr>db = ctRows (mwCatalog opened_world), faults = []\<rparr>"
  obtain cfg where w: "with_store demo_host ?body empty_catalog =
      (case ?body cfg ?w of (res, w) \<Rightarrow> (res, (mwCatalog opened_world)\<lparr>ctRows := db w\<rparr>))"
    by (rule demo_with_store)
  have "fst (admin_account 5 ''admin'' ''a long password'' ''id'' ?w) = Inr ()"
    by (simp add: admin_account_def GetUserByUsername_def scanUser_def sql_query_def driver_call_def CreateUser_def Let_def
        ins_user_def demo_opened(2) user_ids_def exec_def)
  moreover have fv: "flag_value [(''username'', ''admin''), (''password'', ''a long password'')] ''username'' = ''admin''"
    "flag_value [(''username'', ''admin''), (''password'', ''a long password'')] ''password'' = ''a long password''"
    by (simp_all add: flag_value_def)
  have "runInitAdmin demo_host [''-password'', ''a long password''] empty_catalog = with_store demo_host ?body empty_catalog"
    unfolding runInitAdmin_def p by (simp add: fv demo_host_sels)
  ultimately show ?thesis using w by (simp add: split_beta)
qed

theorem init_admin_effect_witness:
  "\<exists>u \<in> set (users (ctRows (snd (runInitAdmin demo_host [''-password'', ''a long password''] empty_catalog)))).
     uRole u = ''admin'' \<and> uMustChangePassword u"
proof -
  have "runInitAdmin demo_host [''-password'', ''a long password''] empty_catalog =
      (Inr (), snd (runInitAdmin demo_host [''-password'', ''a long password''] empty_catalog))"
    using demo_init_admin by (metis prod.collapse)
  moreover have "config_driver (env_database (hoEnv demo_host)) = ''postgres''" using demo_driver by (simp add: demo_host_def)
  ultimately show ?thesis using init_admin_effect [OF _ deployed.fresh] by blast
qed

end
